(* ===== verification/Prelude.thy ===== *)
theory Prelude imports
  Main
  "HOL-Library.Word"
  "HOL-Library.AList"
  "HOL-Library.Char_ord"
  "HOL-Library.List_Lexorder"
  "HOL-Library.Sublist"
begin

text \<open>
  The shared base of the development: the collections that component proofs draw on,
  fixed-width integers of Go (\<open>int\<close> and \<open>int64\<close> are 64-bit two's complement), error
  results, and the facts on association lists, prefixes and sorted lists that more than
  one component needs.

  Go strings are byte sequences, and so is the type \<open>string\<close> here: a \<open>char\<close> is one byte
  and \<open>length\<close> is Go's \<open>len\<close>.
\<close>

named_theorems store_frame \<open>what a store operation leaves unchanged\<close>
named_theorems path_facts \<open>facts about cleaned and joined paths\<close>
named_theorems world_frame \<open>what a service operation leaves unchanged\<close>

section \<open>Machine integers\<close>

text \<open>The value of a Go \<open>int64\<close> (or \<open>int\<close>) after an operation whose exact result is \<open>n\<close>.\<close>

definition i64 :: "int \<Rightarrow> int" where
  "i64 n = (n + 2 ^ 63) mod 2 ^ 64 - 2 ^ 63"

lemma i64_id: "- (2 ^ 63) \<le> n \<Longrightarrow> n < 2 ^ 63 \<Longrightarrow> i64 n = n"
  by (simp add: i64_def)

lemma i64_lower: "- (2 ^ 63) \<le> i64 n"
  by (simp add: i64_def)

lemma i64_upper: "i64 n < 2 ^ 63"
proof -
  have "(n + 2 ^ 63) mod 2 ^ 64 < (2 ^ 64 :: int)"
    by (rule pos_mod_bound) simp
  then show ?thesis by (simp add: i64_def)
qed

lemma i64_idem [simp]: "i64 (i64 n) = i64 n"
  by (rule i64_id [OF i64_lower i64_upper])

lemma i64_sint: "i64 n = sint (word_of_int n :: 64 word)"
  by (simp add: i64_def sint_sbintrunc' signed_take_bit_eq_take_bit_shift take_bit_eq_mod add.commute)

type_synonym uid = "32 word"

section \<open>Results\<close>

text \<open>A Go pair \<open>(value, error)\<close>: \<open>Inl\<close> the error, \<open>Inr\<close> the value.\<close>

type_synonym 'a result = "string + 'a"

abbreviation some_or :: "'a option \<Rightarrow> 'a \<Rightarrow> 'a" where
  "some_or x d \<equiv> (case x of None \<Rightarrow> d | Some y \<Rightarrow> y)"

section \<open>Encodings\<close>

text \<open>
  The contract between a writer and a reader of the same bytes: on the values the program
  writes, reading back gives the value. Distinct values then have distinct encodings.
\<close>

locale codec =
  fixes enc :: "'a \<Rightarrow> 'b"
    and dec_of :: "'b \<Rightarrow> 'a option"
    and ok :: "'a \<Rightarrow> bool"
  assumes dec_enc: "ok x \<Longrightarrow> dec_of (enc x) = Some x"
begin

lemma enc_inj: "ok x \<Longrightarrow> ok y \<Longrightarrow> enc x = enc y \<longleftrightarrow> x = y"
  by (metis dec_enc option.inject)

lemma dec_of_map: "list_all ok xs \<Longrightarrow> map (dec_of \<circ> enc) xs = map Some xs"
  by (induction xs) (simp_all add: dec_enc)

end

section \<open>Association lists\<close>

lemma map_of_update_same [simp]: "map_of (AList.update k v al) k = Some v"
  by (simp add: update_conv)

lemma map_of_update_other [simp]: "k' \<noteq> k \<Longrightarrow> map_of (AList.update k v al) k' = map_of al k'"
  by (simp add: update_conv)

lemma map_of_delete_same [simp]: "map_of (AList.delete k al) k = None"
  by (simp add: delete_conv)

lemma map_of_delete_other: "k' \<noteq> k \<Longrightarrow> map_of (AList.delete k al) k' = map_of al k'"
  by (simp add: delete_conv)

section \<open>Lists\<close>

lemma takeWhile_prefix: "prefix (takeWhile P xs) xs"
  by (metis prefixI takeWhile_dropWhile_id)

lemma prefix_take_iff: "prefix p s \<longleftrightarrow> take (length p) s = p"
  by (metis append_eq_conv_conj prefix_def)

lemma suffix_drop_iff: "suffix p s \<longleftrightarrow> length p \<le> length s \<and> drop (length s - length p) s = p"
  by (metis (no_types, lifting) append_eq_conv_conj diff_diff_cancel length_append
      le_add2 suffix_def suffix_length_le suffix_drop diff_add_inverse2)

lemma suffix_same_length: "suffix a s \<Longrightarrow> suffix b s \<Longrightarrow> length a = length b \<Longrightarrow> a = b"
  by (metis suffix_drop_iff)

lemma find_Some_filter: "find P xs = Some x \<longleftrightarrow> (\<exists>ys. filter P xs = x # ys)"
  by (induction xs) auto

lemma find_None_filter: "find P xs = None \<longleftrightarrow> filter P xs = []"
  by (induction xs) auto

lemma map_filter_set: "set (List.map_filter f xs) = {y. \<exists>x \<in> set xs. f x = Some y}"
  by (induction xs) (auto simp: List.map_filter_simps split: option.splits)

lemma map_filter_append: "List.map_filter f (xs @ ys) = List.map_filter f xs @ List.map_filter f ys"
  by (simp add: List.map_filter_def)

end
