(* ===== verification/GoStrings.thy ===== *)
theory GoStrings imports Prelude begin

text \<open>
  The functions of Go's \<open>strings\<close>, \<open>strconv\<close> and \<open>unicode/utf8\<close> packages that the program
  calls, over byte strings, with the facts the components use: trimming and letter case,
  splitting and joining, decimal conversion both ways, and the decoding of UTF-8 text
  into its code points.
\<close>

section \<open>Searching and cutting\<close>

abbreviation has_prefix :: "string \<Rightarrow> string \<Rightarrow> bool" where
  "has_prefix s p \<equiv> prefix p s"

abbreviation has_suffix :: "string \<Rightarrow> string \<Rightarrow> bool" where
  "has_suffix s p \<equiv> suffix p s"

definition trim_prefix :: "string \<Rightarrow> string \<Rightarrow> string" where
  "trim_prefix s p = (if prefix p s then drop (length p) s else s)"

definition trim_suffix :: "string \<Rightarrow> string \<Rightarrow> string" where
  "trim_suffix s p = (if suffix p s then take (length s - length p) s else s)"

fun str_contains :: "string \<Rightarrow> string \<Rightarrow> bool" where
  "str_contains [] p = (p = [])"
| "str_contains (c # s) p = (prefix p (c # s) \<or> str_contains s p)"

definition contains_any :: "string \<Rightarrow> string \<Rightarrow> bool" where
  "contains_any s chars = list_ex (\<lambda>c. c \<in> set chars) s"

text \<open>\<open>strings.IndexByte\<close> and \<open>strings.IndexAny\<close>: the first position that satisfies \<open>P\<close>.\<close>

fun index_where :: "(char \<Rightarrow> bool) \<Rightarrow> string \<Rightarrow> nat option" where
  "index_where P [] = None"
| "index_where P (c # s) = (if P c then Some 0 else map_option Suc (index_where P s))"

text \<open>\<open>strings.Index\<close> and \<open>strings.LastIndex\<close> for a non-empty pattern.\<close>

fun index_of :: "string \<Rightarrow> string \<Rightarrow> nat option" where
  "index_of p [] = (if p = [] then Some 0 else None)"
| "index_of p (c # s) = (if prefix p (c # s) then Some 0 else map_option Suc (index_of p s))"

fun last_index_of :: "char \<Rightarrow> string \<Rightarrow> nat option" where
  "last_index_of x [] = None"
| "last_index_of x (c # s) =
     (case last_index_of x s of
        Some i \<Rightarrow> Some (Suc i)
      | None \<Rightarrow> if c = x then Some 0 else None)"

lemma index_where_Some:
  "index_where P s = Some i \<Longrightarrow> i < length s \<and> P (s ! i) \<and> (\<forall>j<i. \<not> P (s ! j))"
proof (induction s arbitrary: i)
  case (Cons c s)
  show ?case
  proof (cases "P c")
    case False
    with Cons.prems obtain k where k: "index_where P s = Some k" "i = Suc k" by auto
    from Cons.IH [OF k(1)] False k(2) show ?thesis
      by (auto simp: less_Suc_eq_0_disj)
  qed (use Cons.prems in auto)
qed simp

lemma index_where_append:
  "\<forall>c \<in> set a. \<not> P c \<Longrightarrow> P x \<Longrightarrow> index_where P (a @ x # b) = Some (length a)"
  by (induction a) auto

lemma index_where_None: "index_where P s = None \<longleftrightarrow> (\<forall>c \<in> set s. \<not> P c)"
  by (induction s) auto

lemma last_index_of_append: "x \<notin> set b \<Longrightarrow> last_index_of x (a @ x # b) = Some (length a)"
proof (induction a)
  case Nil
  have "last_index_of x b = None" using Nil by (induction b) auto
  then show ?case by simp
qed simp

lemma last_index_of_Some: "last_index_of x s = Some i \<Longrightarrow> i < length s \<and> s ! i = x"
  by (induction s arbitrary: i) (auto split: option.splits if_splits)

lemma str_contains_iff: "str_contains s p \<longleftrightarrow> sublist p s"
proof (induction s)
  case (Cons c s)
  then show ?case by (auto simp: sublist_Cons_right)
qed simp

section \<open>Splitting and joining\<close>

fun split_on :: "'a \<Rightarrow> 'a list \<Rightarrow> 'a list list" where
  "split_on c [] = [[]]"
| "split_on c (x # xs) =
     (if x = c then [] # split_on c xs
      else (case split_on c xs of [] \<Rightarrow> [[x]] | y # ys \<Rightarrow> (x # y) # ys))"

fun str_join :: "'a list \<Rightarrow> 'a list list \<Rightarrow> 'a list" where
  "str_join sep [] = []"
| "str_join sep [x] = x"
| "str_join sep (x # y # ys) = x @ sep @ str_join sep (y # ys)"

lemma split_on_nonempty [simp]: "split_on c s \<noteq> []"
  by (induction s) (auto split: list.splits)

lemma split_on_no_sep: "c \<notin> set s \<Longrightarrow> split_on c s = [s]"
  by (induction s) auto

lemma split_on_append_sep: "split_on c (a @ c # b) = split_on c a @ split_on c b"
  by (induction a) (auto split: list.splits)

lemma split_on_elem: "x \<in> set (split_on c s) \<Longrightarrow> c \<notin> set x"
proof (induction s arbitrary: x)
  case (Cons a s)
  show ?case
  proof (cases "a = c")
    case False
    obtain y ys where y: "split_on c s = y # ys" by (cases "split_on c s") auto
    with Cons.prems False have "x = a # y \<or> x \<in> set ys" by simp
    with Cons.IH y False show ?thesis by auto
  qed (use Cons in auto)
qed simp

lemma str_join_split_on: "str_join [c] (split_on c s) = s"
proof (induction s)
  case (Cons a s)
  obtain y ys where y: "split_on c s = y # ys" by (cases "split_on c s") auto
  then show ?case using Cons by (cases ys) auto
qed simp

lemma str_join_Cons: "ys \<noteq> [] \<Longrightarrow> str_join sep (y # ys) = y @ sep @ str_join sep ys"
  by (cases ys) auto

lemma str_join_snoc: "xs \<noteq> [] \<Longrightarrow> str_join sep (xs @ [y]) = str_join sep xs @ sep @ y"
  by (induction sep xs rule: str_join.induct) auto

lemma split_on_str_join:
  "xs \<noteq> [] \<Longrightarrow> \<forall>x \<in> set xs. c \<notin> set x \<Longrightarrow> split_on c (str_join [c] xs) = xs"
proof (induction xs)
  case (Cons x xs)
  show ?case
  proof (cases "xs = []")
    case False
    then have "str_join [c] (x # xs) = x @ c # str_join [c] xs" by (simp add: str_join_Cons)
    then have "split_on c (str_join [c] (x # xs)) = split_on c x @ split_on c (str_join [c] xs)"
      by (simp add: split_on_append_sep)
    with Cons False show ?thesis by (simp add: split_on_no_sep)
  qed (use Cons.prems in \<open>simp add: split_on_no_sep\<close>)
qed simp

section \<open>White space and letter case\<close>

text \<open>
  The UTF-8 encodings of the code points for which \<open>unicode.IsSpace\<close> holds. No encoding is
  a prefix of another, so trimming by whole encodings from either end is what
  \<open>strings.TrimSpace\<close> does.
\<close>

definition space_encodings :: "string list" where
  "space_encodings =
     [ [CHR 0x09], [CHR 0x0A], [CHR 0x0B], [CHR 0x0C], [CHR 0x0D], [CHR 0x20],
       [CHR 0xC2, CHR 0x85], [CHR 0xC2, CHR 0xA0], [CHR 0xE1, CHR 0x9A, CHR 0x80],
       [CHR 0xE2, CHR 0x80, CHR 0x80], [CHR 0xE2, CHR 0x80, CHR 0x81],
       [CHR 0xE2, CHR 0x80, CHR 0x82], [CHR 0xE2, CHR 0x80, CHR 0x83],
       [CHR 0xE2, CHR 0x80, CHR 0x84], [CHR 0xE2, CHR 0x80, CHR 0x85],
       [CHR 0xE2, CHR 0x80, CHR 0x86], [CHR 0xE2, CHR 0x80, CHR 0x87],
       [CHR 0xE2, CHR 0x80, CHR 0x88], [CHR 0xE2, CHR 0x80, CHR 0x89],
       [CHR 0xE2, CHR 0x80, CHR 0x8A], [CHR 0xE2, CHR 0x80, CHR 0xA8],
       [CHR 0xE2, CHR 0x80, CHR 0xA9], [CHR 0xE2, CHR 0x80, CHR 0xAF],
       [CHR 0xE2, CHR 0x81, CHR 0x9F], [CHR 0xE3, CHR 0x80, CHR 0x80] ]"

definition space_len :: "string \<Rightarrow> nat" where
  "space_len s = (case find (\<lambda>e. prefix e s) space_encodings of None \<Rightarrow> 0 | Some e \<Rightarrow> length e)"

definition space_len_rev :: "string \<Rightarrow> nat" where
  "space_len_rev s =
     (case find (\<lambda>e. prefix (rev e) s) space_encodings of None \<Rightarrow> 0 | Some e \<Rightarrow> length e)"

function drop_spaces :: "(string \<Rightarrow> nat) \<Rightarrow> string \<Rightarrow> string" where
  "drop_spaces len s = (if len s = 0 \<or> s = [] then s else drop_spaces len (drop (len s) s))"
  by pat_completeness auto
termination
  by (relation "measure (\<lambda>(len, s). length s)") auto

declare drop_spaces.simps [simp del]

definition trim_left :: "string \<Rightarrow> string" where
  "trim_left s = drop_spaces space_len s"

definition trim_right :: "string \<Rightarrow> string" where
  "trim_right s = rev (drop_spaces space_len_rev (rev s))"

definition trim_space :: "string \<Rightarrow> string" where
  "trim_space s = trim_right (trim_left s)"

lemma drop_spaces_suffix: "suffix (drop_spaces len s) s"
proof (induction len s rule: drop_spaces.induct)
  case (1 len s)
  show ?case
  proof (cases "len s = 0 \<or> s = []")
    case False
    with 1 have "suffix (drop_spaces len (drop (len s) s)) (drop (len s) s)" by simp
    with False show ?thesis
      by (simp add: drop_spaces.simps [of len s]) (meson suffix_drop suffix_order.trans)
  qed (simp add: drop_spaces.simps)
qed

lemma drop_spaces_fixed: "len s = 0 \<Longrightarrow> drop_spaces len s = s"
  by (simp add: drop_spaces.simps)

lemma drop_spaces_done: "drop_spaces len s = [] \<or> len (drop_spaces len s) = 0"
proof (induction len s rule: drop_spaces.induct)
  case (1 len s)
  then show ?case
    by (cases "len s = 0 \<or> s = []") (auto simp: drop_spaces.simps [of len s])
qed

lemma trim_space_length: "length (trim_space s) \<le> length s"
proof -
  have "length (trim_left s) \<le> length s"
    by (simp add: trim_left_def drop_spaces_suffix suffix_length_le)
  moreover have "length (trim_right t) \<le> length t" for t
    unfolding trim_right_def using suffix_length_le [OF drop_spaces_suffix, of space_len_rev "rev t"]
    by simp
  ultimately show ?thesis
    by (metis trim_space_def order_trans)
qed

text \<open>
  \<open>strings.ToLower\<close> as far as its callers can tell: every caller compares the result with
  ASCII literals or searches it for ASCII text. ASCII letters are lowered; of the other
  code points only U+0130 and U+212A (the Kelvin sign) lower to an ASCII letter; the
  remaining ones lower to non-ASCII ones and are left as they are.
\<close>

definition lower_char :: "char \<Rightarrow> char" where
  "lower_char c =
     some_or (map_of (zip ''ABCDEFGHIJKLMNOPQRSTUVWXYZ'' ''abcdefghijklmnopqrstuvwxyz'') c) c"

fun to_lower :: "string \<Rightarrow> string" where
  "to_lower [] = []"
| "to_lower (c # s) =
     (if c = CHR 0xC4 \<and> prefix [CHR 0xB0] s then CHR ''i'' # to_lower (drop 1 s)
      else if c = CHR 0xE2 \<and> prefix [CHR 0x84, CHR 0xAA] s then CHR ''k'' # to_lower (drop 2 s)
      else lower_char c # to_lower s)"

section \<open>Decimal numbers\<close>

definition digit_char :: "nat \<Rightarrow> char" where
  "digit_char d = ''0123456789'' ! d"

definition is_digit :: "char \<Rightarrow> bool" where
  "is_digit c \<longleftrightarrow> CHR ''0'' \<le> c \<and> c \<le> CHR ''9''"

definition digit_val :: "char \<Rightarrow> nat" where
  "digit_val c = of_char c - 48"

fun dec :: "nat \<Rightarrow> string" where
  "dec n = (if n < 10 then [digit_char n] else dec (n div 10) @ [digit_char (n mod 10)])"

declare dec.simps [simp del]

definition itoa :: "int \<Rightarrow> string" where
  "itoa n = (if n < 0 then CHR ''-'' # dec (nat (- n)) else dec (nat n))"

definition dec_val :: "string \<Rightarrow> nat" where
  "dec_val s = foldl (\<lambda>n c. 10 * n + digit_val c) 0 s"

text \<open>\<open>strconv.Atoi\<close>: an optional sign, at least one digit, the value within \<open>int64\<close>.\<close>

definition atoi_digits :: "string \<Rightarrow> nat option" where
  "atoi_digits s = (if s \<noteq> [] \<and> list_all is_digit s then Some (dec_val s) else None)"

definition atoi :: "string \<Rightarrow> int option" where
  "atoi s =
     (case s of
        [] \<Rightarrow> None
      | c # t \<Rightarrow>
          (case atoi_digits (if c = CHR ''-'' \<or> c = CHR ''+'' then t else s) of
             None \<Rightarrow> None
           | Some n \<Rightarrow>
               if c = CHR ''-'' then (if n \<le> 2 ^ 63 then Some (- int n) else None)
               else if n < 2 ^ 63 then Some (int n) else None))"

lemma digit_cases: "d < 10 \<Longrightarrow> d \<in> {0, 1, 2, 3, 4, 5, 6, 7, 8, 9 :: nat}"
  by auto

lemma digit_char_facts:
  "d < 10 \<Longrightarrow> is_digit (digit_char d) \<and> digit_val (digit_char d) = d
    \<and> digit_char d \<noteq> CHR ''-'' \<and> digit_char d \<noteq> CHR ''+'' \<and> digit_char d \<noteq> CHR '':''
    \<and> digit_char d \<noteq> CHR '',''"
  by (drule digit_cases) (auto simp: digit_char_def is_digit_def digit_val_def less_eq_char_def)

lemma dec_digits: "list_all is_digit (dec n)"
  by (induction n rule: dec.induct) (auto simp: dec.simps [of "_ :: nat"] digit_char_facts)

lemma dec_nonempty [simp]: "dec n \<noteq> []"
  by (subst dec.simps) simp

lemma dec_val_snoc: "dec_val (s @ [c]) = 10 * dec_val s + digit_val c"
  by (simp add: dec_val_def)

lemma dec_val_dec [simp]: "dec_val (dec n) = n"
proof (induction n rule: dec.induct)
  case (1 n)
  show ?case
  proof (cases "n < 10")
    case True
    then show ?thesis by (simp add: dec.simps [of n] dec_val_def digit_char_facts)
  next
    case False
    with 1 show ?thesis
      by (simp add: dec.simps [of n] dec_val_snoc digit_char_facts)
  qed
qed

lemma digit_not_sign: "is_digit c \<Longrightarrow> c \<noteq> CHR ''-'' \<and> c \<noteq> CHR ''+'' \<and> c \<noteq> CHR '':'' \<and> c \<noteq> CHR '',''"
  by (auto simp: is_digit_def less_eq_char_def)

lemma dec_not_sign: "c \<in> set (dec n) \<Longrightarrow> c \<noteq> CHR ''-'' \<and> c \<noteq> CHR ''+'' \<and> c \<noteq> CHR '':'' \<and> c \<noteq> CHR '',''"
  using dec_digits [of n] by (auto simp: list_all_iff dest: digit_not_sign)

lemma atoi_dec: "n < 2 ^ 63 \<Longrightarrow> atoi (dec n) = Some (int n)"
proof -
  assume n: "n < 2 ^ 63"
  obtain c t where ct: "dec n = c # t" by (cases "dec n") auto
  then have "c \<noteq> CHR ''-''" "c \<noteq> CHR ''+''" using dec_not_sign [of c n] by auto
  moreover have "list_all is_digit (c # t)" "dec_val (c # t) = n"
    using dec_digits [of n] dec_val_dec [of n] ct by auto
  ultimately show ?thesis using n ct by (simp add: atoi_def atoi_digits_def)
qed

lemma atoi_itoa: "0 \<le> n \<Longrightarrow> n < 2 ^ 63 \<Longrightarrow> atoi (itoa n) = Some n"
  using atoi_dec [of "nat n"] by (simp add: itoa_def nat_less_iff)

interpretation decimal: codec itoa atoi "\<lambda>n. 0 \<le> n \<and> n < 2 ^ 63"
  by unfold_locales (simp add: atoi_itoa)

section \<open>Code points\<close>

text \<open>
  How many bytes the next code point takes when Go ranges over a string: the length of a
  valid UTF-8 sequence, or \<open>None\<close> for a byte that starts none (one byte, read as U+FFFD).
\<close>

definition byte_in :: "string \<Rightarrow> nat \<Rightarrow> nat \<Rightarrow> nat \<Rightarrow> bool" where
  "byte_in s i lo hi \<longleftrightarrow> i < length s \<and> lo \<le> of_char (s ! i) \<and> of_char (s ! i) \<le> hi"

definition utf8_len :: "string \<Rightarrow> nat option" where
  "utf8_len s =
     (let cont = (\<lambda>i. byte_in s i 0x80 0xBF) in
      if byte_in s 0 0x00 0x7F then Some 1
      else if byte_in s 0 0xC2 0xDF \<and> cont 1 then Some 2
      else if byte_in s 0 0xE0 0xE0 \<and> byte_in s 1 0xA0 0xBF \<and> cont 2 then Some 3
      else if (byte_in s 0 0xE1 0xEC \<or> byte_in s 0 0xEE 0xEF) \<and> cont 1 \<and> cont 2 then Some 3
      else if byte_in s 0 0xED 0xED \<and> byte_in s 1 0x80 0x9F \<and> cont 2 then Some 3
      else if byte_in s 0 0xF0 0xF0 \<and> byte_in s 1 0x90 0xBF \<and> cont 2 \<and> cont 3 then Some 4
      else if byte_in s 0 0xF1 0xF3 \<and> cont 1 \<and> cont 2 \<and> cont 3 then Some 4
      else if byte_in s 0 0xF4 0xF4 \<and> byte_in s 1 0x80 0x8F \<and> cont 2 \<and> cont 3 then Some 4
      else None)"

text \<open>The code points of \<open>s\<close>, each as its UTF-8 bytes: \<open>string(r)\<close> for \<open>r\<close> of \<open>[]rune(s)\<close>.\<close>

fun rune_chunks :: "string \<Rightarrow> string list" where
  "rune_chunks [] = []"
| "rune_chunks (c # s) =
     (case utf8_len (c # s) of
        None \<Rightarrow> [CHR 0xEF, CHR 0xBF, CHR 0xBD] # rune_chunks s
      | Some n \<Rightarrow> (c # take (n - 1) s) # rune_chunks (drop (n - 1) s))"

definition rune_count :: "string \<Rightarrow> nat" where
  "rune_count s = length (rune_chunks s)"

text \<open>\<open>string([]rune(s)[:n])\<close>.\<close>

definition rune_take :: "nat \<Rightarrow> string \<Rightarrow> string" where
  "rune_take n s = concat (take n (rune_chunks s))"

text \<open>
  What \<open>encoding/json\<close> makes of a string, documented for \<open>Marshal\<close>: the text as it is, but every
  byte that is part of no code point becomes U+FFFD.
\<close>

definition json_text :: "string \<Rightarrow> string" where
  "json_text s = concat (rune_chunks s)"

definition ascii :: "string \<Rightarrow> bool" where
  "ascii s \<longleftrightarrow> list_all (\<lambda>c. of_char c < (128 :: nat)) s"

lemma utf8_len_ascii: "of_char c < (128 :: nat) \<Longrightarrow> utf8_len (c # s) = Some 1"
  unfolding utf8_len_def Let_def by (subst if_P) (simp_all add: byte_in_def)

lemma json_text_ascii: "ascii s \<Longrightarrow> json_text s = s"
  by (induction s) (simp_all add: json_text_def ascii_def utf8_len_ascii)

text \<open>Only an ASCII text becomes an ASCII text.\<close>

lemma json_text_to_ascii: "ascii (json_text s) \<Longrightarrow> json_text s = s"
proof (induction s)
  case (Cons c s)
  show ?case
  proof (cases "of_char c < (128 :: nat)")
    case True
    then show ?thesis using Cons by (simp add: json_text_def ascii_def utf8_len_ascii)
  next
    case False
    then show ?thesis using Cons.prems
      by (cases "utf8_len (c # s)") (simp_all add: json_text_def ascii_def)
  qed
qed (simp add: json_text_def)

lemma rune_count_le: "rune_count s \<le> length s"
proof -
  have "length (rune_chunks s) \<le> length s"
  proof (induction s rule: rune_chunks.induct)
    case (2 c s)
    then show ?case by (cases "utf8_len (c # s)") fastforce+
  qed simp
  then show ?thesis by (simp add: rune_count_def)
qed

end
