(* ===== verification/GoPath.thy ===== *)
theory GoPath imports GoStrings begin

text \<open>
  Go's \<open>path/filepath\<close> on Unix, as the program uses it: \<open>Clean\<close>, \<open>Join\<close>, \<open>Base\<close>, \<open>Dir\<close>,
  \<open>IsAbs\<close> and \<open>Rel\<close>. \<open>Clean\<close> is the documented rewriting of a path's elements: empty and
  \<open>.\<close> elements go, \<open>..\<close> takes its predecessor with it, and a rooted path loses leading
  \<open>..\<close> elements. The lemmas say where a joined name ends up, which is what keeps the files
  of different petitions (and of different kinds) apart on disk.
\<close>

section \<open>Definitions\<close>

type_synonym path = string

abbreviation slash :: char where
  "slash \<equiv> CHR ''/''"

definition is_abs :: "path \<Rightarrow> bool" where
  "is_abs p \<longleftrightarrow> prefix ''/'' p"

fun clean_step :: "bool \<Rightarrow> string list \<Rightarrow> string \<Rightarrow> string list" where
  "clean_step rooted acc c =
     (if c = [] \<or> c = ''.'' then acc
      else if c = ''..'' then
        (case acc of
           [] \<Rightarrow> if rooted then [] else [''..'']
         | a # as \<Rightarrow> if a = ''..'' then ''..'' # acc else as)
      else c # acc)"

declare clean_step.simps [simp del]

text \<open>The remaining elements, last one first.\<close>

definition clean_stack :: "path \<Rightarrow> string list" where
  "clean_stack p = foldl (clean_step (is_abs p)) [] (split_on slash p)"

definition filepath_clean :: "path \<Rightarrow> path" where
  "filepath_clean p =
     (let cs = rev (clean_stack p) in
      if is_abs p then slash # str_join ''/'' cs
      else if cs = [] then ''.'' else str_join ''/'' cs)"

definition filepath_join :: "path list \<Rightarrow> path" where
  "filepath_join ps =
     (let qs = dropWhile (\<lambda>e. e = []) ps in
      if qs = [] then [] else filepath_clean (str_join ''/'' qs))"

definition filepath_base :: "path \<Rightarrow> string" where
  "filepath_base p =
     (if p = [] then ''.''
      else let q = rev (dropWhile (\<lambda>c. c = slash) (rev p)) in
           if q = [] then ''/'' else last (split_on slash q))"

definition filepath_dir :: "path \<Rightarrow> path" where
  "filepath_dir p =
     filepath_clean (case last_index_of slash p of None \<Rightarrow> [] | Some i \<Rightarrow> take (Suc i) p)"

definition path_elems :: "path \<Rightarrow> string list" where
  "path_elems p = filter (\<lambda>c. c \<noteq> []) (split_on slash p)"

fun strip_common :: "'a list \<Rightarrow> 'a list \<Rightarrow> 'a list \<times> 'a list" where
  "strip_common (x # xs) (y # ys) = (if x = y then strip_common xs ys else (x # xs, y # ys))"
| "strip_common xs ys = (xs, ys)"

definition filepath_rel :: "path \<Rightarrow> path \<Rightarrow> path option" where
  "filepath_rel base targ =
     (let b = filepath_clean base; t = filepath_clean targ in
      if b = t then Some ''.''
      else if is_abs b \<noteq> is_abs t then None
      else case strip_common (if b = ''.'' then [] else path_elems b) (path_elems t) of
             (bs, ts) \<Rightarrow>
               if bs \<noteq> [] \<and> ts \<noteq> [] \<and> hd bs = ''..'' then None
               else Some (str_join ''/'' (replicate (length bs) ''..'' @ ts)))"

lemmas path_eval =
  filepath_clean_def filepath_join_def filepath_base_def filepath_dir_def filepath_rel_def
  clean_stack_def clean_step.simps is_abs_def path_elems_def

section \<open>Names\<close>

text \<open>A name that stands for itself as a path element.\<close>

definition good_name :: "string \<Rightarrow> bool" where
  "good_name n \<longleftrightarrow> n \<noteq> [] \<and> n \<noteq> ''.'' \<and> n \<noteq> ''..'' \<and> slash \<notin> set n"

text \<open>A directory in normal form.\<close>

definition clean_dir :: "path \<Rightarrow> bool" where
  "clean_dir d \<longleftrightarrow> is_abs d \<and> filepath_clean d = d"

lemma is_abs_append [simp]: "d \<noteq> [] \<Longrightarrow> is_abs (d @ x) = is_abs d"
  by (cases d) (auto simp: is_abs_def)

lemma is_abs_nonempty: "is_abs d \<Longrightarrow> d \<noteq> []"
  by (auto simp: is_abs_def)

lemma clean_step_good: "good_name n \<Longrightarrow> clean_step r acc n = n # acc"
  by (auto simp: good_name_def clean_step.simps)

lemma clean_stack_snoc_good:
  assumes "is_abs d" and "good_name n"
  shows "clean_stack (d @ slash # n) = n # clean_stack d"
proof -
  have "split_on slash (d @ slash # n) = split_on slash d @ [n]"
    using assms(2) by (simp add: split_on_append_sep split_on_no_sep good_name_def)
  then show ?thesis
    using assms is_abs_nonempty [OF assms(1)] by (simp add: clean_stack_def clean_step_good)
qed

lemma filepath_clean_abs: "is_abs d \<Longrightarrow> filepath_clean d = slash # str_join ''/'' (rev (clean_stack d))"
  by (simp add: filepath_clean_def Let_def)

text \<open>A directory of the store: absolute, in normal form, and not the root.\<close>

definition state_dir_ok :: "path \<Rightarrow> bool" where
  "state_dir_ok d \<longleftrightarrow> clean_dir d \<and> d \<noteq> ''/''"

lemma state_dir_ok_stack: "state_dir_ok d \<Longrightarrow> clean_stack d \<noteq> []"
  by (auto simp: state_dir_ok_def clean_dir_def filepath_clean_def Let_def split: if_splits)

lemma filepath_clean_snoc:
  assumes "state_dir_ok d" and "good_name n"
  shows "filepath_clean (d @ slash # n) = d @ slash # n"
proof -
  have d: "is_abs d" "filepath_clean d = d" "clean_stack d \<noteq> []"
    using assms state_dir_ok_stack by (auto simp: state_dir_ok_def clean_dir_def)
  have "filepath_clean (d @ slash # n) = slash # str_join ''/'' (rev (clean_stack d) @ [n])"
    using d assms(2) is_abs_nonempty [OF d(1)]
    by (subst filepath_clean_abs) (simp_all add: clean_stack_snoc_good)
  also have "\<dots> = (slash # str_join ''/'' (rev (clean_stack d))) @ slash # n"
    using d(3) by (subst str_join_snoc) simp_all
  also have "\<dots> = d @ slash # n"
    using d(2) filepath_clean_abs [OF d(1)] by simp
  finally show ?thesis .
qed

lemma filepath_join_two:
  "d \<noteq> [] \<Longrightarrow> filepath_join [d, n] = filepath_clean (d @ slash # n)"
  by (simp add: filepath_join_def Let_def)

lemma filepath_join_good [path_facts]:
  "state_dir_ok d \<Longrightarrow> good_name n \<Longrightarrow> filepath_join [d, n] = d @ slash # n"
  using filepath_clean_snoc is_abs_nonempty
  by (subst filepath_join_two) (auto simp: state_dir_ok_def clean_dir_def)

lemma state_dir_ok_join:
  assumes "state_dir_ok d" and "good_name n"
  shows "state_dir_ok (filepath_join [d, n])"
proof -
  have d: "is_abs d" "d \<noteq> []" using assms is_abs_nonempty by (auto simp: state_dir_ok_def clean_dir_def)
  have j: "filepath_join [d, n] = d @ slash # n" by (rule filepath_join_good [OF assms])
  moreover have "d @ slash # n \<noteq> ''/''" using d(2) by (cases d) auto
  ultimately show ?thesis
    using d filepath_clean_snoc [OF assms]
    by (simp add: state_dir_ok_def clean_dir_def)
qed

lemma filepath_join_inj:
  "state_dir_ok d \<Longrightarrow> good_name a \<Longrightarrow> good_name b \<Longrightarrow>
    filepath_join [d, a] = filepath_join [d, b] \<longleftrightarrow> a = b"
  by (simp add: filepath_join_good)

section \<open>Where a joined name ends\<close>

text \<open>
  Whatever a request id contains, the path made from it ends in the suffix the code put
  there, so a record path is never a verdict path.
\<close>

definition file_suffix :: "string \<Rightarrow> bool" where
  "file_suffix s \<longleftrightarrow> slash \<notin> set s \<and> 2 < length s"

lemma split_on_append:
  "c \<notin> set b \<Longrightarrow> split_on c (a @ b) = butlast (split_on c a) @ [last (split_on c a) @ b]"
proof (induction a)
  case (Cons x a)
  obtain y ys where "split_on c a = y # ys" by (cases "split_on c a") auto
  with Cons show ?case by auto
qed (simp add: split_on_no_sep)

lemma suffix_str_join: "suffix y (str_join sep (xs @ [y]))"
  by (cases "xs = []") (simp_all add: str_join_snoc suffix_def)

lemma filepath_clean_suffix:
  assumes suf: "file_suffix suf"
  shows "suffix suf (filepath_clean (p @ suf))"
proof -
  define l where "l = last (split_on slash p) @ suf"
  have len: "2 < length l" using suf by (simp add: l_def file_suffix_def)
  have l: "l \<noteq> []" "l \<noteq> ''.''" "l \<noteq> ''..''" using len by auto
  have "split_on slash (p @ suf) = butlast (split_on slash p) @ [l]"
    unfolding l_def by (rule split_on_append) (use suf in \<open>simp add: file_suffix_def\<close>)
  then obtain acc where acc: "clean_stack (p @ suf) = l # acc"
    using l by (simp add: clean_stack_def clean_step.simps)
  have "suffix l (filepath_clean (p @ suf))"
    using acc suffix_str_join [of l "''/''" "rev acc"]
    by (auto simp: filepath_clean_def Let_def suffix_Cons)
  moreover have "suffix suf l" by (simp add: l_def suffix_def)
  ultimately show ?thesis by (rule suffix_order.trans [rotated])
qed

lemma filepath_join_suffix [path_facts]:
  assumes "file_suffix suf"
  shows "suffix suf (filepath_join [d, n @ suf])"
proof (cases "d = []")
  case True
  moreover have "n @ suf \<noteq> []" using assms by (auto simp: file_suffix_def)
  ultimately show ?thesis
    using filepath_clean_suffix [OF assms, of n] by (simp add: filepath_join_def Let_def)
next
  case False
  then show ?thesis
    using filepath_clean_suffix [OF assms, of "d @ slash # n"] by (simp add: filepath_join_two)
qed

section \<open>Relative paths\<close>

text \<open>
  The normal form of the elements: no empty or \<open>.\<close> element, and \<open>..\<close> only in front and
  only in a path that is not rooted.
\<close>

definition elem_ok :: "string \<Rightarrow> bool" where
  "elem_ok c \<longleftrightarrow> c \<noteq> [] \<and> c \<noteq> ''.'' \<and> slash \<notin> set c"

lemma clean_step_ok:
  "list_all elem_ok acc \<Longrightarrow> slash \<notin> set c \<Longrightarrow> list_all elem_ok (clean_step r acc c)"
  by (auto simp: clean_step.simps elem_ok_def split: list.splits)

lemma clean_steps_ok:
  "list_all elem_ok acc \<Longrightarrow> \<forall>c \<in> set cs. slash \<notin> set c \<Longrightarrow>
    list_all elem_ok (foldl (clean_step r) acc cs)"
  by (induction cs arbitrary: acc) (simp_all add: clean_step_ok)

lemma clean_stack_ok: "list_all elem_ok (clean_stack p)"
  unfolding clean_stack_def by (rule clean_steps_ok) (auto dest: split_on_elem)

lemma clean_step_no_dotdot:
  "''..'' \<notin> set acc \<Longrightarrow> ''..'' \<notin> set (clean_step True acc c)"
  by (auto simp: clean_step.simps split: list.splits)

lemma clean_steps_no_dotdot:
  "''..'' \<notin> set acc \<Longrightarrow> ''..'' \<notin> set (foldl (clean_step True) acc cs)"
  by (induction cs arbitrary: acc) (auto simp: clean_step_no_dotdot)

lemma clean_stack_no_dotdot: "is_abs p \<Longrightarrow> ''..'' \<notin> set (clean_stack p)"
  unfolding clean_stack_def by (simp add: clean_steps_no_dotdot)

lemma path_elems_join:
  assumes "list_all elem_ok cs"
  shows "path_elems (slash # str_join ''/'' cs) = cs"
proof (cases "cs = []")
  case False
  have "split_on slash (str_join ''/'' cs) = cs"
    by (rule split_on_str_join) (use assms False in \<open>auto simp: list_all_iff elem_ok_def\<close>)
  moreover have "filter (\<lambda>c. c \<noteq> []) cs = cs"
    by (rule filter_True) (use assms in \<open>auto simp: list_all_iff elem_ok_def\<close>)
  ultimately show ?thesis by (simp add: path_elems_def)
qed (simp add: path_elems_def)

lemma path_elems_clean: "is_abs p \<Longrightarrow> path_elems (filepath_clean p) = rev (clean_stack p)"
  by (simp add: filepath_clean_abs path_elems_join clean_stack_ok)

lemma strip_common_nil_iff: "fst (strip_common xs ys) = [] \<longleftrightarrow> prefix xs ys"
  by (induction xs ys rule: strip_common.induct) auto

lemma strip_common_sound: "\<exists>zs. xs = zs @ fst (strip_common xs ys) \<and> ys = zs @ snd (strip_common xs ys)"
proof (induction xs ys rule: strip_common.induct)
  case (1 x xs y ys)
  show ?case
  proof (cases "x = y")
    case True
    with 1 obtain zs where "xs = zs @ fst (strip_common xs ys)" "ys = zs @ snd (strip_common xs ys)"
      by auto
    then have "x # xs = (x # zs) @ fst (strip_common xs ys)" "x # ys = (x # zs) @ snd (strip_common xs ys)"
      by simp_all
    with True show ?thesis by (metis strip_common.simps(1))
  qed simp
qed auto

lemma is_abs_clean [simp]: "is_abs (filepath_clean p) = is_abs p"
proof (cases "is_abs p")
  case False
  let ?cs = "rev (clean_stack p)"
  have ok: "list_all elem_ok ?cs" by (simp add: clean_stack_ok)
  have "\<not> is_abs (filepath_clean p)"
  proof (cases ?cs)
    case (Cons c cs)
    have "c \<noteq> []" "slash \<notin> set c" using ok Cons by (auto simp: elem_ok_def)
    then have "\<not> prefix ''/'' (c @ x)" for x by (cases c) auto
    then have "\<not> prefix ''/'' (str_join ''/'' ?cs)"
      unfolding Cons by (cases cs) (auto dest: prefix_order.trans)
    with False Cons show ?thesis by (simp add: filepath_clean_def is_abs_def)
  qed (use False in \<open>simp add: filepath_clean_def is_abs_def\<close>)
  with False show ?thesis by simp
qed (simp add: filepath_clean_abs, simp add: is_abs_def)

end
