(* ===== verification/Policy.thy ===== *)
theory Policy imports GoPath begin

text \<open>
  \<open>internal/policy\<close>: the tiers a command vector falls into, the matching of stored rules, and
  the persisting of a new rule. \<open>exec.LookPath\<close> reads the daemon's PATH, so it is the
  parameter \<open>lp\<close> of everything that resolves an executable.

  First the model (in the order of \<open>policy.go\<close>), then the reference meaning of a rule and
  the lemmas on tiers and on \<open>AddRule\<close>.
\<close>

section \<open>The policy and its tiers\<close>

record policy =
  p_mode :: string
  p_whitelist :: "string list list"
  p_blacklist :: "string list list"
  p_confirm :: "string list list"
  p_default :: string
  p_env_keep :: "string list"
  p_target :: string

text \<open>A policy file as \<open>encoding/json\<close> sees it: a field that is absent keeps its value.\<close>

record policy_json =
  j_mode :: "string option"
  j_whitelist :: "string list list option"
  j_blacklist :: "string list list option"
  j_confirm :: "string list list option"
  j_default :: "string option"
  j_env_keep :: "string list option"
  j_target :: "string option"

datatype policy_content = Malformed | Parsed policy_json

text \<open>The file at the policy's path, with its permission bits; \<open>None\<close> when there is none.\<close>

type_synonym policy_disk = "(policy_content \<times> nat) option"

definition policy_unmarshal :: "policy_json \<Rightarrow> policy \<Rightarrow> policy" where
  "policy_unmarshal j p =
     \<lparr>p_mode = some_or (j_mode j) (p_mode p),
      p_whitelist = some_or (j_whitelist j) (p_whitelist p),
      p_blacklist = some_or (j_blacklist j) (p_blacklist p),
      p_confirm = some_or (j_confirm j) (p_confirm p),
      p_default = some_or (j_default j) (p_default p),
      p_env_keep = some_or (j_env_keep j) (p_env_keep p),
      p_target = some_or (j_target j) (p_target p)\<rparr>"

definition policy_marshal :: "policy \<Rightarrow> policy_json" where
  "policy_marshal p =
     \<lparr>j_mode = Some (p_mode p), j_whitelist = Some (p_whitelist p),
      j_blacklist = Some (p_blacklist p), j_confirm = Some (p_confirm p),
      j_default = Some (p_default p), j_env_keep = Some (p_env_keep p),
      j_target = Some (p_target p)\<rparr>"

definition policy_base :: policy where
  "policy_base =
     \<lparr>p_mode = ''blacklist'', p_whitelist = [], p_blacklist = [], p_confirm = [],
      p_default = ''ask'', p_env_keep = [], p_target = []\<rparr>"

definition policy_load :: "policy_disk \<Rightarrow> policy" where
  "policy_load d =
     (let p = (case d of Some (Parsed j, _) \<Rightarrow> policy_unmarshal j policy_base | _ \<Rightarrow> policy_base);
          p = (if p_mode p = [] then p\<lparr>p_mode := ''blacklist''\<rparr> else p)
      in if p_default p = [] then p\<lparr>p_default := ''ask''\<rparr> else p)"

text \<open>\<open>equal\<close>: the lengths first, then index by index.\<close>

definition argv_equal :: "string list \<Rightarrow> string list \<Rightarrow> bool" where
  "argv_equal a b \<longleftrightarrow> length a = length b \<and> list_all (\<lambda>i. a ! i = b ! i) [0..<length a]"

definition policy_needs_confirm :: "policy \<Rightarrow> string list \<Rightarrow> bool" where
  "policy_needs_confirm p argv = list_ex (argv_equal argv) (p_confirm p)"

definition restricted_tools :: "string list" where
  "restricted_tools =
     [''bash'', ''sh'', ''zsh'', ''python'', ''python3'', ''node'', ''ruby'', ''perl'', ''php'',
      ''curl'', ''wget'', ''nc'']"

definition is_restricted_base :: "string \<Rightarrow> bool" where
  "is_restricted_base s \<longleftrightarrow> filepath_base (filepath_clean s) \<in> set restricted_tools"

definition canon_exe :: "(string \<Rightarrow> string option) \<Rightarrow> string \<Rightarrow> path \<times> string" where
  "canon_exe lp s =
     (let cleaned = filepath_clean s; base = filepath_base cleaned in
      if slash \<notin> set cleaned then
        (case lp cleaned of
           Some resolved \<Rightarrow> (filepath_clean resolved, base)
         | None \<Rightarrow> (cleaned, base))
      else (cleaned, base))"

definition exe_match :: "(string \<Rightarrow> string option) \<Rightarrow> string \<Rightarrow> string \<Rightarrow> bool" where
  "exe_match lp a b =
     (case canon_exe lp a of (pa, ba) \<Rightarrow>
      case canon_exe lp b of (pb, bb) \<Rightarrow> pa = pb \<or> ba = bb)"

definition match_wild :: "(string \<Rightarrow> string option) \<Rightarrow> string list \<Rightarrow> string list \<Rightarrow> bool" where
  "match_wild lp argv rule =
     (if length rule = 1 \<and> rule ! 0 = ''*'' then False
      else if rule ! (length rule - 1) = ''*'' then
        (let pre = take (length rule - 1) rule;
             anchored = list_ex (\<lambda>e. e \<noteq> ''*'') pre in
         if \<not> anchored then False
         else if length argv < length pre then False
         else list_all (\<lambda>i. if pre ! i = ''*'' then True
                            else if i = 0 then exe_match lp (argv ! 0) (pre ! 0)
                            else argv ! i = pre ! i) [0..<length pre])
      else if length argv \<noteq> length rule then False
      else list_all (\<lambda>i. if rule ! i = ''*'' then True else argv ! i = rule ! i) [0..<length rule])"

definition match_rule :: "(string \<Rightarrow> string option) \<Rightarrow> string list \<Rightarrow> string list \<Rightarrow> bool" where
  "match_rule lp argv rule =
     (if length rule = 0 \<or> length argv = 0 then False
      else if list_ex (\<lambda>e. e = ''*'') rule then match_wild lp argv rule
      else if length rule = 1 then exe_match lp (argv ! 0) (rule ! 0)
      else argv_equal argv rule)"

text \<open>\<open>Tier\<close>: the whitelist loop with its \<open>continue\<close>, then the mode, then the blacklist.\<close>

fun whitelist_hit :: "(string \<Rightarrow> string option) \<Rightarrow> string list \<Rightarrow> string list list \<Rightarrow> bool" where
  "whitelist_hit lp argv [] = False"
| "whitelist_hit lp argv (a # as) =
     (if length a = 1 \<and> is_restricted_base (a ! 0) then whitelist_hit lp argv as
      else if match_rule lp argv a then True
      else whitelist_hit lp argv as)"

definition tier :: "(string \<Rightarrow> string option) \<Rightarrow> policy \<Rightarrow> string list \<Rightarrow> string" where
  "tier lp p argv =
     (if whitelist_hit lp argv (p_whitelist p) then ''allow''
      else if p_mode p = ''whitelist'' then ''deny''
      else if list_ex (match_rule lp argv) (p_blacklist p) then ''deny''
      else p_default p)"

section \<open>Adding a rule\<close>

datatype save_step = CreateTemp | WriteTemp | ChmodTemp | CloseTemp | RenameTemp

datatype policy_error =
    BadTarget string
  | EmptyPattern
  | EmptyElement
  | ExactWildcard
  | BadBase
  | RestrictedBase string
  | BadMatchType string
  | SaveFailed save_step

text \<open>
  \<open>saveAtomic\<close> writes a temporary file and renames it over the policy file. \<open>fails\<close> says which
  of its system calls fail; the file at the policy's path changes only at the rename, and
  keeps its permission bits (0600, that is 384, for a new file).
\<close>

definition save_atomic ::
  "(save_step \<Rightarrow> bool) \<Rightarrow> policy_disk \<Rightarrow> policy \<Rightarrow> save_step option \<times> policy_disk" where
  "save_atomic fails d p =
     (let mode = (case d of Some (_, m) \<Rightarrow> m | None \<Rightarrow> 384) in
      case find fails [CreateTemp, WriteTemp, ChmodTemp, CloseTemp, RenameTemp] of
        Some s \<Rightarrow> (Some s, d)
      | None \<Rightarrow> (None, Some (Parsed (policy_marshal p), mode)))"

definition check_pattern :: "string \<Rightarrow> string \<Rightarrow> string list \<Rightarrow> policy_error option" where
  "check_pattern target match_type pat =
     (if target \<noteq> ''whitelist'' \<and> target \<noteq> ''blacklist'' then Some (BadTarget target)
      else if length pat = 0 then Some EmptyPattern
      else if list_ex (\<lambda>e. e = []) pat then Some EmptyElement
      else if match_type = ''exact'' then
        (if list_ex (\<lambda>e. e = ''*'') pat then Some ExactWildcard else None)
      else if match_type = ''base'' then
        (if length pat \<noteq> 1 \<or> pat ! 0 = ''*'' then Some BadBase
         else if target = ''whitelist'' \<and> is_restricted_base (pat ! 0)
              then Some (RestrictedBase (pat ! 0)) else None)
      else if match_type = ''custom'' then None
      else Some (BadMatchType match_type))"

definition add_rule ::
  "(save_step \<Rightarrow> bool) \<Rightarrow> policy_disk \<Rightarrow> string \<Rightarrow> string \<Rightarrow> string list
    \<Rightarrow> (policy_error + policy \<times> nat) \<times> policy_disk" where
  "add_rule fails d target match_type pat =
     (case check_pattern target match_type pat of
        Some e \<Rightarrow> (Inl e, d)
      | None \<Rightarrow>
          (let p = policy_load d;
               rules = (if target = ''whitelist'' then p_whitelist p else p_blacklist p) in
           if list_ex (\<lambda>r. argv_equal r pat) rules then (Inr (p, length rules), d)
           else
             (let p' = (if target = ''whitelist'' then p\<lparr>p_whitelist := rules @ [pat]\<rparr>
                        else p\<lparr>p_blacklist := rules @ [pat]\<rparr>) in
              case save_atomic fails d p' of
                (Some s, d') \<Rightarrow> (Inl (SaveFailed s), d')
              | (None, d') \<Rightarrow>
                  (let q = policy_load d' in
                   (Inr (q, length (if target = ''whitelist'' then p_whitelist q else p_blacklist q)),
                    d')))))"

section \<open>Rules against their meaning\<close>

lemma list_all_upt_nth:
  "length a = length b \<Longrightarrow> list_all (\<lambda>i. P (a ! i) (b ! i)) [0..<length a] \<longleftrightarrow> list_all2 P a b"
  by (auto simp: list_all_iff list_all2_conv_all_nth)

lemma argv_equal_iff [simp]: "argv_equal a b \<longleftrightarrow> a = b"
  by (auto simp: argv_equal_def list_all_iff nth_equalityI)

text \<open>What a rule element admits at a position after the first: itself, or anything for a star.\<close>

definition elem_admits :: "string \<Rightarrow> string \<Rightarrow> bool" where
  "elem_admits r a \<longleftrightarrow> r = ''*'' \<or> a = r"

text \<open>
  The commands a rule stands for, stated without loops: a rule with no star is an exact
  vector, or an executable alone; a rule that ends in a star is a prefix with at least one
  fixed element, whose first element is an executable; any other rule with a star is
  positional.
\<close>

definition rule_meaning :: "(string \<Rightarrow> string option) \<Rightarrow> string list \<Rightarrow> string list \<Rightarrow> bool" where
  "rule_meaning lp rule argv \<longleftrightarrow>
     rule \<noteq> [] \<and> argv \<noteq> [] \<and>
     (if ''*'' \<notin> set rule then
        (if length rule = 1 then exe_match lp (hd argv) (hd rule) else argv = rule)
      else if last rule = ''*'' then
        (\<exists>e \<in> set (butlast rule). e \<noteq> ''*'')
        \<and> (hd rule = ''*'' \<or> exe_match lp (hd argv) (hd rule))
        \<and> (\<exists>args rest. tl argv = args @ rest \<and> list_all2 elem_admits (tl (butlast rule)) args)
      else list_all2 elem_admits rule argv)"

lemma all_less_Cons: "(\<forall>i < Suc n. P i) \<longleftrightarrow> P 0 \<and> (\<forall>i < n. P (Suc i))"
  by (auto simp: less_Suc_eq_0_disj)

lemma list_all2_take_prefix:
  "length rs \<le> length as \<Longrightarrow>
    list_all2 P rs (take (length rs) as) \<longleftrightarrow> (\<exists>bs cs. as = bs @ cs \<and> list_all2 P rs bs)"
  by (metis append_eq_conv_conj append_take_drop_id list_all2_lengthD)

lemma trailing_star_loop:
  assumes "length (r # rs) \<le> length (a # as)"
  shows "list_all (\<lambda>i. if (r # rs) ! i = ''*'' then True
              else if i = 0 then exe_match lp ((a # as) ! 0) ((r # rs) ! 0)
              else (a # as) ! i = (r # rs) ! i) [0..<length (r # rs)]
    \<longleftrightarrow> (r = ''*'' \<or> exe_match lp a r) \<and> (\<exists>bs cs. as = bs @ cs \<and> list_all2 elem_admits rs bs)"
proof -
  let ?P = "\<lambda>i. if (r # rs) ! i = ''*'' then True
              else if i = 0 then exe_match lp ((a # as) ! 0) ((r # rs) ! 0)
              else (a # as) ! i = (r # rs) ! i"
  have rest: "(\<forall>i < length rs. ?P (Suc i)) \<longleftrightarrow> (\<exists>bs cs. as = bs @ cs \<and> list_all2 elem_admits rs bs)"
    using assms by (subst list_all2_take_prefix [symmetric])
      (auto simp: list_all2_conv_all_nth elem_admits_def)
  have "list_all ?P [0..<length (r # rs)] \<longleftrightarrow> (\<forall>i < Suc (length rs). ?P i)"
    by (simp only: list_all_iff set_upt Ball_def atLeastLessThan_iff list.size) simp
  also have "\<dots> \<longleftrightarrow> ?P 0 \<and> (\<forall>i < length rs. ?P (Suc i))" by (rule all_less_Cons)
  finally show ?thesis using rest by simp
qed

lemma match_wild_trailing:
  assumes "argv \<noteq> []" "rule \<noteq> []" "last rule = ''*''"
  shows "match_wild lp argv rule \<longleftrightarrow> rule_meaning lp rule argv"
proof -
  obtain pre where rule: "rule = pre @ [''*'']"
    using assms by (metis append_butlast_last_id)
  obtain a as where argv: "argv = a # as" using assms(1) by (cases argv) auto
  show ?thesis
  proof (cases pre)
    case (Cons r rs)
    have len: "(\<exists>bs cs. as = bs @ cs \<and> list_all2 elem_admits rs bs) \<Longrightarrow> length rs \<le> length as"
      by (auto dest: list_all2_lengthD)
    show ?thesis
    proof (cases "length (r # rs) \<le> length (a # as)")
      case True
      from trailing_star_loop [OF True, of lp] show ?thesis
        using True by (auto simp: match_wild_def rule_meaning_def rule argv Cons list_ex_iff)
    next
      case False
      with len show ?thesis
        by (auto simp: match_wild_def rule_meaning_def rule argv Cons)
    qed
  qed (simp add: match_wild_def rule_meaning_def rule argv)
qed

lemma match_wild_positional:
  assumes "argv \<noteq> []" "rule \<noteq> []" "''*'' \<in> set rule" "last rule \<noteq> ''*''"
  shows "match_wild lp argv rule \<longleftrightarrow> rule_meaning lp rule argv"
proof -
  have "rule ! (length rule - 1) \<noteq> ''*''" using assms by (simp add: last_conv_nth)
  moreover have "\<not> (length rule = 1 \<and> rule ! 0 = ''*'')" using assms by (auto simp: length_Suc_conv)
  moreover have "length argv = length rule \<Longrightarrow>
      list_all (\<lambda>i. if rule ! i = ''*'' then True else argv ! i = rule ! i) [0..<length rule]
        \<longleftrightarrow> list_all2 elem_admits rule argv"
    by (auto simp: list_all_iff list_all2_conv_all_nth elem_admits_def)
  ultimately show ?thesis
    using assms by (auto simp: match_wild_def rule_meaning_def dest: list_all2_lengthD)
qed

lemma match_rule_iff_meaning: "match_rule lp argv rule \<longleftrightarrow> rule_meaning lp rule argv"
proof (cases "argv = [] \<or> rule = []")
  case False
  show ?thesis
  proof (cases "''*'' \<in> set rule")
    case True
    then have "match_rule lp argv rule = match_wild lp argv rule"
      using False by (auto simp: match_rule_def list_ex_iff)
    with True False show ?thesis
      by (cases "last rule = ''*''") (simp_all add: match_wild_trailing match_wild_positional)
  next
    case no_star: False
    with False show ?thesis
      by (auto simp: match_rule_def rule_meaning_def list_ex_iff hd_conv_nth)
  qed
qed (auto simp: match_rule_def rule_meaning_def)

section \<open>Tiers\<close>

lemma whitelist_hit_iff:
  "whitelist_hit lp argv rules \<longleftrightarrow>
    (\<exists>r \<in> set rules. \<not> (length r = 1 \<and> is_restricted_base (r ! 0)) \<and> match_rule lp argv r)"
  by (induction rules) auto

lemma whitelist_hit_append:
  "whitelist_hit lp argv (a @ b) \<longleftrightarrow> whitelist_hit lp argv a \<or> whitelist_hit lp argv b"
  by (auto simp: whitelist_hit_iff)

lemma policy_load_normal: "p_mode (policy_load d) \<noteq> [] \<and> p_default (policy_load d) \<noteq> []"
  by (simp add: policy_load_def Let_def)

lemma policy_unmarshal_marshal: "policy_unmarshal (policy_marshal p) q = p"
  by (simp add: policy_unmarshal_def policy_marshal_def)

lemma policy_load_marshal:
  "p_mode p \<noteq> [] \<Longrightarrow> p_default p \<noteq> [] \<Longrightarrow> policy_load (Some (Parsed (policy_marshal p), m)) = p"
  by (simp add: policy_load_def policy_unmarshal_marshal)

lemma save_atomic_cases:
  "save_atomic fails d p = (r, d') \<Longrightarrow>
    (r = None \<and> d' = Some (Parsed (policy_marshal p), case d of Some (_, m) \<Rightarrow> m | None \<Rightarrow> 384))
    \<or> ((\<exists>s. r = Some s) \<and> d' = d)"
  by (cases "find fails [CreateTemp, WriteTemp, ChmodTemp, CloseTemp, RenameTemp]")
    (auto simp: save_atomic_def Let_def simp del: find.simps)


interpretation policy_file: codec "\<lambda>p. Some (Parsed (policy_marshal p), m)"
    "\<lambda>d. Some (policy_load d)" "\<lambda>p. p_mode p \<noteq> [] \<and> p_default p \<noteq> []"
  by unfold_locales (simp add: policy_load_marshal)

lemma tier_iff:
  "tier lp p argv =
    (if \<exists>r \<in> set (p_whitelist p). \<not> (\<exists>b. r = [b] \<and> is_restricted_base b) \<and> rule_meaning lp r argv
     then ''allow''
     else if p_mode p = ''whitelist'' \<or> (\<exists>r \<in> set (p_blacklist p). rule_meaning lp r argv)
     then ''deny'' else p_default p)"
proof -
  have "(length r = 1 \<and> is_restricted_base (r ! 0)) = (\<exists>b. r = [b] \<and> is_restricted_base b)" for r
    by (auto simp: length_Suc_conv)
  then have "whitelist_hit lp argv (p_whitelist p) \<longleftrightarrow>
      (\<exists>r \<in> set (p_whitelist p). \<not> (\<exists>b. r = [b] \<and> is_restricted_base b) \<and> rule_meaning lp r argv)"
    by (simp only: whitelist_hit_iff match_rule_iff_meaning)
  then show ?thesis by (auto simp: tier_def list_ex_iff match_rule_iff_meaning)
qed

text \<open>The outcome of \<open>AddRule\<close> once its arguments are accepted.\<close>

lemma add_rule_cases:
  assumes "add_rule fails d target mt pat = (r, d')"
  obtains e where "r = Inl e" "d' = d"
  | q n where "r = Inr (q, n)" "check_pattern target mt pat = None" "policy_load d' = q"
      "target = ''whitelist'' \<longrightarrow> n = length (p_whitelist q)
        \<and> q = (policy_load d)\<lparr>p_whitelist := p_whitelist q\<rparr>
        \<and> p_whitelist q \<in> {p_whitelist (policy_load d), p_whitelist (policy_load d) @ [pat]}
        \<and> pat \<in> set (p_whitelist q)"
      "target \<noteq> ''whitelist'' \<longrightarrow> n = length (p_blacklist q)
        \<and> q = (policy_load d)\<lparr>p_blacklist := p_blacklist q\<rparr>
        \<and> p_blacklist q \<in> {p_blacklist (policy_load d), p_blacklist (policy_load d) @ [pat]}
        \<and> pat \<in> set (p_blacklist q)"
proof (cases "check_pattern target mt pat")
  case (Some e)
  with assms have "r = Inl e" "d' = d" by (simp_all add: add_rule_def)
  then show ?thesis by (rule that(1))
next
  case None
  let ?p = "policy_load d"
  let ?rules = "if target = ''whitelist'' then p_whitelist ?p else p_blacklist ?p"
  let ?p' = "if target = ''whitelist'' then ?p\<lparr>p_whitelist := ?rules @ [pat]\<rparr>
             else ?p\<lparr>p_blacklist := ?rules @ [pat]\<rparr>"
  show ?thesis
  proof (cases "pat \<in> set ?rules")
    case True
    then have "r = Inr (?p, length ?rules)" "d' = d"
      using assms None by (auto simp: add_rule_def Let_def list_ex_iff split: if_splits)
    with True None show ?thesis by (intro that(2) [of ?p "length ?rules"]) (auto split: if_splits)
  next
    case False
    obtain s d'' where save: "save_atomic fails d ?p' = (s, d'')" by fastforce
    show ?thesis
    proof (cases s)
      case (Some step)
      with save have "d'' = d" by (auto dest!: save_atomic_cases)
      with Some save False None assms that(1) show ?thesis
        by (auto simp: add_rule_def Let_def list_ex_iff split: if_splits)
    next
      case s: None
      have "policy_load d'' = ?p'"
        using s save_atomic_cases [OF save] policy_load_normal [of d]
        by (auto simp: policy_load_marshal)
      then have "r = Inr (?p', length (if target = ''whitelist'' then p_whitelist ?p' else p_blacklist ?p'))"
          "d' = d''" "policy_load d' = ?p'"
        using assms None False save s by (auto simp: add_rule_def Let_def list_ex_iff split: if_splits)
      with None show ?thesis by (intro that(2)) auto
    qed
  qed
qed

section \<open>Properties\<close>

text \<open>
  C9. The tier of a command is the meaning the code gives the stored rules: allow exactly when a
  whitelist rule other than a bare restricted tool admits it, otherwise deny in whitelist
  mode or when a blacklist rule admits it, otherwise the default. A rule admits more than its own
  words: by base name, resolved executable and wildcards, although the package comment and the
  sample policy speak of exact matches.
\<close>

theorem tier_meaning:
  "tier lp p argv =
    (if \<exists>r \<in> set (p_whitelist p). \<not> (\<exists>b. r = [b] \<and> is_restricted_base b) \<and> rule_meaning lp r argv
     then ''allow''
     else if p_mode p = ''whitelist'' \<or> (\<exists>r \<in> set (p_blacklist p). rule_meaning lp r argv)
     then ''deny'' else p_default p)"
  by (rule tier_iff)

text \<open>
  C30. \<open>AddRule\<close> is all or nothing: on an error the policy file is what it was; on success
  the reloaded policy is the returned one, holds the rule, and keeps every other rule and
  setting.
\<close>

theorem add_rule_atomic:
  "case add_rule fails d target mt pat of
     (Inl e, d') \<Rightarrow> d' = d
   | (Inr (q, n), d') \<Rightarrow>
       policy_load d' = q
       \<and> (if target = ''whitelist''
          then q = (policy_load d)\<lparr>p_whitelist := p_whitelist q\<rparr> \<and> n = length (p_whitelist q)
            \<and> pat \<in> set (p_whitelist q) \<and> prefix (p_whitelist (policy_load d)) (p_whitelist q)
          else q = (policy_load d)\<lparr>p_blacklist := p_blacklist q\<rparr> \<and> n = length (p_blacklist q)
            \<and> pat \<in> set (p_blacklist q) \<and> prefix (p_blacklist (policy_load d)) (p_blacklist q))"
proof -
  obtain r d' where eq: "add_rule fails d target mt pat = (r, d')" by fastforce
  show ?thesis unfolding eq by (rule add_rule_cases [OF eq]) auto
qed

text \<open>
  An accepted whitelist rule of type \<open>exact\<close> or \<open>base\<close> changes the tier of no command
  but those it names, and those become allowed: the vector itself, or for a one-element rule
  the commands run by that executable, never when the executable is a restricted tool.
\<close>

theorem add_rule_widens_only_pattern:
  assumes "add_rule fails d ''whitelist'' mt pat = (Inr (q, n), d')" and "mt \<noteq> ''custom''"
  shows "tier lp q argv =
    (if argv \<noteq> [] \<and> (if length pat = 1
                     then \<not> is_restricted_base (pat ! 0) \<and> exe_match lp (hd argv) (pat ! 0)
                     else argv = pat)
     then ''allow'' else tier lp (policy_load d) argv)"
proof -
  have no_star: "''*'' \<notin> set pat" "pat \<noteq> []" if "check_pattern ''whitelist'' mt pat = None"
    using that assms(2) by (auto simp: check_pattern_def list_ex_iff length_Suc_conv split: if_splits)
  from assms(1) show ?thesis
  proof (cases rule: add_rule_cases)
    case (2 q' n')
    have rule: "\<not> (\<exists>b. pat = [b] \<and> is_restricted_base b) \<and> rule_meaning lp pat argv
      \<longleftrightarrow> argv \<noteq> [] \<and> (if length pat = 1
                     then \<not> is_restricted_base (pat ! 0) \<and> exe_match lp (hd argv) (pat ! 0)
                     else argv = pat)"
      using no_star [OF 2(2)] by (auto simp: rule_meaning_def length_Suc_conv)
    have "set (p_whitelist q) = insert pat (set (p_whitelist (policy_load d)))"
      using 2 by auto
    moreover have "p_mode q = p_mode (policy_load d)" "p_blacklist q = p_blacklist (policy_load d)"
        "p_default q = p_default (policy_load d)"
      using 2 by (metis (no_types, lifting) Inr_inject fst_conv policy.select_convs policy.surjective policy.update_convs(2) prod.inject)+
    ultimately show ?thesis
      unfolding tier_iff rule [symmetric] by auto
  qed simp
qed

theorem add_rule_widens_only_pattern_witness:
  "tier (\<lambda>_. None) (policy_load (snd (add_rule (\<lambda>_. False) None ''whitelist'' ''exact'' [''git'', ''status''])))
     [''git'', ''status''] = ''allow''"
proof -
  have "add_rule (\<lambda>_. False) None ''whitelist'' ''exact'' [''git'', ''status''] =
      (Inr (policy_base\<lparr>p_whitelist := [[''git'', ''status'']]\<rparr>, 1),
       Some (Parsed (policy_marshal (policy_base\<lparr>p_whitelist := [[''git'', ''status'']]\<rparr>)), 384))"
    by (simp add: add_rule_def check_pattern_def policy_load_def policy_base_def save_atomic_def
        policy_unmarshal_marshal policy_marshal_def policy_unmarshal_def)
  from add_rule_widens_only_pattern [OF this, of "\<lambda>_. None" "[''git'', ''status'']"] this
  show ?thesis
    by (simp add: policy_load_def policy_base_def policy_unmarshal_marshal policy_marshal_def
        policy_unmarshal_def)
qed

text \<open>
  A \<open>custom\<close> rule is not held to the restriction on interpreters: once the two-element
  rule \<open>bash *\<close> is accepted, every \<open>bash\<close> command is allowed without asking.
\<close>

theorem custom_star_unlocks_interpreter:
  "(case add_rule (\<lambda>_. False) d ''whitelist'' ''custom'' [''bash'', ''*''] of
      (Inr (q, n), d') \<Rightarrow> tier lp q (''bash'' # args) = ''allow''
    | (Inl e, d') \<Rightarrow> False)
   \<and> fst (add_rule (\<lambda>_. False) d ''whitelist'' ''base'' [''bash'']) = Inl (RestrictedBase ''bash'')"
proof
  obtain r d' where eq: "add_rule (\<lambda>_. False) d ''whitelist'' ''custom'' [''bash'', ''*''] = (r, d')"
    by fastforce
  have star: "rule_meaning lp [''bash'', ''*''] (''bash'' # args)"
    by (simp add: rule_meaning_def exe_match_def split: prod.split)
  have "r \<noteq> Inl e" for e
    using eq by (auto simp: add_rule_def check_pattern_def save_atomic_def Let_def split: if_splits)
  then obtain q n where r: "r = Inr (q, n)" by (metis sum.exhaust prod.exhaust)
  from eq have "[''bash'', ''*''] \<in> set (p_whitelist q)"
    by (rule add_rule_cases) (simp_all add: r)
  with star have "\<exists>s \<in> set (p_whitelist q). \<not> (\<exists>b. s = [b] \<and> is_restricted_base b)
      \<and> rule_meaning lp s (''bash'' # args)"
    by (intro bexI [of _ "[''bash'', ''*'']"]) simp_all
  then have "tier lp q (''bash'' # args) = ''allow''" by (simp only: tier_iff if_True)
  then show "case add_rule (\<lambda>_. False) d ''whitelist'' ''custom'' [''bash'', ''*''] of
      (Inr (q, n), d') \<Rightarrow> tier lp q (''bash'' # args) = ''allow'' | (Inl e, d') \<Rightarrow> False"
    by (simp only: eq r prod.case sum.case)
  show "fst (add_rule (\<lambda>_. False) d ''whitelist'' ''base'' [''bash'']) = Inl (RestrictedBase ''bash'')"
    by (simp add: add_rule_def check_pattern_def is_restricted_base_def path_eval restricted_tools_def)
qed

end
