(* ===== verification/Protocol.thy ===== *)
theory Protocol imports Prelude begin

text \<open>
  The messages and records of \<open>internal/protocol\<close>: one HOL record per Go struct, the fields
  in the struct's order, a pointer field as an option, a slice as a list, a Go map as an
  association list in the order one iteration over it may take. A Go composite literal
  leaves the fields it does not name at their zero value; \<open>T_zero\<close> is the literal with no
  field named, and the code's literals are written as updates of it.
\<close>

section \<open>Requests and answers on the socket\<close>

record run_request =
  rr_argv :: "string list"
  rr_cwd :: string
  rr_env :: "(string \<times> string) list"
  rr_detach :: bool

record verdict_submit =
  vs_id :: string
  vs_decision :: string
  vs_by :: string

record cancel_request =
  cr_id :: string
  cr_reason :: string
  cr_by :: string

record cancel_response =
  cx_cancelled :: bool
  cx_error :: string

record notify_request =
  nr_link :: string
  nr_summary :: string
  nr_ttl_seconds :: int

record ack_submit =
  as_id :: string
  as_by :: string

record ack_response =
  ar_acked :: bool
  ar_error :: string

record ask_request =
  aq_question :: string
  aq_options :: "string list"
  aq_link :: string
  aq_ttl_seconds :: int
  aq_multi_select :: bool
  aq_allow_write_in :: bool
  aq_recommended_index :: int

record ask_result =
  ax_status :: string
  ax_id :: string
  ax_question :: string
  ax_selection :: string
  ax_selection_idx :: int
  ax_selection_idxs :: "int list"
  ax_by :: string
  ax_reason :: string

definition ask_result_zero :: ask_result where
  "ask_result_zero = \<lparr>
     ax_status = [], ax_id = [], ax_question = [], ax_selection = [], ax_selection_idx = 0,
     ax_selection_idxs = [], ax_by = [], ax_reason = []\<rparr>"

lemma ask_result_zero_simps [simp]:
  "ax_status ask_result_zero = []"
  "ax_id ask_result_zero = []"
  "ax_question ask_result_zero = []"
  "ax_selection ask_result_zero = []"
  "ax_selection_idx ask_result_zero = 0"
  "ax_selection_idxs ask_result_zero = []"
  "ax_by ask_result_zero = []"
  "ax_reason ask_result_zero = []"
  by (simp_all add: ask_result_zero_def)

record select_request =
  sr_id :: string
  sr_selection :: string
  sr_selection_idx :: int
  sr_write_in :: string
  sr_by :: string

record select_response =
  sx_selected :: bool
  sx_error :: string

record policy_add_rule_request =
  pa_target :: string
  pa_match_type :: string
  pa_pattern :: "string list"

record policy_add_rule_response =
  px_success :: bool
  px_error :: string
  px_rules_count :: int

record telegram_info_response =
  ti_configured :: bool
  ti_bot_username :: string
  ti_chat_id :: string
  ti_approvers :: "string list"
  ti_status :: string
  ti_error :: string
  ti_notification_target :: string

record telegram_set_config_request =
  ts_bot_token :: "string option"
  ts_chat_id :: string
  ts_approvers :: "string list"
  ts_notification_target :: string

record telegram_set_config_response =
  tx_success :: bool
  tx_bot_username :: string
  tx_error :: string

record run_result =
  rs_status :: string
  rs_id :: string
  rs_exit :: int
  rs_output :: string
  rs_reason :: string

definition run_result_zero :: run_result where
  "run_result_zero = \<lparr>
     rs_status = [], rs_id = [], rs_exit = 0, rs_output = [], rs_reason = []\<rparr>"

lemma run_result_zero_simps [simp]:
  "rs_status run_result_zero = []"
  "rs_id run_result_zero = []"
  "rs_exit run_result_zero = 0"
  "rs_output run_result_zero = []"
  "rs_reason run_result_zero = []"
  by (simp_all add: run_result_zero_def)

record verdict_ack =
  va_recorded :: bool
  va_error :: string

section \<open>Pins and drifts: what is frozen at petition time and compared at approval\<close>

record preview_record =
  pv_resolved_binary :: string
  pv_target_cwd :: string
  pv_affected_count :: int
  pv_sample_paths :: "string list"
  pv_risk_level :: string
  pv_risk_reason :: string

record git_pin =
  gp_head :: string
  gp_branch :: string
  gp_porcelain :: string
  gp_clean :: bool
  gp_present :: bool

record git_drift =
  gd_drift :: bool
  gd_reason :: string
  gd_block :: bool

record fd_pin =
  fp_path :: string
  fp_resolved :: string
  fp_sha256 :: string
  fp_dev :: int
  fp_ino :: int
  fp_size :: int
  fp_mode :: int
  fp_is_script :: bool
  fp_interpreter :: string
  fp_interp_arg :: string

record fd_drift =
  fd_drifted :: bool
  fd_reason :: string
  fd_block :: bool

record seal_file =
  sf_rel :: string
  sf_abs :: string
  sf_sha256 :: string
  sf_size :: int
  sf_mode :: int

record seal_pin =
  sp_root :: string
  sp_files :: "seal_file list"
  sp_archive :: string

record seal_drift =
  sd_drift :: bool
  sd_reason :: string
  sd_block :: bool

record suspend_pin =
  su_pid :: int
  su_pgid :: int
  su_suspended :: bool

section \<open>Records on disk\<close>

record pending_record =
  pr_argv :: "string list"
  pr_uid :: uid
  pr_as_uid :: uid
  pr_cwd :: string
  pr_expires :: int
  pr_env :: "(string \<times> string) list"
  pr_chat_id :: string
  pr_msg_id :: int
  pr_step :: string
  pr_confirm_of :: string
  pr_preview :: "preview_record option"
  pr_auth_url :: string
  pr_kind :: string
  pr_link :: string
  pr_summary :: string
  pr_question :: string
  pr_options :: "string list"
  pr_multi_select :: bool
  pr_allow_write_in :: bool
  pr_recommended_index :: int
  pr_page_lines :: "string list"
  pr_selection :: string
  pr_selection_idx :: int
  pr_selected_idxs :: "int list"
  pr_git :: "git_pin option"
  pr_fd :: "fd_pin option"
  pr_seal :: "seal_pin option"
  pr_suspend :: "suspend_pin option"

definition pending_record_zero :: pending_record where
  "pending_record_zero = \<lparr>
     pr_argv = [], pr_uid = 0, pr_as_uid = 0, pr_cwd = [], pr_expires = 0, pr_env = [],
     pr_chat_id = [], pr_msg_id = 0, pr_step = [], pr_confirm_of = [], pr_preview = None,
     pr_auth_url = [], pr_kind = [], pr_link = [], pr_summary = [], pr_question = [],
     pr_options = [], pr_multi_select = False, pr_allow_write_in = False,
     pr_recommended_index = 0, pr_page_lines = [], pr_selection = [], pr_selection_idx = 0,
     pr_selected_idxs = [], pr_git = None, pr_fd = None, pr_seal = None, pr_suspend = None\<rparr>"

lemma pending_record_zero_simps [simp]:
  "pr_argv pending_record_zero = []"
  "pr_uid pending_record_zero = 0"
  "pr_as_uid pending_record_zero = 0"
  "pr_cwd pending_record_zero = []"
  "pr_expires pending_record_zero = 0"
  "pr_env pending_record_zero = []"
  "pr_chat_id pending_record_zero = []"
  "pr_msg_id pending_record_zero = 0"
  "pr_step pending_record_zero = []"
  "pr_confirm_of pending_record_zero = []"
  "pr_preview pending_record_zero = None"
  "pr_auth_url pending_record_zero = []"
  "pr_kind pending_record_zero = []"
  "pr_link pending_record_zero = []"
  "pr_summary pending_record_zero = []"
  "pr_question pending_record_zero = []"
  "pr_options pending_record_zero = []"
  "pr_multi_select pending_record_zero = False"
  "pr_allow_write_in pending_record_zero = False"
  "pr_recommended_index pending_record_zero = 0"
  "pr_page_lines pending_record_zero = []"
  "pr_selection pending_record_zero = []"
  "pr_selection_idx pending_record_zero = 0"
  "pr_selected_idxs pending_record_zero = []"
  "pr_git pending_record_zero = None"
  "pr_fd pending_record_zero = None"
  "pr_seal pending_record_zero = None"
  "pr_suspend pending_record_zero = None"
  by (simp_all add: pending_record_zero_def)

record ack_record =
  ak_by :: string
  ak_unix_nano :: int

record verdict_record =
  vd_decision :: string
  vd_by :: string
  vd_unix_nano :: int

record selection_record =
  sl_selection :: string
  sl_selection_idx :: int
  sl_selection_idxs :: "int list"
  sl_by :: string
  sl_unix_nano :: int

record cancel_record =
  cn_by :: string
  cn_reason :: string
  cn_unix_nano :: int

text \<open>
  \<open>ev_ts\<close> is the event's RFC 3339 time stamp as the Unix second it parses to; \<open>None\<close> is a
  stamp that does not parse.
\<close>

record audit_event =
  ev_ev :: string
  ev_uid :: uid
  ev_by :: string
  ev_argv :: "string list"
  ev_cwd :: string
  ev_tier :: string
  ev_decision :: string
  ev_rid :: string
  ev_step :: string
  ev_confirm_of :: string
  ev_as_uid :: uid
  ev_dry :: bool
  ev_exit :: int
  ev_env_dropped :: "string list"
  ev_ts :: "int option"
  ev_link :: string
  ev_summary :: string
  ev_question :: string
  ev_options :: "string list"
  ev_selection :: string
  ev_selection_idx :: int
  ev_reason :: string

definition audit_event_zero :: audit_event where
  "audit_event_zero = \<lparr>
     ev_ev = [], ev_uid = 0, ev_by = [], ev_argv = [], ev_cwd = [], ev_tier = [],
     ev_decision = [], ev_rid = [], ev_step = [], ev_confirm_of = [], ev_as_uid = 0,
     ev_dry = False, ev_exit = 0, ev_env_dropped = [], ev_ts = None, ev_link = [],
     ev_summary = [], ev_question = [], ev_options = [], ev_selection = [],
     ev_selection_idx = 0, ev_reason = []\<rparr>"

lemma audit_event_zero_simps [simp]:
  "ev_ev audit_event_zero = []"
  "ev_uid audit_event_zero = 0"
  "ev_by audit_event_zero = []"
  "ev_argv audit_event_zero = []"
  "ev_cwd audit_event_zero = []"
  "ev_tier audit_event_zero = []"
  "ev_decision audit_event_zero = []"
  "ev_rid audit_event_zero = []"
  "ev_step audit_event_zero = []"
  "ev_confirm_of audit_event_zero = []"
  "ev_as_uid audit_event_zero = 0"
  "ev_dry audit_event_zero = False"
  "ev_exit audit_event_zero = 0"
  "ev_env_dropped audit_event_zero = []"
  "ev_ts audit_event_zero = None"
  "ev_link audit_event_zero = []"
  "ev_summary audit_event_zero = []"
  "ev_question audit_event_zero = []"
  "ev_options audit_event_zero = []"
  "ev_selection audit_event_zero = []"
  "ev_selection_idx audit_event_zero = 0"
  "ev_reason audit_event_zero = []"
  by (simp_all add: audit_event_zero_def)

end
