(* ===== verification/ProtocolViews.thy ===== *)
theory ProtocolViews imports Protocol begin

text \<open>
  The answers to \<open>list\<close>, \<open>recent\<close>, \<open>status\<close> and \<open>audit\<close>: the views of a petition that the
  store and the service assemble from its files.
\<close>

record status_response =
  st_id :: string
  st_status :: string
  st_argv :: "string list"
  st_cwd :: string
  st_uid :: uid
  st_as_uid :: uid
  st_expires_in :: int
  st_decision :: string
  st_by :: string
  st_exit :: int
  st_output :: string
  st_step :: string
  st_confirm_of :: string
  st_preview :: "preview_record option"
  st_auth_url :: string
  st_kind :: string
  st_link :: string
  st_summary :: string
  st_question :: string
  st_options :: "string list"
  st_selection :: string
  st_selection_idx :: int
  st_acked :: bool
  st_ack_by :: string
  st_ack_at :: int
  st_git :: "git_pin option"
  st_git_drift :: "git_drift option"
  st_fd :: "fd_pin option"
  st_fd_drift :: "fd_drift option"
  st_seal :: "seal_pin option"
  st_seal_drift :: "seal_drift option"
  st_suspend :: "suspend_pin option"

definition status_response_zero :: status_response where
  "status_response_zero = \<lparr>
     st_id = [], st_status = [], st_argv = [], st_cwd = [], st_uid = 0, st_as_uid = 0,
     st_expires_in = 0, st_decision = [], st_by = [], st_exit = 0, st_output = [],
     st_step = [], st_confirm_of = [], st_preview = None, st_auth_url = [], st_kind = [],
     st_link = [], st_summary = [], st_question = [], st_options = [], st_selection = [],
     st_selection_idx = 0, st_acked = False, st_ack_by = [], st_ack_at = 0, st_git = None,
     st_git_drift = None, st_fd = None, st_fd_drift = None, st_seal = None,
     st_seal_drift = None, st_suspend = None\<rparr>"

lemma status_response_zero_simps [simp]:
  "st_id status_response_zero = []"
  "st_status status_response_zero = []"
  "st_argv status_response_zero = []"
  "st_cwd status_response_zero = []"
  "st_uid status_response_zero = 0"
  "st_as_uid status_response_zero = 0"
  "st_expires_in status_response_zero = 0"
  "st_decision status_response_zero = []"
  "st_by status_response_zero = []"
  "st_exit status_response_zero = 0"
  "st_output status_response_zero = []"
  "st_step status_response_zero = []"
  "st_confirm_of status_response_zero = []"
  "st_preview status_response_zero = None"
  "st_auth_url status_response_zero = []"
  "st_kind status_response_zero = []"
  "st_link status_response_zero = []"
  "st_summary status_response_zero = []"
  "st_question status_response_zero = []"
  "st_options status_response_zero = []"
  "st_selection status_response_zero = []"
  "st_selection_idx status_response_zero = 0"
  "st_acked status_response_zero = False"
  "st_ack_by status_response_zero = []"
  "st_ack_at status_response_zero = 0"
  "st_git status_response_zero = None"
  "st_git_drift status_response_zero = None"
  "st_fd status_response_zero = None"
  "st_fd_drift status_response_zero = None"
  "st_seal status_response_zero = None"
  "st_seal_drift status_response_zero = None"
  "st_suspend status_response_zero = None"
  by (simp_all add: status_response_zero_def)

record pending_item =
  pi_id :: string
  pi_argv :: "string list"
  pi_uid :: uid
  pi_as_uid :: uid
  pi_cwd :: string
  pi_expires_in :: int
  pi_step :: string
  pi_confirm_of :: string
  pi_preview :: "preview_record option"
  pi_auth_url :: string
  pi_kind :: string
  pi_link :: string
  pi_summary :: string
  pi_question :: string
  pi_options :: "string list"
  pi_selection :: string
  pi_selection_idx :: int
  pi_multi_select :: bool
  pi_allow_write_in :: bool
  pi_recommended_index :: int
  pi_acked :: bool
  pi_ack_by :: string
  pi_git :: "git_pin option"
  pi_git_drift :: "git_drift option"
  pi_fd :: "fd_pin option"
  pi_fd_drift :: "fd_drift option"
  pi_seal :: "seal_pin option"
  pi_seal_drift :: "seal_drift option"
  pi_suspend :: "suspend_pin option"

definition pending_item_zero :: pending_item where
  "pending_item_zero = \<lparr>
     pi_id = [], pi_argv = [], pi_uid = 0, pi_as_uid = 0, pi_cwd = [], pi_expires_in = 0,
     pi_step = [], pi_confirm_of = [], pi_preview = None, pi_auth_url = [], pi_kind = [],
     pi_link = [], pi_summary = [], pi_question = [], pi_options = [], pi_selection = [],
     pi_selection_idx = 0, pi_multi_select = False, pi_allow_write_in = False,
     pi_recommended_index = 0, pi_acked = False, pi_ack_by = [], pi_git = None,
     pi_git_drift = None, pi_fd = None, pi_fd_drift = None, pi_seal = None,
     pi_seal_drift = None, pi_suspend = None\<rparr>"

lemma pending_item_zero_simps [simp]:
  "pi_id pending_item_zero = []"
  "pi_argv pending_item_zero = []"
  "pi_uid pending_item_zero = 0"
  "pi_as_uid pending_item_zero = 0"
  "pi_cwd pending_item_zero = []"
  "pi_expires_in pending_item_zero = 0"
  "pi_step pending_item_zero = []"
  "pi_confirm_of pending_item_zero = []"
  "pi_preview pending_item_zero = None"
  "pi_auth_url pending_item_zero = []"
  "pi_kind pending_item_zero = []"
  "pi_link pending_item_zero = []"
  "pi_summary pending_item_zero = []"
  "pi_question pending_item_zero = []"
  "pi_options pending_item_zero = []"
  "pi_selection pending_item_zero = []"
  "pi_selection_idx pending_item_zero = 0"
  "pi_multi_select pending_item_zero = False"
  "pi_allow_write_in pending_item_zero = False"
  "pi_recommended_index pending_item_zero = 0"
  "pi_acked pending_item_zero = False"
  "pi_ack_by pending_item_zero = []"
  "pi_git pending_item_zero = None"
  "pi_git_drift pending_item_zero = None"
  "pi_fd pending_item_zero = None"
  "pi_fd_drift pending_item_zero = None"
  "pi_seal pending_item_zero = None"
  "pi_seal_drift pending_item_zero = None"
  "pi_suspend pending_item_zero = None"
  by (simp_all add: pending_item_zero_def)

record recent_item =
  ri_id :: string
  ri_argv :: "string list"
  ri_cwd :: string
  ri_as_uid :: uid
  ri_decision :: string
  ri_by :: string
  ri_exit :: int
  ri_output :: string
  ri_step :: string
  ri_confirm_of :: string
  ri_auth_url :: string
  ri_kind :: string
  ri_link :: string
  ri_summary :: string
  ri_question :: string
  ri_options :: "string list"
  ri_selection :: string
  ri_selection_idx :: int
  ri_multi_select :: bool
  ri_allow_write_in :: bool
  ri_recommended_index :: int
  ri_acked :: bool
  ri_ack_by :: string
  ri_git_drift :: "git_drift option"
  ri_fd_drift :: "fd_drift option"
  ri_seal_drift :: "seal_drift option"

definition recent_item_zero :: recent_item where
  "recent_item_zero = \<lparr>
     ri_id = [], ri_argv = [], ri_cwd = [], ri_as_uid = 0, ri_decision = [], ri_by = [],
     ri_exit = 0, ri_output = [], ri_step = [], ri_confirm_of = [], ri_auth_url = [],
     ri_kind = [], ri_link = [], ri_summary = [], ri_question = [], ri_options = [],
     ri_selection = [], ri_selection_idx = 0, ri_multi_select = False,
     ri_allow_write_in = False, ri_recommended_index = 0, ri_acked = False, ri_ack_by = [],
     ri_git_drift = None, ri_fd_drift = None, ri_seal_drift = None\<rparr>"

lemma recent_item_zero_simps [simp]:
  "ri_id recent_item_zero = []"
  "ri_argv recent_item_zero = []"
  "ri_cwd recent_item_zero = []"
  "ri_as_uid recent_item_zero = 0"
  "ri_decision recent_item_zero = []"
  "ri_by recent_item_zero = []"
  "ri_exit recent_item_zero = 0"
  "ri_output recent_item_zero = []"
  "ri_step recent_item_zero = []"
  "ri_confirm_of recent_item_zero = []"
  "ri_auth_url recent_item_zero = []"
  "ri_kind recent_item_zero = []"
  "ri_link recent_item_zero = []"
  "ri_summary recent_item_zero = []"
  "ri_question recent_item_zero = []"
  "ri_options recent_item_zero = []"
  "ri_selection recent_item_zero = []"
  "ri_selection_idx recent_item_zero = 0"
  "ri_multi_select recent_item_zero = False"
  "ri_allow_write_in recent_item_zero = False"
  "ri_recommended_index recent_item_zero = 0"
  "ri_acked recent_item_zero = False"
  "ri_ack_by recent_item_zero = []"
  "ri_git_drift recent_item_zero = None"
  "ri_fd_drift recent_item_zero = None"
  "ri_seal_drift recent_item_zero = None"
  by (simp_all add: recent_item_zero_def)

record audit_query_request =
  au_cursor :: string
  au_limit :: int
  au_ev :: string
  au_id :: string
  au_uid :: uid
  au_since :: int
  au_until :: int

record audit_query_response =
  ap_items :: "audit_event list"
  ap_next_cursor :: string

end
