(* ===== verification/Disk.thy ===== *)
theory Disk imports GoPath ProtocolViews begin

text \<open>
  The part of the file system the daemon writes: the files below its state directory, keyed
  by path. A file is a regular one with parsed contents and a modification time, or a
  symbolic link that was planted there, of which only what reading through it yields
  matters. \<open>encoding/json\<close> is not modelled byte by byte: a file written with
  \<open>json.Marshal\<close> of a record holds that record, and \<open>Junk\<close> is contents that do not parse.

  Writes can fail: \<open>d_io\<close> says, per path, which system call of a write fails. Times are in
  nanoseconds; \<open>now_s\<close> is Go's \<open>Now().Unix()\<close>.
\<close>

section \<open>Files\<close>

record archive_entry =
  ae_name :: string
  ae_data :: string
  ae_size :: int

datatype content =
    JRecord pending_record
  | JVerdict verdict_record
  | JResult string int string
  | JAck ack_record
  | JSelection selection_record
  | JCancel cancel_record
  | Archive "archive_entry list"
  | Raw string
  | Junk

datatype node = Reg content int | Link "content option" int

primrec node_content :: "node \<Rightarrow> content option" where
  "node_content (Reg c m) = Some c"
| "node_content (Link c m) = c"

primrec node_mtime :: "node \<Rightarrow> int" where
  "node_mtime (Reg c m) = m"
| "node_mtime (Link c m) = m"

primrec is_link :: "node \<Rightarrow> bool" where
  "is_link (Reg c m) = False"
| "is_link (Link c m) = True"

datatype io = IoOk | IoOpen | IoWrite | IoSync

text \<open>
  The lines of the audit log. \<open>TornLine\<close> is a last line a failed write left without its
  newline; what is appended next becomes part of it, and the two together do not parse.
\<close>

datatype audit_line = Event audit_event | BadLine | BlankLine | TornLine

record disk =
  d_files :: "(path \<times> node) list"
  d_io :: "path \<Rightarrow> io"
  d_now :: int
  d_audit :: "audit_line list"

definition now_s :: "'a disk_scheme \<Rightarrow> int" where
  "now_s d = d_now d div 10 ^ 9"

definition node_at :: "'a disk_scheme \<Rightarrow> path \<Rightarrow> node option" where
  "node_at d p = map_of (d_files d) p"

definition read_file :: "'a disk_scheme \<Rightarrow> path \<Rightarrow> content option" where
  "read_file d p = Option.bind (node_at d p) node_content"

definition put_file :: "path \<Rightarrow> content \<Rightarrow> 'a disk_scheme \<Rightarrow> 'a disk_scheme" where
  "put_file p c d = d\<lparr>d_files := AList.update p (Reg c (d_now d)) (d_files d)\<rparr>"

definition remove_file :: "path \<Rightarrow> 'a disk_scheme \<Rightarrow> 'a disk_scheme" where
  "remove_file p d = d\<lparr>d_files := AList.delete p (d_files d)\<rparr>"

text \<open>\<open>os.RemoveAll\<close>: the path and everything below it.\<close>

definition below :: "path \<Rightarrow> path \<Rightarrow> bool" where
  "below p q \<longleftrightarrow> q = p \<or> prefix (p @ ''/'') q"

definition remove_all :: "path \<Rightarrow> 'a disk_scheme \<Rightarrow> 'a disk_scheme" where
  "remove_all p d = d\<lparr>d_files := filter (\<lambda>(q, _). \<not> below p q) (d_files d)\<rparr>"

text \<open>
  \<open>os.OpenFile\<close> with \<open>O_TRUNC|O_CREATE|O_NOFOLLOW\<close> and a write, and with \<open>O_CREATE|O_EXCL\<close>:
  the first refuses a symbolic link, the second anything that exists.
\<close>

definition write_no_follow ::
  "path \<Rightarrow> content \<Rightarrow> bool \<Rightarrow> 'a disk_scheme \<Rightarrow> bool \<times> 'a disk_scheme" where
  "write_no_follow p c fsync d =
     (if (case node_at d p of Some n \<Rightarrow> is_link n | None \<Rightarrow> False) then (False, d)
      else case d_io d p of
             IoOpen \<Rightarrow> (False, d)
           | IoWrite \<Rightarrow> (False, put_file p Junk d)
           | IoSync \<Rightarrow> (\<not> fsync, put_file p c d)
           | IoOk \<Rightarrow> (True, put_file p c d))"

definition write_excl :: "path \<Rightarrow> content \<Rightarrow> 'a disk_scheme \<Rightarrow> bool \<times> 'a disk_scheme" where
  "write_excl p c d =
     (if node_at d p \<noteq> None then (False, d)
      else case d_io d p of
             IoOpen \<Rightarrow> (False, d)
           | IoWrite \<Rightarrow> (False, put_file p Junk d)
           | IoSync \<Rightarrow> (False, put_file p c d)
           | IoOk \<Rightarrow> (True, put_file p c d))"

text \<open>\<open>appendNoFollow\<close> of one marshalled event and its newline.\<close>

definition close_torn :: "audit_line list \<Rightarrow> audit_line \<Rightarrow> audit_line list" where
  "close_torn ls l =
     (if ls \<noteq> [] \<and> last ls = TornLine
      then butlast ls @ [if l = TornLine then TornLine else BadLine]
      else ls @ [l])"

definition append_line :: "path \<Rightarrow> audit_event \<Rightarrow> 'a disk_scheme \<Rightarrow> 'a disk_scheme" where
  "append_line p ev d =
     (if (case node_at d p of Some n \<Rightarrow> is_link n | None \<Rightarrow> False) then d
      else case d_io d p of
             IoOpen \<Rightarrow> d
           | IoWrite \<Rightarrow> d\<lparr>d_audit := close_torn (d_audit d) TornLine\<rparr>
           | _ \<Rightarrow> d\<lparr>d_audit := close_torn (d_audit d) (Event ev)\<rparr>)"

text \<open>\<open>os.ReadDir\<close>: the names of the entries of a directory, sorted.\<close>

definition entry_of :: "path \<Rightarrow> path \<Rightarrow> string option" where
  "entry_of dir p =
     (let n = drop (Suc (length dir)) p in
      if prefix (dir @ ''/'') p \<and> n \<noteq> [] \<and> slash \<notin> set n then Some n else None)"

definition read_dir :: "'a disk_scheme \<Rightarrow> path \<Rightarrow> string list" where
  "read_dir d dir = sort (remdups (List.map_filter (\<lambda>(p, _). entry_of dir p) (d_files d)))"

section \<open>Frame facts\<close>

lemma node_at_put: "node_at (put_file p c d) q = (if q = p then Some (Reg c (d_now d)) else node_at d q)"
  by (simp add: node_at_def put_file_def)

lemma node_at_remove: "node_at (remove_file p d) q = (if q = p then None else node_at d q)"
  by (simp add: node_at_def remove_file_def map_of_delete_other)

lemma map_of_filter_key: "map_of (filter (\<lambda>(q, _). P q) xs) k = (if P k then map_of xs k else None)"
  by (induction xs) auto

lemma node_at_remove_all: "node_at (remove_all p d) q = (if below p q then None else node_at d q)"
  by (simp add: node_at_def remove_all_def map_of_filter_key)

lemma read_file_put [store_frame]: "read_file (put_file p c d) q = (if q = p then Some c else read_file d q)"
  by (simp add: read_file_def node_at_put)

lemma put_file_fields [simp, store_frame]:
  "d_io (put_file p c d) = d_io d" "d_now (put_file p c d) = d_now d"
  "d_audit (put_file p c d) = d_audit d" "disk.more (put_file p c d) = disk.more d"
  by (simp_all add: put_file_def)

lemma remove_file_fields [simp, store_frame]:
  "d_io (remove_file p d) = d_io d" "d_now (remove_file p d) = d_now d"
  "d_audit (remove_file p d) = d_audit d" "disk.more (remove_file p d) = disk.more d"
  by (simp_all add: remove_file_def)

lemma remove_all_fields [simp, store_frame]:
  "d_io (remove_all p d) = d_io d" "d_now (remove_all p d) = d_now d"
  "d_audit (remove_all p d) = d_audit d" "disk.more (remove_all p d) = disk.more d"
  by (simp_all add: remove_all_def)

text \<open>What the two kinds of write can do.\<close>

lemma write_no_follow_cases:
  "write_no_follow p c fsync d = (ok, d') \<Longrightarrow>
    (d' = d \<and> \<not> ok) \<or> (d' = put_file p Junk d \<and> \<not> ok) \<or> d' = put_file p c d"
  by (auto simp: write_no_follow_def split: if_splits io.splits)

lemma write_no_follow_ok:
  "write_no_follow p c fsync d = (True, d') \<Longrightarrow> d' = put_file p c d"
  by (auto simp: write_no_follow_def split: if_splits io.splits)

lemma write_excl_cases:
  "write_excl p c d = (ok, d') \<Longrightarrow>
    (d' = d \<and> \<not> ok) \<or> (node_at d p = None \<and> (d' = put_file p Junk d \<and> \<not> ok \<or> d' = put_file p c d))"
  by (auto simp: write_excl_def split: if_splits io.splits)

lemma write_excl_ok: "write_excl p c d = (True, d') \<Longrightarrow> d' = put_file p c d \<and> node_at d p = None"
  by (auto simp: write_excl_def split: if_splits io.splits)

lemma write_excl_taken: "node_at d p \<noteq> None \<Longrightarrow> write_excl p c d = (False, d)"
  by (simp add: write_excl_def)

lemma write_no_follow_read [store_frame]:
  "q \<noteq> p \<Longrightarrow> read_file (snd (write_no_follow p c fsync d)) q = read_file d q"
  by (simp add: write_no_follow_def read_file_put split: io.splits)

lemma write_excl_read [store_frame]:
  "q \<noteq> p \<Longrightarrow> read_file (snd (write_excl p c d)) q = read_file d q"
  by (simp add: write_excl_def read_file_put split: io.splits)

lemma write_fields [simp, store_frame]:
  "d_io (snd (write_no_follow p c fsync d)) = d_io d"
  "d_now (snd (write_no_follow p c fsync d)) = d_now d"
  "d_audit (snd (write_no_follow p c fsync d)) = d_audit d"
  "disk.more (snd (write_no_follow p c fsync d)) = disk.more d"
  "d_io (snd (write_excl p c d)) = d_io d"
  "d_now (snd (write_excl p c d)) = d_now d"
  "d_audit (snd (write_excl p c d)) = d_audit d"
  "disk.more (snd (write_excl p c d)) = disk.more d"
  by (simp_all add: write_no_follow_def write_excl_def split: io.splits)

lemma append_line_fields [simp, store_frame]:
  "d_files (append_line p ev d) = d_files d" "d_io (append_line p ev d) = d_io d"
  "d_now (append_line p ev d) = d_now d" "disk.more (append_line p ev d) = disk.more d"
  by (simp_all add: append_line_def split: option.splits io.splits)

text \<open>The events on record are never rewritten.\<close>

definition audit_trail :: "audit_line list \<Rightarrow> audit_event list" where
  "audit_trail ls = List.map_filter (\<lambda>l. case l of Event ev \<Rightarrow> Some ev | _ \<Rightarrow> None) ls"

lemma audit_trail_simps [simp]:
  "audit_trail [] = []" "audit_trail (xs @ ys) = audit_trail xs @ audit_trail ys"
  "audit_trail (l # ls) = (case l of Event ev \<Rightarrow> [ev] | _ \<Rightarrow> []) @ audit_trail ls"
  by (simp_all add: audit_trail_def map_filter_append List.map_filter_simps split: audit_line.splits)

lemma audit_trail_close_torn:
  "audit_trail (close_torn ls l) =
    audit_trail ls @ (if ls \<noteq> [] \<and> last ls = TornLine then [] else audit_trail [l])"
proof (cases "ls \<noteq> [] \<and> last ls = TornLine")
  case True
  then have "audit_trail ls = audit_trail (butlast ls @ [TornLine])" by (metis append_butlast_last_id)
  then show ?thesis using True by (simp add: close_torn_def)
qed (auto simp: close_torn_def)

lemma append_line_audit: "prefix (audit_trail (d_audit d)) (audit_trail (d_audit (append_line p ev d)))"
  by (simp add: append_line_def audit_trail_close_torn split: option.splits io.splits)

lemma node_at_append [simp]: "node_at (append_line p ev d) q = node_at d q"
  by (simp add: node_at_def)

lemma read_file_append [simp, store_frame]: "read_file (append_line p ev d) q = read_file d q"
  by (simp add: read_file_def)

section \<open>Directory listings\<close>

lemma entry_of_Some_iff:
  "entry_of dir p = Some n \<longleftrightarrow> p = dir @ slash # n \<and> n \<noteq> [] \<and> slash \<notin> set n"
  by (auto simp: entry_of_def Let_def prefix_def split: if_splits)

lemma read_dir_set:
  "n \<in> set (read_dir d dir) \<longleftrightarrow> n \<noteq> [] \<and> slash \<notin> set n \<and> node_at d (dir @ slash # n) \<noteq> None"
proof -
  have "n \<in> set (read_dir d dir) \<longleftrightarrow> (\<exists>p. p \<in> fst ` set (d_files d) \<and> entry_of dir p = Some n)"
    by (auto simp: read_dir_def map_filter_set Bex_def image_iff)
  also have "\<dots> \<longleftrightarrow> dir @ slash # n \<in> fst ` set (d_files d) \<and> n \<noteq> [] \<and> slash \<notin> set n"
    by (auto simp: entry_of_Some_iff image_iff Bex_def)
  also have "dir @ slash # n \<in> fst ` set (d_files d) \<longleftrightarrow> node_at d (dir @ slash # n) \<noteq> None"
    by (simp add: node_at_def map_of_eq_None_iff)
  finally show ?thesis by blast
qed

lemma read_dir_distinct: "distinct (read_dir d dir)" and read_dir_sorted: "sorted (read_dir d dir)"
  by (simp_all add: read_dir_def)

end
