(* ===== verification/Store.thy ===== *)
theory Store imports Disk begin

text \<open>
  \<open>internal/store\<close>: the files of a petition, one per kind, below the state directory. A
  record is written with \<open>O_TRUNC\<close>, a verdict, an acknowledgement, a selection and a
  cancellation with \<open>O_EXCL\<close>, so the first one stays. Every operation that can fail returns
  the flag the Go code returns next to the new disk.

  \<open>sort.Slice\<close> leaves the order of equal elements open; \<open>store_recent\<close> takes the stable one.
\<close>

section \<open>The files of a petition\<close>

record store =
  s_dir :: path
  s_pending :: path
  s_audit :: path
  s_offset :: path

definition store_new :: "path \<Rightarrow> store" where
  "store_new dir = \<lparr>s_dir = dir, s_pending = filepath_join [dir, ''pending''],
     s_audit = filepath_join [dir, ''audit.log''], s_offset = filepath_join [dir, ''tg_offset'']\<rparr>"

datatype kind = KJson | KVerdict | KResult | KAck | KSelection | KCancel

primrec suf :: "kind \<Rightarrow> string" where
  "suf KJson = ''.json''"
| "suf KVerdict = ''.verdict''"
| "suf KResult = ''.result''"
| "suf KAck = ''.ack''"
| "suf KSelection = ''.selection''"
| "suf KCancel = ''.cancel''"

definition all_kinds :: "kind list" where
  "all_kinds = [KJson, KVerdict, KResult, KAck, KSelection, KCancel]"

definition kpath :: "store \<Rightarrow> string \<Rightarrow> kind \<Rightarrow> path" where
  "kpath s rid k = filepath_join [s_pending s, rid @ suf k]"

section \<open>Petition records\<close>

definition store_save ::
  "store \<Rightarrow> pending_record \<Rightarrow> string \<Rightarrow> 'a disk_scheme \<Rightarrow> bool \<times> 'a disk_scheme" where
  "store_save s rec rid d = write_no_follow (kpath s rid KJson) (JRecord rec) False d"

definition store_load :: "store \<Rightarrow> string \<Rightarrow> 'a disk_scheme \<Rightarrow> pending_record option" where
  "store_load s rid d =
     (case read_file d (kpath s rid KJson) of Some (JRecord r) \<Rightarrow> Some r | _ \<Rightarrow> None)"

text \<open>The code's read, change and write of a record, with the write's error dropped.\<close>

definition store_modify ::
  "store \<Rightarrow> string \<Rightarrow> (pending_record \<Rightarrow> pending_record) \<Rightarrow> 'a disk_scheme \<Rightarrow> 'a disk_scheme" where
  "store_modify s rid f d =
     (case store_load s rid d of
        None \<Rightarrow> d
      | Some rec \<Rightarrow> snd (store_save s (f rec) rid d))"

definition attach_pager :: "store \<Rightarrow> string \<Rightarrow> string \<Rightarrow> int \<Rightarrow> 'a disk_scheme \<Rightarrow> 'a disk_scheme" where
  "attach_pager s rid chat msg =
     store_modify s rid (\<lambda>rec. rec\<lparr>pr_chat_id := chat, pr_msg_id := msg\<rparr>)"

definition set_auth_url :: "store \<Rightarrow> string \<Rightarrow> string \<Rightarrow> 'a disk_scheme \<Rightarrow> 'a disk_scheme" where
  "set_auth_url s rid url d =
     (if url = [] then d
      else case store_load s rid d of
             None \<Rightarrow> d
           | Some rec \<Rightarrow>
               if pr_auth_url rec \<noteq> [] then d
               else snd (store_save s (rec\<lparr>pr_auth_url := url\<rparr>) rid d))"

definition set_page_list ::
  "store \<Rightarrow> string \<Rightarrow> string \<Rightarrow> string list \<Rightarrow> 'a disk_scheme \<Rightarrow> 'a disk_scheme" where
  "set_page_list s rid title lines =
     store_modify s rid (\<lambda>rec. rec\<lparr>pr_summary := title, pr_page_lines := lines\<rparr>)"

section \<open>Records written once\<close>

definition store_consume ::
  "store \<Rightarrow> string \<Rightarrow> string \<Rightarrow> string \<Rightarrow> 'a disk_scheme \<Rightarrow> bool \<times> 'a disk_scheme" where
  "store_consume s rid decision by d =
     write_excl (kpath s rid KVerdict)
       (JVerdict \<lparr>vd_decision = decision, vd_by = by, vd_unix_nano = d_now d\<rparr>) d"

definition store_verdict :: "store \<Rightarrow> string \<Rightarrow> 'a disk_scheme \<Rightarrow> verdict_record option" where
  "store_verdict s rid d =
     (case read_file d (kpath s rid KVerdict) of Some (JVerdict v) \<Rightarrow> Some v | _ \<Rightarrow> None)"

definition store_ack :: "store \<Rightarrow> string \<Rightarrow> string \<Rightarrow> 'a disk_scheme \<Rightarrow> bool \<times> 'a disk_scheme" where
  "store_ack s rid by d =
     (case store_load s rid d of
        None \<Rightarrow> (False, d)
      | Some rec \<Rightarrow>
          if pr_kind rec \<noteq> ''notify'' then (False, d)
          else write_excl (kpath s rid KAck) (JAck \<lparr>ak_by = by, ak_unix_nano = d_now d\<rparr>) d)"

definition store_ack_info :: "store \<Rightarrow> string \<Rightarrow> 'a disk_scheme \<Rightarrow> ack_record option" where
  "store_ack_info s rid d =
     (case read_file d (kpath s rid KAck) of Some (JAck a) \<Rightarrow> Some a | _ \<Rightarrow> None)"

definition select_record ::
  "store \<Rightarrow> string \<Rightarrow> string \<Rightarrow> int \<Rightarrow> int list \<Rightarrow> string \<Rightarrow> 'a disk_scheme \<Rightarrow> bool \<times> 'a disk_scheme" where
  "select_record s rid selection idx idxs by d =
     (case store_load s rid d of
        None \<Rightarrow> (False, d)
      | Some rec \<Rightarrow>
          if pr_kind rec \<noteq> ''ask'' then (False, d)
          else write_excl (kpath s rid KSelection)
                 (JSelection \<lparr>sl_selection = selection, sl_selection_idx = idx, sl_selection_idxs = idxs,
                    sl_by = by, sl_unix_nano = d_now d\<rparr>) d)"

definition store_select ::
  "store \<Rightarrow> string \<Rightarrow> string \<Rightarrow> int \<Rightarrow> string \<Rightarrow> 'a disk_scheme \<Rightarrow> bool \<times> 'a disk_scheme" where
  "store_select s rid selection idx by = select_record s rid selection idx [] by"

definition store_select_many ::
  "store \<Rightarrow> string \<Rightarrow> string \<Rightarrow> int list \<Rightarrow> string \<Rightarrow> 'a disk_scheme \<Rightarrow> bool \<times> 'a disk_scheme" where
  "store_select_many s rid selection idxs by = select_record s rid selection 0 idxs by"

definition set_selected_idxs ::
  "store \<Rightarrow> string \<Rightarrow> int list \<Rightarrow> 'a disk_scheme \<Rightarrow> bool \<times> 'a disk_scheme" where
  "set_selected_idxs s rid idxs d =
     (case store_load s rid d of
        None \<Rightarrow> (False, d)
      | Some rec \<Rightarrow>
          if pr_kind rec \<noteq> ''ask'' \<or> \<not> pr_multi_select rec then (False, d)
          else store_save s (rec\<lparr>pr_selected_idxs := idxs\<rparr>) rid d)"

definition store_selection_info :: "store \<Rightarrow> string \<Rightarrow> 'a disk_scheme \<Rightarrow> selection_record option" where
  "store_selection_info s rid d =
     (case read_file d (kpath s rid KSelection) of Some (JSelection x) \<Rightarrow> Some x | _ \<Rightarrow> None)"

definition store_cancel ::
  "store \<Rightarrow> string \<Rightarrow> string \<Rightarrow> string \<Rightarrow> 'a disk_scheme \<Rightarrow> bool \<times> 'a disk_scheme" where
  "store_cancel s rid by reason d =
     (if store_load s rid d = None then (False, d)
      else write_excl (kpath s rid KCancel)
             (JCancel \<lparr>cn_by = by, cn_reason = reason, cn_unix_nano = d_now d\<rparr>) d)"

definition store_cancel_info :: "store \<Rightarrow> string \<Rightarrow> 'a disk_scheme \<Rightarrow> cancel_record option" where
  "store_cancel_info s rid d =
     (case read_file d (kpath s rid KCancel) of Some (JCancel c) \<Rightarrow> Some c | _ \<Rightarrow> None)"

section \<open>Results\<close>

definition truncated_mark :: string where
  "truncated_mark = [CHR 0x0A, CHR 0xE2, CHR 0x80, CHR 0xA6] @ ''[truncated]''"

text \<open>
  The output goes into a JSON file and is read back from it, so what counts is its JSON text: the
  cut can fall into a code point, and a command may print any bytes. The other texts the store is
  given have come out of JSON themselves.
\<close>

definition save_result :: "store \<Rightarrow> string \<Rightarrow> int \<Rightarrow> string \<Rightarrow> 'a disk_scheme \<Rightarrow> 'a disk_scheme" where
  "save_result s rid ex out d =
     snd (write_no_follow (kpath s rid KResult)
       (JResult rid ex (json_text (if 8192 < length out then take 8192 out @ truncated_mark else out))) True d)"

text \<open>The result file as \<open>Status\<close> reads it: absent, or its exit status and output.\<close>

definition read_result :: "store \<Rightarrow> string \<Rightarrow> 'a disk_scheme \<Rightarrow> (int \<times> string) option" where
  "read_result s rid d =
     (case read_file d (kpath s rid KResult) of
        None \<Rightarrow> None
      | Some (JResult i ex out) \<Rightarrow> Some (ex, out)
      | Some _ \<Rightarrow> Some (-1, []))"

definition load_result :: "store \<Rightarrow> string \<Rightarrow> 'a disk_scheme \<Rightarrow> int \<times> string" where
  "load_result s rid d = some_or (read_result s rid d) (-1, [])"

section \<open>Removal\<close>

definition store_purge :: "store \<Rightarrow> string \<Rightarrow> 'a disk_scheme \<Rightarrow> 'a disk_scheme" where
  "store_purge s rid d =
     remove_all (filepath_join [s_dir s, ''sealed'', rid @ ''.d''])
       (remove_file (filepath_join [s_dir s, ''sealed'', rid @ ''.tar.gz''])
         (foldl (\<lambda>d k. remove_file (kpath s rid k) d) d
           all_kinds))"

text \<open>The request id a directory entry belongs to.\<close>

definition cut_ext :: "string \<Rightarrow> string" where
  "cut_ext name = (case last_index_of CHR ''.'' name of None \<Rightarrow> [] | Some i \<Rightarrow> take i name)"

definition rid_of_name :: "string \<Rightarrow> string option" where
  "rid_of_name name =
     (if has_suffix name ''.json'' then Some (trim_suffix name ''.json'')
      else if has_suffix name ''.verdict'' \<or> has_suffix name ''.result'' \<or> has_suffix name ''.ack''
              \<or> has_suffix name ''.selection'' \<or> has_suffix name ''.cancel''
      then Some (cut_ext name)
      else None)"

text \<open>\<open>os.Stat\<close> follows a link; \<open>Time.Sub\<close> saturates.\<close>

definition stat_mtime :: "'a disk_scheme \<Rightarrow> path \<Rightarrow> int option" where
  "stat_mtime d p =
     (case node_at d p of Some (Link None m) \<Rightarrow> None | n \<Rightarrow> map_option node_mtime n)"

definition time_sub :: "int \<Rightarrow> int \<Rightarrow> int" where
  "time_sub a b = max (- (2 ^ 63)) (min (2 ^ 63 - 1) (a - b))"

definition is_live :: "store \<Rightarrow> string \<Rightarrow> int \<Rightarrow> 'a disk_scheme \<Rightarrow> bool" where
  "is_live s rid now d \<longleftrightarrow>
     (case store_load s rid d of
        None \<Rightarrow> False
      | Some rec \<Rightarrow> store_verdict s rid d = None \<and> store_ack_info s rid d = None
          \<and> store_selection_info s rid d = None \<and> store_cancel_info s rid d = None \<and> pr_expires rec > now)"

definition oldest_mtime :: "store \<Rightarrow> string \<Rightarrow> 'a disk_scheme \<Rightarrow> int" where
  "oldest_mtime s rid d =
     foldl (\<lambda>oldest k. case stat_mtime d (kpath s rid k) of
                         Some m \<Rightarrow> if m < oldest then m else oldest
                       | None \<Rightarrow> oldest) (d_now d) all_kinds"

fun prune_loop ::
  "store \<Rightarrow> int \<Rightarrow> string list \<Rightarrow> string list \<Rightarrow> int \<Rightarrow> 'a disk_scheme \<Rightarrow> int \<times> 'a disk_scheme" where
  "prune_loop s older [] seen purged d = (purged, d)"
| "prune_loop s older (name # names) seen purged d =
     (case rid_of_name name of
        None \<Rightarrow> prune_loop s older names seen purged d
      | Some rid \<Rightarrow>
          if rid \<in> set seen then prune_loop s older names seen purged d
          else if is_live s rid (now_s d) d then prune_loop s older names (rid # seen) purged d
          else if time_sub (d_now d) (oldest_mtime s rid d) > older
          then prune_loop s older names (rid # seen) (purged + 1) (store_purge s rid d)
          else prune_loop s older names (rid # seen) purged d)"

definition store_prune :: "store \<Rightarrow> int \<Rightarrow> 'a disk_scheme \<Rightarrow> int \<times> 'a disk_scheme" where
  "store_prune s older d = prune_loop s older (read_dir d (s_pending s)) [] 0 d"

section \<open>Queries\<close>

definition json_rids :: "store \<Rightarrow> 'a disk_scheme \<Rightarrow> string list" where
  "json_rids s d =
     map (\<lambda>n. trim_suffix n ''.json'') (filter (\<lambda>n. has_suffix n ''.json'') (read_dir d (s_pending s)))"

fun find_confirm_in :: "store \<Rightarrow> string \<Rightarrow> string list \<Rightarrow> 'a disk_scheme \<Rightarrow> (string \<times> pending_record) option" where
  "find_confirm_in s parent [] d = None"
| "find_confirm_in s parent (r # rs) d =
     (case store_load s r d of
        None \<Rightarrow> find_confirm_in s parent rs d
      | Some rec \<Rightarrow> if pr_confirm_of rec = parent then Some (r, rec) else find_confirm_in s parent rs d)"

definition find_confirmation :: "store \<Rightarrow> string \<Rightarrow> 'a disk_scheme \<Rightarrow> (string \<times> pending_record) option" where
  "find_confirmation s parent d = find_confirm_in s parent (json_rids s d) d"

definition step_of :: "pending_record \<Rightarrow> string" where
  "step_of rec = (if pr_step rec = [] then ''initial'' else pr_step rec)"

definition pending_item_of :: "string \<Rightarrow> pending_record \<Rightarrow> int \<Rightarrow> pending_item" where
  "pending_item_of rid rec now = pending_item_zero\<lparr>
     pi_id := rid, pi_argv := pr_argv rec, pi_uid := pr_uid rec, pi_as_uid := pr_as_uid rec,
     pi_cwd := pr_cwd rec, pi_expires_in := pr_expires rec - now, pi_step := step_of rec,
     pi_confirm_of := pr_confirm_of rec, pi_preview := pr_preview rec, pi_auth_url := pr_auth_url rec,
     pi_kind := pr_kind rec, pi_link := pr_link rec, pi_summary := pr_summary rec,
     pi_question := pr_question rec, pi_options := pr_options rec, pi_selection := pr_selection rec,
     pi_selection_idx := pr_selection_idx rec, pi_multi_select := pr_multi_select rec,
     pi_allow_write_in := pr_allow_write_in rec, pi_recommended_index := pr_recommended_index rec\<rparr>"

definition list_item :: "store \<Rightarrow> int \<Rightarrow> 'a disk_scheme \<Rightarrow> string \<Rightarrow> pending_item option" where
  "list_item s now d rid =
     (if store_verdict s rid d \<noteq> None then None
      else if store_ack_info s rid d \<noteq> None then None
      else if store_selection_info s rid d \<noteq> None then None
      else if store_cancel_info s rid d \<noteq> None then None
      else case store_load s rid d of
             None \<Rightarrow> None
           | Some rec \<Rightarrow> if pr_expires rec \<le> now then None else Some (pending_item_of rid rec now))"

definition store_list :: "store \<Rightarrow> int \<Rightarrow> 'a disk_scheme \<Rightarrow> pending_item list" where
  "store_list s now d = List.map_filter (list_item s now d) (json_rids s d)"

section \<open>The Telegram offset\<close>

definition parse_offset :: "string \<Rightarrow> int" where
  "parse_offset b =
     (if list_all is_digit b then foldl (\<lambda>n ch. i64 (i64 (n * 10) + int (digit_val ch))) 0 b else 0)"

definition get_offset :: "store \<Rightarrow> 'a disk_scheme \<Rightarrow> int" where
  "get_offset s d = (case read_file d (s_offset s) of Some (Raw b) \<Rightarrow> parse_offset b | _ \<Rightarrow> 0)"

text \<open>The loop of the store's own \<open>itoa\<close>: a negative number has no digits.\<close>

function itoa_digits :: "int \<Rightarrow> string \<Rightarrow> string" where
  "itoa_digits n b = (if n > 0 then itoa_digits (n div 10) (digit_char (nat (n mod 10)) # b) else b)"
  by pat_completeness auto
termination by (relation "measure (\<lambda>(n, b). nat n)") auto

declare itoa_digits.simps [simp del]

definition store_itoa :: "int \<Rightarrow> string" where
  "store_itoa n = (if n = 0 then ''0'' else itoa_digits n [])"

definition set_offset :: "store \<Rightarrow> int \<Rightarrow> 'a disk_scheme \<Rightarrow> 'a disk_scheme" where
  "set_offset s n d = snd (write_no_follow (s_offset s) (Raw (store_itoa n)) True d)"

section \<open>Paths of different kinds and petitions\<close>

lemma file_suffix_suf: "file_suffix (suf k)"
  by (cases k) (simp_all add: file_suffix_def)

lemma suf_apart: "suffix (suf k) p \<Longrightarrow> suffix (suf k') p \<Longrightarrow> k = k'"
  using suffix_same_cases [of "suf k" p "suf k'"]
  by (cases k; cases k') (simp_all add: suffix_to_prefix)

lemma kpath_suffix: "suffix (suf k) (kpath s rid k)"
  unfolding kpath_def by (rule filepath_join_suffix [OF file_suffix_suf])

lemma kpath_kind: "kpath s a k = kpath s' b k' \<Longrightarrow> k = k'"
  by (metis kpath_suffix suf_apart)

lemma kpath_other_kind [simp]: "k \<noteq> k' \<Longrightarrow> kpath s a k \<noteq> kpath s' b k'"
  using kpath_kind by blast

lemma good_name_suf: "slash \<notin> set rid \<Longrightarrow> good_name (rid @ suf k)"
proof -
  assume r: "slash \<notin> set rid"
  have "2 < length (rid @ suf k)" using file_suffix_suf [of k] by (simp add: file_suffix_def)
  moreover have "slash \<notin> set (rid @ suf k)" using r file_suffix_suf [of k] by (simp add: file_suffix_def)
  ultimately show ?thesis by (auto simp: good_name_def simp del: length_append append_eq_Cons_conv)
qed

lemma kpath_good:
  "state_dir_ok (s_pending s) \<Longrightarrow> slash \<notin> set rid \<Longrightarrow> kpath s rid k = s_pending s @ slash # rid @ suf k"
  by (simp add: kpath_def filepath_join_good good_name_suf)

lemma kpath_inj:
  assumes "state_dir_ok (s_pending s)" and "slash \<notin> set a" and "slash \<notin> set b"
  shows "kpath s a k = kpath s b k' \<longleftrightarrow> a = b \<and> k = k'"
  using assms kpath_kind [of s a k s b k'] by (auto simp: kpath_good)

lemma pending_dir_ok: "state_dir_ok dir \<Longrightarrow> state_dir_ok (s_pending (store_new dir))"
  by (simp add: store_new_def state_dir_ok_join good_name_def)

lemma offset_not_kpath: "kpath s rid k \<noteq> s_offset (store_new dir)"
proof
  assume eq: "kpath s rid k = s_offset (store_new dir)"
  have "suffix (suf k) (s_offset (store_new dir))" using kpath_suffix [of k s rid] eq by simp
  moreover have "suffix ''tg_offset'' (s_offset (store_new dir))"
    using filepath_join_suffix [of "''tg_offset''" dir "[]"]
    by (simp add: store_new_def file_suffix_def)
  ultimately show False
    using suffix_same_cases [of "suf k" _ "''tg_offset''"] by (cases k) (auto simp: suffix_to_prefix)
qed

section \<open>Which operation writes which kind of file\<close>

lemma store_save_read [store_frame]:
  "k \<noteq> KJson \<Longrightarrow> read_file (snd (store_save s rec r d)) (kpath s rid k) = read_file d (kpath s rid k)"
  by (simp add: store_save_def write_no_follow_read)

lemma store_modify_read [store_frame]:
  "k \<noteq> KJson \<Longrightarrow> read_file (store_modify s r f d) (kpath s rid k) = read_file d (kpath s rid k)"
  by (simp add: store_modify_def store_save_read split: option.splits)

lemma set_auth_url_read [store_frame]:
  "k \<noteq> KJson \<Longrightarrow> read_file (set_auth_url s r u d) (kpath s rid k) = read_file d (kpath s rid k)"
  by (simp add: set_auth_url_def store_save_read split: option.splits)

lemma set_selected_idxs_read [store_frame]:
  "k \<noteq> KJson \<Longrightarrow> read_file (snd (set_selected_idxs s r xs d)) (kpath s rid k) = read_file d (kpath s rid k)"
  by (simp add: set_selected_idxs_def store_save_read split: option.splits)

lemma save_result_read [store_frame]:
  "k \<noteq> KResult \<Longrightarrow> read_file (save_result s r ex out d) (kpath s rid k) = read_file d (kpath s rid k)"
  by (simp add: save_result_def write_no_follow_read)

lemma store_consume_read [store_frame]:
  "k \<noteq> KVerdict \<Longrightarrow> read_file (snd (store_consume s r v by d)) (kpath s rid k) = read_file d (kpath s rid k)"
  by (simp add: store_consume_def write_excl_read)

lemma store_ack_read [store_frame]:
  "k \<noteq> KAck \<Longrightarrow> read_file (snd (store_ack s r by d)) (kpath s rid k) = read_file d (kpath s rid k)"
  by (simp add: store_ack_def write_excl_read split: option.splits)

lemma select_record_read [store_frame]:
  "k \<noteq> KSelection \<Longrightarrow> read_file (snd (select_record s r x i xs by d)) (kpath s rid k) = read_file d (kpath s rid k)"
  by (simp add: select_record_def write_excl_read split: option.splits)

lemma store_cancel_read [store_frame]:
  "k \<noteq> KCancel \<Longrightarrow> read_file (snd (store_cancel s r by why d)) (kpath s rid k) = read_file d (kpath s rid k)"
  by (simp add: store_cancel_def write_excl_read)

lemma set_offset_read [store_frame]:
  "read_file (set_offset (store_new dir) n d) (kpath s rid k) = read_file d (kpath s rid k)"
  by (simp add: set_offset_def write_no_follow_read offset_not_kpath)

lemma write_excl_keeps: "read_file d q = Some c \<Longrightarrow> read_file (snd (write_excl p c' d)) q = Some c"
proof (cases "q = p")
  case True
  assume "read_file d q = Some c"
  then have "node_at d p \<noteq> None" using True by (auto simp: read_file_def bind_eq_Some_conv)
  then show ?thesis using \<open>read_file d q = Some c\<close> by (simp add: write_excl_taken)
qed (simp add: write_excl_read)

section \<open>Write-once records\<close>

text \<open>Attempts to write, one after the other, each with its outcome.\<close>

fun attempts :: "('r \<Rightarrow> 'd \<Rightarrow> bool \<times> 'd) \<Rightarrow> 'r list \<Rightarrow> 'd \<Rightarrow> bool list \<times> 'd" where
  "attempts put [] d = ([], d)"
| "attempts put (x # xs) d =
     (case put x d of (ok, d1) \<Rightarrow> case attempts put xs d1 of (oks, d2) \<Rightarrow> (ok # oks, d2))"

locale once_record =
  fixes put :: "'r \<Rightarrow> 'd \<Rightarrow> bool \<times> 'd"
    and obs :: "'d \<Rightarrow> 'r option"
  assumes put_done: "put x d = (True, d') \<Longrightarrow> obs d' = Some x"
    and put_taken: "obs d \<noteq> None \<Longrightarrow> put x d = (False, d)"
begin

lemma attempts_taken:
  "obs d \<noteq> None \<Longrightarrow> attempts put xs d = (replicate (length xs) False, d)"
  by (induction xs) (simp_all add: put_taken)

lemma winners:
  "case map snd (filter fst (zip (fst (attempts put xs d)) xs)) of
     [] \<Rightarrow> True
   | [w] \<Rightarrow> obs (snd (attempts put xs d)) = Some w
   | _ \<Rightarrow> False"
proof (induction xs arbitrary: d)
  case (Cons x xs)
  obtain ok d1 where p: "put x d = (ok, d1)" by fastforce
  show ?case
  proof (cases ok)
    case True
    then have "obs d1 = Some x" using p put_done by simp
    moreover have "filter fst (zip (replicate (length xs) False) xs) = []"
      by (induction xs) simp_all
    ultimately show ?thesis using p True by (simp add: attempts_taken)
  next
    case False
    obtain oks d2 where a: "attempts put xs d1 = (oks, d2)" by fastforce
    have e: "attempts put (x # xs) d = (False # oks, d2)" using p False a by simp
    show ?thesis using Cons.IH [of d1] unfolding e a fst_conv snd_conv by simp
  qed
qed simp

lemma first_wins:
  assumes "put x d = (True, d1)"
  shows "attempts put ys d1 = (replicate (length ys) False, d1)"
  using assms put_done by (simp add: attempts_taken)

end

lemma excl_ok_read: "write_excl p c d = (True, d') \<Longrightarrow> read_file d' p = Some c"
  by (auto simp: read_file_put dest!: write_excl_ok)

lemma excl_read_taken: "read_file d p \<noteq> None \<Longrightarrow> write_excl p c d = (False, d)"
  by (auto simp: write_excl_def read_file_def bind_eq_Some_conv)

definition verdict_view :: "store \<Rightarrow> string \<Rightarrow> 'a disk_scheme \<Rightarrow> (string \<times> string) option" where
  "verdict_view s rid d = map_option (\<lambda>v. (vd_decision v, vd_by v)) (store_verdict s rid d)"

interpretation verdict_once: once_record
  "\<lambda>(decision, by) d. store_consume s rid decision by d" "verdict_view s rid"
  by unfold_locales
    (auto simp: store_consume_def verdict_view_def store_verdict_def excl_read_taken
      dest!: excl_ok_read split: option.splits content.splits)

interpretation ack_once: once_record
  "\<lambda>by d. store_ack s rid by d" "\<lambda>d. map_option ak_by (store_ack_info s rid d)"
  by unfold_locales
    (auto simp: store_ack_def store_ack_info_def excl_read_taken
      dest!: excl_ok_read split: option.splits content.splits if_splits)

interpretation cancel_once: once_record
  "\<lambda>(by, why) d. store_cancel s rid by why d"
  "\<lambda>d. map_option (\<lambda>c. (cn_by c, cn_reason c)) (store_cancel_info s rid d)"
  by unfold_locales
    (auto simp: store_cancel_def store_cancel_info_def excl_read_taken
      dest!: excl_ok_read split: option.splits content.splits if_splits)

interpretation selection_once: once_record
  "\<lambda>(x, i, xs, by) d. select_record s rid x i xs by d"
  "\<lambda>d. map_option (\<lambda>r. (sl_selection r, sl_selection_idx r, sl_selection_idxs r, sl_by r))
         (store_selection_info s rid d)"
  by unfold_locales
    (auto simp: select_record_def store_selection_info_def excl_read_taken
      dest!: excl_ok_read split: option.splits content.splits if_splits)

end
