(* ===== verification/StoreLife.thy ===== *)
theory StoreLife imports Store begin

text \<open>
  The life of a petition's files: the step relation over all store operations with time and
  I/O conditions changing in between, what stays put along any run of it, and what pruning
  may take away.
\<close>

section \<open>Steps of the store\<close>

inductive store_step :: "path \<Rightarrow> 'a disk_scheme \<Rightarrow> 'a disk_scheme \<Rightarrow> bool" for dir :: path where
  step_save: "store_step dir d (snd (store_save (store_new dir) rec rid d))"
| step_attach: "store_step dir d (attach_pager (store_new dir) rid chat msg d)"
| step_url: "store_step dir d (set_auth_url (store_new dir) rid url d)"
| step_page: "store_step dir d (set_page_list (store_new dir) rid title lines d)"
| step_toggle: "store_step dir d (snd (set_selected_idxs (store_new dir) rid xs d))"
| step_consume: "store_step dir d (snd (store_consume (store_new dir) rid v by d))"
| step_ack: "store_step dir d (snd (store_ack (store_new dir) rid by d))"
| step_select: "store_step dir d (snd (store_select (store_new dir) rid x i by d))"
| step_select_many: "store_step dir d (snd (store_select_many (store_new dir) rid x xs by d))"
| step_cancel: "store_step dir d (snd (store_cancel (store_new dir) rid by why d))"
| step_result: "store_step dir d (save_result (store_new dir) rid ex out d)"
| step_offset: "store_step dir d (set_offset (store_new dir) n d)"
| step_audit: "store_step dir d (append_line (s_audit (store_new dir)) ev d)"
| step_time: "store_step dir d (d\<lparr>d_now := t, d_io := io\<rparr>)"

text \<open>The four files that are written once.\<close>

definition once_kind :: "kind \<Rightarrow> bool" where
  "once_kind k \<longleftrightarrow> k = KVerdict \<or> k = KAck \<or> k = KSelection \<or> k = KCancel"

lemma read_file_env [simp]: "read_file (d\<lparr>d_now := t, d_io := io\<rparr>) p = read_file d p"
  by (simp add: read_file_def node_at_def)

lemma excl_keeps_kind:
  "read_file d (kpath s rid k) = Some c \<Longrightarrow>
    read_file (snd (store_consume s' r v by d)) (kpath s rid k) = Some c"
  "read_file d (kpath s rid k) = Some c \<Longrightarrow>
    read_file (snd (store_ack s' r by d)) (kpath s rid k) = Some c"
  "read_file d (kpath s rid k) = Some c \<Longrightarrow>
    read_file (snd (select_record s' r x i xs by d)) (kpath s rid k) = Some c"
  "read_file d (kpath s rid k) = Some c \<Longrightarrow>
    read_file (snd (store_cancel s' r by why d)) (kpath s rid k) = Some c"
  by (simp_all add: store_consume_def store_ack_def select_record_def store_cancel_def
      write_excl_keeps split: option.splits)

lemma step_once:
  assumes "store_step dir d d'" and "once_kind k"
    and "read_file d (kpath (store_new dir) rid k) = Some c"
  shows "read_file d' (kpath (store_new dir) rid k) = Some c"
  using assms(1)
proof cases
  case step_offset
  then show ?thesis using assms(3) by (simp add: set_offset_read)
qed (use assms(2,3) in \<open>auto simp: once_kind_def attach_pager_def set_page_list_def store_select_def
       store_select_many_def store_frame excl_keeps_kind\<close>)

lemma steps_once:
  "(store_step dir)\<^sup>*\<^sup>* d d' \<Longrightarrow> once_kind k \<Longrightarrow>
    read_file d (kpath (store_new dir) rid k) = Some c \<Longrightarrow>
    read_file d' (kpath (store_new dir) rid k) = Some c"
  by (induction rule: rtranclp_induct) (simp_all add: step_once)

lemma steps_verdict:
  "(store_step dir)\<^sup>*\<^sup>* d d' \<Longrightarrow> store_verdict (store_new dir) rid d = Some v \<Longrightarrow>
    store_verdict (store_new dir) rid d' = Some v"
  using steps_once [of dir d d' KVerdict rid "JVerdict v"]
  by (auto simp: store_verdict_def once_kind_def split: option.splits content.splits)

lemma steps_ack:
  "(store_step dir)\<^sup>*\<^sup>* d d' \<Longrightarrow> store_ack_info (store_new dir) rid d = Some v \<Longrightarrow>
    store_ack_info (store_new dir) rid d' = Some v"
  using steps_once [of dir d d' KAck rid "JAck v"]
  by (auto simp: store_ack_info_def once_kind_def split: option.splits content.splits)

lemma steps_selection:
  "(store_step dir)\<^sup>*\<^sup>* d d' \<Longrightarrow> store_selection_info (store_new dir) rid d = Some v \<Longrightarrow>
    store_selection_info (store_new dir) rid d' = Some v"
  using steps_once [of dir d d' KSelection rid "JSelection v"]
  by (auto simp: store_selection_info_def once_kind_def split: option.splits content.splits)

lemma steps_cancel:
  "(store_step dir)\<^sup>*\<^sup>* d d' \<Longrightarrow> store_cancel_info (store_new dir) rid d = Some v \<Longrightarrow>
    store_cancel_info (store_new dir) rid d' = Some v"
  using steps_once [of dir d d' KCancel rid "JCancel v"]
  by (auto simp: store_cancel_info_def once_kind_def split: option.splits content.splits)

section \<open>Purging\<close>

lemma filepath_join_three:
  assumes "state_dir_ok d" and "good_name a" and "good_name b"
  shows "filepath_join [d, a, b] = d @ slash # a @ slash # b"
proof -
  have "d \<noteq> []" using assms(1) is_abs_nonempty by (auto simp: state_dir_ok_def clean_dir_def)
  then have "filepath_join [d, a, b] = filepath_clean ((d @ slash # a) @ slash # b)"
    by (simp add: filepath_join_def Let_def)
  also have "\<dots> = (d @ slash # a) @ slash # b"
    using state_dir_ok_join [OF assms(1,2)] filepath_join_good [OF assms(1,2)]
    by (intro filepath_clean_snoc [OF _ assms(3)]) simp
  finally show ?thesis by simp
qed

lemma purge_kinds:
  "node_at (foldl (\<lambda>d k. remove_file (kpath s rid k) d) d ks) q =
    (if q \<in> kpath s rid ` set ks then None else node_at d q)"
  by (induction ks arbitrary: d) (auto simp: node_at_remove)

lemma all_kinds_set: "k \<in> set all_kinds"
  by (cases k) (simp_all add: all_kinds_def)

lemma purge_node_at:
  "node_at (store_purge s rid d) q =
    (if q \<in> range (kpath s rid) \<or> q = filepath_join [s_dir s, ''sealed'', rid @ ''.tar.gz'']
        \<or> below (filepath_join [s_dir s, ''sealed'', rid @ ''.d'']) q
     then None else node_at d q)"
  using all_kinds_set by (auto simp: store_purge_def node_at_remove_all node_at_remove purge_kinds)

lemma purge_fields [simp]:
  "d_now (store_purge s rid d) = d_now d" "d_io (store_purge s rid d) = d_io d"
  "d_audit (store_purge s rid d) = d_audit d"
proof -
  have "d_now (foldl (\<lambda>d k. remove_file (kpath s rid k) d) d ks) = d_now d
      \<and> d_io (foldl (\<lambda>d k. remove_file (kpath s rid k) d) d ks) = d_io d
      \<and> d_audit (foldl (\<lambda>d k. remove_file (kpath s rid k) d) d ks) = d_audit d" for ks
    by (induction ks arbitrary: d) simp_all
  then show "d_now (store_purge s rid d) = d_now d" "d_io (store_purge s rid d) = d_io d"
    "d_audit (store_purge s rid d) = d_audit d"
    by (simp_all add: store_purge_def)
qed

text \<open>Purging one petition leaves the files of every other one alone.\<close>

lemma purge_other:
  assumes dir: "state_dir_ok dir" and s: "s = store_new dir"
    and r: "slash \<notin> set r" and r': "slash \<notin> set r'" and ne: "r' \<noteq> r"
  shows "node_at (store_purge s r' d) (kpath s r k) = node_at d (kpath s r k)"
proof -
  have p: "state_dir_ok (s_pending s)" using pending_dir_ok [OF dir] s by simp
  have pend: "s_pending s = dir @ slash # ''pending''"
    using s dir by (simp add: store_new_def filepath_join_good good_name_def)
  have long: "good_name (r' @ x)" if "slash \<notin> set x" "1 < length x" "x \<noteq> ''.''" "last x \<noteq> CHR ''.''" for x
    using that r' by (auto simp: good_name_def append_eq_Cons_conv)
  have j: "filepath_join [s_dir s, ''sealed'', r' @ x] = dir @ slash # ''sealed'' @ slash # r' @ x"
    if "x = ''.tar.gz'' \<or> x = ''.d''" for x
    unfolding s using that
    by (subst filepath_join_three) (auto simp: store_new_def dir long good_name_def [of "''sealed''"])
  have k: "kpath s r k = dir @ slash # ''pending'' @ slash # r @ suf k"
    using kpath_good [OF p r] pend by simp
  have "kpath s r k \<notin> range (kpath s r')" using kpath_inj [OF p r r'] ne by auto
  then show ?thesis by (simp add: purge_node_at j k below_def)
qed

section \<open>Pruning\<close>

lemma cut_ext_suf: "cut_ext (rid @ suf k) = rid"
  by (cases k) (simp_all add: cut_ext_def last_index_of_append)

lemma rid_of_name_suf: "rid_of_name (rid @ suf k) = Some rid"
  using cut_ext_suf [of rid k]
  by (cases k) (auto simp: rid_of_name_def trim_suffix_def suffix_def)

lemma rid_of_name_Some: "rid_of_name n = Some rid \<Longrightarrow> \<exists>k. n = rid @ suf k"
proof -
  assume eq: "rid_of_name n = Some rid"
  then have "\<exists>k. suffix (suf k) n"
    by (auto simp: rid_of_name_def split: if_splits) (metis suf.simps)+
  then obtain k a where "n = a @ suf k" by (auto simp: suffix_def)
  then show ?thesis using eq rid_of_name_suf by auto
qed

definition doomed :: "store \<Rightarrow> int \<Rightarrow> 'a disk_scheme \<Rightarrow> string \<Rightarrow> bool" where
  "doomed s older d r \<longleftrightarrow>
     \<not> is_live s r (now_s d) d \<and> time_sub (d_now d) (oldest_mtime s r d) > older"

lemma views_agree:
  assumes "\<forall>k. read_file d' (kpath s r k) = read_file d (kpath s r k)"
  shows "store_load s r d' = store_load s r d" "store_verdict s r d' = store_verdict s r d"
    "store_ack_info s r d' = store_ack_info s r d" "store_cancel_info s r d' = store_cancel_info s r d"
    "store_selection_info s r d' = store_selection_info s r d" "read_result s r d' = read_result s r d"
  using assms
  by (simp_all add: store_load_def store_verdict_def store_ack_info_def store_cancel_info_def
      store_selection_info_def read_result_def)

lemma files_agree:
  assumes same: "\<forall>k. node_at d' (kpath s r k) = node_at d (kpath s r k)" and now: "d_now d' = d_now d"
  shows "doomed s older d' r = doomed s older d r"
proof -
  have "\<forall>k. read_file d' (kpath s r k) = read_file d (kpath s r k)"
    using same by (simp add: read_file_def)
  note views = views_agree [OF this]
  have "stat_mtime d' (kpath s r k) = stat_mtime d (kpath s r k)" for k
    using same by (simp add: stat_mtime_def)
  then have "oldest_mtime s r d' = oldest_mtime s r d" by (simp add: oldest_mtime_def now)
  moreover have "is_live s r (now_s d') d' = is_live s r (now_s d) d"
    unfolding is_live_def views now_s_def now ..
  ultimately show ?thesis by (simp add: doomed_def now)
qed

lemma prune_loop_spec:
  assumes dir: "state_dir_ok dir" and s: "s = store_new dir" and r: "slash \<notin> set r"
  shows "\<lbrakk>prune_loop s older names seen purged d = (n, d'); \<forall>nm \<in> set names. slash \<notin> set nm\<rbrakk> \<Longrightarrow>
    node_at d' (kpath s r k) =
      (if r \<notin> set seen \<and> (\<exists>nm \<in> set names. rid_of_name nm = Some r) \<and> doomed s older d r
       then None else node_at d (kpath s r k))"
proof (induction names arbitrary: seen purged d)
  case (Cons nm names)
  show ?case
  proof (cases "rid_of_name nm")
    case None
    then show ?thesis using Cons by auto
  next
    case (Some rid)
    then have rid: "slash \<notin> set rid" using Cons.prems(2) rid_of_name_Some by fastforce
    consider "rid \<in> set seen" | "rid \<notin> set seen" "\<not> doomed s older d rid"
      | "rid \<notin> set seen" "doomed s older d rid" by blast
    then show ?thesis
    proof cases
      case 3
      let ?d = "store_purge s rid d"
      have run: "prune_loop s older names (rid # seen) (purged + 1) ?d = (n, d')"
        using Cons.prems(1) Some 3 by (simp add: doomed_def)
      note IH = Cons.IH [OF run] 
      show ?thesis
      proof (cases "r = rid")
        case True
        then show ?thesis using IH Cons.prems(2) 3 Some by (simp add: purge_node_at)
      next
        case False
        then have same: "\<forall>k. node_at ?d (kpath s r k) = node_at d (kpath s r k)"
          using purge_other [OF dir s r rid] by blast
        then have "doomed s older ?d r = doomed s older d r"
          by (rule files_agree) simp
        then show ?thesis using IH Cons.prems(2) Some False same by auto
      qed
    qed (use Cons Some in \<open>auto simp: doomed_def split: if_splits\<close>)
  qed
qed simp

lemma listed_petition:
  assumes p: "state_dir_ok (s_pending s)" and r: "slash \<notin> set r"
  shows "(\<exists>nm \<in> set (read_dir d (s_pending s)). rid_of_name nm = Some r) \<longleftrightarrow> (\<exists>k. node_at d (kpath s r k) \<noteq> None)"
proof
  assume "\<exists>nm \<in> set (read_dir d (s_pending s)). rid_of_name nm = Some r"
  then obtain nm where nm: "nm \<in> set (read_dir d (s_pending s))" "rid_of_name nm = Some r" by blast
  then obtain k where "nm = r @ suf k" using rid_of_name_Some by blast
  then show "\<exists>k. node_at d (kpath s r k) \<noteq> None"
    using nm(1) kpath_good [OF p r] by (auto simp: read_dir_set)
next
  assume "\<exists>k. node_at d (kpath s r k) \<noteq> None"
  then obtain k where k: "node_at d (kpath s r k) \<noteq> None" by blast
  have "r @ suf k \<in> set (read_dir d (s_pending s))"
    using k good_name_suf [OF r, of k] kpath_good [OF p r, of k] by (simp add: read_dir_set good_name_def)
  then show "\<exists>nm \<in> set (read_dir d (s_pending s)). rid_of_name nm = Some r"
    using rid_of_name_suf by blast
qed

lemma prune_spec:
  assumes dir: "state_dir_ok dir" and r: "slash \<notin> set r"
  shows "node_at (snd (store_prune (store_new dir) older d)) (kpath (store_new dir) r k) =
    (if doomed (store_new dir) older d r then None else node_at d (kpath (store_new dir) r k))"
proof -
  obtain n d' where run: "prune_loop (store_new dir) older (read_dir d (s_pending (store_new dir))) [] 0 d = (n, d')"
    by fastforce
  have "\<forall>nm \<in> set (read_dir d (s_pending (store_new dir))). slash \<notin> set nm"
    by (simp add: read_dir_set)
  from prune_loop_spec [OF dir refl r run this, of k]
  show ?thesis
    using run listed_petition [OF pending_dir_ok [OF dir] r, of d] by (auto simp: store_prune_def)
qed

section \<open>The Telegram offset\<close>

lemma itoa_digits_dec: "0 < n \<Longrightarrow> itoa_digits n b = dec (nat n) @ b"
proof (induction n b rule: itoa_digits.induct)
  case (1 n b)
  have dm: "nat (n mod 10) = nat n mod 10" "nat (n div 10) = nat n div 10"
    using "1.prems" by (simp_all add: nat_mod_distrib nat_div_distrib)
  show ?case
  proof (cases "n < 10")
    case True
    then have z: "n div 10 = 0" using "1.prems" by simp
    then have "itoa_digits (n div 10) x = x" for x by (subst itoa_digits.simps) simp
    then show ?thesis using "1.prems" True by (subst itoa_digits.simps) (simp add: dec.simps [of "nat n"])
  next
    case False
    then have "itoa_digits n b = dec (nat n div 10) @ digit_char (nat n mod 10) # b"
      using "1.IH" "1.prems" dm by (subst itoa_digits.simps) simp
    moreover have "dec (nat n) = dec (nat n div 10) @ [digit_char (nat n mod 10)]"
      using False by (subst dec.simps) (simp add: not_less nat_le_eq_zle nat_less_iff)
    ultimately show ?thesis by simp
  qed
qed

lemma store_itoa_dec: "0 \<le> n \<Longrightarrow> store_itoa n = dec (nat n)"
  by (cases "n = 0") (simp_all add: store_itoa_def itoa_digits_dec digit_char_def dec.simps [of 0])

lemma parse_loop:
  "dec_val b < 2 ^ 63 \<Longrightarrow>
    foldl (\<lambda>n ch. i64 (i64 (n * 10) + int (digit_val ch))) 0 b = int (dec_val b)"
proof (induction b rule: rev_induct)
  case (snoc c b)
  then have "int (dec_val b) * 10 + int (digit_val c) < 2 ^ 63" by (simp add: dec_val_snoc)
  then show ?case using snoc by (simp add: dec_val_snoc i64_id)
qed (simp add: dec_val_def)

interpretation offset_codec: codec store_itoa "\<lambda>b. Some (parse_offset b)" "\<lambda>n. 0 \<le> n \<and> n < 2 ^ 63"
  by unfold_locales
    (auto simp: store_itoa_dec parse_offset_def dec_digits parse_loop nat_less_iff)

section \<open>Properties\<close>

text \<open>
  C5. One decision wins: of any sequence of verdicts submitted for a petition, at most one is
  accepted, and the one that is accepted is the decision (and the approver) on record.
\<close>

theorem one_verdict_wins:
  "let s = store_new dir;
       run = attempts (\<lambda>(decision, by) d. store_consume s rid decision by d) tries d
   in case map snd (filter fst (zip (fst run) tries)) of
        [] \<Rightarrow> True
      | [winner] \<Rightarrow> verdict_view s rid (snd run) = Some winner
      | _ \<Rightarrow> False"
  unfolding Let_def by (rule verdict_once.winners)

text \<open>
  C12. Once a verdict, an acknowledgement, a selection or a cancellation is on record, no
  sequence of store operations, with time and I/O errors changing in between, alters it: it
  stays until the petition is purged.
\<close>

theorem decisions_are_stable:
  "(store_step dir)\<^sup>*\<^sup>* d d' \<Longrightarrow>
    (store_verdict (store_new dir) rid d = Some v \<longrightarrow> store_verdict (store_new dir) rid d' = Some v)
    \<and> (store_ack_info (store_new dir) rid d = Some a \<longrightarrow> store_ack_info (store_new dir) rid d' = Some a)
    \<and> (store_selection_info (store_new dir) rid d = Some x \<longrightarrow>
         store_selection_info (store_new dir) rid d' = Some x)
    \<and> (store_cancel_info (store_new dir) rid d = Some c \<longrightarrow> store_cancel_info (store_new dir) rid d' = Some c)"
  by (simp add: steps_verdict steps_ack steps_selection steps_cancel)

definition denied_disk :: disk where
  "denied_disk = \<lparr>d_files = [(''/s/pending/a.json'', Reg (JRecord pending_record_zero) 5),
     (''/s/pending/a.verdict'', Reg (JVerdict \<lparr>vd_decision = ''deny'', vd_by = ''tg:7'', vd_unix_nano = 9\<rparr>) 9)],
     d_io = (\<lambda>p. IoOk), d_now = 100, d_audit = []\<rparr>"

lemmas store_eval =
  path_eval store_new_def kpath_def node_at_def read_file_def store_load_def store_verdict_def
  store_ack_info_def store_selection_info_def store_cancel_info_def

theorem decisions_are_stable_witness:
  "map_option vd_decision (store_verdict (store_new ''/s'') ''a''
     (snd (store_consume (store_new ''/s'') ''a'' ''approve'' ''mallory'' denied_disk))) = Some ''deny''"
proof -
  let ?d = "snd (store_consume (store_new ''/s'') ''a'' ''approve'' ''mallory'' denied_disk)"
  have "store_step ''/s'' denied_disk ?d" by (rule step_consume)
  then have run: "(store_step ''/s'')\<^sup>*\<^sup>* denied_disk ?d" ..
  have "store_verdict (store_new ''/s'') ''a'' denied_disk =
      Some \<lparr>vd_decision = ''deny'', vd_by = ''tg:7'', vd_unix_nano = 9\<rparr>"
    by (simp add: denied_disk_def store_eval)
  then show ?thesis using decisions_are_stable [OF run, of "''a''"] by auto
qed

text \<open>
  C32. Pruning is exact: after it, the files of a petition are gone when the petition is
  decided or expired (or unreadable) and its oldest file is older than the retention
  window, and untouched otherwise. In particular no live petition loses a file.
\<close>

theorem prune_exact:
  assumes "state_dir_ok dir" and "slash \<notin> set r"
  shows "node_at (snd (store_prune (store_new dir) older d)) (kpath (store_new dir) r k) =
    (if doomed (store_new dir) older d r then None else node_at d (kpath (store_new dir) r k))"
  by (rule prune_spec [OF assms])

theorem prune_exact_witness:
  "node_at (snd (store_prune (store_new ''/s'') 50 denied_disk)) (kpath (store_new ''/s'') ''a'' KJson) = None
   \<and> node_at (snd (store_prune (store_new ''/s'') 95 denied_disk)) (kpath (store_new ''/s'') ''a'' KVerdict) \<noteq> None"
proof -
  have ok: "state_dir_ok ''/s''" by (simp add: state_dir_ok_def clean_dir_def path_eval)
  have old: "oldest_mtime (store_new ''/s'') ''a'' denied_disk = 5"
    by (simp add: oldest_mtime_def all_kinds_def stat_mtime_def denied_disk_def store_eval)
  have dead: "\<not> is_live (store_new ''/s'') ''a'' (now_s denied_disk) denied_disk"
    by (simp add: is_live_def denied_disk_def store_eval)
  have "doomed (store_new ''/s'') 50 denied_disk ''a''" "\<not> doomed (store_new ''/s'') 95 denied_disk ''a''"
    using old dead by (simp_all add: doomed_def time_sub_def denied_disk_def)
  moreover have "node_at denied_disk (kpath (store_new ''/s'') ''a'' KVerdict) \<noteq> None"
    by (simp add: denied_disk_def store_eval)
  ultimately show ?thesis by (simp add: prune_exact [OF ok, of "''a''"])
qed

text \<open>
  The Telegram offset survives a restart: after a successful \<open>SetOffset\<close> of a
  non-negative \<open>int64\<close> the next \<open>GetOffset\<close> reads the same number, and no petition file
  changes.
\<close>

theorem offset_round_trip:
  assumes "0 \<le> n" and "n < 2 ^ 63"
    and "d_io d (s_offset (store_new dir)) = IoOk" and "node_at d (s_offset (store_new dir)) = None"
  shows "get_offset (store_new dir) (set_offset (store_new dir) n d) = n
    \<and> read_file (set_offset (store_new dir) n d) (kpath (store_new dir) rid k) =
        read_file d (kpath (store_new dir) rid k)"
  using assms offset_codec.dec_enc [of n]
  by (simp add: set_offset_read) (simp add: get_offset_def set_offset_def write_no_follow_def read_file_put)

theorem offset_round_trip_witness:
  "get_offset (store_new ''/s'') (set_offset (store_new ''/s'') 907 denied_disk) = 907"
  using offset_round_trip [of 907 denied_disk "''/s''"] by (simp add: denied_disk_def store_eval)

end
