(* ===== verification/StoreViews.thy ===== *)
theory StoreViews imports StoreLife begin

text \<open>
  What a client sees of a petition: \<open>Status\<close> of one request id and \<open>Recent\<close>, both computed
  from the petition's files alone. \<open>Status\<close> is split along its three kinds of petition and,
  for a command, along what has been written so far.
\<close>

section \<open>Status\<close>

definition ask_status :: "store \<Rightarrow> string \<Rightarrow> pending_record \<Rightarrow> int \<Rightarrow> 'a disk_scheme \<Rightarrow> status_response" where
  "ask_status s rid rec now d =
     (let st = status_response_zero\<lparr>st_id := rid, st_cwd := pr_cwd rec, st_uid := pr_uid rec,
                 st_as_uid := pr_as_uid rec, st_exit := -1, st_step := step_of rec, st_kind := pr_kind rec,
                 st_link := pr_link rec, st_summary := pr_summary rec, st_question := pr_question rec,
                 st_options := pr_options rec\<rparr>
      in case store_cancel_info s rid d of
           Some c \<Rightarrow> st\<lparr>st_status := ''cancelled'', st_decision := ''cancelled'', st_by := cn_by c,
                        st_output := cn_reason c\<rparr>
         | None \<Rightarrow>
             (case store_selection_info s rid d of
                Some x \<Rightarrow> st\<lparr>st_status := ''selected'', st_decision := ''select'', st_by := sl_by x,
                             st_selection := sl_selection x, st_selection_idx := sl_selection_idx x\<rparr>
              | None \<Rightarrow>
                  if pr_expires rec > now
                  then st\<lparr>st_status := ''pending'', st_expires_in := pr_expires rec - now\<rparr>
                  else st\<lparr>st_status := ''timeout''\<rparr>))"

definition notify_status :: "store \<Rightarrow> string \<Rightarrow> pending_record \<Rightarrow> int \<Rightarrow> 'a disk_scheme \<Rightarrow> status_response" where
  "notify_status s rid rec now d =
     (let st = status_response_zero\<lparr>st_id := rid, st_cwd := pr_cwd rec, st_uid := pr_uid rec,
                 st_exit := -1, st_step := step_of rec, st_kind := pr_kind rec,
                 st_link := pr_link rec, st_summary := pr_summary rec\<rparr>;
          as = st\<lparr>st_as_uid := pr_as_uid rec\<rparr>
      in case store_cancel_info s rid d of
           Some c \<Rightarrow> as\<lparr>st_status := ''cancelled'', st_decision := ''cancelled'', st_by := cn_by c,
                        st_output := cn_reason c\<rparr>
         | None \<Rightarrow>
             (case store_ack_info s rid d of
                Some a \<Rightarrow> as\<lparr>st_status := ''acked'', st_decision := ''ack'', st_by := ak_by a,
                             st_acked := True, st_ack_by := ak_by a, st_ack_at := ak_unix_nano a\<rparr>
              | None \<Rightarrow>
                  if pr_expires rec > now
                  then as\<lparr>st_status := ''pending'', st_expires_in := pr_expires rec - now\<rparr>
                  else st\<lparr>st_status := ''timeout''\<rparr>))"

text \<open>The fields every answer about a command carries.\<close>

definition exec_base :: "string \<Rightarrow> pending_record \<Rightarrow> status_response" where
  "exec_base rid rec = status_response_zero\<lparr>
     st_id := rid, st_argv := pr_argv rec, st_cwd := pr_cwd rec, st_uid := pr_uid rec,
     st_as_uid := pr_as_uid rec, st_exit := -1, st_step := step_of rec,
     st_confirm_of := pr_confirm_of rec, st_preview := pr_preview rec, st_auth_url := pr_auth_url rec\<rparr>"

text \<open>A verdict is on record and its result is not.\<close>

definition decided_status ::
  "store \<Rightarrow> string \<Rightarrow> pending_record \<Rightarrow> verdict_record \<Rightarrow> int \<Rightarrow> 'a disk_scheme \<Rightarrow> status_response" where
  "decided_status s rid rec v now d =
     (let st = (exec_base rid rec)\<lparr>st_by := vd_by v\<rparr>;
          running = st\<lparr>st_status := ''running'', st_decision := vd_decision v\<rparr>
      in if vd_decision v = ''cancelled''
         then st\<lparr>st_status := ''cancelled'', st_decision := ''cancelled''\<rparr>
         else if vd_decision v = ''approve'' then
           (if step_of rec = ''initial'' then
              (case find_confirmation s rid d of
                 Some (child, crec) \<Rightarrow>
                   (case store_cancel_info s child d of
                      Some c \<Rightarrow> st\<lparr>st_status := ''cancelled'', st_decision := ''cancelled'',
                                   st_by := cn_by c, st_output := cn_reason c\<rparr>
                    | None \<Rightarrow>
                        if store_verdict s child d = None
                        then st\<lparr>st_status := ''confirming'', st_decision := vd_decision v,
                                st_expires_in := max 0 (pr_expires crec - now)\<rparr>
                        else running)
               | None \<Rightarrow> running)
            else running)
         else st\<lparr>st_status := vd_decision v, st_decision := vd_decision v\<rparr>)"

text \<open>The status, the decision and the output once a result is on record.\<close>

definition final_outcome ::
  "store \<Rightarrow> string \<Rightarrow> string \<Rightarrow> int \<Rightarrow> string \<Rightarrow> 'a disk_scheme \<Rightarrow> string \<times> string \<times> string" where
  "final_outcome s rid dcn ex out d =
     (if dcn = ''deny'' then (''denied'', dcn, out)
      else if dcn = ''cancelled'' \<or> out = ''cancelled'' then (''cancelled'', ''cancelled'', out)
      else if dcn = ''timeout'' \<or> dcn = ''confirmation_timeout'' \<or> out = ''confirmation_timeout''
      then (''timeout'', if out = ''confirmation_timeout'' then ''confirmation_timeout'' else dcn, out)
      else if dcn = ''client_aborted'' \<or> out = ''client_aborted''
      then (''client_aborted'', if out = ''client_aborted'' then ''client_aborted'' else dcn, out)
      else if ex = -1 then
        (case find_confirmation s rid d of
           Some (child, _) \<Rightarrow>
             if child = [] then (''completed'', dcn, out)
             else (case store_cancel_info s child d of
                     Some c \<Rightarrow> (''cancelled'', ''cancelled'', if cn_reason c \<noteq> [] then cn_reason c else out)
                   | None \<Rightarrow>
                       (case store_verdict s child d of
                          Some cv \<Rightarrow>
                            (if vd_decision cv = ''deny'' then ''denied''
                             else if vd_decision cv = ''timeout'' \<or> vd_decision cv = ''confirmation_timeout''
                             then ''timeout''
                             else if vd_decision cv = ''client_aborted'' then ''client_aborted''
                             else if vd_decision cv = ''cancelled'' then ''cancelled''
                             else ''completed'', vd_decision cv, out)
                        | None \<Rightarrow> (''completed'', dcn, out)))
         | None \<Rightarrow> (''completed'', dcn, out))
      else (''completed'', dcn, out))"

definition exec_status :: "store \<Rightarrow> string \<Rightarrow> pending_record \<Rightarrow> int \<Rightarrow> 'a disk_scheme \<Rightarrow> status_response" where
  "exec_status s rid rec now d =
     (case store_cancel_info s rid d of
        Some c \<Rightarrow> (exec_base rid rec)\<lparr>st_status := ''cancelled'', st_decision := ''cancelled'',
                     st_by := cn_by c, st_output := cn_reason c\<rparr>
      | None \<Rightarrow>
          (case store_verdict s rid d of
             None \<Rightarrow>
               if pr_expires rec > now
               then (exec_base rid rec)\<lparr>st_status := ''pending'', st_expires_in := pr_expires rec - now\<rparr>
               else (exec_base rid rec)\<lparr>st_status := ''timeout''\<rparr>
           | Some v \<Rightarrow>
               (case read_result s rid d of
                  None \<Rightarrow> decided_status s rid rec v now d
                | Some (ex, out) \<Rightarrow>
                    (case final_outcome s rid (vd_decision v) ex out d of
                       (status, dcn, out') \<Rightarrow>
                         (exec_base rid rec)\<lparr>st_status := status, st_decision := dcn, st_by := vd_by v,
                           st_exit := ex, st_output := out'\<rparr>))))"

definition store_status :: "store \<Rightarrow> string \<Rightarrow> int \<Rightarrow> 'a disk_scheme \<Rightarrow> status_response" where
  "store_status s rid now d =
     (case store_load s rid d of
        None \<Rightarrow> status_response_zero\<lparr>st_id := rid, st_status := ''not_found'', st_exit := -1\<rparr>
      | Some rec \<Rightarrow>
          if pr_kind rec = ''ask'' then ask_status s rid rec now d
          else if pr_kind rec = ''notify'' then notify_status s rid rec now d
          else exec_status s rid rec now d)"

section \<open>Recent\<close>

text \<open>The petitions that have a decision file, each once, with the time of the first such entry.\<close>

definition decided_name :: "string \<Rightarrow> bool" where
  "decided_name n \<longleftrightarrow> has_suffix n ''.verdict'' \<or> has_suffix n ''.ack'' \<or> has_suffix n ''.selection''
     \<or> has_suffix n ''.cancel''"

fun decided_entries :: "store \<Rightarrow> 'a disk_scheme \<Rightarrow> string list \<Rightarrow> (string \<times> int) list \<Rightarrow> (string \<times> int) list" where
  "decided_entries s d [] found = found"
| "decided_entries s d (n # ns) found =
     (if \<not> decided_name n then decided_entries s d ns found
      else let rid = cut_ext n in
        case node_at d (s_pending s @ slash # n) of
          None \<Rightarrow> decided_entries s d ns found
        | Some f \<Rightarrow>
            if rid \<in> fst ` set found then decided_entries s d ns found
            else decided_entries s d ns (found @ [(rid, node_mtime f)]))"

definition recent_base :: "string \<Rightarrow> pending_record \<Rightarrow> recent_item" where
  "recent_base rid rec = recent_item_zero\<lparr>
     ri_id := rid, ri_argv := pr_argv rec, ri_cwd := pr_cwd rec, ri_as_uid := pr_as_uid rec,
     ri_kind := pr_kind rec, ri_link := pr_link rec, ri_summary := pr_summary rec,
     ri_multi_select := pr_multi_select rec, ri_allow_write_in := pr_allow_write_in rec,
     ri_recommended_index := pr_recommended_index rec\<rparr>"

definition recent_decision :: "store \<Rightarrow> string \<Rightarrow> string \<Rightarrow> int \<Rightarrow> string \<Rightarrow> 'a disk_scheme \<Rightarrow> string" where
  "recent_decision s rid dcn ex out d =
     (if ex \<noteq> -1 then dcn
      else if out = ''confirmation_timeout'' then ''timeout''
      else if out = ''client_aborted'' then ''client_aborted''
      else if out = ''cancelled'' then ''cancelled''
      else case find_confirmation s rid d of
             None \<Rightarrow> dcn
           | Some (child, _) \<Rightarrow>
               if child = [] then dcn
               else if store_cancel_info s child d \<noteq> None then ''cancelled''
               else (case store_verdict s child d of Some cv \<Rightarrow> vd_decision cv | None \<Rightarrow> dcn))"

definition recent_of :: "store \<Rightarrow> 'a disk_scheme \<Rightarrow> string \<Rightarrow> recent_item option" where
  "recent_of s d rid =
     (case store_load s rid d of
        None \<Rightarrow> None
      | Some rec \<Rightarrow>
          (case store_cancel_info s rid d of
             Some c \<Rightarrow> Some ((recent_base rid rec)\<lparr>ri_decision := ''cancelled'', ri_by := cn_by c,
                 ri_exit := -1, ri_output := cn_reason c, ri_step := step_of rec,
                 ri_confirm_of := pr_confirm_of rec, ri_auth_url := pr_auth_url rec,
                 ri_question := pr_question rec, ri_options := pr_options rec\<rparr>)
           | None \<Rightarrow>
          (case store_ack_info s rid d of
             Some a \<Rightarrow> Some ((recent_base rid rec)\<lparr>ri_decision := ''ack'', ri_by := ak_by a,
                 ri_exit := -1, ri_acked := True, ri_ack_by := ak_by a\<rparr>)
           | None \<Rightarrow>
          (case store_verdict s rid d of
             None \<Rightarrow>
               (case store_selection_info s rid d of
                  None \<Rightarrow> None
                | Some x \<Rightarrow> Some ((recent_base rid rec)\<lparr>ri_argv := [], ri_decision := ''select'',
                    ri_by := sl_by x, ri_exit := -1, ri_question := pr_question rec,
                    ri_options := pr_options rec, ri_selection := sl_selection x,
                    ri_selection_idx := sl_selection_idx x\<rparr>))
           | Some v \<Rightarrow>
               (case load_result s rid d of
                  (ex, out) \<Rightarrow> Some ((recent_base rid rec)\<lparr>
                     ri_decision := recent_decision s rid (vd_decision v) ex out d, ri_by := vd_by v,
                     ri_exit := ex, ri_output := out, ri_step := step_of rec,
                     ri_confirm_of := pr_confirm_of rec, ri_auth_url := pr_auth_url rec\<rparr>))))))"

definition recent_limit :: "int \<Rightarrow> int" where
  "recent_limit limit = (if limit \<le> 0 \<or> limit > 50 then 10 else limit)"

definition recent_found :: "store \<Rightarrow> int \<Rightarrow> 'a disk_scheme \<Rightarrow> (string \<times> int) list" where
  "recent_found s limit d =
     take (nat (recent_limit limit))
       (sort_key (\<lambda>(r, m). - m) (decided_entries s d (read_dir d (s_pending s)) []))"

definition store_recent :: "store \<Rightarrow> int \<Rightarrow> 'a disk_scheme \<Rightarrow> recent_item list" where
  "store_recent s limit d = List.map_filter (recent_of s d \<circ> fst) (recent_found s limit d)"

section \<open>Facts about the listing\<close>

lemma json_rids_set:
  assumes p: "state_dir_ok (s_pending s)"
  shows "r \<in> set (json_rids s d) \<longleftrightarrow> slash \<notin> set r \<and> node_at d (kpath s r KJson) \<noteq> None"
proof
  assume "r \<in> set (json_rids s d)"
  then obtain n where n: "n \<in> set (read_dir d (s_pending s))" "suffix ''.json'' n" "r = trim_suffix n ''.json''"
    by (auto simp: json_rids_def)
  then have nr: "n = r @ ''.json''" by (auto simp: trim_suffix_def suffix_def)
  then have r: "slash \<notin> set r" using n(1) by (simp add: read_dir_set)
  then show "slash \<notin> set r \<and> node_at d (kpath s r KJson) \<noteq> None"
    using n(1) nr kpath_good [OF p r, of KJson] by (simp add: read_dir_set)
next
  assume r: "slash \<notin> set r \<and> node_at d (kpath s r KJson) \<noteq> None"
  then have "r @ ''.json'' \<in> set (read_dir d (s_pending s))"
    using kpath_good [OF p, of r KJson] by (simp add: read_dir_set)
  then have "trim_suffix (r @ ''.json'') ''.json'' \<in> set (json_rids s d)"
    by (simp add: json_rids_def suffix_def)
  then show "r \<in> set (json_rids s d)" by (simp add: trim_suffix_def suffix_def)
qed

lemma list_item_Some:
  "list_item s now d rid = Some it \<longleftrightarrow>
    is_live s rid now d \<and> it = pending_item_of rid (the (store_load s rid d)) now"
  by (auto simp: list_item_def is_live_def split: option.splits)

lemma load_node: "store_load s rid d \<noteq> None \<Longrightarrow> node_at d (kpath s rid KJson) \<noteq> None"
  by (cases "node_at d (kpath s rid KJson)") (simp_all add: store_load_def read_file_def)

lemma pending_item_of_id [simp]: "pi_id (pending_item_of rid rec now) = rid"
  by (simp add: pending_item_of_def)

lemma list_members:
  "it \<in> set (store_list s now d) \<Longrightarrow>
    is_live s (pi_id it) now d \<and> it = pending_item_of (pi_id it) (the (store_load s (pi_id it) d)) now"
  by (auto simp: store_list_def map_filter_set list_item_Some)

lemma list_iff_live:
  assumes dir: "state_dir_ok dir" and r: "slash \<notin> set rid"
  shows "rid \<in> pi_id ` set (store_list (store_new dir) now d) \<longleftrightarrow> is_live (store_new dir) rid now d"
proof
  assume "rid \<in> pi_id ` set (store_list (store_new dir) now d)"
  then show "is_live (store_new dir) rid now d" by (auto dest: list_members)
next
  assume live: "is_live (store_new dir) rid now d"
  then have "store_load (store_new dir) rid d \<noteq> None" by (auto simp: is_live_def split: option.splits)
  then have "rid \<in> set (json_rids (store_new dir) d)"
    using json_rids_set [OF pending_dir_ok [OF dir]] r load_node by blast
  then have "pending_item_of rid (the (store_load (store_new dir) rid d)) now \<in> set (store_list (store_new dir) now d)"
    using live by (auto simp: store_list_def map_filter_set list_item_Some)
  then show "rid \<in> pi_id ` set (store_list (store_new dir) now d)"
    by (metis imageI pending_item_of_id)
qed

lemma live_status:
  assumes "is_live s rid now d"
  shows "st_status (store_status s rid now d) = ''pending''
    \<and> st_expires_in (store_status s rid now d) = pr_expires (the (store_load s rid d)) - now
    \<and> now < pr_expires (the (store_load s rid d))"
proof -
  obtain rec where "store_load s rid d = Some rec" "store_verdict s rid d = None" "store_ack_info s rid d = None"
    "store_selection_info s rid d = None" "store_cancel_info s rid d = None" "pr_expires rec > now"
    using assms by (auto simp: is_live_def split: option.splits)
  then show ?thesis
    by (simp add: store_status_def ask_status_def notify_status_def exec_status_def Let_def)
qed

section \<open>Facts about results\<close>

definition sentinels :: "string list" where
  "sentinels = [''cancelled'', ''confirmation_timeout'', ''client_aborted'']"

definition kept_output :: "string \<Rightarrow> string" where
  "kept_output out = json_text (if 8192 < length out then take 8192 out @ truncated_mark else out)"

lemma save_result_effect:
  assumes "d_io d (kpath s rid KResult) = IoOk" and "node_at d (kpath s rid KResult) = None"
  shows "save_result s rid ex out d = put_file (kpath s rid KResult) (JResult rid ex (kept_output out)) d"
  using assms by (simp add: save_result_def write_no_follow_def kept_output_def)

lemma save_result_views [simp]:
  "store_load s rid (save_result s' r ex out d) = store_load s rid d"
  "store_verdict s rid (save_result s' r ex out d) = store_verdict s rid d"
  "store_ack_info s rid (save_result s' r ex out d) = store_ack_info s rid d"
  "store_cancel_info s rid (save_result s' r ex out d) = store_cancel_info s rid d"
  "store_selection_info s rid (save_result s' r ex out d) = store_selection_info s rid d"
  by (simp_all add: store_load_def store_verdict_def store_ack_info_def store_cancel_info_def
      store_selection_info_def save_result_def write_no_follow_read)

lemma kept_not_sentinel: "out \<notin> set sentinels \<Longrightarrow> kept_output out \<notin> set sentinels"
proof
  assume out: "out \<notin> set sentinels" and kept: "kept_output out \<in> set sentinels"
  have "list_all ascii sentinels" by code_simp
  then have "ascii (kept_output out)" using kept by (simp add: list_all_iff)
  then have "kept_output out = (if 8192 < length out then take 8192 out @ truncated_mark else out)"
    unfolding kept_output_def by (rule json_text_to_ascii)
  then show False using out kept by (auto simp: sentinels_def dest!: arg_cong [of _ _ length] split: if_splits)
qed

section \<open>Facts about recent petitions\<close>

lemma decided_entries_distinct:
  "distinct (map fst found) \<Longrightarrow> distinct (map fst (decided_entries s d ns found))"
  by (induction s d ns found rule: decided_entries.induct)
    (auto simp: Let_def split: option.splits)

lemma decided_name_rid:
  "decided_name n \<Longrightarrow> \<exists>k. once_kind k \<and> n = cut_ext n @ suf k"
proof -
  assume "decided_name n"
  then obtain k where k: "once_kind k" "suffix (suf k) n"
    unfolding decided_name_def once_kind_def by (metis suf.simps)
  then obtain a where a: "n = a @ suf k" by (auto simp: suffix_def)
  show ?thesis using k(1) a cut_ext_suf by (intro exI [of _ k]) simp
qed

lemma decided_entries_sound:
  "(r, m) \<in> set (decided_entries s d ns found) \<Longrightarrow>
    (r, m) \<in> set found
    \<or> (\<exists>k f. once_kind k \<and> r @ suf k \<in> set ns \<and> node_at d (s_pending s @ slash # r @ suf k) = Some f)"
proof (induction s d ns found rule: decided_entries.induct)
  case (2 s d n ns found)
  show ?case
  proof (cases "decided_name n")
    case True
    obtain k where k: "once_kind k" "n = cut_ext n @ suf k"
      using decided_name_rid [OF True] by blast
    show ?thesis
    proof (cases "node_at d (s_pending s @ slash # n)")
      case None
      then show ?thesis using 2 True by (auto simp: Let_def)
    next
      case (Some f)
      then have here: "\<exists>k f. once_kind k \<and> cut_ext n @ suf k \<in> set (n # ns)
          \<and> node_at d (s_pending s @ slash # cut_ext n @ suf k) = Some f"
        using k by (intro exI [of _ k] exI [of _ f]) simp
      from 2 True Some have "(r, m) \<in> set found \<or> r = cut_ext n
          \<or> (\<exists>k f. once_kind k \<and> r @ suf k \<in> set ns \<and> node_at d (s_pending s @ slash # r @ suf k) = Some f)"
        by (auto simp: Let_def split: if_splits)
      then show ?thesis using here by auto
    qed
  qed (use 2 in auto)
qed simp

lemma recent_found_facts:
  "distinct (map fst (recent_found s limit d))"
  "length (recent_found s limit d) \<le> 50"
  "sorted (map (\<lambda>(r, m). - m) (recent_found s limit d))"
proof -
  let ?all = "sort_key (\<lambda>(r, m). - m) (decided_entries s d (read_dir d (s_pending s)) [])"
  have dist: "distinct (map fst (decided_entries s d (read_dir d (s_pending s)) []))"
    by (rule decided_entries_distinct) simp
  have "distinct (map fst ?all)"
    using dist by (simp add: distinct_map distinct_sort)
  then show "distinct (map fst (recent_found s limit d))"
    by (simp add: recent_found_def take_map [symmetric])
  show "length (recent_found s limit d) \<le> 50" by (auto simp: recent_found_def recent_limit_def)
  show "sorted (map (\<lambda>(r, m). - m) (recent_found s limit d))"
    by (simp add: recent_found_def take_map [symmetric] sorted_wrt_take)
qed

lemma save_result_read_result:
  assumes "d_io d (kpath s rid KResult) = IoOk" and "node_at d (kpath s rid KResult) = None"
  shows "read_result s rid (save_result s rid ex out d) = Some (ex, kept_output out)"
  by (simp add: save_result_effect [OF assms] read_result_def read_file_put)

lemma exec_result_status:
  assumes "store_load s rid d = Some rec" and "pr_kind rec \<noteq> ''ask''" and "pr_kind rec \<noteq> ''notify''"
    and "store_cancel_info s rid d = None" and "store_verdict s rid d = Some v"
    and "read_result s rid d = Some (ex, out)"
  shows "st_status (store_status s rid now d) = fst (final_outcome s rid (vd_decision v) ex out d)
    \<and> st_decision (store_status s rid now d) = fst (snd (final_outcome s rid (vd_decision v) ex out d))
    \<and> st_output (store_status s rid now d) = snd (snd (final_outcome s rid (vd_decision v) ex out d))
    \<and> st_exit (store_status s rid now d) = ex \<and> st_by (store_status s rid now d) = vd_by v"
  using assms by (simp add: store_status_def exec_status_def exec_base_def split: prod.splits)

section \<open>Properties\<close>

text \<open>
  The pending list is exactly the live petitions: a request id is listed if and only if
  its record loads, has not expired, and carries no verdict, acknowledgement, selection or
  cancellation.
\<close>

theorem list_exact:
  assumes "state_dir_ok dir" and "slash \<notin> set rid"
  shows "rid \<in> pi_id ` set (store_list (store_new dir) now d) \<longleftrightarrow> is_live (store_new dir) rid now d"
  by (rule list_iff_live [OF assms])

theorem list_exact_witness:
  "''a'' \<notin> pi_id ` set (store_list (store_new ''/s'') 0 denied_disk)"
proof -
  have ok: "state_dir_ok ''/s''" by (simp add: state_dir_ok_def clean_dir_def path_eval)
  have "\<not> is_live (store_new ''/s'') ''a'' 0 denied_disk"
    by (simp add: is_live_def denied_disk_def store_eval)
  then show ?thesis by (subst list_exact [OF ok]) simp_all
qed

text \<open>
  \<open>list\<close> and \<open>status\<close> agree: a petition in the pending list has status \<open>pending\<close>, the same
  positive time to live, whatever its kind.
\<close>

theorem listed_is_pending:
  assumes "it \<in> set (store_list s now d)"
  shows "st_status (store_status s (pi_id it) now d) = ''pending''
    \<and> st_expires_in (store_status s (pi_id it) now d) = pi_expires_in it
    \<and> 0 < pi_expires_in it"
proof -
  from list_members [OF assms] have live: "is_live s (pi_id it) now d"
    and it: "it = pending_item_of (pi_id it) (the (store_load s (pi_id it) d)) now" by auto
  have "pi_expires_in it = pr_expires (the (store_load s (pi_id it) d)) - now"
    by (subst it) (simp add: pending_item_of_def)
  then show ?thesis using live_status [OF live] by simp
qed

definition open_disk :: disk where
  "open_disk = \<lparr>d_files = [(''/s/pending/b.json'',
     Reg (JRecord (pending_record_zero\<lparr>pr_argv := [''ls''], pr_expires := 60\<rparr>)) 5)],
     d_io = (\<lambda>p. IoOk), d_now = 10, d_audit = []\<rparr>"

theorem listed_is_pending_witness:
  "st_status (store_status (store_new ''/s'') ''b'' 20 open_disk) = ''pending''"
proof -
  have "json_rids (store_new ''/s'') open_disk = [''b'']"
    by (simp add: json_rids_def open_disk_def read_dir_def entry_of_def trim_suffix_def suffix_def
        store_eval List.map_filter_simps)
  then have "map pi_id (store_list (store_new ''/s'') 20 open_disk) = [''b'']"
    by (simp add: store_list_def list_item_def pending_item_of_def open_disk_def store_eval List.map_filter_simps)
  then obtain it where "it \<in> set (store_list (store_new ''/s'') 20 open_disk)" "pi_id it = ''b''" by auto
  then show ?thesis using listed_is_pending [of it "store_new ''/s''" 20 open_disk] by simp
qed

text \<open>
  C33. The result of an approved command is what \<open>status\<close> reports: after the daemon has saved an
  exit status other than -1 and an output that is none of the store's marker words, to a result
  file that was not there and whose write succeeds, the petition is \<open>completed\<close> with that exit status
  and that output as JSON carries it, cut at 8192 bytes; a short ASCII output is reported word for word.
\<close>

theorem result_is_reported:
  assumes "store_load s rid d = Some rec" and "pr_kind rec \<notin> {''ask'', ''notify''}"
    and "store_cancel_info s rid d = None" and "store_verdict s rid d = Some v"
    and "vd_decision v = ''approve''"
    and "d_io d (kpath s rid KResult) = IoOk" and "node_at d (kpath s rid KResult) = None"
    and "ex \<noteq> -1" and "out \<notin> set sentinels"
  shows "let st = store_status s rid now (save_result s rid ex out d)
    in st_status st = ''completed'' \<and> st_decision st = ''approve'' \<and> st_exit st = ex
       \<and> st_output st = json_text (if 8192 < length out then take 8192 out @ truncated_mark else out)
       \<and> (if ascii out \<and> length out \<le> 8192 then st_output st = out else True)"
proof -
  have "final_outcome s rid ''approve'' ex (kept_output out) d' = (''completed'', ''approve'', kept_output out)"
    for d' :: "'a disk_scheme"
    using kept_not_sentinel [OF assms(9)] assms(8) by (simp add: final_outcome_def sentinels_def)
  then show ?thesis
    using exec_result_status [of s rid "save_result s rid ex out d" rec v ex "kept_output out" now] assms
    by (simp add: Let_def save_result_read_result) (simp add: kept_output_def json_text_ascii)
qed

definition approved_disk :: disk where
  "approved_disk = \<lparr>d_files = [(''/s/pending/b.json'', Reg (JRecord (pending_record_zero\<lparr>pr_argv := [''ls'']\<rparr>)) 5),
     (''/s/pending/b.verdict'', Reg (JVerdict \<lparr>vd_decision = ''approve'', vd_by = ''tg:7'', vd_unix_nano = 9\<rparr>) 9)],
     d_io = (\<lambda>p. IoOk), d_now = 100, d_audit = []\<rparr>"

lemma approved_views:
  "store_load (store_new ''/s'') ''b'' approved_disk = Some (pending_record_zero\<lparr>pr_argv := [''ls'']\<rparr>)"
  "store_verdict (store_new ''/s'') ''b'' approved_disk =
     Some \<lparr>vd_decision = ''approve'', vd_by = ''tg:7'', vd_unix_nano = 9\<rparr>"
  "store_cancel_info (store_new ''/s'') ''b'' approved_disk = None"
  "store_ack_info (store_new ''/s'') ''b'' approved_disk = None"
  "d_io approved_disk (kpath (store_new ''/s'') ''b'' KResult) = IoOk"
  "node_at approved_disk (kpath (store_new ''/s'') ''b'' KResult) = None"
  by (simp_all add: approved_disk_def store_eval)

theorem result_is_reported_witness:
  "st_exit (store_status (store_new ''/s'') ''b'' 0
     (save_result (store_new ''/s'') ''b'' 2 ''no such file'' approved_disk)) = 2"
  using result_is_reported [of "store_new ''/s''" "''b''" approved_disk
      "pending_record_zero\<lparr>pr_argv := [''ls'']\<rparr>"
      "\<lparr>vd_decision = ''approve'', vd_by = ''tg:7'', vd_unix_nano = 9\<rparr>" 2 "''no such file''" 0]
  by (simp add: approved_views sentinels_def Let_def)

text \<open>
  The marker words are not kept apart from a command's own output: an approved command
  that ran to its end, with whatever exit status, and printed exactly \<open>cancelled\<close> is reported
  as \<open>cancelled\<close>, while \<open>recent\<close> reports its approval.
\<close>

theorem output_reads_as_cancelled:
  assumes "store_load s rid d = Some rec" and "pr_kind rec \<notin> {''ask'', ''notify''}"
    and "store_cancel_info s rid d = None" and "store_ack_info s rid d = None"
    and "store_verdict s rid d = Some v"
    and "vd_decision v = ''approve''" and "ex \<noteq> -1"
    and "read_result s rid d = Some (ex, ''cancelled'')"
  shows "st_status (store_status s rid now d) = ''cancelled''
    \<and> map_option ri_decision (recent_of s d rid) = Some ''approve''
    \<and> map_option ri_exit (recent_of s d rid) = Some ex"
  using exec_result_status [OF assms(1) _ _ assms(3,5,8), of now] assms
  by (simp add: final_outcome_def recent_of_def recent_decision_def load_result_def)

theorem output_reads_as_cancelled_witness:
  "st_status (store_status (store_new ''/s'') ''b'' 0
     (save_result (store_new ''/s'') ''b'' 0 ''cancelled'' approved_disk)) = ''cancelled''"
proof -
  let ?d = "save_result (store_new ''/s'') ''b'' 0 ''cancelled'' approved_disk"
  have "read_result (store_new ''/s'') ''b'' ?d = Some (0, ''cancelled'')"
    by (simp add: save_result_read_result approved_views kept_output_def json_text_ascii ascii_def)
  then show ?thesis
    using output_reads_as_cancelled [of "store_new ''/s''" "''b''" ?d "pending_record_zero\<lparr>pr_argv := [''ls'']\<rparr>"
        "\<lparr>vd_decision = ''approve'', vd_by = ''tg:7'', vd_unix_nano = 9\<rparr>" 0 0]
    by (simp add: approved_views)
qed

end
