(* ===== verification/AuditLog.thy ===== *)
theory AuditLog imports StoreLife begin

text \<open>
  The audit trail of \<open>internal/store\<close>: appending an event, and the newest-first pages of
  \<open>AuditQuery\<close> with their cursors. The lemmas show that following the cursors visits every
  matching event exactly once, and that a cursor keeps its meaning while events are appended.
\<close>

section \<open>Definitions\<close>

definition store_append :: "store \<Rightarrow> audit_event \<Rightarrow> 'a disk_scheme \<Rightarrow> 'a disk_scheme" where
  "store_append s ev d = append_line (s_audit s) (ev\<lparr>ev_ts := Some (now_s d)\<rparr>) d"

definition default_audit_limit :: int where
  "default_audit_limit = 50"

definition max_audit_limit :: int where
  "max_audit_limit = 200"

definition audit_matches :: "audit_event \<Rightarrow> audit_query_request \<Rightarrow> bool" where
  "audit_matches ev req \<longleftrightarrow>
     (if au_ev req \<noteq> [] \<and> ev_ev ev \<noteq> au_ev req then False
      else if au_id req \<noteq> [] \<and> ev_rid ev \<noteq> au_id req then False
      else if au_uid req \<noteq> 0 \<and> ev_uid ev \<noteq> au_uid req then False
      else if au_since req \<noteq> 0 \<or> au_until req \<noteq> 0 then
        (case ev_ts ev of
           None \<Rightarrow> False
         | Some sec \<Rightarrow>
             if au_since req \<noteq> 0 \<and> sec < au_since req then False
             else if au_until req \<noteq> 0 \<and> sec > au_until req then False
             else True)
      else True)"

text \<open>\<open>bytes.SplitAfter\<close> of the file: a last line without a newline has nothing after it.\<close>

definition file_lines :: "audit_line list \<Rightarrow> audit_line list" where
  "file_lines ls = (if ls \<noteq> [] \<and> last ls = TornLine then ls else ls @ [BlankLine])"

definition audit_limit :: "int \<Rightarrow> int" where
  "audit_limit l =
     (let l' = (if l \<le> 0 then default_audit_limit else l) in
      if l' > max_audit_limit then max_audit_limit else l')"

text \<open>The scan downwards from line \<open>n - 1\<close>, with what is still to be collected.\<close>

fun audit_scan ::
  "audit_query_request \<Rightarrow> int \<Rightarrow> audit_line list \<Rightarrow> nat \<Rightarrow> audit_event list \<Rightarrow> audit_event list \<times> string" where
  "audit_scan req limit lines 0 items = (items, [])"
| "audit_scan req limit lines (Suc i) items =
     (case lines ! i of
        Event ev \<Rightarrow>
          if \<not> audit_matches ev req then audit_scan req limit lines i items
          else (let items' = items @ [ev] in
                if int (length items') = limit
                then (items', if i > 0 then itoa (int i - 1) else [])
                else audit_scan req limit lines i items')
      | _ \<Rightarrow> audit_scan req limit lines i items)"

definition audit_query :: "store \<Rightarrow> audit_query_request \<Rightarrow> 'a disk_scheme \<Rightarrow> audit_query_response" where
  "audit_query s req d =
     (let limit = audit_limit (au_limit req);
          lines = file_lines (d_audit d);
          none = \<lparr>ap_items = [], ap_next_cursor = []\<rparr>;
          page = (\<lambda>start. case audit_scan req limit lines
                     (nat ((if start \<ge> int (length lines) then int (length lines) - 1 else start) + 1)) [] of
                   (items, next) \<Rightarrow> \<lparr>ap_items = items, ap_next_cursor = next\<rparr>)
      in if au_cursor req \<noteq> [] then
           (case atoi (au_cursor req) of
              None \<Rightarrow> none
            | Some n \<Rightarrow> if n < 0 then none else page n)
         else page (int (length lines) - 1))"

text \<open>A client that follows the cursors: the pages, newest first, until none is left.\<close>

fun audit_pages :: "nat \<Rightarrow> store \<Rightarrow> audit_query_request \<Rightarrow> 'a disk_scheme \<Rightarrow> audit_event list list" where
  "audit_pages 0 s req d = []"
| "audit_pages (Suc fuel) s req d =
     (let p = audit_query s req d in
      ap_items p #
        (if ap_next_cursor p = [] then []
         else audit_pages fuel s (req\<lparr>au_cursor := ap_next_cursor p\<rparr>) d))"

section \<open>The scan\<close>

text \<open>The matching events among the first \<open>n\<close> lines, newest first.\<close>

definition matching :: "audit_query_request \<Rightarrow> audit_line list \<Rightarrow> nat \<Rightarrow> audit_event list" where
  "matching req lines n = rev (filter (\<lambda>ev. audit_matches ev req) (audit_trail (take n lines)))"

lemma matching_0 [simp]: "matching req lines 0 = []"
  by (simp add: matching_def)

lemma matching_Suc:
  "i < length lines \<Longrightarrow> matching req lines (Suc i) =
    (case lines ! i of Event ev \<Rightarrow> if audit_matches ev req then [ev] else [] | _ \<Rightarrow> []) @ matching req lines i"
  by (simp add: matching_def take_Suc_conv_app_nth split: audit_line.splits)

text \<open>
  What one scan leaves: its items are the first of the matching ones, at most \<open>limit\<close> of
  them, and the cursor names the place below which the others lie.
\<close>

lemma audit_scan_spec:
  assumes "audit_scan req limit lines n items = (out, next)" and "n \<le> length lines"
    and "int (length items) < limit"
  shows "\<exists>m \<le> n. items @ matching req lines n = out @ matching req lines m
    \<and> int (length out) \<le> limit
    \<and> (if next = [] then m = 0 else 0 < m \<and> m < n \<and> next = itoa (int m - 1))"
  using assms
proof (induction req limit lines n items rule: audit_scan.induct)
  case (2 req limit lines i items)
  have i: "i < length lines" using "2.prems" by simp
  note M = matching_Suc [OF i, of req]
  show ?case
  proof (cases "\<exists>ev. lines ! i = Event ev \<and> audit_matches ev req")
    case False
    then have run: "audit_scan req limit lines i items = (out, next)"
      and M': "matching req lines (Suc i) = matching req lines i"
      using "2.prems"(1) M by (auto split: audit_line.splits if_splits)
    have "\<exists>m \<le> i. items @ matching req lines i = out @ matching req lines m \<and> int (length out) \<le> limit
      \<and> (if next = [] then m = 0 else 0 < m \<and> m < i \<and> next = itoa (int m - 1))"
      using "2.IH" "2.prems" i run False by (cases "lines ! i") auto
    then show ?thesis using M' by (metis le_Suc_eq less_Suc_eq)
  next
    case True
    then obtain ev where ev: "lines ! i = Event ev" "audit_matches ev req" by blast
    have M': "items @ matching req lines (Suc i) = (items @ [ev]) @ matching req lines i"
      using M ev by simp
    show ?thesis
    proof (cases "int (length (items @ [ev])) = limit")
      case full: True
      then have "out = items @ [ev]" "next = (if i > 0 then itoa (int i - 1) else [])"
        using "2.prems"(1) ev by (auto simp: Let_def)
      then show ?thesis using M' full
        by (intro exI [of _ i]) (auto simp: itoa_def)
    next
      case False
      then have run: "audit_scan req limit lines i (items @ [ev]) = (out, next)"
        using "2.prems"(1) ev by (simp add: Let_def)
      have "\<exists>m \<le> i. (items @ [ev]) @ matching req lines i = out @ matching req lines m
        \<and> int (length out) \<le> limit
        \<and> (if next = [] then m = 0 else 0 < m \<and> m < i \<and> next = itoa (int m - 1))"
        by (rule "2.IH"(2) [OF ev(1) _ refl False run]) (use "2.prems" i ev False in auto)
      then obtain m where m: "m \<le> i" "(items @ [ev]) @ matching req lines i = out @ matching req lines m"
        "int (length out) \<le> limit"
        "if next = [] then m = 0 else 0 < m \<and> m < i \<and> next = itoa (int m - 1)"
        by blast
      then show ?thesis using M' by (intro exI [of _ m]) (auto split: if_splits)
    qed
  qed
qed simp

section \<open>Pages\<close>

lemma audit_limit_bounds: "0 < audit_limit l" "audit_limit l \<le> 200"
  by (simp_all add: audit_limit_def default_audit_limit_def max_audit_limit_def)

lemma file_lines_nonempty [simp]: "file_lines ls \<noteq> []"
  by (simp add: file_lines_def)

lemma file_lines_length: "length (file_lines ls) \<le> Suc (length ls)"
  by (simp add: file_lines_def)

lemma file_lines_trail [simp]: "audit_trail (file_lines ls) = audit_trail ls"
  by (simp add: file_lines_def)

lemma audit_matches_cursor [simp]: "audit_matches ev (req\<lparr>au_cursor := c\<rparr>) = audit_matches ev req"
  by (cases "ev_ts ev") (simp_all add: audit_matches_def)

lemma matching_cursor [simp]: "matching (req\<lparr>au_cursor := c\<rparr>) lines n = matching req lines n"
  by (simp add: matching_def)

text \<open>Where a request starts: at the newest line, or at the line its cursor names.\<close>

definition starts_at :: "audit_query_request \<Rightarrow> audit_line list \<Rightarrow> nat \<Rightarrow> bool" where
  "starts_at req lines n \<longleftrightarrow>
     (if au_cursor req = [] then n = length lines
      else 0 < n \<and> n \<le> length lines \<and> au_cursor req = itoa (int n - 1))"

lemma itoa_nonempty [simp]: "itoa n \<noteq> []"
  by (simp add: itoa_def)

lemma audit_query_starts:
  assumes "starts_at req (file_lines (d_audit d)) n" and "length (d_audit d) < 2 ^ 62"
  shows "audit_query s req d =
    (case audit_scan req (audit_limit (au_limit req)) (file_lines (d_audit d)) n [] of
       (items, next) \<Rightarrow> \<lparr>ap_items = items, ap_next_cursor = next\<rparr>)"
proof (cases "au_cursor req = []")
  case True
  then have "n = length (file_lines (d_audit d))" using assms(1) by (simp add: starts_at_def)
  then show ?thesis using True by (simp add: audit_query_def Let_def)
next
  case False
  then have n: "0 < n" "n \<le> length (file_lines (d_audit d))" "au_cursor req = itoa (int n - 1)"
    using assms(1) by (simp_all add: starts_at_def)
  have "int n - 1 < 2 ^ 63" using n(2) assms(2) file_lines_length [of "d_audit d"] by simp
  then have "atoi (au_cursor req) = Some (int n - 1)" using n(1,3) atoi_itoa by simp
  then show ?thesis using n False by (simp add: audit_query_def Let_def)
qed

lemma audit_pages_from:
  assumes "length (d_audit d) < 2 ^ 62"
  shows "starts_at req (file_lines (d_audit d)) n \<Longrightarrow> n \<le> fuel \<Longrightarrow> 0 < fuel \<Longrightarrow>
    concat (audit_pages fuel s req d) = matching req (file_lines (d_audit d)) n
    \<and> list_all (\<lambda>p. length p \<le> 200) (audit_pages fuel s req d)"
proof (induction fuel arbitrary: req n)
  case (Suc fuel)
  let ?lines = "file_lines (d_audit d)" and ?limit = "audit_limit (au_limit req)"
  obtain out nx where scan: "audit_scan req ?limit ?lines n [] = (out, nx)" by fastforce
  have q: "audit_query s req d = \<lparr>ap_items = out, ap_next_cursor = nx\<rparr>"
    using audit_query_starts [OF Suc.prems(1) assms, of s] scan by simp
  have n: "n \<le> length ?lines" using Suc.prems(1) by (auto simp: starts_at_def split: if_splits)
  obtain m where m: "m \<le> n" "matching req ?lines n = out @ matching req ?lines m"
    "int (length out) \<le> ?limit" "if nx = [] then m = 0 else 0 < m \<and> m < n \<and> nx = itoa (int m - 1)"
    using audit_scan_spec [OF scan n] audit_limit_bounds by auto
  have len: "length out \<le> 200" using m(3) audit_limit_bounds(2) [of "au_limit req"] by linarith
  show ?case
  proof (cases "nx = []")
    case True
    then show ?thesis using q m len by (simp add: Let_def)
  next
    case False
    then have "starts_at (req\<lparr>au_cursor := nx\<rparr>) ?lines m" using m(4) n by (simp add: starts_at_def)
    moreover have "m \<le> fuel" "0 < fuel" using m(4) False Suc.prems(2) by auto
    ultimately show ?thesis using Suc.IH [of "req\<lparr>au_cursor := nx\<rparr>" m] False q m(2) len
      by (simp add: Let_def)
  qed
qed simp

text \<open>What a page shows depends only on the lines up to its cursor.\<close>

lemma audit_scan_take:
  "n \<le> length xs \<Longrightarrow> n \<le> length ys \<Longrightarrow> take n xs = take n ys \<Longrightarrow>
    audit_scan req limit xs n items = audit_scan req limit ys n items"
proof (induction n arbitrary: items)
  case (Suc n)
  then have "take n xs = take n ys" "xs ! n = ys ! n"
    by (simp_all add: take_Suc_conv_app_nth)
  then show ?case using Suc by (simp add: Let_def split: audit_line.splits)
qed simp

lemma append_line_lines:
  "n < length (d_audit d) \<Longrightarrow>
    take n (file_lines (d_audit (append_line p ev d))) = take n (file_lines (d_audit d))
    \<and> n \<le> length (file_lines (d_audit (append_line p ev d)))"
  by (auto simp: append_line_def close_torn_def file_lines_def take_butlast split: option.splits io.splits)

section \<open>Properties\<close>

text \<open>
  C35. Paging loses nothing and repeats nothing: the pages a client gets by following the
  cursors from the newest event are, put together, exactly the matching events of the
  trail, newest first; no page holds more than 200 of them.
\<close>

theorem audit_pages_complete:
  assumes "length (d_audit d) < 2 ^ 62" and "au_cursor req = []"
  shows "concat (audit_pages (Suc (length (d_audit d))) s req d) =
      rev (filter (\<lambda>ev. audit_matches ev req) (audit_trail (d_audit d)))
    \<and> list_all (\<lambda>p. length p \<le> 200) (audit_pages (Suc (length (d_audit d))) s req d)"
  using audit_pages_from [OF assms(1), of req "length (file_lines (d_audit d))" "Suc (length (d_audit d))" s]
    assms(2) file_lines_length [of "d_audit d"]
  by (simp add: starts_at_def matching_def)

definition three_events :: disk where
  "three_events = \<lparr>d_files = [], d_io = (\<lambda>p. IoOk), d_now = 0, d_audit =
     [Event (audit_event_zero\<lparr>ev_ev := ''a'', ev_rid := ''1''\<rparr>), Event (audit_event_zero\<lparr>ev_ev := ''b''\<rparr>),
      BadLine, Event (audit_event_zero\<lparr>ev_ev := ''a'', ev_rid := ''2''\<rparr>), TornLine]\<rparr>"

definition one_a :: audit_query_request where
  "one_a = \<lparr>au_cursor = [], au_limit = 1, au_ev = ''a'', au_id = [], au_uid = 0, au_since = 0, au_until = 0\<rparr>"

theorem audit_pages_complete_witness:
  "map ev_rid (concat (audit_pages 6 (store_new ''/s'') one_a three_events)) = [''2'', ''1'']"
proof -
  have len: "length (d_audit three_events) = 5" by (simp add: three_events_def)
  have "concat (audit_pages (Suc (length (d_audit three_events))) (store_new ''/s'') one_a three_events) =
      rev (filter (\<lambda>ev. audit_matches ev one_a) (audit_trail (d_audit three_events)))"
    using audit_pages_complete [of three_events one_a] by (simp add: len one_a_def)
  then show ?thesis by (simp add: len) (simp add: three_events_def one_a_def audit_matches_def)
qed

text \<open>
  A cursor stays valid while the trail grows: the page at a cursor below the newest
  line is the same before and after an event is appended (or its append fails).
\<close>

theorem audit_cursor_stable:
  assumes "au_cursor req \<noteq> []" and "atoi (au_cursor req) = Some n" and "0 \<le> n"
    and "n + 1 < int (length (d_audit d))"
  shows "audit_query s req (store_append s ev d) = audit_query s req d"
proof -
  let ?d = "store_append s ev d"
  have k: "nat (n + 1) < length (d_audit d)" using assms(3,4) by linarith
  have new: "take (nat (n + 1)) (file_lines (d_audit ?d)) = take (nat (n + 1)) (file_lines (d_audit d))"
    "nat (n + 1) \<le> length (file_lines (d_audit ?d))"
    using append_line_lines [OF k] by (simp_all add: store_append_def)
  have old: "nat (n + 1) \<le> length (file_lines (d_audit d))" using k by (simp add: file_lines_def)
  have start: "n < int (length (file_lines (d_audit ?d)))" "n < int (length (file_lines (d_audit d)))"
    using new(2) old assms(3) by linarith+
  have "audit_scan req l (file_lines (d_audit ?d)) (nat (n + 1)) [] =
      audit_scan req l (file_lines (d_audit d)) (nat (n + 1)) []" for l
    by (rule audit_scan_take [OF new(2) old new(1)])
  then show ?thesis using assms(1-3) start by (simp add: audit_query_def Let_def)
qed

theorem audit_cursor_stable_witness:
  "audit_query (store_new ''/s'') (one_a\<lparr>au_cursor := ''2''\<rparr>)
     (store_append (store_new ''/s'') audit_event_zero three_events)
   = audit_query (store_new ''/s'') (one_a\<lparr>au_cursor := ''2''\<rparr>) three_events"
  by (rule audit_cursor_stable [of _ 2])
    (simp_all add: three_events_def atoi_def atoi_digits_def dec_val_def is_digit_def digit_val_def)

end
