(* ===== verification/Telegram.thy ===== *)
theory Telegram imports GoStrings begin

text \<open>
  \<open>internal/telegram\<close>: the text of the cards, the keyboards and the callback data of their
  buttons, the reading of callback data, and what one batch of updates delivers. A keyboard
  is its rows of buttons (the code marshals exactly that); \<open>who\<close>, the user database, is a
  parameter. The HTTP calls themselves are effects of the service. The facts show that the daemon
  reads every button it paints as what it stands for, and hears nobody but its approvers.
\<close>

section \<open>Escaping and layout\<close>

definition escape_char :: "char \<Rightarrow> string" where
  "escape_char c =
     (if c = CHR ''&'' then ''&amp;''
      else if c = CHR 0x27 then ''&#39;''
      else if c = CHR ''<'' then ''&lt;''
      else if c = CHR ''>'' then ''&gt;''
      else if c = CHR 0x22 then ''&#34;''
      else [c])"

definition html_escape :: "string \<Rightarrow> string" where
  "html_escape s = concat (map escape_char s)"

definition who_label :: "(nat \<Rightarrow> string option) \<Rightarrow> nat \<Rightarrow> string" where
  "who_label who uid =
     (case who uid of
        Some name \<Rightarrow> name @ '' (uid '' @ dec uid @ '')''
      | None \<Rightarrow> ''uid '' @ dec uid)"

definition max_command_runes :: nat where "max_command_runes = 1500"
definition expandable_min_runes :: nat where "expandable_min_runes = 280"

definition expandable :: "string \<Rightarrow> string" where
  "expandable body = (if body = [] then [] else ''<blockquote expandable>'' @ body @ ''</blockquote>'')"

definition spoiler :: "string \<Rightarrow> string" where
  "spoiler body = (if body = [] then [] else ''<tg-spoiler>'' @ body @ ''</tg-spoiler>'')"

definition expandable_pre :: "string \<Rightarrow> string" where
  "expandable_pre escaped =
     (let block = ''<pre><code>'' @ escaped @ ''</code></pre>'' in
      if rune_count escaped \<le> expandable_min_runes then block else expandable block)"

definition spill_id :: "string \<Rightarrow> string" where
  "spill_id rid = spoiler (''<code>'' @ rid @ ''</code>'')"

definition source_label :: "string \<Rightarrow> string" where
  "source_label by =
     (if by = ''paseo'' then ''Paseo Desktop''
      else if has_prefix by ''telegram:'' then ''Telegram (@'' @ trim_prefix by ''telegram:'' @ '')''
      else ''CLI ('' @ by @ '')'')"

definition resolution_head :: "string \<Rightarrow> string \<Rightarrow> bool \<Rightarrow> string" where
  "resolution_head verdict by dry =
     (if verdict = ''approve'' then
        (if dry then ([CHR 0xE2, CHR 0x9C, CHR 0x85] @ '' <b>Approved (dry run '' @ [CHR 0xE2, CHR 0x80,
          CHR 0x94] @ '' not executed)</b>'')
         else ([CHR 0xE2, CHR 0x9C, CHR 0x85] @ '' <b>Approved via '') @ html_escape (source_label by)
           @ ''</b>'')
      else if verdict = ''deny'' then ([CHR 0xE2, CHR 0x9D, CHR 0x8C] @ '' <b>Denied via '')
        @ html_escape (source_label by) @ ''</b>''
      else if verdict = ''timeout'' \<or> verdict = ''confirmation_timeout'' then ([CHR 0xE2, CHR 0x8C,
        CHR 0x9B] @ '' <b>Expired '' @ [CHR 0xE2, CHR 0x80, CHR 0x94] @ '' timed out</b>'')
      else if verdict = ''client_aborted'' then ([CHR 0xE2, CHR 0x8C, CHR 0x9B] @ '' <b>Aborted ''
        @ [CHR 0xE2, CHR 0x80, CHR 0x94] @ '' caller disconnected</b>'')
      else if verdict = ''cancelled'' then ([CHR 0xF0, CHR 0x9F, CHR 0x9B, CHR 0x91]
        @ '' <b>Cancelled via '') @ html_escape (source_label by) @ ''</b>''
      else if verdict = ''confirm'' then ([CHR 0xE2, CHR 0x9A, CHR 0xA0, CHR 0xEF, CHR 0xB8, CHR 0x8F]
        @ '' <b>Are you sure? Tap again to run</b>'')
      else ([CHR 0xF0, CHR 0x9F, CHR 0x94, CHR 0x94] @ '' <b>Approval needed</b>''))"

text \<open>A text cut at a number of code points, with the mark the cards put after it.\<close>

definition cut_runes :: "nat \<Rightarrow> string \<Rightarrow> string \<Rightarrow> string" where
  "cut_runes n mark s = (if rune_count s > n then rune_take n s @ mark else s)"

definition trunc_mark :: string where
  "trunc_mark = ([CHR 0xE2, CHR 0x80, CHR 0xA6] @ ''[truncated]'')"

section \<open>Cards\<close>

definition run_card ::
  "(nat \<Rightarrow> string option) \<Rightarrow> string \<Rightarrow> string list \<Rightarrow> nat \<Rightarrow> string \<Rightarrow> string \<Rightarrow> int \<Rightarrow> string \<Rightarrow> string
    \<Rightarrow> bool \<Rightarrow> nat \<Rightarrow> string" where
  "run_card who host argv uid cwd rid expires_in verdict by dry as_uid =
     resolution_head verdict by dry @ ([CHR 0x0A, CHR 0xF0, CHR 0x9F, CHR 0x96, CHR 0xA5, CHR 0xEF,
       CHR 0xB8, CHR 0x8F] @ '' host: <code>'') @ html_escape host
     @ (''</code>'' @ [CHR 0x0A, CHR 0xF0, CHR 0x9F, CHR 0x91, CHR 0xA4] @ '' caller: <code>'')
       @ html_escape (who_label who uid)
     @ (''</code>'' @ [CHR 0x0A, CHR 0xF0, CHR 0x9F, CHR 0x94, CHR 0x91] @ '' will run as: <code>'')
       @ html_escape (who_label who as_uid)
     @ (''</code>'' @ [CHR 0x0A, CHR 0xF0, CHR 0x9F, CHR 0x93, CHR 0x81] @ '' cwd: <code>'') @ html_escape cwd
     @ (''</code>'' @ [CHR 0x0A, CHR 0xE2, CHR 0x8C, CHR 0xA8, CHR 0xEF, CHR 0xB8, CHR 0x8F]
       @ '' command:'' @ [CHR 0x0A])
     @ expandable_pre (html_escape (cut_runes max_command_runes trunc_mark (str_join '' '' argv)))
     @ ([CHR 0x0A, CHR 0xF0, CHR 0x9F, CHR 0x95, CHR 0x92] @ '' expires in '') @ itoa expires_in
       @ (''s '' @ [CHR 0xC2, CHR 0xB7] @ '' request '') @ spill_id (html_escape rid)"

definition max_notify_summary_runes :: nat where "max_notify_summary_runes = 1000"

definition notify_card ::
  "string \<Rightarrow> string \<Rightarrow> string \<Rightarrow> string \<Rightarrow> int \<Rightarrow> bool \<Rightarrow> string \<Rightarrow> string" where
  "notify_card host link summary rid expires_in acked ack_by =
     (if acked then ([CHR 0xE2, CHR 0x9C, CHR 0x85] @ '' <b>Acknowledged via '')
       @ html_escape (source_label ack_by) @ ''</b>''
      else ([CHR 0xF0, CHR 0x9F, CHR 0x93, CHR 0xA3] @ '' <b>Action needed</b>''))
     @ ([CHR 0x0A, CHR 0xF0, CHR 0x9F, CHR 0x96, CHR 0xA5, CHR 0xEF, CHR 0xB8, CHR 0x8F]
       @ '' host: <code>'') @ html_escape host @ (''</code>'' @ [CHR 0x0A, CHR 0xF0, CHR 0x9F, CHR 0x94,
         CHR 0x97] @ '' link: '') @ html_escape link
     @ ([CHR 0x0A, CHR 0xF0, CHR 0x9F, CHR 0x93, CHR 0x9D] @ '' summary:'' @ [CHR 0x0A])
     @ expandable_pre (html_escape (cut_runes max_notify_summary_runes trunc_mark summary))
     @ ([CHR 0x0A, CHR 0xF0, CHR 0x9F, CHR 0x95, CHR 0x92] @ '' expires in '') @ itoa expires_in
       @ (''s '' @ [CHR 0xC2, CHR 0xB7] @ '' notify '') @ spill_id (html_escape rid)"

definition max_ask_question_runes :: nat where "max_ask_question_runes = 1000"
definition max_ask_button_runes :: nat where "max_ask_button_runes = 48"

definition ask_card ::
  "string \<Rightarrow> string \<Rightarrow> string \<Rightarrow> string \<Rightarrow> int \<Rightarrow> bool \<Rightarrow> string \<Rightarrow> string \<Rightarrow> bool \<Rightarrow> string" where
  "ask_card host question link rid expires_in chosen selection by multi =
     (let cancelled = by \<noteq> [] \<and> by \<noteq> ''client'' in
      (if chosen then ([CHR 0xE2, CHR 0x9C, CHR 0x85] @ '' <b>Chosen: '') @ html_escape selection @ ''</b>''
       else if cancelled then ([CHR 0xF0, CHR 0x9F, CHR 0x9B, CHR 0x91] @ '' <b>Cancelled via '')
         @ html_escape (source_label by) @ ''</b>''
       else if multi then ([CHR 0xE2, CHR 0x9D, CHR 0x93] @ '' <b>Question '' @ [CHR 0xE2, CHR 0x80,
         CHR 0x94] @ '' pick one or more</b>'')
       else ([CHR 0xE2, CHR 0x9D, CHR 0x93] @ '' <b>Question '' @ [CHR 0xE2, CHR 0x80, CHR 0x94]
         @ '' pick one</b>''))
      @ ([CHR 0x0A, CHR 0xF0, CHR 0x9F, CHR 0x96, CHR 0xA5, CHR 0xEF, CHR 0xB8, CHR 0x8F]
        @ '' host: <code>'') @ html_escape host @ (''</code>'' @ [CHR 0x0A, CHR 0xF0, CHR 0x9F, CHR 0x93,
          CHR 0x9D] @ '' question:'' @ [CHR 0x0A])
      @ expandable_pre (html_escape (cut_runes max_ask_question_runes trunc_mark question))
      @ (if link \<noteq> [] then ([CHR 0x0A, CHR 0xF0, CHR 0x9F, CHR 0x94, CHR 0x97] @ '' link: '')
        @ html_escape link else [])
      @ (if chosen then ([CHR 0x0A, CHR 0xF0, CHR 0x9F, CHR 0x91, CHR 0xA4] @ '' chosen by: <code>'')
        @ html_escape (source_label by) @ ''</code>''
         else if cancelled then ([CHR 0x0A, CHR 0xF0, CHR 0x9F, CHR 0x91, CHR 0xA4]
           @ '' cancelled by: <code>'') @ html_escape (source_label by) @ ''</code>''
         else [])
      @ ([CHR 0x0A, CHR 0xF0, CHR 0x9F, CHR 0x95, CHR 0x92] @ '' expires in '') @ itoa expires_in
        @ (''s '' @ [CHR 0xC2, CHR 0xB7] @ '' ask '') @ spill_id (html_escape rid))"

definition paged_card :: "string \<Rightarrow> string \<Rightarrow> string \<Rightarrow> string list \<Rightarrow> int \<Rightarrow> int \<Rightarrow> string" where
  "paged_card host title rid lines page pages =
     ([CHR 0xF0, CHR 0x9F, CHR 0x93, CHR 0x84] @ '' <b>'') @ html_escape title @ (''</b>'' @ [CHR 0x0A,
       CHR 0xF0, CHR 0x9F, CHR 0x96, CHR 0xA5, CHR 0xEF, CHR 0xB8, CHR 0x8F] @ '' host: <code>'')
         @ html_escape host @ (''</code>'' @ [CHR 0x0A])
     @ (if lines = [] then ''No items.''
        else ''<pre><code>'' @ str_join [CHR 0x0A] (map html_escape lines) @ ''</code></pre>'')
     @ ([CHR 0x0A, CHR 0xF0, CHR 0x9F, CHR 0x93, CHR 0x91] @ '' page '') @ itoa (page + 1) @ ''/''
       @ itoa pages @ ('' '' @ [CHR 0xC2, CHR 0xB7] @ '' list '') @ spill_id (html_escape rid)"

section \<open>Keyboards\<close>

text \<open>A button carries callback data or opens a link.\<close>

datatype button = Callback string string | Link_button string string

type_synonym keyboard = "button list list"

definition run_buttons :: "string \<Rightarrow> keyboard" where
  "run_buttons rid = [[Callback ([CHR 0xE2, CHR 0x9C, CHR 0x85] @ '' Approve'') (''approve:'' @ rid),
    Callback ([CHR 0xE2, CHR 0x9D, CHR 0x8C] @ '' Deny'') (''deny:'' @ rid)]]"

definition auth_buttons :: "string \<Rightarrow> keyboard" where
  "auth_buttons url = [[Link_button ([CHR 0xF0, CHR 0x9F, CHR 0x94, CHR 0x91]
    @ '' Open WebAuthn Verification'') url]]"

definition notify_buttons :: "string \<Rightarrow> string \<Rightarrow> keyboard" where
  "notify_buttons link rid = [[Callback ([CHR 0xE2, CHR 0x9C, CHR 0x85] @ '' Ack'') (''ack:'' @ rid)],
    [Link_button ([CHR 0xF0, CHR 0x9F, CHR 0x94, CHR 0x97] @ '' Open link'') link]]"

definition empty_buttons :: keyboard where
  "empty_buttons = []"

definition ask_label :: "string \<Rightarrow> int \<Rightarrow> bool \<Rightarrow> int list \<Rightarrow> int \<Rightarrow> string" where
  "ask_label opt recommended multi selected i =
     cut_runes max_ask_button_runes [CHR 0xE2, CHR 0x80, CHR 0xA6]
       ((if multi then (if i \<in> set selected then ([CHR 0xE2, CHR 0x9C, CHR 0x85]
         @ '' '') else ([CHR 0xE2, CHR 0xAC, CHR 0x9C] @ '' '')) else [])
        @ (if i = recommended then ([CHR 0xE2, CHR 0xAD, CHR 0x90] @ '' '') else [])
        @ itoa (i + 1) @ ''. '' @ opt)"

definition ask_buttons :: "string \<Rightarrow> string list \<Rightarrow> int \<Rightarrow> bool \<Rightarrow> int list \<Rightarrow> keyboard" where
  "ask_buttons rid options recommended multi selected =
     map (\<lambda>(i, opt). [Callback (ask_label opt recommended multi selected (int i))
                        (''ask:'' @ rid @ (if multi then '':t:'' else '':'') @ itoa (int i))])
       (enumerate 0 options)
     @ (if multi
        then [[Callback ([CHR 0xE2, CHR 0x9C, CHR 0x85] @ '' Submit answer'') (''ask:'' @ rid @ '':s:''
          @ itoa (int (card (set selected))))]]
        else [])"

definition paged_page_size :: int where "paged_page_size = 5"

definition list_pages :: "int \<Rightarrow> int" where
  "list_pages n = (if n \<le> 0 then 1 else (n + paged_page_size - 1) div paged_page_size)"

definition page_slice :: "'a list \<Rightarrow> int \<Rightarrow> 'a list" where
  "page_slice lines page =
     (if page < 0 then []
      else let start = page * paged_page_size in
        if start \<ge> int (length lines) then []
        else let end' = min (start + paged_page_size) (int (length lines)) in
          drop (nat start) (take (nat end') lines))"

definition paged_buttons :: "string \<Rightarrow> int \<Rightarrow> int \<Rightarrow> keyboard" where
  "paged_buttons rid page pages =
     (if pages \<le> 1 then empty_buttons
      else let p = (if page < 0 then 0 else page); p = (if p \<ge> pages then pages - 1 else p) in
        [(if p > 0 then [Callback ([CHR 0xE2, CHR 0x97, CHR 0x80, CHR 0xEF, CHR 0xB8, CHR 0x8F]
          @ '' Prev'') (''page:'' @ rid @ '':'' @ itoa (p - 1))] else [])
         @ [Callback (''Page '' @ itoa (p + 1) @ ''/'' @ itoa pages) ''noop'']
         @ (if p + 1 < pages then [Callback (''Next '' @ [CHR 0xE2, CHR 0x96, CHR 0xB6, CHR 0xEF, CHR 0xB8,
           CHR 0x8F]) (''page:'' @ rid @ '':'' @ itoa (p + 1))] else [])])"

section \<open>Callbacks\<close>

record tg_verdict =
  tv_rid :: string
  tv_decision :: string
  tv_by :: string
  tv_idxs :: "int list"

definition atoi_nat :: "string \<Rightarrow> int option" where
  "atoi_nat s = (case atoi s of Some n \<Rightarrow> if n < 0 then None else Some n | None \<Rightarrow> None)"

fun atoi_all :: "string list \<Rightarrow> int list option" where
  "atoi_all [] = Some []"
| "atoi_all (p # ps) =
     (case atoi_nat (trim_space p) of
        None \<Rightarrow> None
      | Some n \<Rightarrow> map_option ((#) n) (atoi_all ps))"

definition split_ask :: "string \<Rightarrow> (string \<times> string \<times> int list) option" where
  "split_ask rest =
     (case index_of '':'' rest of
        None \<Rightarrow> None
      | Some sep \<Rightarrow>
          if sep = 0 then None
          else let rid = take sep rest; tail = drop (Suc sep) rest in
            if has_prefix tail ''t:''
            then map_option (\<lambda>n. (''asktoggle'', rid, [n])) (atoi_nat (trim_prefix tail ''t:''))
            else if has_prefix tail ''s:''
            then map_option (\<lambda>n. (''asksubmit'', rid, [n])) (atoi_nat (trim_prefix tail ''s:''))
            else map_option (\<lambda>ns. (''ask'', rid, ns)) (atoi_all (split_on CHR '','' tail)))"

definition split_page :: "string \<Rightarrow> (string \<times> string \<times> int list) option" where
  "split_page rest =
     (case last_index_of CHR '':'' rest of
        None \<Rightarrow> None
      | Some i \<Rightarrow>
          if i = 0 \<or> Suc i = length rest then None
          else map_option (\<lambda>n. (''page'', take i rest, [n])) (atoi_nat (drop (Suc i) rest)))"

definition split_verdict :: "string \<Rightarrow> (string \<times> string \<times> int list) option" where
  "split_verdict data =
     (if has_prefix data ''ask:'' then split_ask (trim_prefix data ''ask:'')
      else if has_prefix data ''page:'' then split_page (trim_prefix data ''page:'')
      else if has_prefix data ''approve:'' then Some (''approve'', trim_prefix data ''approve:'', [])
      else if has_prefix data ''deny:'' then Some (''deny'', trim_prefix data ''deny:'', [])
      else if has_prefix data ''ack:'' then Some (''ack'', trim_prefix data ''ack:'', [])
      else None)"

section \<open>Updates\<close>

record update =
  up_id :: int
  up_cb_id :: string
  up_from :: int
  up_data :: string

definition answer_text :: "string \<Rightarrow> int list \<Rightarrow> string" where
  "answer_text kind idxs =
     (if kind = ''approve'' then (''approved '' @ [CHR 0xE2, CHR 0x80, CHR 0x94] @ '' executing'')
      else if kind = ''ack'' then ''acknowledged''
      else if kind = ''ask'' then ''answer recorded''
      else if kind = ''asktoggle'' then ''selection updated''
      else if kind = ''asksubmit'' then ''answer recorded''
      else if kind = ''page'' then (case idxs of n # _ \<Rightarrow> ''page ''
        @ itoa (n + 1) | [] \<Rightarrow> ''page 1'')
      else ''denied'')"

text \<open>One update: the verdict it delivers, if any, and the answer to its callback, if any.\<close>

definition poll_one :: "(string \<Rightarrow> bool) \<Rightarrow> update \<Rightarrow> tg_verdict option \<times> (string \<times> string) option" where
  "poll_one approvers u =
     (let by = itoa (up_from u) in
      case split_verdict (up_data u) of
        None \<Rightarrow> (None, if up_data u = ''noop'' then Some (up_cb_id u, []) else None)
      | Some (kind, rid, idxs) \<Rightarrow>
          if \<not> approvers by then (None, Some (up_cb_id u, ''not authorized''))
          else if kind = ''asksubmit'' \<and> (idxs = [] \<or> hd idxs = 0)
          then (None, Some (up_cb_id u, ''select at least one''))
          else (Some \<lparr>tv_rid = rid, tv_decision = kind, tv_by = by, tv_idxs = idxs\<rparr>,
                Some (up_cb_id u, answer_text kind idxs)))"

definition poll_batch ::
  "(string \<Rightarrow> bool) \<Rightarrow> int \<Rightarrow> update list \<Rightarrow> tg_verdict list \<times> (string \<times> string) list \<times> int" where
  "poll_batch approvers offset us =
     (List.map_filter (fst \<circ> poll_one approvers) us, List.map_filter (snd \<circ> poll_one approvers) us,
      if us = [] then offset else up_id (last us) + 1)"

section \<open>Reading back the callback data\<close>

definition rid_ok :: "string \<Rightarrow> bool" where
  "rid_ok rid \<longleftrightarrow> rid \<noteq> [] \<and> CHR '':'' \<notin> set rid"

definition idx_ok :: "int \<Rightarrow> bool" where
  "idx_ok n \<longleftrightarrow> 0 \<le> n \<and> n < 2 ^ 63"

lemma atoi_nat_itoa: "idx_ok n \<Longrightarrow> atoi_nat (itoa n) = Some n"
  by (simp add: atoi_nat_def idx_ok_def atoi_itoa)

lemma index_of_sep: "CHR '':'' \<notin> set a \<Longrightarrow> index_of '':'' (a
  @ CHR '':'' # b) = Some (length a)"
  by (induction a) auto

lemma itoa_chars: "idx_ok n \<Longrightarrow> list_all is_digit (itoa n)"
  by (simp add: itoa_def idx_ok_def dec_digits)

lemma itoa_not_nil: "itoa n \<noteq> []"
  by (simp add: itoa_def)

lemma digits_no_sep: "list_all is_digit s \<Longrightarrow> c = CHR '':'' \<or> c = CHR '','' \<Longrightarrow> c \<notin> set s"
  using digit_not_sign by (auto simp: list_all_iff)

lemma digit_not_in_space: "is_digit c \<Longrightarrow> e \<in> set space_encodings \<Longrightarrow> e \<noteq> [] \<and> hd e \<noteq> c \<and> last e \<noteq> c"
  by (auto simp: space_encodings_def is_digit_def less_eq_char_def)

lemma prefix_hd: "prefix e (c # s) \<Longrightarrow> e \<noteq> [] \<Longrightarrow> hd e = c"
  by (cases e) auto

lemma digit_not_space:
  assumes "is_digit c"
  shows "space_len (c # s) = 0" and "space_len_rev (c # s) = 0"
proof -
  have "\<not> prefix e (c # s)" if "e \<in> set space_encodings" for e
    using digit_not_in_space [OF assms that] prefix_hd [of e c s] by auto
  then have "find (\<lambda>e. prefix e (c # s)) space_encodings = None" unfolding find_None_iff by blast
  then show "space_len (c # s) = 0" by (simp add: space_len_def)
  have "\<not> prefix (rev e) (c # s)" if "e \<in> set space_encodings" for e
    using digit_not_in_space [OF assms that] prefix_hd [of "rev e" c s] by (auto simp: hd_rev)
  then have "find (\<lambda>e. prefix (rev e) (c # s)) space_encodings = None" unfolding find_None_iff by blast
  then show "space_len_rev (c # s) = 0" by (simp add: space_len_rev_def)
qed

lemma trim_digits:
  assumes s: "s \<noteq> []" and d: "list_all is_digit s"
  shows "trim_space s = s"
proof -
  obtain c t where ct: "s = c # t" "is_digit c" using s d by (cases s) auto
  have "list_all is_digit (rev s)" using d by (simp add: list_all_iff)
  then obtain c' t' where ct': "rev s = c' # t'" "is_digit c'" using s by (cases "rev s") auto
  have l: "trim_left s = s"
    using digit_not_space(1) [OF ct(2)] ct by (simp add: trim_left_def drop_spaces_fixed)
  have "space_len_rev (rev s) = 0" unfolding ct'(1) by (rule digit_not_space(2) [OF ct'(2)])
  then have "trim_right s = rev (rev s)" by (simp only: trim_right_def drop_spaces_fixed)
  then show ?thesis by (simp add: trim_space_def l)
qed

lemma digit_no_letter: "list_all is_digit s \<Longrightarrow> s \<noteq> [] \<Longrightarrow> \<not> prefix ''t:'' s \<and> \<not> prefix ''s:'' s"
  by (cases s) (auto simp: is_digit_def less_eq_char_def)

lemma split_ask_tail:
  assumes "rid_ok rid"
  shows "split_ask (rid @ CHR '':'' # tail) =
    (if has_prefix tail ''t:''
     then map_option (\<lambda>n. (''asktoggle'', rid, [n])) (atoi_nat (trim_prefix tail ''t:''))
     else if has_prefix tail ''s:''
     then map_option (\<lambda>n. (''asksubmit'', rid, [n])) (atoi_nat (trim_prefix tail ''s:''))
     else map_option (\<lambda>ns. (''ask'', rid, ns)) (atoi_all (split_on CHR '','' tail)))"
  using assms by (simp add: split_ask_def rid_ok_def index_of_sep)

lemma read_decisions:
  "split_verdict (''approve:'' @ rid) = Some (''approve'', rid, [])"
  "split_verdict (''deny:'' @ rid) = Some (''deny'', rid, [])"
  "split_verdict (''ack:'' @ rid) = Some (''ack'', rid, [])"
  "split_verdict ''noop'' = None"
  by (simp_all add: split_verdict_def trim_prefix_def)

lemma read_toggle:
  assumes "rid_ok rid" and "idx_ok n"
  shows "split_verdict (''ask:'' @ rid @ '':t:'' @ itoa n) = Some (''asktoggle'', rid, [n])"
    and "split_verdict (''ask:'' @ rid @ '':s:'' @ itoa n) = Some (''asksubmit'', rid, [n])"
  using assms by (simp_all add: split_verdict_def trim_prefix_def split_ask_tail atoi_nat_itoa)

lemma read_pick:
  assumes "rid_ok rid" and "idx_ok n"
  shows "split_verdict (''ask:'' @ rid @ '':'' @ itoa n) = Some (''ask'', rid, [n])"
proof -
  note digits = itoa_chars [OF assms(2)]
  show ?thesis
    using assms digit_no_letter [OF digits itoa_not_nil]
      digits_no_sep [OF digits, of "CHR '',''"] trim_digits [OF itoa_not_nil digits]
    by (simp add: split_verdict_def trim_prefix_def split_ask_tail split_on_no_sep atoi_nat_itoa)
qed

lemma read_page:
  assumes "rid_ok rid" and "idx_ok n"
  shows "split_verdict (''page:'' @ rid @ '':'' @ itoa n) = Some (''page'', rid, [n])"
proof -
  have "last_index_of CHR '':'' (rid @ CHR '':'' # itoa n) = Some (length rid)"
    using digits_no_sep [OF itoa_chars [OF assms(2)], of "CHR '':''"] by (simp add: last_index_of_append)
  then show ?thesis
    using assms by (simp add: split_verdict_def trim_prefix_def split_page_def rid_ok_def itoa_not_nil atoi_nat_itoa)
qed

text \<open>What polling reads when a button is pressed; a link button sends nothing.\<close>

definition pressed :: "button \<Rightarrow> (string \<times> string \<times> int list) option" where
  "pressed b = (case b of Callback label data \<Rightarrow> split_verdict data | Link_button label url \<Rightarrow> None)"

definition meaning :: "keyboard \<Rightarrow> (string \<times> string \<times> int list) option list list" where
  "meaning kb = map (map pressed) kb"

lemma meaning_append: "meaning (a @ b) = meaning a @ meaning b"
  by (simp add: meaning_def)

lemma option_buttons_mean:
  assumes "rid_ok rid" and "length opts < 2 ^ 63"
  shows "meaning (map (\<lambda>(i, opt). [Callback (label i opt)
        (''ask:'' @ rid @ (if multi then '':t:'' else '':'') @ itoa (int i))]) (enumerate 0 opts))
    = map (\<lambda>i. [Some (if multi then ''asktoggle'' else ''ask'', rid, [int i])]) [0..<length opts]"
proof (rule nth_equalityI)
  fix i
  assume "i < length (meaning (map (\<lambda>(i, opt). [Callback (label i opt)
        (''ask:'' @ rid @ (if multi then '':t:'' else '':'') @ itoa (int i))]) (enumerate 0 opts)))"
  then have i: "i < length opts" by (simp add: meaning_def)
  then have "idx_ok (int i)" using assms(2) by (simp add: idx_ok_def)
  then show "meaning (map (\<lambda>(i, opt). [Callback (label i opt)
        (''ask:'' @ rid @ (if multi then '':t:'' else '':'') @ itoa (int i))]) (enumerate 0 opts)) ! i
    = map (\<lambda>i. [Some (if multi then ''asktoggle'' else ''ask'', rid, [int i])]) [0..<length opts] ! i"
    using i read_toggle(1) [OF assms(1)] read_pick [OF assms(1)]
    by (simp add: meaning_def pressed_def nth_enumerate_eq)
qed (simp add: meaning_def)

section \<open>Escaped text carries no markup\<close>

lemma escape_char_plain: "set (escape_char c) \<inter> {CHR ''<'', CHR ''>'', CHR 0x22, CHR 0x27} = {}"
  by (auto simp: escape_char_def)

lemma html_escape_plain: "set (html_escape s) \<inter> {CHR ''<'', CHR ''>'', CHR 0x22, CHR 0x27} = {}"
  using escape_char_plain by (auto simp: html_escape_def)

lemma count_escape [simp]: "count_list (html_escape s) CHR ''<'' = 0"
  using html_escape_plain [of s] by (simp add: count_list_0_iff)

lemma digits_no_markup: "list_all is_digit s \<Longrightarrow> count_list s CHR ''<'' = 0"
  by (induction s) (auto simp: is_digit_def less_eq_char_def)

lemma count_itoa [simp]: "count_list (itoa n) CHR ''<'' = 0"
  using digits_no_markup [OF dec_digits] by (simp add: itoa_def)

lemma count_head [simp]: "count_list (resolution_head v by dry) CHR ''<'' = 2"
  by (simp add: resolution_head_def)

section \<open>Pages\<close>

lemma page_slice_eq:
  "page_slice lines (int k) = take 5 (drop (5 * k) lines)"
  by (simp add: page_slice_def Let_def paged_page_size_def take_drop min_def)
    (auto simp: nat_add_distrib nat_mult_distrib add.commute mult.commute not_less zle_int [symmetric])

lemma concat_chunks: "concat (map (\<lambda>k. take 5 (drop (5 * k) xs)) [0..<m]) = take (5 * m) xs"
  by (induction m) (simp_all add: take_add add.commute [of 5])

lemma list_pages_covers: "n \<le> 5 * list_pages n"
  unfolding list_pages_def paged_page_size_def by (cases "n \<le> 0") (simp, presburger)

section \<open>Properties\<close>

text \<open>
  C34. The daemon reads every button it paints as what it stands for. On the keyboards of a
  command, a notice, a question and a list, each button reads back as its operation on its petition:
  approve and deny, acknowledge, the option at its own place, submit with the number of chosen
  options, the page before and the page after; the page counter and the links read as nothing, and
  pressing the counter delivers no verdict. Request ids must have no colon, and numbers fit 64 bits.
\<close>

theorem buttons_read_back:
  assumes "rid_ok rid" and "length opts < 2 ^ 63" and "card (set selected) < 2 ^ 63" and "pages < 2 ^ 63"
  shows "meaning (run_buttons rid) = [[Some (''approve'', rid, []), Some (''deny'', rid, [])]]
    \<and> meaning (notify_buttons link rid) = [[Some (''ack'', rid, [])], [None]]
    \<and> meaning (ask_buttons rid opts recommended multi selected) =
      map (\<lambda>i. [Some (if multi then ''asktoggle'' else ''ask'', rid, [int i])]) [0..<length opts]
      @ (if multi then [[Some (''asksubmit'', rid, [int (card (set selected))])]] else [])
    \<and> meaning (paged_buttons rid page pages) =
      (if pages \<le> 1 then []
       else let p = max 0 (min page (pages - 1)) in
         [(if 0 < p then [Some (''page'', rid, [p - 1])] else []) @ [None]
          @ (if p + 1 < pages then [Some (''page'', rid, [p + 1])] else [])])
    \<and> poll_one approvers \<lparr>up_id = n, up_cb_id = cb, up_from = who, up_data = ''noop''\<rparr> = (None, Some (cb, []))"
proof (intro conjI)
  show "meaning (run_buttons rid) = [[Some (''approve'', rid, []), Some (''deny'', rid, [])]]"
      "meaning (notify_buttons link rid) = [[Some (''ack'', rid, [])], [None]]"
    by (simp_all only: meaning_def pressed_def run_buttons_def notify_buttons_def list.map button.case read_decisions)
  have "idx_ok (int (card (set selected)))" using assms(3) by (simp add: idx_ok_def)
  then show "meaning (ask_buttons rid opts recommended multi selected) =
      map (\<lambda>i. [Some (if multi then ''asktoggle'' else ''ask'', rid, [int i])]) [0..<length opts]
      @ (if multi then [[Some (''asksubmit'', rid, [int (card (set selected))])]] else [])"
    using option_buttons_mean [OF assms(1,2), of "\<lambda>i opt. ask_label opt recommended multi selected (int i)" multi]
      read_toggle(2) [OF assms(1)]
    unfolding ask_buttons_def meaning_append by (simp add: meaning_def pressed_def)
  have page: "pressed (Callback l (''page:'' @ rid @ '':'' @ itoa q)) = Some (''page'', rid, [q])"
    if "0 \<le> q" "q < pages" for l q
    using that assms(4) read_page [OF assms(1), of q] by (simp add: pressed_def idx_ok_def)
  have noop: "pressed (Callback l ''noop'') = None" for l by (simp only: pressed_def button.case read_decisions)
  define p where "p = max 0 (min page (pages - 1))"
  show "meaning (paged_buttons rid page pages) =
      (if pages \<le> 1 then []
       else let p = max 0 (min page (pages - 1)) in
         [(if 0 < p then [Some (''page'', rid, [p - 1])] else []) @ [None]
          @ (if p + 1 < pages then [Some (''page'', rid, [p + 1])] else [])])"
  proof (cases "pages \<le> 1")
    case False
    have "(let p = (if page < 0 then 0 else page) in if p \<ge> pages then pages - 1 else p) = p"
      using False by (auto simp: p_def Let_def)
    moreover have "0 \<le> p" "p < pages" using False by (auto simp: p_def)
    ultimately show ?thesis
      using False page noop unfolding p_def [symmetric] paged_buttons_def meaning_def
      by (simp add: Let_def)
  qed (simp add: paged_buttons_def empty_buttons_def meaning_def)
  show "poll_one approvers \<lparr>up_id = n, up_cb_id = cb, up_from = who, up_data = ''noop''\<rparr> = (None, Some (cb, []))"
    by (simp add: poll_one_def read_decisions Let_def)
qed

theorem buttons_read_back_witness:
  "meaning (ask_buttons ''a1'' [''x'', ''y''] 0 True [1]) =
     [[Some (''asktoggle'', ''a1'', [0])], [Some (''asktoggle'', ''a1'', [1])], [Some (''asksubmit'', ''a1'', [1])]]
   \<and> meaning (paged_buttons ''a1'' 1 3) = [[Some (''page'', ''a1'', [0]), None, Some (''page'', ''a1'', [2])]]"
  using buttons_read_back [of "''a1''" "[''x'', ''y'']" "[1]" 3 "[]" 0 True 1]
  by (simp add: rid_ok_def upt_rec Let_def)

text \<open>
  C24. Only approvers decide over Telegram: a batch of updates delivers exactly the readable
  callbacks of approvers, attributed to their sender, leaving out a submit of nothing.
\<close>

theorem only_approvers_decide:
  "v \<in> set (fst (poll_batch approvers offset us)) \<longleftrightarrow>
    (\<exists>u kind rid idxs. u \<in> set us \<and> split_verdict (up_data u) = Some (kind, rid, idxs)
      \<and> approvers (itoa (up_from u))
      \<and> \<not> (kind = ''asksubmit'' \<and> (idxs = [] \<or> hd idxs = 0))
      \<and> v = \<lparr>tv_rid = rid, tv_decision = kind, tv_by = itoa (up_from u), tv_idxs = idxs\<rparr>)"
proof -
  have "fst (poll_one approvers u) = Some v \<longleftrightarrow>
    (\<exists>kind rid idxs. split_verdict (up_data u) = Some (kind, rid, idxs) \<and> approvers (itoa (up_from u))
      \<and> \<not> (kind = ''asksubmit'' \<and> (idxs = [] \<or> hd idxs = 0))
      \<and> v = \<lparr>tv_rid = rid, tv_decision = kind, tv_by = itoa (up_from u), tv_idxs = idxs\<rparr>)" for u
    by (cases "split_verdict (up_data u)") (auto simp: poll_one_def Let_def split: if_splits)
  then show ?thesis by (simp add: poll_batch_def map_filter_set Bex_def)
qed

text \<open>
  Nothing a caller controls adds markup to the approval card: whatever the host, the
  command, the directory, the request id, the attribution and the user names contain, the
  card has the tags of its own layout and no other.
\<close>

theorem card_markup_fixed:
  "count_list (run_card who host argv uid cwd rid left verdict by dry as_uid) CHR ''<'' =
    (if rune_count (html_escape (cut_runes max_command_runes trunc_mark (str_join '' '' argv)))
        \<le> expandable_min_runes
     then 18 else 20)"
  by (simp add: run_card_def expandable_pre_def expandable_def spill_id_def spoiler_def Let_def)

text \<open>
  The pages of a list card partition its lines: page after page they are the lines, in
  order, none missing and none twice, and no page has more than five.
\<close>

theorem pages_partition:
  "concat (map (\<lambda>k. page_slice lines (int k)) [0..<nat (list_pages (int (length lines)))]) = lines
   \<and> length (page_slice lines p) \<le> 5"
proof
  show "concat (map (\<lambda>k. page_slice lines (int k)) [0..<nat (list_pages (int (length lines)))]) = lines"
    using list_pages_covers [of "int (length lines)"] by (simp add: page_slice_eq concat_chunks)
  show "length (page_slice lines p) \<le> 5"
  proof (cases "p < 0")
    case False
    then show ?thesis using page_slice_eq [of lines "nat p"] by simp
  qed (simp add: page_slice_def)
qed

end
