(* ===== verification/ExecBounds.thy ===== *)
theory ExecBounds imports GoStrings begin

text \<open>
  \<open>service/execbounds.go\<close> and \<open>service/authchallenge.go\<close>: the ceilings on a command's output
  and running time, and the scanner that looks for a second-factor link in the output while
  it streams by. A process is described by what it writes and when, when it would end by
  itself, and how; the deadline cuts that description short.
\<close>

section \<open>Ceilings\<close>

definition default_max_output_bytes :: int where "default_max_output_bytes = 262144"

definition cap_bytes :: "int \<Rightarrow> int" where
  "cap_bytes conf = (if conf > 0 then conf else default_max_output_bytes)"

text \<open>Durations in nanoseconds, as \<open>time.Duration\<close> has them.\<close>

definition second_ns :: int where "second_ns = 10 ^ 9"

definition default_exec_timeout :: int where "default_exec_timeout = 120 * second_ns"

definition exec_timeout :: "int \<Rightarrow> int \<times> bool" where
  "exec_timeout secs =
     (if secs < 0 then (0, False)
      else if secs = 0 then (default_exec_timeout, True)
      else (i64 (secs * second_ns), True))"

definition truncation_marker :: "int \<Rightarrow> int \<Rightarrow> string" where
  "truncation_marker dropped ceiling =
     ([CHR 0x0A, CHR 0xE2, CHR 0x80, CHR 0xA6] @ ''[truncated '') @ itoa dropped @ '' bytes, ceiling ''
       @ itoa ceiling @ '' bytes]''"

record capped_writer =
  cw_buf :: string
  cw_max :: int
  cw_dropped :: int

definition new_capped_writer :: "int \<Rightarrow> capped_writer" where
  "new_capped_writer mx = \<lparr>cw_buf = [], cw_max = mx, cw_dropped = 0\<rparr>"

definition cw_write :: "capped_writer \<Rightarrow> string \<Rightarrow> capped_writer" where
  "cw_write w p =
     (let room = cw_max w - int (length (cw_buf w)) in
      if room \<le> 0 then w\<lparr>cw_dropped := cw_dropped w + int (length p)\<rparr>
      else if int (length p) > room
      then w\<lparr>cw_buf := cw_buf w
        @ take (nat room) p, cw_dropped := cw_dropped w + (int (length p) - room)\<rparr>
      else w\<lparr>cw_buf := cw_buf w @ p\<rparr>)"

definition cw_string :: "capped_writer \<Rightarrow> string" where
  "cw_string w =
     (if cw_dropped w > 0 then cw_buf w @ truncation_marker (cw_dropped w) (cw_max w) else cw_buf w)"

definition bound_output :: "string \<Rightarrow> int \<Rightarrow> string" where
  "bound_output s mx =
     (if mx \<le> 0 \<or> int (length s) \<le> mx then s
      else take (nat mx) s @ truncation_marker (int (length s) - mx) mx)"

section \<open>Challenge links\<close>

definition url_char :: "char \<Rightarrow> bool" where
  "url_char c \<longleftrightarrow>
     c \<notin> {CHR 0x09, CHR 0x0A, CHR 0x0C, CHR 0x0D, CHR 0x20, CHR 0x22, CHR 0x27, CHR ''<'', CHR ''>''}"

text \<open>A match of \<open>https?://[^\s"'<>]+\<close> at the start of a text, and all of them from left to right.\<close>

definition match_url :: "string \<Rightarrow> string option" where
  "match_url s =
     (let n = (if has_prefix s ''https://'' then 8 else if has_prefix s ''http://'' then 7 else 0 :: nat);
          body = takeWhile url_char (drop n s)
      in if n = 0 \<or> body = [] then None else Some (take n s @ body))"

function find_urls :: "string \<Rightarrow> string list" where
  "find_urls [] = []"
| "find_urls (c # s) =
     (case match_url (c # s) of
        None \<Rightarrow> find_urls s
      | Some u \<Rightarrow> u # find_urls (drop (length u - 1) s))"
  by pat_completeness auto
termination by (relation "measure length") auto

definition trim_right_set :: "string \<Rightarrow> string \<Rightarrow> string" where
  "trim_right_set s cs = rev (dropWhile (\<lambda>c. c \<in> set cs) (rev s))"

definition challenge_query_keys :: "string list" where
  "challenge_query_keys =
     [''otp'', ''webauthn'', ''user_code'', ''device_code'', ''device'', ''code'',
      ''challenge'', ''auth'', ''verify'', ''verification'', ''stage'', ''session'']"

definition has_challenge_query :: "string \<Rightarrow> bool" where
  "has_challenge_query query =
     list_ex (\<lambda>k. str_contains query (k @ ''='') \<or> str_contains query (k
       @ ''&'')) challenge_query_keys"

text \<open>The host, the path and the query of a link.\<close>

definition url_parts :: "string \<Rightarrow> string \<times> string \<times> string" where
  "url_parts lower =
     (case index_of ''://'' lower of
        None \<Rightarrow> ([], [], [])
      | Some i \<Rightarrow>
          let rest = drop (i + 3) lower;
              (host, rest) = (case index_where (\<lambda>c. c \<in> set ''/?#'') rest of
                                Some j \<Rightarrow> (take j rest, drop j rest)
                              | None \<Rightarrow> (rest, []))
          in case index_where (\<lambda>c. c \<in> set ''?#'') rest of
               Some j \<Rightarrow> (host, take j rest, drop (Suc j) rest)
             | None \<Rightarrow> (host, rest, []))"

definition is_challenge_url :: "string \<Rightarrow> bool" where
  "is_challenge_url raw =
     (case url_parts (to_lower raw) of
        (host, path, query) \<Rightarrow>
          if str_contains host ''npmjs.com'' \<or> str_contains host ''npmjs.org''
          then str_contains path ''/login'' \<or> str_contains path ''/stage'' \<or> str_contains path ''/auth''
            \<or> str_contains path ''/verify'' \<or> str_contains path ''/authorize'' \<or> has_challenge_query query
          else if str_contains path ''/login/device'' then True
          else has_challenge_query query)"

definition extract_auth_url :: "string \<Rightarrow> string" where
  "extract_auth_url output =
     some_or (find is_challenge_url (map (\<lambda>raw. trim_right_set raw ''.,;!?)'') (find_urls output))) []"

text \<open>The scanner between the process and the capped writer. The flag is the fired state.\<close>

record challenge_writer =
  ch_dst :: capped_writer
  ch_buf :: string
  ch_fired :: bool

definition scan_window :: int where "scan_window = 64 * 1024"

definition challenge_scanner :: "capped_writer \<Rightarrow> challenge_writer" where
  "challenge_scanner dst = \<lparr>ch_dst = dst, ch_buf = [], ch_fired = False\<rparr>"

definition ch_write :: "challenge_writer \<Rightarrow> string \<Rightarrow> challenge_writer \<times> string option" where
  "ch_write w p =
     (let dst = cw_write (ch_dst w) p; buf = ch_buf w @ p in
      if ch_fired w then (w\<lparr>ch_dst := dst, ch_buf := buf\<rparr>, None)
      else let u = extract_auth_url buf;
               buf' = (if int (length buf) > scan_window then drop (nat (int (length buf) - scan_window)) buf else buf)
           in if u \<noteq> [] then (w\<lparr>ch_dst := dst, ch_buf := buf', ch_fired := True\<rparr>, Some u)
              else (w\<lparr>ch_dst := dst, ch_buf := buf'\<rparr>, None))"

fun ch_write_all :: "challenge_writer \<Rightarrow> string list \<Rightarrow> challenge_writer \<times> string list" where
  "ch_write_all w [] = (w, [])"
| "ch_write_all w (p # ps) =
     (case ch_write w p of (w1, fired) \<Rightarrow>
      case ch_write_all w1 ps of (w2, urls) \<Rightarrow>
        (w2, (case fired of Some u \<Rightarrow> u # urls | None \<Rightarrow> urls)))"

section \<open>Running to the deadline\<close>

datatype proc_end = Exit_status int | Wait_error string

datatype proc =
    Start_error string
  | Proc "(int \<times> string) list" int proc_end

text \<open>
  \<open>runBounded\<close>: what was written, whether the deadline struck, and the error. A process
  that is still running at the deadline is killed with its group; without a deadline it
  runs to its own end.
\<close>

definition run_bounded :: "proc \<Rightarrow> int \<Rightarrow> bool \<Rightarrow> string list \<times> bool \<times> (string + proc_end)" where
  "run_bounded p d enabled =
     (case p of
        Start_error e \<Rightarrow> ([], False, Inl e)
      | Proc writes ends how \<Rightarrow>
          if enabled \<and> ends > d
          then (map snd (filter (\<lambda>(t, _). t \<le> d) writes), True, Inr (Exit_status (-1)))
          else (map snd writes, False, Inr how))"

definition timeout_note :: string where
  "timeout_note = ([CHR 0x0A] @ ''2fadod: execution timeout'')"

definition run_outcome :: "string \<Rightarrow> bool \<Rightarrow> string + proc_end \<Rightarrow> int \<times> string" where
  "run_outcome captured timed_out err =
     (if timed_out then (124, captured @ timeout_note)
      else case err of
             Inl e \<Rightarrow> (1, captured @ e)
           | Inr (Exit_status c) \<Rightarrow> (c, captured)
           | Inr (Wait_error e) \<Rightarrow> (1, captured @ e))"

text \<open>\<open>runCmdBounded\<close>: exit status, captured output, and the links the scanner reported.\<close>

definition run_cmd_bounded :: "int \<Rightarrow> int \<Rightarrow> bool \<Rightarrow> proc \<Rightarrow> int \<times> string \<times> string list" where
  "run_cmd_bounded max_output exec_secs scan p =
     (case exec_timeout exec_secs of (d, enabled) \<Rightarrow>
      case run_bounded p d enabled of (chunks, timed_out, err) \<Rightarrow>
        let w = new_capped_writer (cap_bytes max_output);
            (captured, urls) =
              (if scan
               then (case ch_write_all (challenge_scanner w) chunks of
                       (cw, urls) \<Rightarrow> (cw_string (ch_dst cw), urls))
               else (cw_string (foldl cw_write w chunks), []));
            (code, out) = run_outcome captured timed_out err
        in (code, out, urls))"

section \<open>Sinks\<close>

text \<open>
  A sink for a stream shows the same whether bytes arrive in one piece or in several. What
  it shows after a whole stream then depends on the bytes alone.
\<close>

locale stream_sink =
  fixes emit :: "'w \<Rightarrow> string \<Rightarrow> 'w"
    and wf :: "'w \<Rightarrow> bool"
  assumes write_wf: "wf w \<Longrightarrow> wf (emit w p)"
    and write_write: "wf w \<Longrightarrow> emit (emit w p) q = emit w (p @ q)"
    and write_nil: "wf w \<Longrightarrow> emit w [] = w"
begin

lemma writes_wf: "wf w \<Longrightarrow> wf (foldl emit w ps)"
  by (induction ps arbitrary: w) (simp_all add: write_wf)

lemma writes_concat: "wf w \<Longrightarrow> foldl emit w ps = emit w (concat ps)"
proof (induction ps arbitrary: w)
  case (Cons p ps)
  then show ?case by (simp add: write_wf write_write)
qed (simp add: write_nil)

end

lemma cw_write_write: "cw_write (cw_write w p) q = cw_write w (p @ q)"
  by (cases q) (auto simp: cw_write_def Let_def not_le not_less nat_diff_distrib)

interpretation capped: stream_sink cw_write "\<lambda>w. True"
  by unfold_locales (simp_all add: cw_write_write, simp add: cw_write_def Let_def)

text \<open>The scanner forwards everything, so what it captures is what a plain writer captures.\<close>

lemma ch_write_dst: "ch_dst (fst (ch_write w p)) = cw_write (ch_dst w) p"
  by (simp add: ch_write_def Let_def)

lemma ch_write_all_dst: "ch_dst (fst (ch_write_all w ps)) = foldl cw_write (ch_dst w) ps"
proof (induction ps arbitrary: w)
  case (Cons p ps)
  obtain w1 f where p: "ch_write w p = (w1, f)" by fastforce
  obtain w2 us where ps: "ch_write_all w1 ps = (w2, us)" by fastforce
  have "ch_dst w1 = cw_write (ch_dst w) p" using ch_write_dst [of w p] p by simp
  then show ?case using Cons.IH [of w1] p ps by simp
qed simp

lemma capped_stream:
  "0 < mx \<Longrightarrow> cw_string (foldl cw_write (new_capped_writer mx) ps) = bound_output (concat ps) mx"
  unfolding capped.writes_concat [OF TrueI]
  by (auto simp: cw_write_def new_capped_writer_def cw_string_def bound_output_def Let_def)

lemma cap_bytes_pos: "0 < cap_bytes conf"
  by (simp add: cap_bytes_def default_max_output_bytes_def)

lemma find_holds: "find P xs = Some x \<Longrightarrow> P x"
  by (auto simp: find_Some_iff)

lemma extract_is_challenge:
  assumes "extract_auth_url s \<noteq> []"
  shows "is_challenge_url (extract_auth_url s)"
proof -
  let ?f = "find is_challenge_url (map (\<lambda>raw. trim_right_set raw ''.,;!?)'') (find_urls s))"
  obtain u where u: "?f = Some u" using assms by (cases ?f) (simp_all add: extract_auth_url_def)
  then have "is_challenge_url u" by (rule find_holds)
  then show ?thesis by (simp add: extract_auth_url_def u)
qed

lemma ch_write_fired: "ch_write w p = (w', Some u) \<Longrightarrow> \<not> ch_fired w \<and> ch_fired w' \<and> is_challenge_url u"
  using extract_is_challenge by (auto simp: ch_write_def Let_def split: if_splits)

lemma ch_write_quiet: "ch_fired w \<Longrightarrow> ch_write_all w ps = (w', us) \<Longrightarrow> us = []"
proof (induction ps arbitrary: w w' us)
  case (Cons p ps)
  obtain w2 us2 where a: "ch_write_all (fst (ch_write w p)) ps = (w2, us2)" by fastforce
  have "ch_write w p = (w\<lparr>ch_dst := cw_write (ch_dst w) p, ch_buf := ch_buf w @ p\<rparr>, None)"
    using Cons.prems(1) by (simp add: ch_write_def Let_def)
  then show ?case using Cons.IH [OF _ a] Cons.prems a by simp
qed simp

lemma ch_write_all_links:
  "length (snd (ch_write_all w ps)) \<le> 1 \<and> list_all is_challenge_url (snd (ch_write_all w ps))"
proof (induction ps arbitrary: w)
  case (Cons p ps)
  obtain w1 f where p: "ch_write w p = (w1, f)" by fastforce
  obtain w2 us where ps: "ch_write_all w1 ps = (w2, us)" by fastforce
  show ?case
  proof (cases f)
    case None
    then show ?thesis using Cons.IH [of w1] p ps by simp
  next
    case (Some u)
    then show ?thesis using ch_write_fired [of w p w1 u] ch_write_quiet [OF _ ps] p ps by simp
  qed
qed simp

section \<open>Properties\<close>

text \<open>
  C36. The captured output of a command is the whole stream cut at the ceiling, with the
  marker naming the bytes dropped: it depends on the bytes written and not on how they
  arrived, nor on whether the link scanner sits in between.
\<close>

theorem capture_is_bound_output:
  "cw_string (foldl cw_write (new_capped_writer (cap_bytes conf)) ps) = bound_output (concat ps) (cap_bytes conf)
   \<and> cw_string (ch_dst (fst (ch_write_all (challenge_scanner (new_capped_writer (cap_bytes conf))) ps)))
       = bound_output (concat ps) (cap_bytes conf)"
  by (simp add: capped_stream cap_bytes_pos ch_write_all_dst challenge_scanner_def)

text \<open>
  The operator is shown at most one link per run, and only one that the challenge
  test accepts, whatever the command prints.
\<close>

theorem one_challenge_link:
  "case run_cmd_bounded max_output secs scan p of
     (code, out, urls) \<Rightarrow> length urls \<le> 1 \<and> list_all is_challenge_url urls"
  using ch_write_all_links
  by (simp add: run_cmd_bounded_def Let_def split: prod.splits) (metis snd_conv)

text \<open>
  Once a link has been found the scanner's window is no longer cut: from then on its
  buffer holds every byte the command writes, beyond the output ceiling.
\<close>

theorem scanner_buffer_unbounded:
  assumes "ch_fired w"
  shows "ch_buf (fst (ch_write_all w ps)) = ch_buf w @ concat ps"
  using assms
proof (induction ps arbitrary: w)
  case (Cons p ps)
  let ?w = "w\<lparr>ch_dst := cw_write (ch_dst w) p, ch_buf := ch_buf w @ p\<rparr>"
  have e: "ch_write w p = (?w, None)" using Cons.prems by (simp add: ch_write_def Let_def)
  have "ch_buf (fst (ch_write_all ?w ps)) = ch_buf ?w @ concat ps"
    by (rule Cons.IH) (simp add: Cons.prems)
  then show ?case by (simp add: e split: prod.splits)
qed simp

theorem scanner_buffer_unbounded_witness:
  "length (ch_buf (fst (ch_write_all
      (challenge_scanner (new_capped_writer 10)\<lparr>ch_fired := True\<rparr>) (replicate 100 (replicate 10 CHR ''x'')))))
    = 1000"
  by (subst scanner_buffer_unbounded) (simp_all add: challenge_scanner_def length_concat sum_list_replicate)

end
