(* ===== verification/Preview.thy ===== *)
theory Preview imports GoPath Protocol begin

text \<open>
  \<open>service/preview.go\<close>: what an approval card says a command will touch. The command line is
  classified and its targets are extracted by one small reader per tool; each target is then
  located, rated and counted. The file system answers through the record \<open>fs\<close>: \<open>stat\<close>,
  \<open>Lstat\<close>, the matches of a glob pattern, and the entries a walk of a directory visits.
\<close>

section \<open>The file system and the binary\<close>

record fs =
  fs_stat :: "path \<Rightarrow> (bool \<times> int) option"
  fs_is_dir :: "path \<Rightarrow> bool option"
  fs_glob :: "string \<Rightarrow> path list"
  fs_walk :: "path \<Rightarrow> path list"
  fs_wd :: "path option"
  fs_path_env :: string
  fs_look_path :: "string \<Rightarrow> path option"

definition safe_path :: string where
  "safe_path = ''/usr/sbin:/usr/bin:/sbin:/bin''"

text \<open>\<open>filepath.SplitList\<close>: no list at all for the empty string.\<close>

definition split_list :: "string \<Rightarrow> string list" where
  "split_list s = (if s = [] then [] else split_on CHR '':'' s)"

definition path_of_env :: "fs \<Rightarrow> string list \<Rightarrow> string" where
  "path_of_env f env =
     (let v = (case find (\<lambda>kv. has_prefix kv ''PATH='') env of
                 Some kv \<Rightarrow> trim_prefix kv ''PATH='' | None \<Rightarrow> []);
          v = (if v = [] then fs_path_env f else v)
      in if v = [] then safe_path else v)"

definition bin_candidate :: "path \<Rightarrow> string \<Rightarrow> path \<Rightarrow> path" where
  "bin_candidate cwd bin dir =
     (let dir = (if dir = [] then ''.'' else dir) in
      if is_abs dir then filepath_join [dir, bin]
      else if cwd \<noteq> [] then filepath_join [cwd, dir, bin]
      else filepath_join [dir, bin])"

definition is_executable :: "fs \<Rightarrow> path \<Rightarrow> bool" where
  "is_executable f p =
     (case fs_stat f p of Some (dir, mode) \<Rightarrow> \<not> dir \<and> and mode 73 \<noteq> 0 | None \<Rightarrow> False)"

definition resolve_binary :: "fs \<Rightarrow> string \<Rightarrow> path \<Rightarrow> string list \<Rightarrow> path" where
  "resolve_binary f bin cwd env =
     (if bin = [] then []
      else if is_abs bin then filepath_clean bin
      else if str_contains bin ''/'' then
        (if cwd \<noteq> [] then filepath_clean (filepath_join [cwd, bin]) else filepath_clean bin)
      else case find (is_executable f) (map (bin_candidate cwd bin) (split_list (path_of_env f env))) of
             Some cand \<Rightarrow> cand
           | None \<Rightarrow>
               (case fs_look_path f bin of
                  Some lp \<Rightarrow> if is_abs lp then lp
                             else if cwd \<noteq> [] then filepath_clean (filepath_join [cwd, lp]) else lp
                | None \<Rightarrow> ''/usr/bin/'' @ bin))"

section \<open>Reading command lines\<close>

abbreviation dashed :: "string \<Rightarrow> bool" where
  "dashed a \<equiv> has_prefix a ''-''"

fun extract_rm :: "bool \<Rightarrow> string list \<Rightarrow> string list \<times> bool" where
  "extract_rm after [] = ([], False)"
| "extract_rm after (a # as) =
     (if after then (case extract_rm True as of (ts, r) \<Rightarrow> (a # ts, r))
      else if a = ''--'' then extract_rm True as
      else if dashed a then
        (case extract_rm False as of (ts, r) \<Rightarrow>
           (ts, r \<or> a = ''--recursive'' \<or> (\<not> has_prefix a ''--'' \<and> contains_any a ''rR'')))
      else (case extract_rm False as of (ts, r) \<Rightarrow> (a # ts, r)))"

text \<open>\<open>skips\<close> are the options that take the next argument, \<open>recursive\<close> the ones that recurse.\<close>

fun extract_opts :: "string list \<Rightarrow> (string \<Rightarrow> bool) \<Rightarrow> bool \<Rightarrow> string list \<Rightarrow> string list \<times> bool" where
  "extract_opts skips recursive after [] = ([], False)"
| "extract_opts skips recursive after (a # as) =
     (if after then (case extract_opts skips recursive True as of (ts, r) \<Rightarrow> (a # ts, r))
      else if a = ''--'' then extract_opts skips recursive True as
      else if dashed a then
        (case extract_opts skips recursive False (if a \<in> set skips then drop 1 as else as) of (ts, r) \<Rightarrow>
           (ts, r \<or> recursive a))
      else (case extract_opts skips recursive False as of (ts, r) \<Rightarrow> (a # ts, r)))"

definition extract_git_clean :: "string list \<Rightarrow> string list \<times> bool" where
  "extract_git_clean args =
     extract_opts [''-e'', ''--exclude''] (\<lambda>a. str_contains a ''d'') False
       (drop 1 (dropWhile (\<lambda>a. a \<noteq> ''clean'') args))"

definition extract_mv :: "string list \<Rightarrow> string list" where
  "extract_mv args =
     fst (extract_opts [''-t'', ''--target-directory'', ''-S'', ''--suffix''] (\<lambda>a. False) False args)"

text \<open>\<open>chmod\<close>, \<open>chown\<close> and \<open>chgrp\<close>: the first operand is the mode or the owner.\<close>

definition extract_mode :: "string list \<Rightarrow> string list \<times> bool" where
  "extract_mode args =
     (case extract_opts [''--reference''] (\<lambda>a. a = ''--recursive'' \<or> str_contains a ''R'') False args of
        (ts, r) \<Rightarrow> (drop 1 ts, r))"

definition extract_truncate :: "string list \<Rightarrow> string list" where
  "extract_truncate args =
     fst (extract_opts [''-s'', ''--size'', ''-r'', ''--reference''] (\<lambda>a. False) False args)"

fun extract_find_loop :: "string list \<Rightarrow> string list \<times> bool" where
  "extract_find_loop [] = ([], False)"
| "extract_find_loop (a # as) =
     (let del = (a = ''-delete'' \<or> ((a = ''-exec'' \<or> a = ''-execdir'') \<and> ''rm'' \<in> set as)) in
      if dashed a \<or> a = ''!'' \<or> a = ''('' \<or> a = '')'' then ([], del)
      else (case extract_find_loop as of (ts, d) \<Rightarrow> (a # ts, d \<or> del)))"

definition extract_find :: "string list \<Rightarrow> string list \<times> bool" where
  "extract_find args =
     (case extract_find_loop args of (ts, d) \<Rightarrow> (if ts = [] then [''.''] else ts, d))"

text \<open>What follows the options of \<open>sudo\<close> and \<open>doas\<close>.\<close>

fun skip_sudo :: "string list \<Rightarrow> string list" where
  "skip_sudo [] = []"
| "skip_sudo (a # as) =
     (if a = ''--'' then as
      else if dashed a then
        (if a = ''-u'' \<or> a = ''-g'' \<or> a = ''-h'' \<or> a = ''-p''
         then (case as of [] \<Rightarrow> [] | b # bs \<Rightarrow> skip_sudo bs)
         else skip_sudo as)
      else a # as)"

lemma skip_sudo_length: "length (skip_sudo as) \<le> length as"
proof (induction as rule: skip_sudo.induct)
  case (2 a as)
  then show ?case by (cases as) (simp_all add: le_SucI)
qed simp

record classified =
  cl_destructive :: bool
  cl_deletion :: bool
  cl_recursive :: bool
  cl_targets :: "string list"

definition harmless :: classified where
  "harmless = \<lparr>cl_destructive = False, cl_deletion = False, cl_recursive = False, cl_targets = []\<rparr>"

definition git_cleans :: "string list \<Rightarrow> bool" where
  "git_cleans args = (case dropWhile (\<lambda>a. a \<noteq> ''clean'' \<and> dashed a) args of a # _ \<Rightarrow> a = ''clean'' | [] \<Rightarrow> False)"

definition classify_tool :: "string \<Rightarrow> string list \<Rightarrow> classified" where
  "classify_tool base args =
     (if base \<in> set [''rm'', ''unlink'', ''shred'', ''wipe''] then
        (case extract_rm False args of (ts, r) \<Rightarrow>
           \<lparr>cl_destructive = True, cl_deletion = True, cl_recursive = r, cl_targets = ts\<rparr>)
      else if base = ''git'' \<and> git_cleans args then
        (case extract_git_clean args of (ts, r) \<Rightarrow>
           \<lparr>cl_destructive = True, cl_deletion = True, cl_recursive = r, cl_targets = ts\<rparr>)
      else if base = ''mv'' then
        \<lparr>cl_destructive = True, cl_deletion = False, cl_recursive = False, cl_targets = extract_mv args\<rparr>
      else if base = ''chmod'' \<or> base = ''chown'' \<or> base = ''chgrp'' then
        (case extract_mode args of (ts, r) \<Rightarrow>
           \<lparr>cl_destructive = True, cl_deletion = False, cl_recursive = r, cl_targets = ts\<rparr>)
      else if base = ''truncate'' then
        \<lparr>cl_destructive = True, cl_deletion = False, cl_recursive = False, cl_targets = extract_truncate args\<rparr>
      else if base = ''find'' \<and> snd (extract_find args) then
        \<lparr>cl_destructive = True, cl_deletion = True, cl_recursive = False, cl_targets = fst (extract_find args)\<rparr>
      else harmless)"

function classify_command :: "string \<Rightarrow> string list \<Rightarrow> classified" where
  "classify_command base argv =
     (case (if base = ''sudo'' \<or> base = ''doas'' then skip_sudo (drop 1 argv) else []) of
        [] \<Rightarrow> classify_tool base (drop 1 argv)
      | a # as \<Rightarrow> classify_command (filepath_base a) (a # as))"
  by pat_completeness auto
termination
proof (relation "measure (\<lambda>(base, argv). length argv)")
  fix base :: string and argv a as
  assume "(if base = ''sudo'' \<or> base = ''doas'' then skip_sudo (drop 1 argv) else []) = a # as"
  then have eq: "skip_sudo (drop 1 argv) = a # as" by (simp split: if_splits)
  have "length (a # as) \<le> length argv - 1" using skip_sudo_length [of "drop 1 argv"] eq by simp
  moreover have "argv \<noteq> []" using eq by auto
  ultimately have "length (a # as) < length argv" by (cases argv) auto
  then show "((filepath_base a, a # as), base, argv) \<in> measure (\<lambda>(base, argv). length argv)" by simp
qed simp

declare classify_command.simps [simp del]

section \<open>Rating targets\<close>

definition sys_dirs :: "string list" where
  "sys_dirs =
     [''/etc'', ''/usr'', ''/boot'', ''/var'', ''/root'', ''/sys'', ''/proc'',
      ''/dev'', ''/bin'', ''/sbin'', ''/lib'', ''/lib64'', ''/opt'', ''/srv'']"

definition critical_reason :: "path \<Rightarrow> string option" where
  "critical_reason p =
     (let c = filepath_clean p in
      if c = ''/'' then Some ''Matches root filesystem pattern: /''
      else if c = ''/home'' then Some ''Targets system root directory: /home''
      else if list_ex (\<lambda>sys. c = sys \<or> has_prefix c (sys @ ''/'')) sys_dirs
      then Some (''Targets critical system directory: '' @ c)
      else None)"

definition is_outside_cwd :: "path \<Rightarrow> path \<Rightarrow> bool" where
  "is_outside_cwd cwd target =
     (case filepath_rel (filepath_clean cwd) (filepath_clean target) of
        None \<Rightarrow> True
      | Some rel \<Rightarrow> rel = ''..'' \<or> has_prefix rel ''../'')"

definition expand_target :: "fs \<Rightarrow> path \<Rightarrow> string \<Rightarrow> path list" where
  "expand_target f cwd raw =
     (let target = (if is_abs raw then filepath_clean raw else filepath_clean (filepath_join [cwd, raw])) in
      if contains_any raw ''*?['' then (if fs_glob f target \<noteq> [] then fs_glob f target else [target])
      else [target])"

record tally =
  ta_count :: int
  ta_samples :: "path list"
  ta_critical :: "string option"
  ta_outside :: "path option"

definition max_sample_paths :: nat where "max_sample_paths = 10"
definition max_walk_limit :: int where "max_walk_limit = 1000"

definition add_sample :: "path \<Rightarrow> tally \<Rightarrow> tally" where
  "add_sample p t =
     (let ss = ta_samples t; t = t\<lparr>ta_count := ta_count t + 1\<rparr> in
      if length ss < max_sample_paths \<and> p \<notin> set ss then t\<lparr>ta_samples := ss
        @ [p]\<rparr> else t)"

text \<open>The callback of the walk counts first and stops the walk once the count has reached the limit.\<close>

fun walk_dir :: "path list \<Rightarrow> tally \<Rightarrow> tally" where
  "walk_dir [] t = t"
| "walk_dir (p # ps) t =
     (let t' = add_sample p t in if ta_count t' \<ge> max_walk_limit then t' else walk_dir ps t')"

definition tally_target :: "fs \<Rightarrow> path \<Rightarrow> bool \<Rightarrow> tally \<Rightarrow> path \<Rightarrow> tally" where
  "tally_target f cwd recursive t p0 =
     (let p = filepath_clean p0;
          t = t\<lparr>ta_critical := (case ta_critical t of None \<Rightarrow> critical_reason p | r \<Rightarrow> r)\<rparr>;
          t = t\<lparr>ta_outside := (if is_outside_cwd cwd p
                               then Some (some_or (ta_outside t) p) else ta_outside t)\<rparr>
      in case fs_is_dir f p of
           None \<Rightarrow> add_sample p t
         | Some dir \<Rightarrow> if dir \<and> recursive then walk_dir (fs_walk f p) t else add_sample p t)"

definition risk_of :: "bool \<Rightarrow> tally \<Rightarrow> string \<times> string" where
  "risk_of deletion t =
     (case ta_critical t of
        Some r \<Rightarrow> (''critical'', r)
      | None \<Rightarrow>
          (case ta_outside t of
             Some p \<Rightarrow> (''high'', ''Targets path outside working directory: '' @ p)
           | None \<Rightarrow>
               if ta_count t > 10
               then (''high'', ''Affects '' @ itoa (ta_count t) @ '' files (exceeds threshold of 10)'')
               else if deletion then
                 (''medium'', if ta_count t = 1 then ''Deletes file within working directory''
                              else ''Deletes '' @ itoa (ta_count t) @ '' files within working directory'')
               else (''medium'', ''Modifies files within working directory'')))"

definition clean_cwd :: "fs \<Rightarrow> path \<Rightarrow> path" where
  "clean_cwd f cwd = filepath_clean (if cwd = [] then some_or (fs_wd f) ''.'' else cwd)"

definition raw_targets :: "classified \<Rightarrow> string list" where
  "raw_targets c = (if cl_targets c = [] then [''.''] else cl_targets c)"

definition tally_zero :: tally where
  "tally_zero = \<lparr>ta_count = 0, ta_samples = [], ta_critical = None, ta_outside = None\<rparr>"

definition preview_impact :: "fs \<Rightarrow> string list \<Rightarrow> path \<Rightarrow> string list \<Rightarrow> preview_record" where
  "preview_impact f argv cwd env =
     (if argv = [] then
        \<lparr>pv_resolved_binary = [], pv_target_cwd = cwd, pv_affected_count = 0, pv_sample_paths = [],
         pv_risk_level = ''low'', pv_risk_reason = []\<rparr>
      else
        let cc = clean_cwd f cwd;
            bin = resolve_binary f (hd argv) cc env;
            c = classify_command (filepath_base (hd argv)) argv
        in if \<not> cl_destructive c then
             \<lparr>pv_resolved_binary = bin, pv_target_cwd = cc, pv_affected_count = 0, pv_sample_paths = [],
              pv_risk_level = ''low'', pv_risk_reason = []\<rparr>
           else
             let t = foldl (tally_target f cc (cl_recursive c)) tally_zero
                       (concat (map (expand_target f cc) (raw_targets c)));
                 (level, reason) = risk_of (cl_deletion c) t
             in \<lparr>pv_resolved_binary = bin, pv_target_cwd = cc, pv_affected_count = ta_count t,
                 pv_sample_paths = ta_samples t, pv_risk_level = level, pv_risk_reason = reason\<rparr>)"

section \<open>Inside and outside\<close>

lemma clean_step_pushes:
  "list_all elem_ok cs \<Longrightarrow> ''..'' \<notin> set cs \<Longrightarrow> foldl (clean_step r) acc cs = rev cs @ acc"
  by (induction cs arbitrary: acc) (auto simp: elem_ok_def clean_step.simps)

lemma clean_stack_join:
  assumes "list_all elem_ok cs" and "''..'' \<notin> set cs"
  shows "clean_stack (slash # str_join ''/'' cs) = rev cs"
proof (cases "cs = []")
  case False
  have "split_on slash (str_join ''/'' cs) = cs"
    by (rule split_on_str_join) (use assms False in \<open>auto simp: list_all_iff elem_ok_def\<close>)
  then show ?thesis
    using clean_step_pushes [OF assms] by (simp add: clean_stack_def is_abs_def) (simp add: clean_step.simps)
qed (simp add: clean_stack_def is_abs_def clean_step.simps)

lemma clean_stack_clean: "is_abs p \<Longrightarrow> clean_stack (filepath_clean p) = clean_stack p"
  using clean_stack_join [of "rev (clean_stack p)"] clean_stack_ok [of p] clean_stack_no_dotdot [of p]
  by (simp add: filepath_clean_abs)

lemma filepath_clean_idem:
  assumes "is_abs p"
  shows "filepath_clean (filepath_clean p) = filepath_clean p"
proof -
  have "is_abs (filepath_clean p)" using assms by simp
  then have "filepath_clean (filepath_clean p) = slash # str_join ''/'' (rev (clean_stack p))"
    using filepath_clean_abs [of "filepath_clean p"] clean_stack_clean [OF assms] by metis
  then show ?thesis using filepath_clean_abs [OF assms] by metis
qed

lemma abs_not_dot: "is_abs p \<Longrightarrow> p \<noteq> ''.''"
  by (auto simp: is_abs_def)

lemma str_join_not_dotdot:
  assumes "list_all elem_ok ts" and "''..'' \<notin> set ts"
  shows "str_join ''/'' ts \<noteq> ''..'' \<and> \<not> has_prefix (str_join ''/'' ts) ''../''"
proof (cases ts)
  case (Cons x xs)
  have x: "slash \<notin> set x" "x \<noteq> []" "x \<noteq> ''.''" "x \<noteq> ''..''" using assms Cons by (auto simp: elem_ok_def)
  have "takeWhile (\<lambda>c. c \<noteq> slash) (str_join ''/'' ts) = x"
    using x(1) by (cases xs) (auto simp: Cons takeWhile_append)
  then show ?thesis using x by (auto simp: prefix_def)
qed simp

lemma is_outside_iff:
  assumes "is_abs cwd" and "is_abs t"
  shows "is_outside_cwd cwd t \<longleftrightarrow> \<not> prefix (path_elems (filepath_clean cwd)) (path_elems (filepath_clean t))"
proof -
  let ?b = "path_elems (filepath_clean cwd)" and ?t = "path_elems (filepath_clean t)"
  obtain bs ts where sc: "strip_common ?b ?t = (bs, ts)" by fastforce
  obtain zs where zs: "?b = zs @ bs" "?t = zs @ ts" using strip_common_sound [of ?b ?t] sc by auto
  have nil: "bs = [] \<longleftrightarrow> prefix ?b ?t" using strip_common_nil_iff [of ?b ?t] sc by simp
  have nodot: "''..'' \<notin> set ?b" "''..'' \<notin> set ?t" and ok: "list_all elem_ok ?t"
    using assms clean_stack_no_dotdot clean_stack_ok by (simp_all add: path_elems_clean)
  have rel: "filepath_rel (filepath_clean cwd) (filepath_clean t) =
    (if filepath_clean cwd = filepath_clean t then Some ''.''
     else if bs \<noteq> [] \<and> ts \<noteq> [] \<and> hd bs = ''..'' then None
     else Some (str_join ''/'' (replicate (length bs) ''..'' @ ts)))"
    using assms sc abs_not_dot [of "filepath_clean cwd"]
    by (simp add: filepath_rel_def Let_def filepath_clean_idem)
  show ?thesis
  proof (cases bs)
    case Nil
    then have "\<not> is_outside_cwd cwd t"
      using rel str_join_not_dotdot [of ts] ok nodot(2) zs(2) by (simp add: is_outside_cwd_def)
    then show ?thesis using Nil nil by simp
  next
    case (Cons x xs)
    then have "x \<noteq> ''..''" using nodot(1) zs(1) by auto
    moreover have "filepath_clean cwd \<noteq> filepath_clean t" using Cons nil by auto
    moreover have "str_join ''/'' (replicate (length bs) ''..'' @ ts) = ''..''
        \<or> has_prefix (str_join ''/'' (replicate (length bs) ''..'' @ ts)) ''../''"
      using Cons by (cases "replicate (length xs) ''..'' @ ts") auto
    ultimately have "is_outside_cwd cwd t" using rel Cons by (auto simp: is_outside_cwd_def)
    then show ?thesis using Cons nil by simp
  qed
qed

section \<open>Tallies\<close>

lemma add_sample_facts [simp]:
  "ta_critical (add_sample p t) = ta_critical t" "ta_outside (add_sample p t) = ta_outside t"
  by (simp_all add: add_sample_def Let_def)

lemma walk_dir_facts [simp]:
  "ta_critical (walk_dir ps t) = ta_critical t" "ta_outside (walk_dir ps t) = ta_outside t"
  by (induction ps t rule: walk_dir.induct) (simp_all add: Let_def)

lemma tally_target_critical:
  "ta_critical (tally_target f cwd r t p) = None \<longleftrightarrow>
    ta_critical t = None \<and> critical_reason (filepath_clean p) = None"
  by (auto simp: tally_target_def Let_def split: option.splits)

lemma tally_target_outside:
  "ta_outside (tally_target f cwd r t p) = None \<longleftrightarrow>
    ta_outside t = None \<and> \<not> is_outside_cwd cwd (filepath_clean p)"
  by (auto simp: tally_target_def Let_def split: option.splits)

lemma tally_all:
  "(ta_critical (foldl (tally_target f cwd r) t ps) = None \<longleftrightarrow>
     ta_critical t = None \<and> list_all (\<lambda>p. critical_reason (filepath_clean p) = None) ps)
   \<and> (ta_outside (foldl (tally_target f cwd r) t ps) = None \<longleftrightarrow>
     ta_outside t = None \<and> list_all (\<lambda>p. \<not> is_outside_cwd cwd (filepath_clean p)) ps)"
  by (induction ps arbitrary: t) (auto simp: tally_target_critical tally_target_outside)

definition samples_ok :: "tally \<Rightarrow> bool" where
  "samples_ok t \<longleftrightarrow> length (ta_samples t) \<le> max_sample_paths \<and> distinct (ta_samples t)"

lemma add_sample_ok: "samples_ok t \<Longrightarrow> samples_ok (add_sample p t)"
  by (auto simp: samples_ok_def add_sample_def Let_def)

lemma walk_dir_ok: "samples_ok t \<Longrightarrow> samples_ok (walk_dir ps t)"
  by (induction ps t rule: walk_dir.induct) (simp_all add: Let_def add_sample_ok)

lemma tally_target_ok: "samples_ok t \<Longrightarrow> samples_ok (tally_target f cwd r t p)"
  by (auto simp: tally_target_def Let_def samples_ok_def [of "tally_update _ _"]
      intro!: add_sample_ok walk_dir_ok split: option.splits) (simp_all add: samples_ok_def)

lemma tally_ok: "samples_ok t \<Longrightarrow> samples_ok (foldl (tally_target f cwd r) t ps)"
  by (induction ps arbitrary: t) (simp_all add: tally_target_ok)

section \<open>Properties\<close>

text \<open>
  A path counts as outside the working directory exactly when the directory's elements
  are not the first elements of the path: names that merely share a prefix, and paths that
  climb back with \<open>..\<close>, are told apart correctly.
\<close>

theorem outside_is_not_below:
  assumes "is_abs cwd" and "is_abs t"
  shows "is_outside_cwd cwd t \<longleftrightarrow> \<not> prefix (path_elems (filepath_clean cwd)) (path_elems (filepath_clean t))"
  by (rule is_outside_iff [OF assms])

theorem outside_is_not_below_witness:
  "is_outside_cwd ''/work/app'' ''/work/app2/x'' \<and> \<not> is_outside_cwd ''/work/app'' ''/work/../work/app/x''"
  by (simp add: outside_is_not_below is_abs_def) (simp add: path_eval)

text \<open>
  The rating of a destructive command follows its targets: critical as soon as one of
  them, after globbing, is a system path; otherwise high as soon as one lies outside the
  working directory or more than ten entries are affected; otherwise medium.
\<close>

theorem preview_rating:
  assumes "cl_destructive (classify_command (filepath_base a) (a # args))"
  shows "let c = classify_command (filepath_base a) (a # args);
             ps = concat (map (expand_target f (clean_cwd f cwd)) (raw_targets c));
             pv = preview_impact f (a # args) cwd env
    in pv_risk_level pv =
      (if list_ex (\<lambda>p. critical_reason (filepath_clean p) \<noteq> None) ps then ''critical''
       else if list_ex (\<lambda>p. is_outside_cwd (clean_cwd f cwd) (filepath_clean p)) ps then ''high''
       else if pv_affected_count pv > 10 then ''high'' else ''medium'')
      \<and> length (pv_sample_paths pv) \<le> 10 \<and> distinct (pv_sample_paths pv)"
proof -
  let ?c = "classify_command (filepath_base a) (a # args)"
  let ?ps = "concat (map (expand_target f (clean_cwd f cwd)) (raw_targets ?c))"
  let ?t = "foldl (tally_target f (clean_cwd f cwd) (cl_recursive ?c)) tally_zero ?ps"
  have ok: "samples_ok ?t" by (rule tally_ok) (simp add: samples_ok_def tally_zero_def)
  have crit: "ta_critical ?t = None \<longleftrightarrow> \<not> list_ex (\<lambda>p. critical_reason (filepath_clean p) \<noteq> None) ?ps"
    and out: "ta_outside ?t = None \<longleftrightarrow> \<not> list_ex (\<lambda>p. is_outside_cwd (clean_cwd f cwd) (filepath_clean p)) ?ps"
    using tally_all [of f "clean_cwd f cwd" "cl_recursive ?c" tally_zero ?ps]
    by (simp_all add: tally_zero_def list_ex_iff list_all_iff)
  obtain level reason where risk: "risk_of (cl_deletion ?c) ?t = (level, reason)" by fastforce
  have "level = (if ta_critical ?t \<noteq> None then ''critical'' else if ta_outside ?t \<noteq> None then ''high''
      else if ta_count ?t > 10 then ''high'' else ''medium'')"
    using risk by (auto simp: risk_of_def split: option.splits if_splits)
  then show ?thesis
    using assms risk ok crit out
    by (simp add: preview_impact_def Let_def samples_ok_def max_sample_paths_def)
qed

definition no_fs :: fs where
  "no_fs = \<lparr>fs_stat = (\<lambda>p. None), fs_is_dir = (\<lambda>p. None), fs_glob = (\<lambda>p. []), fs_walk = (\<lambda>p. []),
     fs_wd = None, fs_path_env = [], fs_look_path = (\<lambda>p. None)\<rparr>"

lemma classify_rm: "classify_command ''rm'' (''rm'' # args) = classify_tool ''rm'' args"
  by (simp add: classify_command.simps)

theorem preview_rating_witness:
  "pv_risk_level (preview_impact no_fs [''rm'', ''-rf'', ''../../etc/x''] ''/home/u'' []) = ''critical''"
proof -
  have base: "filepath_base ''rm'' = ''rm''" by (simp add: path_eval)
  have c: "classify_command ''rm'' [''rm'', ''-rf'', ''../../etc/x''] =
      \<lparr>cl_destructive = True, cl_deletion = True, cl_recursive = True, cl_targets = [''../../etc/x'']\<rparr>"
    unfolding classify_rm by (simp add: classify_tool_def contains_any_def)
  have "expand_target no_fs (clean_cwd no_fs ''/home/u'') ''../../etc/x'' = [''/etc/x'']"
    by (simp add: expand_target_def clean_cwd_def contains_any_def no_fs_def path_eval)
  moreover have "critical_reason (filepath_clean ''/etc/x'') \<noteq> None"
    by (simp add: critical_reason_def sys_dirs_def path_eval)
  ultimately show ?thesis
    using preview_rating [of "''rm''" "[''-rf'', ''../../etc/x'']" no_fs "''/home/u''" "[]"]
    by (simp add: base c raw_targets_def Let_def)
qed

text \<open>
  A prefix of \<open>sudo\<close> or \<open>doas\<close> hides nothing from the preview: the command behind it is
  classified as it would be without it.
\<close>

theorem sudo_is_transparent:
  assumes "base = ''sudo'' \<or> base = ''doas''" and "\<not> dashed cmd"
  shows "classify_command base (argv0 # cmd # args) = classify_command (filepath_base cmd) (cmd # args)"
proof -
  have "skip_sudo (cmd # args) = cmd # args" using assms(2) by auto
  then show ?thesis using assms(1) by (subst classify_command.simps) auto
qed

theorem sudo_is_transparent_witness:
  "cl_destructive (classify_command ''sudo'' [''sudo'', ''rm'', ''x''])"
proof -
  have "filepath_base ''rm'' = ''rm''" by (simp add: path_eval)
  then show ?thesis
    by (simp add: sudo_is_transparent) (simp add: classify_rm classify_tool_def)
qed

text \<open>
  Two deletions the preview does not see: \<open>git\<close> with an option argument before \<open>clean\<close>,
  and \<open>find\<close> with a test before \<open>-delete\<close>, are classified as harmless.
\<close>

theorem preview_misses_deletions:
  "classify_command ''git'' [''git'', ''-C'', dir, ''clean'', ''-fdx''] =
     (if dashed dir \<or> dir = ''clean'' then classify_tool ''git'' [''-C'', dir, ''clean'', ''-fdx''] else harmless)
   \<and> classify_command ''find'' (''find'' # ''.'' # ''-name'' # pattern # ''-delete'' # rest) = harmless"
  by (auto simp: classify_command.simps classify_tool_def git_cleans_def extract_find_def Let_def)

end
