(* ===== verification/Configuration.thy ===== *)
theory Configuration imports GoPath begin

text \<open>
  \<open>internal/config\<close> and the anchor check of \<open>internal/store\<close>: how the daemon's settings are
  put together from the environment, the configuration file and the user's file, which
  directories it accepts to keep its state in, and where a client looks for its socket.
  The environment is a function, the configuration file is the lines the scanner yields, a
  directory is what \<open>Lstat\<close> says of it.
\<close>

section \<open>Settings\<close>

record conf =
  cf_bot_token :: string
  cf_approvers :: "string list"
  cf_chat_id :: string
  cf_socket :: path
  cf_state_dir :: path
  cf_policy :: path
  cf_timeout :: int
  cf_dry_run :: bool
  cf_confirm_all :: bool
  cf_pager :: string
  cf_notify_target :: string
  cf_allow_root :: bool
  cf_exec_timeout :: int
  cf_max_output :: int
  cf_max_tg_body :: int

record user_config =
  uc_bot_token :: string
  uc_chat_id :: string
  uc_approvers :: "string list"
  uc_notify_target :: string

type_synonym env = "string \<Rightarrow> string"

definition normalize_target :: "string \<Rightarrow> string" where
  "normalize_target raw =
     (let t = to_lower (trim_space raw) in
      if t = ''telegram'' \<or> t = ''paseo'' \<or> t = ''both'' then t else ''both'')"

definition env_fallback :: "env \<Rightarrow> string list \<Rightarrow> string" where
  "env_fallback env ks = some_or (find (\<lambda>v. v \<noteq> []) (map env ks)) []"

definition parse_allow_root :: "string \<Rightarrow> bool" where
  "parse_allow_root raw \<longleftrightarrow> to_lower (trim_space raw) \<in> set [''1'', ''true'', ''yes'']"

definition parse_positive_int :: "string \<Rightarrow> int" where
  "parse_positive_int raw =
     (if raw = [] then 0
      else if list_all is_digit raw then foldl (\<lambda>n ch. i64 (i64 (n * 10) + int (digit_val ch))) 0 raw
      else 0)"

text \<open>The value of the code point a UTF-8 sequence encodes.\<close>

definition rune_val :: "string \<Rightarrow> int" where
  "rune_val c =
     (case map (\<lambda>b. int (of_char b)) c of
        [a] \<Rightarrow> a
      | [a, b] \<Rightarrow> (a - 0xC0) * 64 + (b - 0x80)
      | [a, b, d] \<Rightarrow> ((a - 0xE0) * 64 + (b - 0x80)) * 64 + (d - 0x80)
      | [a, b, d, e] \<Rightarrow> (((a - 0xF0) * 64 + (b - 0x80)) * 64 + (d - 0x80)) * 64 + (e - 0x80)
      | _ \<Rightarrow> 0xFFFD)"

text \<open>The loop over \<open>TIMEOUT\<close>, which takes every code point for a digit.\<close>

definition parse_timeout :: "string \<Rightarrow> int" where
  "parse_timeout t = foldl (\<lambda>n c. i64 (i64 (n * 10) + (rune_val c - 48))) 0 (rune_chunks t)"

definition trim_quotes :: "string \<Rightarrow> string" where
  "trim_quotes s = rev (dropWhile (\<lambda>c. c = CHR 0x22) (rev (dropWhile (\<lambda>c. c = CHR 0x22) s)))"

definition conf_line :: "string \<Rightarrow> (string \<times> string) option" where
  "conf_line raw =
     (let line = trim_space raw in
      if line = [] \<or> has_prefix line ''#'' then None
      else case index_of ''='' line of
             None \<Rightarrow> None
           | Some i \<Rightarrow> Some (trim_space (take i line), trim_quotes (trim_space (drop (Suc i) line))))"

definition conf_kv :: "string list \<Rightarrow> string \<Rightarrow> string option" where
  "conf_kv lines = map_of (rev (List.map_filter conf_line lines))"

definition conf_get :: "env \<Rightarrow> (string \<Rightarrow> string option) \<Rightarrow> string \<Rightarrow> string \<Rightarrow> string list \<Rightarrow> string" where
  "conf_get env kv k def extra =
     (let v = env_fallback env ((''TWOFADO_'' @ k) # (''FADO_'' @ k) # extra) in
      if v \<noteq> [] then v else some_or (kv k) def)"

definition placeholder_token :: "string \<Rightarrow> bool" where
  "placeholder_token t \<longleftrightarrow> t = [] \<or> has_prefix t ''__''"

definition default_state_dir :: "env \<Rightarrow> path" where
  "default_state_dir env =
     (if env ''XDG_STATE_HOME'' \<noteq> [] then filepath_join [env ''XDG_STATE_HOME'', ''2fado'']
      else if env ''HOME'' \<noteq> [] then filepath_join [env ''HOME'', ''.local'', ''state'', ''2fado'']
      else filepath_join [''/var'', ''lib'', ''2fado''])"

definition run_dir :: "env \<Rightarrow> path" where
  "run_dir env = env_fallback env [''TWOFADO_RUN_DIR'', ''FADO_RUN_DIR'']"

definition explicit_socket :: "env \<Rightarrow> path" where
  "explicit_socket env = env_fallback env [''TWOFADO_SOCKET'', ''FADO_SOCKET'']"

definition default_socket_path :: "env \<Rightarrow> path" where
  "default_socket_path env =
     (if explicit_socket env \<noteq> [] then explicit_socket env
      else if run_dir env \<noteq> [] then filepath_join [run_dir env, ''2fado.sock'']
      else if env ''XDG_RUNTIME_DIR'' \<noteq> [] then filepath_join [env ''XDG_RUNTIME_DIR'', ''2fado'', ''2fado.sock'']
      else filepath_join [''/tmp'', ''2fado.sock''])"

definition positive_or :: "int \<Rightarrow> int \<Rightarrow> int" where
  "positive_or n def = (if n > 0 then n else def)"

definition load_conf :: "env \<Rightarrow> string list \<Rightarrow> user_config \<Rightarrow> conf" where
  "load_conf env lines user =
     (let get = conf_get env (conf_kv lines);
          token = get ''BOT_TOKEN'' [] [''BOT_TOKEN''];
          chat = get ''CHAT_ID'' [] [''CHAT_ID''];
          target = get ''NOTIFICATION_TARGET'' [] [];
          approvers = filter (\<lambda>a. \<not> placeholder_token a)
                        (map trim_space (split_on CHR '','' (get ''APPROVERS'' [] [''APPROVERS''])));
          t = get ''TIMEOUT'' [] []
      in \<lparr>cf_bot_token = (if placeholder_token token \<and> uc_bot_token user \<noteq> [] then uc_bot_token user else token),
          cf_approvers = (if approvers = [] then uc_approvers user else approvers),
          cf_chat_id = (if chat = [] then uc_chat_id user else chat),
          cf_socket = get ''SOCKET'' (default_socket_path env) [],
          cf_state_dir = get ''STATE_DIR'' (default_state_dir env) [],
          cf_policy = get ''POLICY'' ''/etc/2fado/policy.json'' [],
          cf_timeout = (if t \<noteq> [] then positive_or (parse_timeout t) 300 else 300),
          cf_dry_run = (get ''DRY_RUN'' [] [] = ''true''),
          cf_confirm_all = (get ''CONFIRM_ALL'' [] [] = ''true''),
          cf_pager = get ''PAGER'' [] [],
          cf_notify_target = normalize_target (if target = [] then uc_notify_target user else target),
          cf_allow_root = False,
          cf_exec_timeout = positive_or (parse_positive_int (get ''EXEC_TIMEOUT'' [] [])) 120,
          cf_max_output = positive_or (parse_positive_int (get ''MAX_OUTPUT_BYTES'' [] [])) 262144,
          cf_max_tg_body = positive_or (parse_positive_int (get ''MAX_TELEGRAM_BODY_BYTES'' [] [])) 1048576\<rparr>)"

definition approver_set :: "conf \<Rightarrow> string list" where
  "approver_set c =
     (let s = filter (\<lambda>a. a \<noteq> []) (map trim_space (cf_approvers c)) in
      if s = [] then (if trim_space (cf_chat_id c) = [] then [] else [trim_space (cf_chat_id c)]) else s)"

definition conf_placeholder :: "conf \<Rightarrow> bool" where
  "conf_placeholder c \<longleftrightarrow> cf_pager c = ''stdout'' \<or> placeholder_token (cf_bot_token c)"

section \<open>Anchors\<close>

record anchor =
  an_symlink :: bool
  an_dir :: bool
  an_perm :: int
  an_owner :: "uid option"

datatype anchor_error = NoStat | Symlinked | NotDirectory | TooPermissive int | ForeignOwner

text \<open>The owner, where the platform tells it (\<open>owner_unix.go\<close>).\<close>

definition owner_uid :: "anchor \<Rightarrow> uid option" where
  "owner_uid a = an_owner a"

definition check_owner :: "uid \<Rightarrow> anchor \<Rightarrow> anchor_error option" where
  "check_owner euid a =
     (case owner_uid a of Some u \<Rightarrow> if u \<noteq> euid then Some ForeignOwner else None | None \<Rightarrow> None)"

text \<open>\<open>config.ValidateAnchorDir\<close>, on what \<open>Lstat\<close> returned.\<close>

definition validate_anchor :: "uid \<Rightarrow> anchor option \<Rightarrow> anchor_error option" where
  "validate_anchor euid st =
     (case st of
        None \<Rightarrow> Some NoStat
      | Some a \<Rightarrow>
          if an_symlink a then Some Symlinked
          else if \<not> an_dir a then Some NotDirectory
          else if and (an_perm a) 18 \<noteq> 0 then Some (TooPermissive (an_perm a))
          else (case owner_uid a of
                  Some u \<Rightarrow> if u \<noteq> euid then Some ForeignOwner else None
                | None \<Rightarrow> None))"

text \<open>\<open>EnsureAnchorDir\<close>: \<open>MkdirAll\<close>, \<open>Chmod\<close>, then the check; the first two may fail.\<close>

definition ensure_anchor :: "uid \<Rightarrow> bool \<Rightarrow> bool \<Rightarrow> anchor option \<Rightarrow> anchor_error option" where
  "ensure_anchor euid mkdir_ok chmod_ok st =
     (if \<not> mkdir_ok \<or> \<not> chmod_ok then Some NoStat else validate_anchor euid st)"

definition validate_anchors :: "uid \<Rightarrow> (path \<Rightarrow> anchor option) \<Rightarrow> conf \<Rightarrow> anchor_error option" where
  "validate_anchors euid lstat c =
     (case validate_anchor euid (lstat (cf_state_dir c)) of
        Some e \<Rightarrow> Some e
      | None \<Rightarrow>
          let dir = filepath_dir (cf_socket c) in
          if dir = [] then None
          else case lstat dir of
                 None \<Rightarrow> None
               | Some a \<Rightarrow>
                   if an_symlink a then Some Symlinked
                   else (case owner_uid a of
                           Some u \<Rightarrow> if u \<noteq> euid then Some ForeignOwner else None
                         | None \<Rightarrow> None))"

text \<open>The store has its own copy of the check, \<open>validateAnchorDir\<close>.\<close>

definition validate_anchor_dir :: "uid \<Rightarrow> anchor option \<Rightarrow> anchor_error option" where
  "validate_anchor_dir euid st =
     (case st of
        None \<Rightarrow> Some NoStat
      | Some a \<Rightarrow>
          if an_symlink a then Some Symlinked
          else if \<not> an_dir a then Some NotDirectory
          else if and (an_perm a) 18 \<noteq> 0 then Some (TooPermissive (an_perm a))
          else if an_owner a \<noteq> None \<and> an_owner a \<noteq> Some euid then Some ForeignOwner
          else None)"

text \<open>\<open>store.Init\<close>: both directories are made, set to 0700, and checked.\<close>

definition store_init :: "uid \<Rightarrow> bool list \<Rightarrow> anchor option \<Rightarrow> anchor option \<Rightarrow> anchor_error option" where
  "store_init euid calls_ok dir pending =
     (if False \<in> set calls_ok then Some NoStat
      else case validate_anchor_dir euid dir of
             Some e \<Rightarrow> Some e
           | None \<Rightarrow> validate_anchor_dir euid pending)"

section \<open>Finding the daemon\<close>

definition plugin_sockets :: "env \<Rightarrow> path list" where
  "plugin_sockets env =
     (if env ''HOME'' = [] then []
      else map (\<lambda>rel. filepath_join [env ''HOME'', rel])
        [filepath_join [''.paseo'', ''plugin-data'', ''xpufx'', ''twofado'', ''run'', ''2fado.sock''],
         filepath_join [''.paseo'', ''plugin-data'', ''xpufx-org'', ''twofado'', ''run'', ''2fado.sock'']])"

definition add_candidate :: "path list \<Rightarrow> path \<Rightarrow> path list" where
  "add_candidate out p = (if p = [] \<or> p \<in> set out then out else out @ [p])"

definition socket_chain :: "env \<Rightarrow> path list" where
  "socket_chain env =
     [explicit_socket env]
     @ (if run_dir env \<noteq> [] then [filepath_join [run_dir env, ''2fado.sock'']] else [])
     @ plugin_sockets env
     @ (if env ''XDG_RUNTIME_DIR'' \<noteq> []
        then [filepath_join [env ''XDG_RUNTIME_DIR'', ''2fado'', ''2fado.sock'']] else [])
     @ [filepath_join [''/tmp'', ''2fado.sock'']]"

definition socket_candidates :: "env \<Rightarrow> path list" where
  "socket_candidates env = foldl add_candidate [] (socket_chain env)"

definition discover_from :: "(path \<Rightarrow> bool) \<Rightarrow> path list \<Rightarrow> path result" where
  "discover_from live candidates =
     (case find live candidates of
        Some p \<Rightarrow> Inr p
      | None \<Rightarrow> Inl (''no live 2fado daemon socket found; probed: '' @ str_join '', '' candidates))"

definition default_pid_file :: "env \<Rightarrow> path \<Rightarrow> path" where
  "default_pid_file env state_dir =
     (if env_fallback env [''TWOFADO_PID_FILE'', ''FADO_PID_FILE''] \<noteq> []
      then env_fallback env [''TWOFADO_PID_FILE'', ''FADO_PID_FILE'']
      else if run_dir env \<noteq> [] then filepath_join [run_dir env, ''2fado.pid'']
      else filepath_join [if state_dir = [] then default_state_dir env else state_dir, ''2fado.pid''])"

section \<open>Facts\<close>

text \<open>The two copies accept the same directories: real ones of the daemon's user that nobody else writes.\<close>

lemma anchors_agree: "validate_anchor_dir euid st = validate_anchor euid st"
  by (auto simp: validate_anchor_dir_def validate_anchor_def owner_uid_def split: option.split)

lemma anchor_accepted:
  "validate_anchor euid st = None \<longleftrightarrow>
     (\<exists>a. st = Some a \<and> \<not> an_symlink a \<and> an_dir a \<and> and (an_perm a) 18 = 0 \<and> check_owner euid a = None)"
  by (auto simp: validate_anchor_def check_owner_def split: option.split if_splits)

lemma positive_or_pos: "0 < def \<Longrightarrow> 0 < positive_or n def"
  by (simp add: positive_or_def)

lemma add_candidates_set: "set (foldl add_candidate out ps) = set out \<union> (set ps - {[]})"
  by (induction ps arbitrary: out) (auto simp: add_candidate_def)

lemma add_candidates_distinct: "distinct out \<Longrightarrow> distinct (foldl add_candidate out ps)"
  by (induction ps arbitrary: out) (auto simp: add_candidate_def)

lemma socket_name_nonempty:
  "d
    @ ''2fado.sock'' \<noteq> []" "filepath_join [d, ''2fado.sock''] \<noteq> []" "filepath_join [d, e, ''2fado.sock''] \<noteq> []"
proof -
  have f: "file_suffix ''2fado.sock''" by (simp add: file_suffix_def)
  show "filepath_join [d, ''2fado.sock''] \<noteq> []"
    using filepath_join_suffix [OF f, of d "[]"] by auto
  have "suffix ''2fado.sock'' (filepath_join [d, e, ''2fado.sock''])"
  proof (cases "d = []")
    case True
    then show ?thesis using filepath_join_suffix [OF f, of e "[]"] by (simp add: filepath_join_def)
  next
    case False
    then show ?thesis
      using filepath_clean_suffix [OF f, of "d @ slash # e @ [slash]"] by (simp add: filepath_join_def)
  qed
  then show "filepath_join [d, e, ''2fado.sock''] \<noteq> []" by auto
qed simp

lemma default_socket_nonempty: "default_socket_path env \<noteq> []"
  by (simp add: default_socket_path_def socket_name_nonempty)

section \<open>Properties\<close>

text \<open>
  No configuration switches a limit off: whatever the environment and the files say,
  the petition timeout, the execution timeout and the output ceilings are positive, the
  notification target is one of the three, and execution as root stays disabled.
\<close>

theorem limits_always_on:
  "let c = load_conf env lines user
   in 0 < cf_timeout c \<and> 0 < cf_exec_timeout c \<and> 0 < cf_max_output c \<and> 0 < cf_max_tg_body c
      \<and> \<not> cf_allow_root c \<and> cf_notify_target c \<in> {''telegram'', ''paseo'', ''both''}"
  by (simp add: load_conf_def Let_def positive_or_pos normalize_target_def)

text \<open>
  A client finds the daemon's default socket: the path the daemon binds under some
  environment is among the candidates a client probes under the same environment, every
  candidate is a path, and none is probed twice.
\<close>

theorem default_socket_is_probed:
  "default_socket_path env \<in> set (socket_candidates env)
   \<and> [] \<notin> set (socket_candidates env) \<and> distinct (socket_candidates env)"
proof -
  have "default_socket_path env \<in> set (socket_chain env)"
    by (simp add: default_socket_path_def socket_chain_def)
  then show ?thesis
    using default_socket_nonempty [of env]
    by (simp add: socket_candidates_def add_candidates_set add_candidates_distinct)
qed

text \<open>
  \<open>TIMEOUT\<close> has no check for digits: five minutes written as \<open>5m\<close> is taken for 111
  seconds.
\<close>

theorem timeout_reads_letters:
  "env ''TWOFADO_TIMEOUT'' = ''5m'' \<Longrightarrow> cf_timeout (load_conf env lines user) = 111"
  by (simp add: load_conf_def Let_def conf_get_def env_fallback_def parse_timeout_def utf8_len_def
      byte_in_def rune_val_def positive_or_def i64_def)

theorem timeout_reads_letters_witness:
  "cf_timeout (load_conf (\<lambda>k. if k = ''TWOFADO_TIMEOUT'' then ''5m'' else []) []
     \<lparr>uc_bot_token = [], uc_chat_id = [], uc_approvers = [], uc_notify_target = []\<rparr>) = 111"
  by (rule timeout_reads_letters) simp

end
