(* ===== verification/UserConfig.thy ===== *)
theory UserConfig imports Configuration begin

text \<open>
  The user's settings file of \<open>internal/config\<close>: where it is, reading it, and saving it. The file
  is its text and its mode; JSON is a pair of parameters. The facts show that a successful save is
  read back, and what a failed one can leave behind.
\<close>

text \<open>\<open>os.UserConfigDir\<close> on Unix: \<open>None\<close> when neither variable gives a directory.\<close>

definition user_config_dir :: "env \<Rightarrow> path option" where
  "user_config_dir env =
     (let xdg = env ''XDG_CONFIG_HOME'' in
      if xdg = [] then (if env ''HOME'' = [] then None else Some (env ''HOME'' @ ''/.config''))
      else if hd xdg \<noteq> slash then None else Some xdg)"

definition user_config_path :: "env \<Rightarrow> path" where
  "user_config_path env =
     (let p = env_fallback env [''TWOFADO_USER_CONFIG'', ''FADO_USER_CONFIG''] in
      if p \<noteq> [] then p
      else let dir = (case user_config_dir env of
                        None \<Rightarrow> filepath_join [env ''HOME'', ''.config'']
                      | Some d \<Rightarrow> if d = [] then filepath_join [env ''HOME'', ''.config''] else d)
           in filepath_join [dir, ''2fado'', ''config.json''])"

type_synonym config_file = "(string \<times> int) option"

definition load_user_config :: "(string \<Rightarrow> user_config option) \<Rightarrow> config_file \<Rightarrow> user_config option" where
  "load_user_config decode file = (case file of None \<Rightarrow> None | Some (data, mode) \<Rightarrow> decode data)"

text \<open>Where a save can break off; a broken write leaves what was written of the new text.\<close>

datatype save_fault = No_fault | Mkdir_fault | Open_fault | Write_fault nat | Chmod_fault

definition save_user_config ::
  "(user_config \<Rightarrow> string) \<Rightarrow> save_fault \<Rightarrow> user_config \<Rightarrow> config_file \<Rightarrow> bool \<times> config_file" where
  "save_user_config encode fault cfg file =
     (let data = encode cfg; mode = (case file of None \<Rightarrow> 384 | Some (old, m) \<Rightarrow> m) in
      case fault of
        Mkdir_fault \<Rightarrow> (False, file)
      | Open_fault \<Rightarrow> (False, file)
      | Write_fault n \<Rightarrow> (False, Some (take n data, mode))
      | Chmod_fault \<Rightarrow> (False, Some (data, mode))
      | No_fault \<Rightarrow> (True, Some (data, 384)))"

lemma saved_settings_read_back:
  assumes "\<And>c. decode (encode c) = Some c"
  shows "case save_user_config encode fault cfg file of
    (True, file') \<Rightarrow> load_user_config decode file' = Some cfg \<and> map_option snd file' = Some 384
  | (False, file') \<Rightarrow> file' = file \<or> (\<exists>n m. file' = Some (take n (encode cfg), m))"
  using assms
  by (cases fault) (auto simp: save_user_config_def load_user_config_def Let_def split: option.split intro: exI [of _ "length (encode cfg)"])

text \<open>
  The save is not atomic: a write that breaks off at once leaves an empty file where settings
  were, although the daemon reports the failure and keeps running on the old ones.
\<close>

lemma failed_save_loses_settings:
  assumes "decode [] = None"
  shows "\<exists>file'. save_user_config encode (Write_fault 0) cfg (Some (old, m)) = (False, file')
    \<and> load_user_config decode file' = None"
  using assms by (simp add: save_user_config_def load_user_config_def)

end
