(* ===== verification/World.thy ===== *)
theory World imports StoreViews AuditLog Telegram ExecBounds Preview UserConfig Policy begin

text \<open>
  The state the service works on and the operating system around it. \<open>sys\<close> holds what does
  not change while the daemon runs: its identity, its environment variables, the user
  database, and the oracles for random bytes, Telegram answers, signals and processes, each
  asked with a running number. \<open>world\<close> extends the daemon's files and clock by the
  workspace (which others change at any time), the state of Git in a directory, the
  settings that can be changed live, the user's settings file, and a trace of every outward effect in order.

  \<open>Service\<close> is a Go value: a method works on the settings and the policy it was called with.
\<close>

section \<open>Operating system and effects\<close>

record live_file =
  lf_dir :: bool
  lf_regular :: bool
  lf_mode :: int
  lf_size :: int
  lf_dev :: int
  lf_ino :: int
  lf_bytes :: "string option"

record git_probe =
  gq_stat :: bool
  gq_git :: bool
  gq_head :: "string option"
  gq_branch :: "string option"
  gq_status :: "string option"

record spawn =
  ex_path :: string
  ex_args :: "string list"
  ex_cwd :: path
  ex_env :: "string list"
  ex_fd :: "string option"

datatype signal = STOP | CONT

datatype effect =
    Spawned spawn
  | Signalled signal int bool
  | Sent string string int keyboard bool
  | Edited string int string keyboard
  | Repainted string int keyboard
  | Printed string
  | Polling string int "string list"

record sys =
  y_uid :: uid
  y_euid :: uid
  y_pid :: int
  y_pgrp :: int
  y_env :: "string \<Rightarrow> string"
  y_user_id :: "string \<Rightarrow> string result"
  y_user_name :: "nat \<Rightarrow> string option"
  y_getpgid :: "int \<Rightarrow> int option"
  y_kill :: "nat \<Rightarrow> signal \<Rightarrow> int \<Rightarrow> string option"
  y_rand :: "nat \<Rightarrow> string option"
  y_send :: "nat \<Rightarrow> int option"
  y_get_me :: "nat \<Rightarrow> string \<Rightarrow> string result"
  y_save_user :: "nat \<Rightarrow> save_fault"
  y_save_error :: "save_fault \<Rightarrow> string"
  y_encode_user :: "user_config \<Rightarrow> string"
  y_proc :: "nat \<Rightarrow> spawn \<Rightarrow> proc"
  y_look_path :: "string \<Rightarrow> path option"
  y_eval_links :: "path \<Rightarrow> path option"
  y_sha256 :: "string \<Rightarrow> string"

section \<open>State\<close>

text \<open>\<open>dynamicState\<close>: the settings that \<open>TelegramSetConfig\<close> changes while the daemon runs.\<close>

record dyn_state =
  dy_polling :: bool
  dy_username :: string
  dy_status :: string
  dy_error :: string
  dy_token :: string
  dy_chat :: string
  dy_approvers :: "string list"
  dy_approver_set :: "string list"
  dy_target :: string

record world = disk +
  w_live :: "path \<Rightarrow> live_file option"
  w_fs :: fs
  w_git :: "path \<Rightarrow> git_probe"
  w_n :: nat
  w_trace :: "effect list"
  w_dyn :: dyn_state
  w_user_file :: config_file

record service =
  sv_sys :: sys
  sv_conf :: conf
  sv_policy :: policy
  sv_store :: store
  sv_host :: string

text \<open>
  One poll of a wait: what the rest of the world does until the next look at the store, and
  whether the caller has gone by then.
\<close>

type_synonym tick = "(world \<Rightarrow> world) \<times> bool"

definition emit :: "effect \<Rightarrow> world \<Rightarrow> world" where
  "emit e w = w\<lparr>w_trace := w_trace w @ [e]\<rparr>"

definition bump :: "world \<Rightarrow> world" where
  "bump w = w\<lparr>w_n := Suc (w_n w)\<rparr>"

definition audit :: "service \<Rightarrow> audit_event \<Rightarrow> world \<Rightarrow> world" where
  "audit s ev w = store_append (sv_store s) ev w"

section \<open>Request ids and identities\<close>

definition hex_digit :: "nat \<Rightarrow> char" where
  "hex_digit n = ''0123456789abcdef'' ! (n mod 16)"

definition hex_encode :: "string \<Rightarrow> string" where
  "hex_encode bs = concat (map (\<lambda>b. [hex_digit (of_char b div 16), hex_digit (of_char b)]) bs)"

definition new_rid :: "service \<Rightarrow> world \<Rightarrow> string \<times> world" where
  "new_rid s w =
     (case y_rand (sv_sys s) (w_n w) of
        Some bytes \<Rightarrow> (hex_encode bytes, bump w)
      | None \<Rightarrow> (itoa (d_now w), bump w))"

definition target_uid :: "service \<Rightarrow> uid result" where
  "target_uid s =
     (let y = sv_sys s; target = p_target (sv_policy s) in
      if target = [] then (if y_euid y = 0 then Inr 0 else Inr (y_uid y))
      else case atoi target of
             Some n \<Rightarrow> Inr (word_of_int n)
           | None \<Rightarrow>
               (case y_user_id y target of
                  Inl e \<Rightarrow> Inl e
                | Inr u \<Rightarrow> Inr (word_of_int (some_or (atoi u) 0))))"

definition refusal_text :: string where
  "refusal_text =
     ''2fadod: refusing execution as another user (escalation is not in this release; runs as the daemon user only)''"

definition exec_identity :: "service \<Rightarrow> string list \<Rightarrow> path \<Rightarrow> world \<Rightarrow> (uid \<times> string option) \<times> world" where
  "exec_identity s argv cwd w =
     (let self = y_euid (sv_sys s) in
      case target_uid s of
        Inl e \<Rightarrow> ((self, Some (''2fadod: bad target_user: '' @ e)), w)
      | Inr uid \<Rightarrow>
          if uid = 0 \<or> uid \<noteq> self
          then ((self, Some refusal_text),
                audit s (audit_event_zero\<lparr>ev_ev := ''escalation_disabled'', ev_uid := self,
                  ev_argv := argv, ev_cwd := cwd, ev_as_uid := uid\<rparr>) w)
          else ((self, None), w))"

definition display_uid :: "service \<Rightarrow> uid" where
  "display_uid s = y_euid (sv_sys s)"

definition confirm_as_uid :: "service \<Rightarrow> uid \<Rightarrow> uid" where
  "confirm_as_uid s stored = y_euid (sv_sys s)"

definition root_exec_allowed :: "uid \<Rightarrow> bool \<Rightarrow> uid \<Rightarrow> bool" where
  "root_exec_allowed target allow_root euid = (if target \<noteq> 0 then True else allow_root)"

definition is_admin_uid :: "service \<Rightarrow> uid \<Rightarrow> bool" where
  "is_admin_uid s caller \<longleftrightarrow> caller = 0 \<or> caller = y_uid (sv_sys s)"

text \<open>\<open>cleanBy\<close>: the attribution a decision is recorded under.\<close>

definition by_char :: "char \<Rightarrow> bool" where
  "by_char c \<longleftrightarrow>
     list_ex (\<lambda>(lo, hi). lo \<le> c \<and> c \<le> hi) [(CHR ''a'', CHR ''z''), (CHR ''A'', CHR ''Z''), (CHR ''0'', CHR ''9'')]
     \<or> c \<in> set '':_-@.''"

fun clean_by_loop :: "string list \<Rightarrow> string \<Rightarrow> string" where
  "clean_by_loop [] b = b"
| "clean_by_loop (r # rs) b =
     (if length b \<ge> 64 then b
      else clean_by_loop rs (case r of [c] \<Rightarrow> if by_char c then b @ [c] else b | _ \<Rightarrow> b))"

definition clean_by :: "string \<Rightarrow> string" where
  "clean_by by =
     (if by = [] then ''local''
      else let b = clean_by_loop (rune_chunks by) [] in if b = [] then ''local'' else b)"

section \<open>Environment of a command\<close>

definition env_deny_prefixes :: "string list" where
  "env_deny_prefixes =
     [''LD_'', ''GLIBC_'', ''GCONV_'', ''DYLD_'', ''IFS'', ''BASH_FUNC_'', ''BASHOPTS'', ''SHELLOPTS'',
      ''HOSTALIASES'', ''PYTHON'', ''PERL'', ''RUBYOPT'', ''NODE_'', ''BASH_ENV'', ''ENV='', ''CDPATH='']"

definition env_denied :: "string \<Rightarrow> bool" where
  "env_denied kv \<longleftrightarrow> list_ex (\<lambda>p. has_prefix kv p) env_deny_prefixes"

definition env_kept :: "service \<Rightarrow> string \<Rightarrow> bool" where
  "env_kept s k \<longleftrightarrow>
     (k \<in> set [''TERM'', ''LANG'', ''LC_ALL'', ''LC_MESSAGES'', ''TZ''] \<or> k \<in> set (p_env_keep (sv_policy s)))
     \<and> \<not> env_denied (k @ ''='')"

definition scrub_env :: "service \<Rightarrow> (string \<times> string) list \<Rightarrow> (string \<times> string) list \<times> string list" where
  "scrub_env s env =
     (AList.update ''PATH'' safe_path (filter (\<lambda>(k, v). env_kept s k) env),
      map fst (filter (\<lambda>(k, v). \<not> env_kept s k) env))"

definition flatten_env :: "(string \<times> string) list \<Rightarrow> string list" where
  "flatten_env env = map (\<lambda>(k, v). k @ ''='' @ v) env"

section \<open>Live settings\<close>

definition notify_target :: "service \<Rightarrow> world \<Rightarrow> string" where
  "notify_target s w =
     (if dy_target (w_dyn w) \<noteq> [] then normalize_target (dy_target (w_dyn w))
      else normalize_target (cf_notify_target (sv_conf s)))"

definition notify_telegram :: "service \<Rightarrow> world \<Rightarrow> bool" where
  "notify_telegram s w \<longleftrightarrow> notify_target s w \<noteq> ''paseo''"

definition notify_paseo :: "service \<Rightarrow> world \<Rightarrow> bool" where
  "notify_paseo s w \<longleftrightarrow> notify_target s w \<noteq> ''telegram''"

definition is_placeholder :: "world \<Rightarrow> bool" where
  "is_placeholder w \<longleftrightarrow> placeholder_token (dy_token (w_dyn w))"

definition static_chat_id :: "service \<Rightarrow> string" where
  "static_chat_id s =
     (if cf_chat_id (sv_conf s) \<noteq> [] then cf_chat_id (sv_conf s)
      else case cf_approvers (sv_conf s) of a # _ \<Rightarrow> a | [] \<Rightarrow> [])"

definition active_chat_id :: "service \<Rightarrow> world \<Rightarrow> string" where
  "active_chat_id s w =
     (let d = w_dyn w in
      if dy_chat d \<noteq> [] then dy_chat d
      else case dy_approvers d of a # _ \<Rightarrow> a | [] \<Rightarrow> static_chat_id s)"

text \<open>The token of the client that \<open>activeTG\<close> picks; the client holds nothing else that varies.\<close>

definition active_token :: "service \<Rightarrow> world \<Rightarrow> string" where
  "active_token s w = (if dy_token (w_dyn w) \<noteq> [] then dy_token (w_dyn w) else cf_bot_token (sv_conf s))"

text \<open>Where Telegram is asked at all, it is asked with the live token.\<close>

lemma live_token_used: "\<not> is_placeholder w \<Longrightarrow> active_token s w = dy_token (w_dyn w)"
  by (auto simp: is_placeholder_def active_token_def placeholder_token_def)

section \<open>Cards\<close>

definition tg_send :: "service \<Rightarrow> string \<Rightarrow> string \<Rightarrow> int \<Rightarrow> keyboard \<Rightarrow> world \<Rightarrow> int option \<times> world" where
  "tg_send s chat text reply_to kb w =
     (let mid = y_send (sv_sys s) (w_n w) in
      (mid, emit (Sent chat text reply_to kb (mid \<noteq> None)) (bump w)))"

definition service_card ::
  "service \<Rightarrow> string list \<Rightarrow> uid \<Rightarrow> path \<Rightarrow> string \<Rightarrow> int \<Rightarrow> string \<Rightarrow> string \<Rightarrow> uid \<Rightarrow> string" where
  "service_card s argv uid cwd rid left verdict by as_uid =
     run_card (y_user_name (sv_sys s)) (sv_host s) argv (unat uid) cwd rid left verdict by
       (cf_dry_run (sv_conf s)) (unat as_uid)"

definition page_request :: "service \<Rightarrow> string \<Rightarrow> run_request \<Rightarrow> uid \<Rightarrow> world \<Rightarrow> world" where
  "page_request s rid req uid w =
     (let as_uid = (case store_load (sv_store s) rid w of Some rec \<Rightarrow> pr_as_uid rec | None \<Rightarrow> display_uid s);
          text = service_card s (rr_argv req) uid (rr_cwd req) rid (cf_timeout (sv_conf s)) [] [] as_uid;
          out = Printed (''[pager:stdout] approve: 2fado approve '' @ rid @ [CHR 0x0A] @ text @ [CHR 0x0A])
      in if notify_telegram s w \<and> \<not> is_placeholder w then
           (case tg_send s (active_chat_id s w) text 0 (run_buttons rid) w of
              (Some mid, w') \<Rightarrow> attach_pager (sv_store s) rid (active_chat_id s w) mid w'
            | (None, w') \<Rightarrow> emit out w')
         else emit out w)"

definition time_left :: "pending_record \<Rightarrow> world \<Rightarrow> int" where
  "time_left rec w = max 0 (pr_expires rec - now_s w)"

definition close_card :: "service \<Rightarrow> string \<Rightarrow> string list \<Rightarrow> string \<Rightarrow> string \<Rightarrow> world \<Rightarrow> world" where
  "close_card s rid argv decision by w =
     (if \<not> notify_telegram s w \<or> is_placeholder w then w
      else case store_load (sv_store s) rid w of
             None \<Rightarrow> w
           | Some rec \<Rightarrow>
               if pr_chat_id rec = [] then w
               else emit (Edited (pr_chat_id rec) (pr_msg_id rec)
                      (service_card s (if argv = [] then pr_argv rec else argv) (pr_uid rec) (pr_cwd rec) rid
                         (time_left rec w) decision by (pr_as_uid rec)) empty_buttons) w)"

definition notify_auth_url :: "service \<Rightarrow> string \<Rightarrow> string \<Rightarrow> world \<Rightarrow> world" where
  "notify_auth_url s rid url w =
     (let out = Printed (''[pager:stdout] auth required for '' @ rid @ '': '' @ url @ [CHR 0x0A]) in
      if \<not> notify_telegram s w \<or> is_placeholder w then emit out w
      else case store_load (sv_store s) rid w of
             None \<Rightarrow> emit out w
           | Some rec \<Rightarrow>
               if pr_chat_id rec = [] then emit out w
               else snd (tg_send s (pr_chat_id rec)
                      (([CHR 0xF0, CHR 0x9F, CHR 0x94, CHR 0x91]
                        @ '' <b>Biometric 2FA required</b> for request <code>'') @ rid @ (''</code>:''
                          @ [CHR 0x0A]) @ url)
                      (pr_msg_id rec) (auth_buttons url) w))"

end
