(* ===== verification/Identity.thy ===== *)
theory Identity imports World begin

text \<open>
  Who a command runs as and what reaches it: the identity gate, the cleaned environment,
  the attribution string and the request id. Both cleaners are retractions: their range is
  safe and what is already clean stays as it is, which is stated once for the two of them.
\<close>

section \<open>Cleaners\<close>

locale cleaner =
  fixes clean :: "'a \<Rightarrow> 'a"
    and safe :: "'a \<Rightarrow> bool"
  assumes clean_safe: "safe (clean x)"
    and safe_fixed: "safe x \<Longrightarrow> clean x = x"
begin

lemma clean_twice: "clean (clean x) = clean x"
  by (simp add: clean_safe safe_fixed)

lemma safe_iff: "safe x \<longleftrightarrow> clean x = x"
  by (metis clean_safe safe_fixed)

end

subsection \<open>The attribution string\<close>

definition good_by :: "string \<Rightarrow> bool" where
  "good_by b \<longleftrightarrow> b \<noteq> [] \<and> length b \<le> 64 \<and> list_all by_char b"

lemma upto_z_ascii: "c \<le> CHR ''z'' \<Longrightarrow> of_char c < (128 :: nat)"
  by (simp add: less_eq_char_def)

lemma by_char_ascii: "by_char c \<Longrightarrow> of_char c < (128 :: nat)"
proof (rule upto_z_ascii)
  assume "by_char c"
  then consider "c \<le> CHR ''z''" | "c \<le> CHR ''Z''" | "c \<le> CHR ''9''" | "c \<in> set '':_-@.''"
    unfolding by_char_def list_ex_iff by auto
  then show "c \<le> CHR ''z''"
  proof cases
    case 2
    then show ?thesis by (rule order_trans) (simp add: less_eq_char_def)
  next
    case 3
    then show ?thesis by (rule order_trans) (simp add: less_eq_char_def)
  next
    case 4
    then show ?thesis by (auto simp: less_eq_char_def)
  qed
qed

lemma clean_by_loop_good:
  "length b \<le> 64 \<Longrightarrow> list_all by_char b \<Longrightarrow>
    length (clean_by_loop rs b) \<le> 64 \<and> list_all by_char (clean_by_loop rs b)"
  by (induction rs b rule: clean_by_loop.induct) (auto split: list.splits)

lemma rune_chunks_by: "list_all by_char s \<Longrightarrow> rune_chunks s = map (\<lambda>c. [c]) s"
proof (induction s)
  case (Cons c s)
  then show ?case using utf8_len_ascii [OF by_char_ascii, of c s] by simp
qed simp

lemma clean_by_loop_keeps:
  "list_all by_char s \<Longrightarrow> length b + length s \<le> 64 \<Longrightarrow> clean_by_loop (map (\<lambda>c. [c]) s) b = b @ s"
  by (induction s arbitrary: b) auto

interpretation attribution: cleaner clean_by good_by
proof unfold_locales
  have loc: "good_by ''local''" by (simp add: good_by_def by_char_def less_eq_char_def)
  show "good_by (clean_by x)" for x
    using clean_by_loop_good [of "[]" "rune_chunks x"] loc
    by (auto simp: clean_by_def Let_def) (simp add: good_by_def)
  show "good_by x \<Longrightarrow> clean_by x = x" for x
    by (simp add: clean_by_def good_by_def rune_chunks_by clean_by_loop_keeps)
qed

subsection \<open>The environment\<close>

text \<open>As the Go map it is, the cleaned environment is one function of the given one.\<close>

type_synonym env_map = "string \<Rightarrow> string option"

definition scrub_map :: "service \<Rightarrow> env_map \<Rightarrow> env_map" where
  "scrub_map s m = (\<lambda>k. if k = ''PATH'' then Some safe_path else if env_kept s k then m k else None)"

definition good_env :: "service \<Rightarrow> env_map \<Rightarrow> bool" where
  "good_env s m \<longleftrightarrow>
     m ''PATH'' = Some safe_path \<and> (\<forall>k \<in> dom m. k = ''PATH'' \<or> env_kept s k)"

lemma scrub_env_map: "map_of (fst (scrub_env s env)) = scrub_map s (map_of env)"
  by (rule ext) (simp add: scrub_env_def scrub_map_def update_conv map_of_filter_key)

lemma scrub_env_entry:
  "(k, v) \<in> set (fst (scrub_env s env)) \<Longrightarrow> k = ''PATH'' \<and> v = safe_path \<or> env_kept s k \<and> (k, v) \<in> set env"
proof -
  have upd: "(k, v) \<in> set (AList.update ''PATH'' x al) \<Longrightarrow> k = ''PATH'' \<and> v = x \<or> (k, v) \<in> set al" for x al
    by (induction al) (auto split: if_splits)
  show "(k, v) \<in> set (fst (scrub_env s env)) \<Longrightarrow> ?thesis" using upd by (fastforce simp: scrub_env_def)
qed

interpretation environment: cleaner "scrub_map s" "good_env s" for s
proof unfold_locales
  show "good_env s (scrub_map s m)" for m by (auto simp: good_env_def scrub_map_def split: if_splits)
  show "scrub_map s m = m" if "good_env s m" for m
  proof
    show "scrub_map s m k = m k" for k using that by (cases "k \<in> dom m") (auto simp: good_env_def scrub_map_def)
  qed
qed

text \<open>A denied name stays denied whatever its value is.\<close>

lemma deny_prefix_shape: "p \<in> set env_deny_prefixes \<Longrightarrow> CHR ''='' \<notin> set (butlast p)"
proof -
  have "list_all (\<lambda>p. CHR ''='' \<notin> set (butlast p)) env_deny_prefixes" by (simp add: env_deny_prefixes_def)
  then show "p \<in> set env_deny_prefixes \<Longrightarrow> ?thesis" by (simp add: list_all_iff)
qed

lemma env_denied_value: "env_denied (k @ ''='' @ v) \<longleftrightarrow> env_denied (k @ ''='')"
proof -
  have "prefix p (k @ ''='' @ v) \<longleftrightarrow> prefix p (k @ ''='')" if "p \<in> set env_deny_prefixes" for p
  proof
    assume "prefix p (k @ ''='' @ v)"
    then have "prefix p ((k @ ''='') @ v)" by simp
    then consider "prefix p (k @ ''='')" | r where "r \<noteq> []" "p = (k @ ''='') @ r"
      unfolding prefix_append [of p] by fastforce
    then show "prefix p (k @ ''='')"
    proof cases
      case 2
      then have "CHR ''='' \<in> set (butlast p)" by (simp add: butlast_append)
      then show ?thesis using deny_prefix_shape that by blast
    qed
  next
    assume "prefix p (k @ ''='')"
    then have "prefix p ((k @ ''='') @ v)" by (rule prefix_prefix)
    then show "prefix p (k @ ''='' @ v)" by simp
  qed
  then show ?thesis unfolding env_denied_def list_ex_iff by blast
qed

section \<open>Request ids\<close>

definition hex_val :: "char \<Rightarrow> nat" where
  "hex_val c = some_or (index_of [c] ''0123456789abcdef'') 0"

fun hex_decode :: "string \<Rightarrow> string" where
  "hex_decode (a # b # s) = char_of (16 * hex_val a + hex_val b) # hex_decode s"
| "hex_decode s = []"

lemma hex_val_digit: "hex_val (hex_digit n) = n mod 16"
proof -
  have "list_all (\<lambda>m. hex_val (''0123456789abcdef'' ! m) = m) [0..<16]" by code_simp
  then show ?thesis by (simp add: hex_digit_def list_all_iff)
qed

lemma hex_digit_plain: "hex_digit n \<noteq> slash" "hex_digit n \<noteq> CHR '':''"
proof -
  have "list_all (\<lambda>m. ''0123456789abcdef'' ! m \<noteq> slash \<and> ''0123456789abcdef'' ! m \<noteq> CHR '':'') [0..<16]" by code_simp
  then show "hex_digit n \<noteq> slash" "hex_digit n \<noteq> CHR '':''" by (simp_all add: hex_digit_def list_all_iff)
qed

interpretation hex: codec hex_encode "\<lambda>h. Some (hex_decode h)" "\<lambda>_. True"
proof unfold_locales
  have b: "16 * (of_char c div 16 mod 16) + of_char c mod 16 = (of_char c :: nat)" for c :: char
  proof -
    have "(of_char c :: nat) div 16 < 16" using nat_of_char_less_256 [of c] by linarith
    then show ?thesis by simp
  qed
  show "Some (hex_decode (hex_encode x)) = Some x" for x
    by (induction x) (simp_all add: hex_encode_def hex_val_digit b)
qed

lemma hex_encode_plain: "slash \<notin> set (hex_encode bs)" "CHR '':'' \<notin> set (hex_encode bs)"
  using hex_digit_plain by (fastforce simp: hex_encode_def)+

lemma itoa_plain: "slash \<notin> set (itoa n)" "CHR '':'' \<notin> set (itoa n)"
proof -
  have "slash \<notin> set (dec m) \<and> CHR '':'' \<notin> set (dec m)" for m
    using dec_digits [of m] by (auto simp: list_all_iff is_digit_def less_eq_char_def)
  then show "slash \<notin> set (itoa n)" "CHR '':'' \<notin> set (itoa n)" by (simp_all add: itoa_def)
qed

section \<open>Properties\<close>

text \<open>
  C14. The environment a command is started with is safe whatever the client sent and whatever
  the policy keeps: the search path is the fixed one, no entry is one of the denied loader or
  interpreter variables, and cleaning a stored environment again, as adoption after a restart
  does, changes nothing.
\<close>

theorem environment_is_scrubbed:
  "map_of (fst (scrub_env s env)) ''PATH'' = Some safe_path
   \<and> set (filter env_denied (flatten_env (fst (scrub_env s env)))) \<subseteq> {''PATH='' @ safe_path}
   \<and> map_of (fst (scrub_env s (fst (scrub_env s env)))) = map_of (fst (scrub_env s env))"
proof (intro conjI)
  show "map_of (fst (scrub_env s env)) ''PATH'' = Some safe_path" by (simp add: scrub_env_map scrub_map_def)
  show "map_of (fst (scrub_env s (fst (scrub_env s env)))) = map_of (fst (scrub_env s env))"
    by (simp add: scrub_env_map environment.clean_twice)
  have "kv = ''PATH='' @ safe_path \<or> \<not> env_denied kv"
    if kv: "kv \<in> set (flatten_env (fst (scrub_env s env)))" for kv
  proof -
    obtain k v where e: "kv = k @ ''='' @ v" "(k, v) \<in> set (fst (scrub_env s env))"
      using kv by (auto simp: flatten_env_def)
    then show ?thesis using scrub_env_entry [OF e(2)] env_denied_value [of k v] by (auto simp: env_kept_def)
  qed
  then show "set (filter env_denied (flatten_env (fst (scrub_env s env)))) \<subseteq> {''PATH='' @ safe_path}"
    by auto
qed

text \<open>
  A decision is recorded under an attribution of at most 64 plain characters, never an
  empty one, and an attribution that was cleaned once stays as it is when it is cleaned again.
\<close>

theorem attribution_is_clean:
  "clean_by by \<noteq> [] \<and> length (clean_by by) \<le> 64 \<and> list_all by_char (clean_by by)
   \<and> clean_by (clean_by by) = clean_by by"
  using attribution.clean_safe [of "by"] by (simp add: good_by_def attribution.clean_twice)

text \<open>
  C15. The identity gate lets a command run only as the user the daemon itself runs as, and
  never as root: every other target, and a target that cannot be resolved, is refused.
\<close>

theorem identity_never_escalates:
  "fst (fst (exec_identity s argv cwd w)) = y_euid (sv_sys s)
   \<and> (snd (fst (exec_identity s argv cwd w)) = None
      \<longleftrightarrow> target_uid s = Inr (y_euid (sv_sys s)) \<and> y_euid (sv_sys s) \<noteq> 0)"
  by (auto simp: exec_identity_def Let_def split: sum.splits)

text \<open>
  C40. A new request id is always the name of a file in the pending directory, not a path out of
  it, and has no colon, which separates the fields of a button's data; and two requests that drew
  random bytes have the same id exactly when they drew the same bytes.
\<close>

theorem request_id_is_a_name:
  "set (fst (new_rid s w)) \<inter> {slash, CHR '':''} = {}
   \<and> (case (y_rand (sv_sys s) (w_n w), y_rand (sv_sys s') (w_n w')) of
        (Some a, Some b) \<Rightarrow> fst (new_rid s w) = fst (new_rid s' w') \<longleftrightarrow> a = b
      | _ \<Rightarrow> True)"
  using hex.enc_inj hex_encode_plain itoa_plain by (auto simp: new_rid_def split: option.split)

end
