(* ===== verification/Asking.thy ===== *)
theory Asking imports World begin

text \<open>
  Petitions that start no command: the questions of \<open>service/ask.go\<close>, the notices of
  \<open>service/notify.go\<close> and the paged lists of \<open>service/paging.go\<close>. A question blocks its caller
  until a selection is recorded; as in a run request the wait is a loop over \<open>tick\<close>s.

  \<open>time.Duration\<close> is a 64-bit count of nanoseconds, so the product that makes one of the
  caller's seconds wraps around.
\<close>

section \<open>Questions\<close>

definition default_ask_ttl :: int where "default_ask_ttl = 3600 * second_ns"
definition min_ask_ttl :: int where "min_ask_ttl = 10 * second_ns"
definition max_ask_ttl :: int where "max_ask_ttl = 7 * 24 * 3600 * second_ns"
definition max_ask_question :: nat where "max_ask_question = 2000"
definition max_ask_option :: nat where "max_ask_option = 500"
definition max_ask_options :: nat where "max_ask_options = 10"

definition ask_options :: "ask_request \<Rightarrow> string list" where
  "ask_options req = filter (\<lambda>opt. opt \<noteq> []) (map trim_space (aq_options req))"

definition http_link :: "string \<Rightarrow> bool" where
  "http_link link \<longleftrightarrow> has_prefix link ''http://'' \<or> has_prefix link ''https://''"

text \<open>The reason a question is turned down, in the order of the checks.\<close>

definition ask_refusal :: "ask_request \<Rightarrow> string option" where
  "ask_refusal req =
     (let question = trim_space (aq_question req); link = trim_space (aq_link req); opts = ask_options req in
      if question = [] \<or> length opts < 2 then Some ''question and at least two options required''
      else if length opts > max_ask_options then Some ''too many options''
      else if length question > max_ask_question then Some ''question too long''
      else if list_ex (\<lambda>opt. length opt > max_ask_option) opts then Some ''option too long''
      else if link \<noteq> [] \<and> \<not> http_link link then Some ''link must be http(s) URL''
      else None)"

text \<open>The recommended option by its place on the card; the wire counts from 1, and 0 is none.\<close>

definition recommended_of :: "int \<Rightarrow> string list \<Rightarrow> int" where
  "recommended_of idx opts = (if 1 \<le> idx \<and> idx \<le> int (length opts) then idx - 1 else -1)"

definition clamp_ttl :: "int \<Rightarrow> int \<Rightarrow> int \<Rightarrow> int \<Rightarrow> int" where
  "clamp_ttl dflt lo hi seconds =
     (let ttl = i64 (seconds * second_ns);
          ttl = (if ttl = 0 then dflt else ttl);
          ttl = (if ttl < lo then lo else ttl)
      in if ttl > hi then hi else ttl)"

definition ask_ttl :: "ask_request \<Rightarrow> world \<Rightarrow> int" where
  "ask_ttl req w =
     (if is_placeholder w then min_ask_ttl
      else clamp_ttl default_ask_ttl min_ask_ttl max_ask_ttl (aq_ttl_seconds req))"

definition line :: "string \<Rightarrow> effect" where
  "line t = Printed (t @ [CHR 0x0A])"

definition emits :: "effect list \<Rightarrow> world \<Rightarrow> world" where
  "emits es w = foldl (\<lambda>w e. emit e w) w es"

definition page_ask ::
  "service \<Rightarrow> string \<Rightarrow> string \<Rightarrow> string \<Rightarrow> string list \<Rightarrow> int \<Rightarrow> int \<Rightarrow> bool \<Rightarrow> bool \<Rightarrow> world \<Rightarrow> world" where
  "page_ask s rid question link opts recommended ttl multi write_in w =
     (let out = [line (''[pager:stdout] ask '' @ rid @ '': '' @ question)]
            @ (if link \<noteq> [] then [line (''  link: '' @ link)] else [])
            @ map (\<lambda>(i, opt). line (''  ['' @ itoa (int i) @ ''] '' @ opt)) (enumerate 0 opts)
            @ (if write_in then [line ''  [write-in] Enter your answer:''] else [])
      in if notify_telegram s w \<and> \<not> is_placeholder w then
           (case tg_send s (active_chat_id s w)
               (ask_card (sv_host s) question link rid (ttl div second_ns) False [] [] multi) 0
               (ask_buttons rid opts recommended multi []) w of
              (Some mid, w') \<Rightarrow> attach_pager (sv_store s) rid (active_chat_id s w) mid w'
            | (None, w') \<Rightarrow> emits out w')
         else emits out w)"

definition close_ask_card :: "service \<Rightarrow> string \<Rightarrow> string \<Rightarrow> string \<Rightarrow> world \<Rightarrow> world" where
  "close_ask_card s rid selection by w =
     (if \<not> notify_telegram s w \<or> is_placeholder w then w
      else case store_load (sv_store s) rid w of
             None \<Rightarrow> w
           | Some rec \<Rightarrow>
               if pr_chat_id rec = [] then w
               else emit (Edited (pr_chat_id rec) (pr_msg_id rec)
                      (ask_card (sv_host s) (pr_question rec) (pr_link rec) rid (time_left rec w)
                         (selection \<noteq> []) selection by (pr_multi_select rec)) empty_buttons) w)"

text \<open>The answer of \<open>awaitSelection\<close>: the selection, or whether the wait was broken off.\<close>

fun await_selection ::
  "service \<Rightarrow> string \<Rightarrow> int \<Rightarrow> bool \<Rightarrow> tick list \<Rightarrow> world
    \<Rightarrow> ((selection_record option \<times> bool) \<times> tick list \<times> world) option" where
  "await_selection s rid expires cancellable ticks w =
     (case store_selection_info (sv_store s) rid w of
        Some sel \<Rightarrow> Some ((Some sel, False), ticks, w)
      | None \<Rightarrow>
          if store_cancel_info (sv_store s) rid w \<noteq> None then Some ((None, True), ticks, w)
          else if d_now w > expires then Some ((None, False), ticks, w)
          else case ticks of
                 [] \<Rightarrow> None
               | (act, gone) # ts \<Rightarrow>
                   if cancellable \<and> gone then Some ((None, True), ts, act w)
                   else await_selection s rid expires cancellable ts (act w))"

declare await_selection.simps [simp del]

definition ask_denied :: "string \<Rightarrow> string \<Rightarrow> string \<Rightarrow> ask_result" where
  "ask_denied rid question reason = ask_result_zero\<lparr>ax_status := ''denied'', ax_id := rid,
     ax_question := question, ax_reason := reason\<rparr>"

text \<open>What the caller is told once the wait is over.\<close>

definition ask_answered ::
  "service \<Rightarrow> string \<Rightarrow> string \<Rightarrow> uid \<Rightarrow> selection_record option \<times> bool \<Rightarrow> world \<Rightarrow> ask_result \<times> world" where
  "ask_answered s rid question uid answer w =
     (case answer of
        (sel, True) \<Rightarrow>
          (case store_cancel_info (sv_store s) rid w of
             Some c \<Rightarrow> (ask_denied rid question ''cancelled'', close_ask_card s rid [] (cn_by c) w)
           | None \<Rightarrow>
               (ask_denied rid question ''client_aborted'',
                audit s (audit_event_zero\<lparr>ev_ev := ''client_aborted'', ev_uid := uid, ev_rid := rid\<rparr>)
                  (close_ask_card s rid [] ''client'' w)))
      | (None, False) \<Rightarrow>
          (ask_result_zero\<lparr>ax_status := ''timeout'', ax_id := rid, ax_question := question,
             ax_reason := ''timeout''\<rparr>,
           audit s (audit_event_zero\<lparr>ev_ev := ''ask_timeout'', ev_uid := uid, ev_rid := rid\<rparr>)
             (close_ask_card s rid [] [] w))
      | (Some sel, False) \<Rightarrow>
          (ask_result_zero\<lparr>ax_status := ''selected'', ax_id := rid, ax_question := question,
             ax_selection := sl_selection sel, ax_selection_idx := sl_selection_idx sel,
             ax_selection_idxs := sl_selection_idxs sel, ax_by := sl_by sel\<rparr>,
           close_ask_card s rid (sl_selection sel) (sl_by sel)
             (audit s (audit_event_zero\<lparr>ev_ev := ''ask_select'', ev_rid := rid, ev_by := sl_by sel,
                ev_selection := sl_selection sel, ev_selection_idx := sl_selection_idx sel\<rparr>) w)))"

definition file_ask :: "service \<Rightarrow> ask_request \<Rightarrow> uid \<Rightarrow> world \<Rightarrow> string \<times> int \<times> world" where
  "file_ask s req uid w =
     (let question = trim_space (aq_question req); link = trim_space (aq_link req); opts = ask_options req;
          recommended = recommended_of (aq_recommended_index req) opts;
          ttl = ask_ttl req w;
          (rid, w) = new_rid s w;
          expires = d_now w + ttl;
          w = snd (store_save (sv_store s) (pending_record_zero\<lparr>pr_uid := uid, pr_expires := expires div second_ns,
                pr_step := ''initial'', pr_kind := ''ask'', pr_question := question, pr_options := opts,
                pr_link := link, pr_multi_select := aq_multi_select req,
                pr_allow_write_in := aq_allow_write_in req,
                pr_recommended_index := aq_recommended_index req\<rparr>) rid w);
          w = audit s (audit_event_zero\<lparr>ev_ev := ''ask'', ev_uid := uid, ev_rid := rid, ev_step := ''initial'',
                ev_question := question, ev_options := opts, ev_link := link\<rparr>) w
      in (rid, expires,
          page_ask s rid question link opts recommended ttl (aq_multi_select req) (aq_allow_write_in req) w))"

definition ask_with_cancel ::
  "service \<Rightarrow> ask_request \<Rightarrow> uid \<Rightarrow> bool \<Rightarrow> tick list \<Rightarrow> world \<Rightarrow> (ask_result \<times> tick list \<times> world) option" where
  "ask_with_cancel s req uid cancellable ticks w =
     (case ask_refusal req of
        Some reason \<Rightarrow> Some (ask_denied [] [] reason, ticks, w)
      | None \<Rightarrow>
          (case file_ask s req uid w of
             (rid, expires, w) \<Rightarrow>
               (case await_selection s rid expires cancellable ticks w of
                  None \<Rightarrow> None
                | Some (answer, ts, w) \<Rightarrow>
                    (case ask_answered s rid (trim_space (aq_question req)) uid answer w of
                       (res, w) \<Rightarrow> Some (res, ts, w)))))"

section \<open>Answering a question with several choices\<close>

definition toggle_idx :: "int list \<Rightarrow> int \<Rightarrow> int list" where
  "toggle_idx xs idx =
     (let out = filter (\<lambda>i. i \<noteq> idx) xs in sort (if idx \<in> set xs then out else out @ [idx]))"

definition toggle_ask :: "service \<Rightarrow> string \<Rightarrow> int \<Rightarrow> world \<Rightarrow> world" where
  "toggle_ask s rid idx w =
     (case store_load (sv_store s) rid w of
        None \<Rightarrow> w
      | Some rec \<Rightarrow>
          if pr_kind rec \<noteq> ''ask'' \<or> \<not> pr_multi_select rec then w
          else if store_selection_info (sv_store s) rid w \<noteq> None
               \<or> store_cancel_info (sv_store s) rid w \<noteq> None then w
          else if idx < 0 \<or> idx \<ge> int (length (pr_options rec)) then w
          else let chosen = toggle_idx (pr_selected_idxs rec) idx in
               case set_selected_idxs (sv_store s) rid chosen w of
                 (False, w') \<Rightarrow> w'
               | (True, w') \<Rightarrow>
                   if \<not> notify_telegram s w' \<or> is_placeholder w' \<or> pr_chat_id rec = [] \<or> pr_msg_id rec = 0
                   then w'
                   else emit (Repainted (pr_chat_id rec) (pr_msg_id rec)
                          (ask_buttons rid (pr_options rec)
                             (recommended_of (pr_recommended_index rec) (pr_options rec)) True chosen)) w')"

definition valid_idxs :: "string list \<Rightarrow> int list \<Rightarrow> int list" where
  "valid_idxs opts idxs = filter (\<lambda>i. 0 \<le> i \<and> i < int (length opts)) idxs"

definition labels_of :: "string list \<Rightarrow> int list \<Rightarrow> string list" where
  "labels_of opts idxs = map (\<lambda>i. opts ! nat i) (valid_idxs opts idxs)"

definition submit_ask :: "service \<Rightarrow> string \<Rightarrow> string \<Rightarrow> world \<Rightarrow> world" where
  "submit_ask s rid by w =
     (case store_load (sv_store s) rid w of
        None \<Rightarrow> w
      | Some rec \<Rightarrow>
          if pr_kind rec \<noteq> ''ask'' \<or> \<not> pr_multi_select rec then w
          else if labels_of (pr_options rec) (pr_selected_idxs rec) = [] then w
          else snd (store_select_many (sv_store s) rid
                 (str_join '', '' (labels_of (pr_options rec) (pr_selected_idxs rec)))
                 (valid_idxs (pr_options rec) (pr_selected_idxs rec)) by w))"

section \<open>Notices\<close>

definition default_notify_ttl :: int where "default_notify_ttl = 24 * 3600 * second_ns"
definition min_notify_ttl :: int where "min_notify_ttl = 5 * 60 * second_ns"
definition max_notify_ttl :: int where "max_notify_ttl = 7 * 24 * 3600 * second_ns"
definition max_notify_link :: nat where "max_notify_link = 2000"
definition max_notify_summary :: nat where "max_notify_summary = 2000"

definition notify_refusal :: "notify_request \<Rightarrow> string option" where
  "notify_refusal req =
     (let link = trim_space (nr_link req); summary = trim_space (nr_summary req) in
      if link = [] \<or> summary = [] then Some ''link and summary required''
      else if length link > max_notify_link \<or> length summary > max_notify_summary
      then Some ''link or summary too long''
      else if \<not> http_link link then Some ''link must be http(s) URL''
      else None)"

definition page_notify :: "service \<Rightarrow> string \<Rightarrow> string \<Rightarrow> string \<Rightarrow> int \<Rightarrow> world \<Rightarrow> world" where
  "page_notify s rid link summary ttl w =
     (let head = ''[pager:stdout] notify '' @ rid @ '': '' @ summary @ [CHR 0x0A] @ link in
      if notify_telegram s w \<and> \<not> is_placeholder w then
        (case tg_send s (active_chat_id s w)
            (notify_card (sv_host s) link summary rid (ttl div second_ns) False []) 0 (notify_buttons link rid) w of
           (Some mid, w') \<Rightarrow> attach_pager (sv_store s) rid (active_chat_id s w) mid w'
         | (None, w') \<Rightarrow> emit (line head) w')
      else emit (line (head @ [CHR 0x0A] @ ''(ack: 2fado ack '' @ rid @ '')'')) w)"

definition close_notify_card :: "service \<Rightarrow> string \<Rightarrow> string \<Rightarrow> world \<Rightarrow> world" where
  "close_notify_card s rid by w =
     (if \<not> notify_telegram s w \<or> is_placeholder w then w
      else case store_load (sv_store s) rid w of
             None \<Rightarrow> w
           | Some rec \<Rightarrow>
               if pr_chat_id rec = [] then w
               else emit (Edited (pr_chat_id rec) (pr_msg_id rec)
                      (notify_card (sv_host s) (pr_link rec) (pr_summary rec) rid (time_left rec w) True by)
                      empty_buttons) w)"

definition notify_ttl :: "notify_request \<Rightarrow> int" where
  "notify_ttl req = clamp_ttl default_notify_ttl min_notify_ttl max_notify_ttl (nr_ttl_seconds req)"

definition service_notify :: "service \<Rightarrow> notify_request \<Rightarrow> uid \<Rightarrow> world \<Rightarrow> run_result \<times> world" where
  "service_notify s req uid w =
     (case notify_refusal req of
        Some reason \<Rightarrow> (run_result_zero\<lparr>rs_status := ''denied'', rs_reason := reason\<rparr>, w)
      | None \<Rightarrow>
          (let link = trim_space (nr_link req); summary = trim_space (nr_summary req);
               ttl = notify_ttl req;
               (rid, w) = new_rid s w;
               w = snd (store_save (sv_store s) (pending_record_zero\<lparr>pr_uid := uid,
                     pr_expires := (d_now w + ttl) div second_ns, pr_step := ''initial'', pr_kind := ''notify'',
                     pr_link := link, pr_summary := summary\<rparr>) rid w);
               w = audit s (audit_event_zero\<lparr>ev_ev := ''notify'', ev_uid := uid, ev_rid := rid,
                     ev_step := ''initial'', ev_link := link, ev_summary := summary\<rparr>) w
           in (run_result_zero\<lparr>rs_status := ''pending'', rs_id := rid\<rparr>, page_notify s rid link summary ttl w)))"

text \<open>An acknowledgement that was recorded: audited, and the card closed.\<close>

definition acked :: "service \<Rightarrow> string \<Rightarrow> string \<Rightarrow> world \<Rightarrow> world" where
  "acked s rid by w =
     close_notify_card s rid by (audit s (audit_event_zero\<lparr>ev_ev := ''ack'', ev_rid := rid, ev_by := by\<rparr>) w)"

definition service_ack :: "service \<Rightarrow> ack_submit \<Rightarrow> uid \<Rightarrow> world \<Rightarrow> ack_response \<times> world" where
  "service_ack s sub caller w =
     (let by = clean_by (as_by sub) in
      if \<not> is_admin_uid s caller then
        (\<lparr>ar_acked = False, ar_error = ''unauthorized''\<rparr>,
         audit s (audit_event_zero\<lparr>ev_ev := ''ack_unauthorized'', ev_by := by, ev_rid := as_id sub\<rparr>) w)
      else case store_ack (sv_store s) (as_id sub) by w of
             (False, w') \<Rightarrow> (\<lparr>ar_acked = False, ar_error = []\<rparr>, w')
           | (True, w') \<Rightarrow> (\<lparr>ar_acked = True, ar_error = []\<rparr>, acked s (as_id sub) by w'))"

section \<open>Paged lists\<close>

text \<open>\<open>SendList\<close> answers \<open>None\<close> for an error, whose text is not modelled.\<close>

definition send_list :: "service \<Rightarrow> string \<Rightarrow> string \<Rightarrow> string list \<Rightarrow> world \<Rightarrow> int option \<times> world" where
  "send_list s rid title lines w =
     (if store_load (sv_store s) rid w = None then (None, w)
      else let w = set_page_list (sv_store s) rid title lines w;
               pages = list_pages (int (length lines))
           in if \<not> notify_telegram s w \<or> is_placeholder w then
                (Some 0, emits (line (''[pager:stdout] list '' @ rid @ '': '' @ title)
                   # map (\<lambda>l. line (''  '' @ l)) lines) w)
              else case tg_send s (active_chat_id s w)
                       (paged_card (sv_host s) title rid (page_slice lines 0) 0 pages) 0
                       (paged_buttons rid 0 pages) w of
                     (None, w') \<Rightarrow> (None, w')
                   | (Some mid, w') \<Rightarrow> (Some mid, attach_pager (sv_store s) rid (active_chat_id s w') mid w'))"

definition repage :: "service \<Rightarrow> string \<Rightarrow> int \<Rightarrow> world \<Rightarrow> world" where
  "repage s rid page w =
     (if \<not> notify_telegram s w \<or> is_placeholder w then w
      else case store_load (sv_store s) rid w of
             None \<Rightarrow> w
           | Some rec \<Rightarrow>
               if pr_chat_id rec = [] \<or> pr_msg_id rec = 0 then w
               else let pages = list_pages (int (length (pr_page_lines rec))) in
                 if page < 0 \<or> page \<ge> pages then w
                 else emit (Edited (pr_chat_id rec) (pr_msg_id rec)
                        (paged_card (sv_host s) (if pr_summary rec = [] then ''List'' else pr_summary rec) rid
                           (page_slice (pr_page_lines rec) page) page pages)
                        (paged_buttons rid page pages)) w)"

end
