(* ===== verification/Pins.thy ===== *)
theory Pins imports World begin

text \<open>
  What is frozen when a petition is filed and compared when it is approved: the Git tree
  (\<open>gitpin.go\<close>), the entry point (\<open>fdpin.go\<close>), the input files (\<open>seal.go\<close>), and the
  caller's process group, which is stopped meanwhile (\<open>suspend.go\<close>). SHA-256 is the
  parameter \<open>y_sha256\<close>; nothing below assumes more of it than that it is a function.
\<close>

section \<open>Git\<close>

definition max_porcelain :: nat where "max_porcelain = 32 * 1024"

definition git_absent :: git_pin where
  "git_absent = \<lparr>gp_head = [], gp_branch = [], gp_porcelain = [], gp_clean = False, gp_present = False\<rparr>"

definition snapshot_git :: "path \<Rightarrow> world \<Rightarrow> git_pin option" where
  "snapshot_git cwd w =
     (let g = w_git w cwd in
      if trim_space cwd = [] then None
      else if \<not> gq_stat g then None
      else if \<not> gq_git g then None
      else case gq_head g of
             None \<Rightarrow> Some git_absent
           | Some head \<Rightarrow>
               (case gq_branch g of
                  None \<Rightarrow> Some git_absent
                | Some branch \<Rightarrow>
                    (case gq_status g of
                       None \<Rightarrow> None
                     | Some st \<Rightarrow>
                         let porcelain = (if length st > max_porcelain
                                          then take max_porcelain st @ truncated_mark else st) in
                         Some \<lparr>gp_head = trim_space head, gp_branch = trim_space branch,
                           gp_porcelain = porcelain, gp_clean = (trim_space porcelain = []),
                           gp_present = True\<rparr>)))"

definition short_hash :: "string \<Rightarrow> string" where
  "short_hash h = (if length h > 12 then take 12 h else if h = [] then ''unknown'' else h)"

definition short_head :: "string \<Rightarrow> string" where
  "short_head h = short_hash (trim_space h)"

definition git_strict :: "service \<Rightarrow> bool" where
  "git_strict s \<longleftrightarrow>
     p_mode (sv_policy s) = ''whitelist''
     \<or> to_lower (trim_space (y_env (sv_sys s) ''TWOFADO_GIT_STRICT''))
         \<in> set [''1'', ''true'', ''yes'', ''strict'', ''block'']"

definition git_blocked :: "string \<Rightarrow> git_drift" where
  "git_blocked why = \<lparr>gd_drift = True, gd_reason = why, gd_block = True\<rparr>"

definition git_gone :: "path \<Rightarrow> string" where
  "git_gone dir = ''git worktree at '' @ dir @ '' is no longer a git repo''"

definition compare_git :: "service \<Rightarrow> path \<Rightarrow> git_pin \<Rightarrow> git_pin \<Rightarrow> git_drift option" where
  "compare_git s dir pinned live =
     (if \<not> gp_present live then Some (git_blocked (git_gone dir))
      else if gp_head live \<noteq> gp_head pinned
      then Some (git_blocked (''HEAD moved '' @ short_head (gp_head pinned) @ '' -> ''
        @ short_head (gp_head live)))
      else if gp_branch live \<noteq> gp_branch pinned
      then Some (git_blocked (''branch switch '' @ gp_branch pinned @ '' -> '' @ gp_branch live))
      else if gp_porcelain live \<noteq> gp_porcelain pinned
      then Some \<lparr>gd_drift = True,
             gd_reason =
               (if gp_clean pinned \<and> \<not> gp_clean live then ''DIRTY WORKSPACE: clean tree at petition is now dirty''
                else if \<not> gp_clean pinned \<and> gp_clean live then ''DIRTY WORKSPACE: dirty tree at petition is now clean''
                else ''DIRTY WORKSPACE: tree state changed since petition''),
             gd_block = git_strict s\<rparr>
      else None)"

definition check_git_drift :: "service \<Rightarrow> string \<Rightarrow> path \<Rightarrow> world \<Rightarrow> git_drift option" where
  "check_git_drift s rid cwd w =
     (case store_load (sv_store s) rid w of
        None \<Rightarrow> None
      | Some rec \<Rightarrow>
          (case pr_git rec of
             None \<Rightarrow> None
           | Some pinned \<Rightarrow>
               if \<not> gp_present pinned then None
               else let dir = (if pr_cwd rec = [] then cwd else pr_cwd rec) in
                 case snapshot_git dir w of
                   None \<Rightarrow> None
                 | Some live \<Rightarrow> compare_git s dir pinned live))"

section \<open>Entry point\<close>

definition max_pin_hash_bytes :: nat where "max_pin_hash_bytes = 32 * 1024 * 1024"

text \<open>
  A path is looked up among the extracted copies first, then in the workspace. The mode of an
  extracted copy, which no check reads, stands at 0600.
\<close>

definition live_at :: "world \<Rightarrow> path \<Rightarrow> live_file option" where
  "live_at w p =
     (case node_at w p of
        Some (Reg (Raw b) m) \<Rightarrow>
          Some \<lparr>lf_dir = False, lf_regular = True, lf_mode = 384, lf_size = int (length b), lf_dev = 0,
                lf_ino = 0, lf_bytes = Some b\<rparr>
      | _ \<Rightarrow> w_live w p)"

text \<open>The fields of \<open>strings.Fields\<close>.\<close>

fun field_len :: "string \<Rightarrow> nat" where
  "field_len [] = 0"
| "field_len (c # s) = (if space_len (c # s) > 0 then 0 else Suc (field_len s))"

function go_fields :: "string \<Rightarrow> string list" where
  "go_fields s =
     (let t = trim_left s in
      if t = [] then []
      else if field_len t = 0 then []
      else take (field_len t) t # go_fields (drop (field_len t) t))"
  by pat_completeness auto
termination
proof (relation "measure length")
  fix s t :: string
  assume t: "t = trim_left s" "t \<noteq> []" "field_len t \<noteq> 0"
  have "length t \<le> length s" using t(1) by (simp add: trim_left_def drop_spaces_suffix suffix_length_le)
  moreover have "0 < length t" "0 < field_len t" using t(2,3) by simp_all
  ultimately have "length t - field_len t < length s" by linarith
  then show "(drop (field_len t) t, s) \<in> measure length" by simp
qed simp

declare go_fields.simps [simp del]

definition parse_shebang :: "string \<Rightarrow> (string \<times> string) option" where
  "parse_shebang bytes =
     (let head = take 512 bytes in
      if \<not> has_prefix head ''#!'' then None
      else let line = takeWhile (\<lambda>c. c \<noteq> CHR 0x0A) (drop 2 head);
               line = trim_space (trim_right_set line [CHR 0x0D])
        in if line = [] then None
           else case go_fields line of
                  [] \<Rightarrow> None
                | f0 # fs \<Rightarrow>
                    let (interp, arg) =
                      (if f0 = ''/usr/bin/env'' \<and> fs \<noteq> []
                       then (hd fs, if length fs > 1 then str_join '' '' (tl fs) else [])
                       else if fs \<noteq> [] then (f0, str_join '' '' fs)
                       else (f0, []))
                    in if interp = [] then None else Some (interp, arg))"

definition pin_from_file :: "sys \<Rightarrow> path \<Rightarrow> live_file \<Rightarrow> fd_pin option" where
  "pin_from_file y p f =
     (case lf_bytes f of
        None \<Rightarrow> None
      | Some bytes \<Rightarrow>
          if lf_dir f then None
          else Some \<lparr>fp_path = p, fp_resolved = some_or (y_eval_links y p) p,
                 fp_sha256 = y_sha256 y (take max_pin_hash_bytes bytes), fp_dev = lf_dev f, fp_ino = lf_ino f,
                 fp_size = lf_size f, fp_mode = lf_mode f,
                 fp_is_script = (parse_shebang bytes \<noteq> None),
                 fp_interpreter = (case parse_shebang bytes of Some (i, a) \<Rightarrow> i | None \<Rightarrow> []),
                 fp_interp_arg = (case parse_shebang bytes of Some (i, a) \<Rightarrow> a | None \<Rightarrow> [])\<rparr>)"

definition entry_path :: "service \<Rightarrow> string list \<Rightarrow> path \<Rightarrow> world \<Rightarrow> path" where
  "entry_path s argv cwd w = resolve_binary (w_fs w) (hd argv) cwd [''PATH='' @ safe_path]"

definition snapshot_entry :: "service \<Rightarrow> string list \<Rightarrow> path \<Rightarrow> world \<Rightarrow> fd_pin option" where
  "snapshot_entry s argv cwd w =
     (if argv = [] \<or> trim_space (hd argv) = [] then None
      else let p = entry_path s argv cwd w in
        case live_at w p of None \<Rightarrow> None | Some f \<Rightarrow> pin_from_file (sv_sys s) p f)"

definition fd_blocked :: "string \<Rightarrow> fd_drift" where
  "fd_blocked why = \<lparr>fd_drifted = True, fd_reason = why, fd_block = True\<rparr>"

text \<open>\<open>openVerified\<close>: the bytes behind the descriptor, or why the entry point is refused.\<close>

definition open_verified :: "service \<Rightarrow> fd_pin \<Rightarrow> world \<Rightarrow> fd_drift + string" where
  "open_verified s pin w =
     (case live_at w (fp_path pin) of
        None \<Rightarrow> Inl (fd_blocked (''entrypoint at '' @ fp_path pin @ '' is gone at approval''))
      | Some f \<Rightarrow>
          (case pin_from_file (sv_sys s) (fp_path pin) f of
             None \<Rightarrow> Inl (fd_blocked (''entrypoint at '' @ fp_path pin
               @ '' is unreadable at approval''))
           | Some live \<Rightarrow>
               if fp_sha256 live \<noteq> fp_sha256 pin
               then Inl (fd_blocked (''entrypoint content changed since petition (''
                      @ short_hash (fp_sha256 pin) @ '' -> '' @ short_hash (fp_sha256 live) @ '')''))
               else if fp_ino pin \<noteq> 0 \<and> (fp_dev live \<noteq> fp_dev pin \<or> fp_ino live \<noteq> fp_ino pin)
               then Inl (fd_blocked
                      ''entrypoint replaced since petition (binary swap or symlink redirect)'')
               else Inr (some_or (lf_bytes f) [])))"

definition check_fd_drift :: "service \<Rightarrow> string \<Rightarrow> world \<Rightarrow> fd_drift option" where
  "check_fd_drift s rid w =
     (case store_load (sv_store s) rid w of
        None \<Rightarrow> None
      | Some rec \<Rightarrow>
          (case pr_fd rec of
             None \<Rightarrow> None
           | Some pin \<Rightarrow>
               if fp_path pin = [] then None
               else case open_verified s pin w of Inl d \<Rightarrow> Some d | Inr b \<Rightarrow> None))"

definition resolve_interp :: "service \<Rightarrow> string \<Rightarrow> string" where
  "resolve_interp s interp =
     (if interp = [] then []
      else if is_abs interp \<or> str_contains interp ''/'' then interp
      else some_or (y_look_path (sv_sys s) interp) interp)"

definition fd_path :: path where
  "fd_path = ''/dev/fd/3''"

definition pinned_cmd :: "service \<Rightarrow> string list \<Rightarrow> path \<Rightarrow> string list \<Rightarrow> fd_pin \<Rightarrow> string \<Rightarrow> spawn" where
  "pinned_cmd s argv cwd env pin bytes =
     (if fp_is_script pin \<and> fp_interpreter pin \<noteq> []
      then \<lparr>ex_path = resolve_interp s (fp_interpreter pin),
             ex_args = (if fp_interp_arg pin \<noteq> [] then go_fields (fp_interp_arg pin) else [])
                       @ [fd_path] @ drop 1 argv,
             ex_cwd = cwd, ex_env = env, ex_fd = Some bytes\<rparr>
      else \<lparr>ex_path = fd_path, ex_args = drop 1 argv, ex_cwd = cwd, ex_env = env, ex_fd = Some bytes\<rparr>)"

section \<open>Sealed inputs\<close>

definition max_seal_files :: nat where "max_seal_files = 32"
definition max_seal_total :: int where "max_seal_total = 8 * 1024 * 1024"
definition max_seal_file_size :: int where "max_seal_file_size = 2 * 1024 * 1024"

definition seal_archive_path :: "path \<Rightarrow> string \<Rightarrow> path" where
  "seal_archive_path dir rid = filepath_join [dir, ''sealed'', rid @ ''.tar.gz'']"

definition seal_extract_dir :: "path \<Rightarrow> string \<Rightarrow> path" where
  "seal_extract_dir dir rid = filepath_join [dir, ''sealed'', rid @ ''.d'']"

definition seal_state_dir :: "service \<Rightarrow> path" where
  "seal_state_dir s = (if s_dir (sv_store s) \<noteq> [] then s_dir (sv_store s) else cf_state_dir (sv_conf s))"

definition seal_skips :: "string \<Rightarrow> bool" where
  "seal_skips tok \<longleftrightarrow>
     trim_space tok = [] \<or> has_prefix tok ''-''
     \<or> contains_any tok ([CHR 0x00, CHR 0x0A, CHR 0x22, CHR 0x27, CHR 0x60] @ ''|&;<>(){}!$'')
     \<or> str_contains tok ''://'' \<or> str_contains tok ''=''"

text \<open>Where an argument points: used when sealing and again when rewriting the command.\<close>

definition token_path :: "string \<Rightarrow> path \<Rightarrow> path" where
  "token_path tok cwd =
     (if is_abs (filepath_clean tok) then filepath_clean tok else filepath_join [cwd, filepath_clean tok])"

definition seal_target :: "world \<Rightarrow> path \<Rightarrow> string \<Rightarrow> (path \<times> string) option" where
  "seal_target w cwd tok =
     (if seal_skips tok then None
      else let p = token_path tok cwd in
        case live_at w p of
          None \<Rightarrow> None
        | Some f \<Rightarrow>
            if lf_dir f \<or> \<not> lf_regular f then None
            else case filepath_rel cwd p of
                   None \<Rightarrow> None
                 | Some rel \<Rightarrow> if rel = ''..'' \<or> has_prefix rel ''../'' then None else Some (p, rel))"

fun dedup_targets :: "(path \<times> string) list \<Rightarrow> path list \<Rightarrow> (path \<times> string) list" where
  "dedup_targets [] seen = []"
| "dedup_targets ((p, rel) # ts) seen =
     (if p \<in> set seen then dedup_targets ts seen else (p, rel) # dedup_targets ts (p # seen))"

definition seal_candidates :: "world \<Rightarrow> string list \<Rightarrow> path \<Rightarrow> (path \<times> string) list" where
  "seal_candidates w argv cwd =
     (if argv = [] \<or> trim_space cwd = [] then []
      else if (case live_at w cwd of Some f \<Rightarrow> lf_dir f | None \<Rightarrow> False)
      then take max_seal_files
             (sort_key snd (dedup_targets (List.map_filter (seal_target w cwd) argv) []))
      else [])"

text \<open>The bytes read for each target, until the total would exceed the limit.\<close>

fun seal_blobs :: "world \<Rightarrow> int \<Rightarrow> (path \<times> string) list \<Rightarrow> (path \<times> string \<times> string \<times> int) list" where
  "seal_blobs w bytes [] = []"
| "seal_blobs w bytes ((p, rel) # ts) =
     (case live_at w p of
        None \<Rightarrow> seal_blobs w bytes ts
      | Some f \<Rightarrow>
          if \<not> lf_regular f \<or> lf_size f > max_seal_file_size then seal_blobs w bytes ts
          else case lf_bytes f of
                 None \<Rightarrow> seal_blobs w bytes ts
               | Some b \<Rightarrow>
                   if int (length b) > max_seal_file_size then seal_blobs w bytes ts
                   else let bytes' = bytes + int (length b) in
                     if bytes' > max_seal_total then []
                     else (p, rel, b, lf_mode f) # seal_blobs w bytes' ts)"

definition seal_root :: "sys \<Rightarrow> seal_file list \<Rightarrow> string" where
  "seal_root y files =
     y_sha256 y (concat (map (\<lambda>f. sf_rel f @ [CHR 0x00] @ sf_sha256 f @ [CHR 0x00]) files))"

definition seal_file_of :: "sys \<Rightarrow> path \<times> string \<times> string \<times> int \<Rightarrow> seal_file" where
  "seal_file_of y = (\<lambda>(p, rel, b, mode).
     \<lparr>sf_rel = rel, sf_abs = p, sf_sha256 = y_sha256 y b, sf_size = int (length b), sf_mode = mode\<rparr>)"

text \<open>\<open>os.WriteFile\<close> follows a link that is there.\<close>

definition write_file :: "path \<Rightarrow> content \<Rightarrow> world \<Rightarrow> bool \<times> world" where
  "write_file p c w =
     (case d_io w p of
        IoOpen \<Rightarrow> (False, w)
      | io \<Rightarrow>
          let c' = (if io = IoWrite then Junk else c);
              w' = (case node_at w p of
                      Some (Link t m) \<Rightarrow> w\<lparr>d_files := AList.update p (Link (Some c') (d_now w)) (d_files w)\<rparr>
                    | _ \<Rightarrow> put_file p c' w)
          in (io \<noteq> IoWrite, w'))"

definition snapshot_seal :: "service \<Rightarrow> string \<Rightarrow> string list \<Rightarrow> path \<Rightarrow> world \<Rightarrow> seal_pin option \<times> world" where
  "snapshot_seal s rid argv cwd w =
     (if trim_space rid = [] \<or> seal_state_dir s = [] then (None, w)
      else let blobs = seal_blobs w 0 (seal_candidates w argv cwd) in
        if blobs = [] then (None, w)
        else let files = map (seal_file_of (sv_sys s)) blobs;
                 entries = map (\<lambda>(p, rel, b, mode).
                   \<lparr>ae_name = rel, ae_data = b, ae_size = int (length b)\<rparr>) blobs;
                 archive = seal_archive_path (seal_state_dir s) rid
          in case write_file archive (Archive entries) w of
               (False, w') \<Rightarrow> (None, w')
             | (True, w') \<Rightarrow>
                 (Some \<lparr>sp_root = seal_root (sv_sys s) files, sp_files = files, sp_archive = archive\<rparr>, w'))"

definition seal_blocked :: "string \<Rightarrow> seal_drift" where
  "seal_blocked why = \<lparr>sd_drift = True, sd_reason = why, sd_block = True\<rparr>"

definition itoa_size :: "int \<Rightarrow> string" where
  "itoa_size n = (if n = 0 then ''0'' else itoa_digits n [])"

definition check_sealed :: "sys \<Rightarrow> world \<Rightarrow> seal_file \<Rightarrow> seal_drift option" where
  "check_sealed y w f =
     (if sf_abs f = [] \<or> sf_rel f = [] then None
      else case live_at w (sf_abs f) of
             None \<Rightarrow> Some (seal_blocked (''sealed input '' @ sf_rel f @ '' is gone at approval''))
           | Some lf \<Rightarrow>
               if \<not> lf_regular lf
               then Some (seal_blocked (''sealed input '' @ sf_rel f @ '' changed type since petition''))
               else if lf_size lf \<noteq> sf_size f
               then Some (seal_blocked (''sealed input '' @ sf_rel f @ '' changed since petition (''
                      @ short_hash (sf_sha256 f) @ '' -> size '' @ itoa_size (lf_size lf) @ '')''))
               else case lf_bytes lf of
                      None \<Rightarrow> Some (seal_blocked (''sealed input '' @ sf_rel f
                        @ '' is unreadable at approval''))
                    | Some b \<Rightarrow>
                        if y_sha256 y b \<noteq> sf_sha256 f
                        then Some (seal_blocked (''sealed input '' @ sf_rel f @ '' changed since petition (''
                               @ short_hash (sf_sha256 f) @ '' -> '' @ short_hash (y_sha256 y b) @ '')''))
                        else None)"

fun first_drift :: "sys \<Rightarrow> world \<Rightarrow> seal_file list \<Rightarrow> seal_drift option" where
  "first_drift y w [] = None"
| "first_drift y w (f # fs) = (case check_sealed y w f of Some d \<Rightarrow> Some d | None \<Rightarrow> first_drift y w fs)"

definition check_seal_drift :: "service \<Rightarrow> string \<Rightarrow> world \<Rightarrow> seal_drift option" where
  "check_seal_drift s rid w =
     (case store_load (sv_store s) rid w of
        None \<Rightarrow> None
      | Some rec \<Rightarrow>
          (case pr_seal rec of None \<Rightarrow> None | Some pin \<Rightarrow> first_drift (sv_sys s) w (sp_files pin)))"

definition manifest :: "seal_file list \<Rightarrow> string \<Rightarrow> seal_file option" where
  "manifest files rel = map_of (rev (map (\<lambda>f. (sf_rel f, f)) files)) rel"

text \<open>The extraction loop: the extracted files, or \<open>None\<close> for the error of a bad entry.\<close>

fun extract_entries ::
  "sys \<Rightarrow> seal_file list \<Rightarrow> path \<Rightarrow> archive_entry list \<Rightarrow> string list \<Rightarrow> world \<Rightarrow> string list option \<times> world" where
  "extract_entries y files dir [] seen w = (Some seen, w)"
| "extract_entries y files dir (e # es) seen w =
     (case manifest files (ae_name e) of
        None \<Rightarrow> (None, remove_all dir w)
      | Some f \<Rightarrow>
          if ae_name e \<in> set seen \<or> ae_size e > max_seal_file_size then (None, remove_all dir w)
          else if int (length (ae_data e)) \<noteq> ae_size e then (None, remove_all dir w)
          else if y_sha256 y (ae_data e) \<noteq> sf_sha256 f then (None, remove_all dir w)
          else case write_file (filepath_join [dir, ae_name e]) (Raw (ae_data e)) w of
                 (False, w') \<Rightarrow> (None, remove_all dir w')
               | (True, w') \<Rightarrow> extract_entries y files dir es (ae_name e # seen) w')"

declare extract_entries.simps(2) [simp del]

definition materialize_seal :: "service \<Rightarrow> string \<Rightarrow> world \<Rightarrow> path option \<times> world" where
  "materialize_seal s rid w =
     (case store_load (sv_store s) rid w of
        None \<Rightarrow> (None, w)
      | Some rec \<Rightarrow>
          (case pr_seal rec of
             None \<Rightarrow> (None, w)
           | Some pin \<Rightarrow>
               if sp_files pin = [] then (None, w)
               else let archive = (if sp_archive pin = [] then seal_archive_path (seal_state_dir s) rid
                                   else sp_archive pin)
                 in case read_file w archive of
                      None \<Rightarrow> (None, w)
                    | Some c \<Rightarrow>
                        let dir = seal_extract_dir (seal_state_dir s) rid; w = remove_all dir w in
                        case c of
                          Archive es \<Rightarrow>
                            (case extract_entries (sv_sys s) (sp_files pin) dir es [] w of
                               (None, w') \<Rightarrow> (None, w')
                             | (Some seen, w') \<Rightarrow>
                                 if length seen \<noteq> length (remdups (map sf_rel (sp_files pin)))
                                 then (None, remove_all dir w')
                                 else (Some dir, w'))
                        | _ \<Rightarrow> (None, w)))"

definition sealed_argv :: "string list \<Rightarrow> path \<Rightarrow> seal_pin option \<Rightarrow> path \<Rightarrow> string list" where
  "sealed_argv argv cwd pin dir =
     (case pin of
        None \<Rightarrow> argv
      | Some pin \<Rightarrow>
          if sp_files pin = [] then argv
          else let by_abs = map_of (rev (map (\<lambda>f. (sf_abs f, filepath_join [dir, sf_rel f])) (sp_files pin)));
                   where_to = (\<lambda>tok. if is_abs (filepath_clean tok) then filepath_clean tok
                                     else if trim_space cwd \<noteq> [] then filepath_join [cwd, filepath_clean tok]
                                     else [])
            in map (\<lambda>tok. if trim_space tok = [] then tok else some_or (by_abs (where_to tok)) tok) argv)"

section \<open>The caller's process group\<close>

definition suspend_enabled :: "service \<Rightarrow> bool" where
  "suspend_enabled s \<longleftrightarrow>
     to_lower (trim_space (y_env (sv_sys s) ''TWOFADO_SUSPEND''))
       \<notin> set [''0'', ''false'', ''off'', ''no'', ''disable'', ''disabled'']"

definition resolve_suspend_pgid :: "service \<Rightarrow> int \<Rightarrow> uid \<Rightarrow> int option" where
  "resolve_suspend_pgid s peer uid =
     (let y = sv_sys s in
      if peer \<le> 0 \<or> peer = y_pid y then None
      else if \<not> suspend_enabled s then None
      else if y_euid y \<noteq> 0 \<and> uid \<noteq> y_euid y then None
      else case y_getpgid y peer of
             None \<Rightarrow> None
           | Some pgid \<Rightarrow> if pgid \<le> 1 \<or> pgid = y_pgrp y then None else Some pgid)"

definition send_signal :: "service \<Rightarrow> signal \<Rightarrow> int \<Rightarrow> world \<Rightarrow> string option \<times> world" where
  "send_signal s sig pgid w =
     (let err = y_kill (sv_sys s) (w_n w) sig pgid in
      (err, emit (Signalled sig pgid (err = None)) (bump w)))"

definition invalid_argument :: string where
  "invalid_argument = ''invalid argument''"

definition stop_pgid :: "service \<Rightarrow> int \<Rightarrow> world \<Rightarrow> string option \<times> world" where
  "stop_pgid s pgid w =
     (if pgid \<le> 1 \<or> pgid = y_pgrp (sv_sys s) then (Some invalid_argument, w) else send_signal s STOP pgid w)"

definition cont_pgid :: "service \<Rightarrow> int \<Rightarrow> world \<Rightarrow> string option \<times> world" where
  "cont_pgid s pgid w =
     (if pgid \<le> 1 then (Some invalid_argument, w) else send_signal s CONT pgid w)"

definition snapshot_suspend :: "service \<Rightarrow> string \<Rightarrow> int \<Rightarrow> uid \<Rightarrow> world \<Rightarrow> suspend_pin option \<times> world" where
  "snapshot_suspend s rid peer uid w =
     (case resolve_suspend_pgid s peer uid of
        None \<Rightarrow> (None, w)
      | Some pgid \<Rightarrow>
          let pin = \<lparr>su_pid = peer, su_pgid = pgid, su_suspended = False\<rparr> in
          case stop_pgid s pgid w of
            (Some e, w') \<Rightarrow>
              (Some pin, audit s (audit_event_zero\<lparr>ev_ev := ''suspend'', ev_uid := uid, ev_rid := rid,
                 ev_decision := ''skip'', ev_summary := e\<rparr>) w')
          | (None, w') \<Rightarrow>
              let pin = pin\<lparr>su_suspended := True\<rparr>;
                  w' = audit s (audit_event_zero\<lparr>ev_ev := ''suspend'', ev_uid := uid, ev_rid := rid\<rparr>) w'
              in (Some pin, store_modify (sv_store s) rid (\<lambda>rec. rec\<lparr>pr_suspend := Some pin\<rparr>) w'))"

definition resume_suspend :: "service \<Rightarrow> string \<Rightarrow> suspend_pin option \<Rightarrow> world \<Rightarrow> world" where
  "resume_suspend s rid pin w =
     (case pin of
        None \<Rightarrow> w
      | Some p \<Rightarrow>
          if \<not> su_suspended p \<or> su_pgid p \<le> 1 then w
          else case cont_pgid s (su_pgid p) w of
                 (err, w') \<Rightarrow>
                   let ev = audit_event_zero\<lparr>ev_ev := ''resume'', ev_rid := rid\<rparr> in
                   audit s (case err of None \<Rightarrow> ev
                                      | Some e \<Rightarrow> ev\<lparr>ev_decision := ''skip'', ev_summary := e\<rparr>) w')"

definition resume_stored :: "service \<Rightarrow> string \<Rightarrow> world \<Rightarrow> world" where
  "resume_stored s rid w =
     (case store_load (sv_store s) rid w of None \<Rightarrow> w | Some rec \<Rightarrow> resume_suspend s rid (pr_suspend rec) w)"

end
