(* ===== verification/ServiceRun.thy ===== *)
theory ServiceRun imports Pins begin

text \<open>
  The life of a run request in \<open>internal/service\<close>: execution with its gates, waiting for the
  verdict, the second confirmation, and the adoption of petitions left over by a restart.

  Waiting is a loop over \<open>tick\<close>s: between two looks at the store the rest of the world acts
  (\<open>fst\<close>), and the caller may have gone (\<open>snd\<close>). A list of ticks is one schedule; a loop
  that has used it up is still waiting and the result is \<open>None\<close>. What a detached request
  does in the background is a function of its own, run over a schedule of its own.
\<close>

section \<open>Execution\<close>

definition elapsed :: "proc \<Rightarrow> int \<Rightarrow> bool \<Rightarrow> int" where
  "elapsed p d enabled =
     (case p of Start_error e \<Rightarrow> 0 | Proc ws ends how \<Rightarrow> max 0 (if enabled then min ends d else ends))"

text \<open>\<open>runCmdBounded\<close> on the world: the spawn, its links, and the time it took.\<close>

definition run_cmd ::
  "service \<Rightarrow> (string \<Rightarrow> world \<Rightarrow> world) option \<Rightarrow> spawn \<Rightarrow> world \<Rightarrow> (int \<times> string) \<times> world" where
  "run_cmd s on_auth sp w =
     (let p = y_proc (sv_sys s) (w_n w) sp;
          c = sv_conf s;
          (code, out, urls) = run_cmd_bounded (cf_max_output c) (cf_exec_timeout c) (on_auth \<noteq> None) p;
          (d, enabled) = exec_timeout (cf_exec_timeout c);
          w = emit (Spawned sp) (bump w);
          w = foldl (\<lambda>w u. (case on_auth of Some f \<Rightarrow> f u w | None \<Rightarrow> w)) w urls
      in ((code, out), w\<lparr>d_now := d_now w + elapsed p d enabled\<rparr>))"

definition dry_run_text :: "string list \<Rightarrow> string" where
  "dry_run_text argv = ''would have run: '' @ str_join '' '' argv"

definition plain_cmd :: "string list \<Rightarrow> path \<Rightarrow> string list \<Rightarrow> spawn" where
  "plain_cmd argv cwd env = \<lparr>ex_path = hd argv, ex_args = drop 1 argv, ex_cwd = cwd, ex_env = env, ex_fd = None\<rparr>"

text \<open>\<open>ExecuteWithChallenge\<close>; in the default build \<open>spawnAttrs\<close> has nothing to attach.\<close>

definition execute_with_challenge ::
  "service \<Rightarrow> string list \<Rightarrow> path \<Rightarrow> (string \<times> string) list \<Rightarrow> (string \<Rightarrow> world \<Rightarrow> world) option \<Rightarrow> world
    \<Rightarrow> (int \<times> string \<times> uid) \<times> world" where
  "execute_with_challenge s argv cwd env on_auth w =
     (if cf_dry_run (sv_conf s) then ((0, dry_run_text argv, y_euid (sv_sys s)), w)
      else case exec_identity s argv cwd w of
             ((uid, Some refusal), w') \<Rightarrow> ((1, refusal, uid), w')
           | ((uid, None), w') \<Rightarrow>
               (case run_cmd s on_auth (plain_cmd argv cwd (flatten_env env)) w' of
                  ((code, out), w'') \<Rightarrow> ((code, out, uid), w'')))"

definition execute ::
  "service \<Rightarrow> string list \<Rightarrow> path \<Rightarrow> (string \<times> string) list \<Rightarrow> world \<Rightarrow> (int \<times> string \<times> uid) \<times> world" where
  "execute s argv cwd env = execute_with_challenge s argv cwd env None"

definition run_pinned ::
  "service \<Rightarrow> string list \<Rightarrow> path \<Rightarrow> (string \<times> string) list \<Rightarrow> fd_pin option
    \<Rightarrow> (string \<Rightarrow> world \<Rightarrow> world) option \<Rightarrow> world \<Rightarrow> (int \<times> string \<times> uid) \<times> world" where
  "run_pinned s argv cwd env pin on_auth w =
     (if cf_dry_run (sv_conf s) then ((0, dry_run_text argv, y_euid (sv_sys s)), w)
      else case exec_identity s argv cwd w of
             ((uid, Some refusal), w') \<Rightarrow> ((1, refusal, uid), w')
           | ((uid, None), w') \<Rightarrow>
               (case pin of
                  None \<Rightarrow>
                    (case run_cmd s on_auth (plain_cmd argv cwd (flatten_env env)) w' of
                       ((code, out), w'') \<Rightarrow> ((code, out, uid), w''))
                | Some p \<Rightarrow>
                    (case (if fp_path p = [] then Inr [] else open_verified s p w') of
                       Inl drift \<Rightarrow> ((1, ''fd-drift: '' @ fd_reason drift, uid), w')
                     | Inr bytes \<Rightarrow>
                         (case run_cmd s on_auth (pinned_cmd s argv cwd (flatten_env env) p bytes) w' of
                            ((code, out), w'') \<Rightarrow> ((code, out, uid), w'')))))"

section \<open>The gates before an approved command\<close>

definition denied :: "string \<Rightarrow> run_result" where
  "denied reason = run_result_zero\<lparr>rs_status := ''denied'', rs_reason := reason\<rparr>"

text \<open>A drift that blocks: audited, recorded as the result, and answered.\<close>

definition block_run ::
  "service \<Rightarrow> string \<Rightarrow> string list \<Rightarrow> string \<Rightarrow> string \<Rightarrow> string \<Rightarrow> world \<Rightarrow> run_result \<times> world" where
  "block_run s rid argv ev tag reason w =
     (denied (tag @ reason),
      save_result (sv_store s) rid (-1) (tag @ reason)
        (audit s (audit_event_zero\<lparr>ev_ev := ev, ev_argv := argv, ev_rid := rid, ev_decision := ''block'',
           ev_summary := reason\<rparr>) w))"

definition on_auth_url :: "service \<Rightarrow> string \<Rightarrow> string \<Rightarrow> world \<Rightarrow> world" where
  "on_auth_url s rid url w = notify_auth_url s rid url (set_auth_url (sv_store s) rid url w)"

definition warning_text :: "string \<Rightarrow> string" where
  "warning_text reason = ''WARNING: '' @ reason @ ''.'' @ [CHR 0x0A]"

text \<open>The run itself, with the warning of a drift that does not block in front of its output.\<close>

definition run_and_record ::
  "service \<Rightarrow> string \<Rightarrow> string list \<Rightarrow> string list \<Rightarrow> path \<Rightarrow> (string \<times> string) list \<Rightarrow> fd_pin option
    \<Rightarrow> string \<Rightarrow> world \<Rightarrow> run_result \<times> world" where
  "run_and_record s rid stored_argv argv cwd env pin warning w =
     (case run_pinned s argv cwd env pin (Some (on_auth_url s rid)) w of
        ((code, out, as_uid), w) \<Rightarrow>
          let out = warning @ out;
              w = audit s (audit_event_zero\<lparr>ev_ev := ''exec'', ev_argv := stored_argv, ev_rid := rid,
                    ev_as_uid := as_uid, ev_exit := code, ev_dry := cf_dry_run (sv_conf s)\<rparr>) w
          in (run_result_zero\<lparr>rs_status := ''allowed'', rs_exit := code, rs_output := out\<rparr>,
              save_result (sv_store s) rid code out w))"

text \<open>What runs: the stored command, or its rewriting onto the extracted copies.\<close>

definition sealed_plan ::
  "service \<Rightarrow> string \<Rightarrow> pending_record \<Rightarrow> world \<Rightarrow> (string list \<times> fd_pin option) option \<times> world" where
  "sealed_plan s rid rec w =
     (case pr_seal rec of
        None \<Rightarrow> (Some (pr_argv rec, pr_fd rec), w)
      | Some seal \<Rightarrow>
          if sp_files seal = [] \<or> cf_dry_run (sv_conf s) then (Some (pr_argv rec, pr_fd rec), w)
          else case materialize_seal s rid w of
                 (None, w') \<Rightarrow> (None, w')
               | (Some dir, w') \<Rightarrow>
                   let argv = sealed_argv (pr_argv rec) (pr_cwd rec) (Some seal) dir in
                   (Some (argv, snapshot_entry s argv (pr_cwd rec) w'), w'))"

definition run_approved ::
  "service \<Rightarrow> string \<Rightarrow> run_request \<Rightarrow> (string \<times> string) list \<Rightarrow> world \<Rightarrow> run_result \<times> world" where
  "run_approved s rid req clean w =
     (case store_load (sv_store s) rid w of
        None \<Rightarrow>
          (denied ''lost-record'',
           save_result (sv_store s) rid (-1) ''lost-record: stored request is missing or corrupt''
             (audit s (audit_event_zero\<lparr>ev_ev := ''lost_record'', ev_argv := rr_argv req, ev_rid := rid,
                ev_decision := ''block''\<rparr>) w))
      | Some rec \<Rightarrow>
          if pr_argv rec = [] then
            (denied ''lost-record'',
             save_result (sv_store s) rid (-1) ''lost-record: stored request is missing or corrupt''
               (audit s (audit_event_zero\<lparr>ev_ev := ''lost_record'', ev_argv := rr_argv req, ev_rid := rid,
                  ev_decision := ''block''\<rparr>) w))
          else case check_seal_drift s rid w of
            Some drift \<Rightarrow> block_run s rid (pr_argv rec) ''seal_drift'' ''seal-drift: '' (sd_reason drift) w
          | None \<Rightarrow>
          (case sealed_plan s rid rec w of
            (None, w) \<Rightarrow>
              block_run s rid (pr_argv rec) ''seal_drift'' ''seal-drift: ''
                ''sealed artifact for approval is unusable'' w
          | (Some (exec_argv, exec_pin), w) \<Rightarrow>
          (case check_fd_drift s rid w of
            Some drift \<Rightarrow> block_run s rid (pr_argv rec) ''fd_drift'' ''fd-drift: '' (fd_reason drift) w
          | None \<Rightarrow>
          (case check_git_drift s rid (pr_cwd rec) w of
            None \<Rightarrow> run_and_record s rid (pr_argv rec) exec_argv (pr_cwd rec) clean exec_pin [] w
          | Some drift \<Rightarrow>
              if gd_block drift
              then block_run s rid (pr_argv rec) ''git_drift'' ''git-drift: '' (gd_reason drift) w
              else run_and_record s rid (pr_argv rec) exec_argv (pr_cwd rec) clean exec_pin
                     (warning_text (gd_reason drift))
                     (audit s (audit_event_zero\<lparr>ev_ev := ''git_drift'', ev_argv := pr_argv rec, ev_rid := rid,
                        ev_decision := ''warn'', ev_summary := gd_reason drift\<rparr>) w)))))"

section \<open>Waiting\<close>

text \<open>A verdict as \<open>await\<close> returns it: the decision and its source.\<close>

type_synonym outcome = "(string \<times> string) option"

fun await :: "service \<Rightarrow> string \<Rightarrow> int \<Rightarrow> bool \<Rightarrow> tick list \<Rightarrow> world \<Rightarrow> (outcome \<times> tick list \<times> world) option" where
  "await s rid expires cancellable ticks w =
     (case store_verdict (sv_store s) rid w of
        Some v \<Rightarrow> Some (Some (vd_decision v, vd_by v), ticks, w)
      | None \<Rightarrow>
          (case store_cancel_info (sv_store s) rid w of
             Some c \<Rightarrow> Some (Some (''cancelled'', cn_by c), ticks, w)
           | None \<Rightarrow>
               if d_now w > expires then Some (None, ticks, w)
               else case ticks of
                      [] \<Rightarrow> None
                    | (act, gone) # ts \<Rightarrow>
                        if cancellable \<and> gone then Some (Some (''client_aborted'', ''client''), ts, act w)
                        else await s rid expires cancellable ts (act w)))"

declare await.simps [simp del]

definition decide :: "string \<Rightarrow> string \<Rightarrow> outcome \<Rightarrow> string \<times> string" where
  "decide timeout by v = some_or v (timeout, by)"

definition needs_confirm :: "service \<Rightarrow> string list \<Rightarrow> bool" where
  "needs_confirm s argv \<longleftrightarrow> cf_confirm_all (sv_conf s) \<or> policy_needs_confirm (sv_policy s) argv"

definition expiry :: "service \<Rightarrow> world \<Rightarrow> int" where
  "expiry s w = d_now w + i64 (cf_timeout (sv_conf s) * second_ns)"

section \<open>The second confirmation\<close>

text \<open>What \<open>confirm\<close> does with the outcome of the child petition.\<close>

definition confirm_close ::
  "service \<Rightarrow> string \<Rightarrow> string \<Rightarrow> run_request \<Rightarrow> string \<Rightarrow> string \<Rightarrow> string \<Rightarrow> world \<Rightarrow> world" where
  "confirm_close s rid rid1 req decision by result w =
     (let w = snd (store_consume (sv_store s) rid decision by w);
          w = close_card s rid (rr_argv req) decision by w;
          w = save_result (sv_store s) rid (-1) result w
      in save_result (sv_store s) rid1 (-1) result w)"

definition confirm_event :: "string \<Rightarrow> run_request \<Rightarrow> string \<Rightarrow> string \<Rightarrow> string \<Rightarrow> audit_event" where
  "confirm_event ev req rid rid1 by = audit_event_zero\<lparr>ev_ev := ev, ev_argv := rr_argv req, ev_rid := rid,
     ev_step := ''confirm'', ev_confirm_of := rid1, ev_by := by\<rparr>"

definition confirm_decided ::
  "service \<Rightarrow> string \<Rightarrow> string \<Rightarrow> run_request \<Rightarrow> (string \<times> string) list \<Rightarrow> outcome \<Rightarrow> world
    \<Rightarrow> run_result \<times> world" where
  "confirm_decided s rid rid1 req clean v w =
     (let (decision, cby) = decide ''confirmation_timeout'' [] v in
      if decision = ''client_aborted'' then
        (denied ''client_aborted'',
         audit s (confirm_event ''client_aborted'' req rid rid1 cby)
           (confirm_close s rid rid1 req decision cby ''client_aborted'' w))
      else if decision = ''cancelled'' then
        (denied ''cancelled'', confirm_close s rid rid1 req decision cby ''cancelled'' w)
      else if decision = ''confirmation_timeout'' \<or> decision = ''timeout'' then
        (denied ''confirmation_timeout'',
         audit s (confirm_event ''confirmation_timeout'' req rid rid1 ''system'')
           (confirm_close s rid rid1 req ''timeout'' ''system'' ''confirmation_timeout'' w))
      else
        let w = audit s ((confirm_event ''verdict'' req rid rid1 cby)\<lparr>ev_decision := decision\<rparr>) w;
            w = close_card s rid (rr_argv req) decision cby w
        in if decision \<noteq> ''approve'' then
             (denied decision,
              save_result (sv_store s) rid1 (-1) [] (save_result (sv_store s) rid (-1) [] w))
           else case run_approved s rid req clean w of
                  (res, w) \<Rightarrow> (res, save_result (sv_store s) rid1 (rs_exit res) (rs_output res) w))"

text \<open>The child petition, filed with fresh pins and shown on the parent's card.\<close>

definition confirm_file ::
  "service \<Rightarrow> string \<Rightarrow> pending_record \<Rightarrow> run_request \<Rightarrow> uid \<Rightarrow> (string \<times> string) list \<Rightarrow> string \<Rightarrow> world
    \<Rightarrow> string \<times> int \<times> world" where
  "confirm_file s rid1 rec1 req uid clean by w =
     (let (rid, w) = new_rid s w;
          expires = expiry s w;
          as_uid = confirm_as_uid s (pr_as_uid rec1);
          git = snapshot_git (rr_cwd req) w;
          fd = snapshot_entry s (rr_argv req) (rr_cwd req) w;
          (seal, w) = snapshot_seal s rid (rr_argv req) (rr_cwd req) w;
          rec = pending_record_zero\<lparr>pr_argv := rr_argv req, pr_uid := uid, pr_as_uid := as_uid,
            pr_cwd := rr_cwd req, pr_expires := expires div second_ns, pr_env := clean, pr_step := ''confirm'',
            pr_confirm_of := rid1, pr_chat_id := pr_chat_id rec1, pr_msg_id := pr_msg_id rec1,
            pr_preview := pr_preview rec1, pr_git := git, pr_fd := fd, pr_seal := seal,
            pr_suspend := pr_suspend rec1\<rparr>;
          w = snd (store_save (sv_store s) rec rid w);
          w = audit s (confirm_event ''confirm'' req rid rid1 by) w;
          w = (if notify_telegram s w \<and> \<not> is_placeholder w \<and> pr_chat_id rec1 \<noteq> []
               then emit (Edited (pr_chat_id rec1) (pr_msg_id rec1)
                      (service_card s (rr_argv req) uid (rr_cwd req) rid (cf_timeout (sv_conf s)) ''confirm'' by as_uid)
                      (run_buttons rid)) w
               else emit (Printed (''[pager:stdout] CONFIRM '' @ rid @ '' (confirm of '' @ rid1
                 @ '') (approve: 2fado approve ''
                      @ rid @ '')'' @ [CHR 0x0A])) w)
      in (rid, expires, w))"

definition confirm ::
  "service \<Rightarrow> string \<Rightarrow> run_request \<Rightarrow> uid \<Rightarrow> (string \<times> string) list \<Rightarrow> string \<Rightarrow> bool \<Rightarrow> tick list \<Rightarrow> world
    \<Rightarrow> (run_result \<times> tick list \<times> world) option" where
  "confirm s rid1 req uid clean by cancellable ticks w =
     (case store_load (sv_store s) rid1 w of
        None \<Rightarrow> Some (denied ''lost-record'', ticks, w)
      | Some rec1 \<Rightarrow>
          (case confirm_file s rid1 rec1 req uid clean by w of
             (rid, expires, w) \<Rightarrow>
               (case await s rid expires cancellable ticks w of
                  None \<Rightarrow> None
                | Some (v, ts, w) \<Rightarrow>
                    (case confirm_decided s rid rid1 req clean v w of (res, w) \<Rightarrow> Some (res, ts, w)))))"

section \<open>Requests\<close>

text \<open>A petition is filed: its record with the pins, and the page to the operator.\<close>

definition file_petition ::
  "service \<Rightarrow> run_request \<Rightarrow> uid \<Rightarrow> (string \<times> string) list \<Rightarrow> world \<Rightarrow> string \<times> int \<times> world" where
  "file_petition s req uid clean w =
     (let (rid, w) = new_rid s w;
          expires = expiry s w;
          preview = preview_impact (w_fs w) (rr_argv req) (rr_cwd req) (flatten_env clean);
          git = snapshot_git (rr_cwd req) w;
          fd = snapshot_entry s (rr_argv req) (rr_cwd req) w;
          (seal, w) = snapshot_seal s rid (rr_argv req) (rr_cwd req) w;
          rec = pending_record_zero\<lparr>pr_argv := rr_argv req, pr_uid := uid, pr_as_uid := display_uid s,
            pr_cwd := rr_cwd req, pr_expires := expires div second_ns, pr_env := clean, pr_step := ''initial'',
            pr_preview := Some preview, pr_git := git, pr_fd := fd, pr_seal := seal\<rparr>;
          w = snd (store_save (sv_store s) rec rid w)
      in (rid, expires, page_request s rid req uid w))"

definition initial_event :: "string \<Rightarrow> run_request \<Rightarrow> string \<Rightarrow> string \<Rightarrow> audit_event" where
  "initial_event ev req rid by = audit_event_zero\<lparr>ev_ev := ev, ev_argv := rr_argv req, ev_rid := rid,
     ev_step := ''initial'', ev_by := by\<rparr>"

text \<open>The first step once its wait is over; \<open>detached\<close> tells the background variant.\<close>

definition first_decided ::
  "service \<Rightarrow> string \<Rightarrow> run_request \<Rightarrow> uid \<Rightarrow> (string \<times> string) list \<Rightarrow> bool \<Rightarrow> bool \<Rightarrow> outcome \<Rightarrow> tick list \<Rightarrow> world
    \<Rightarrow> (run_result \<times> tick list \<times> world) option" where
  "first_decided s rid req uid clean detached cancellable v ts w =
     (let (decision, by) = decide ''timeout'' [] v in
      if decision = ''client_aborted'' \<and> \<not> detached then
        (let w = snd (store_consume (sv_store s) rid decision by w);
             w = close_card s rid (rr_argv req) decision by w;
             w = save_result (sv_store s) rid (-1) ''client_aborted'' w
         in Some (denied ''client_aborted'', ts, audit s (initial_event ''client_aborted'' req rid by) w))
      else if decision = ''cancelled'' then
        (let w = (if detached then w else snd (store_consume (sv_store s) rid decision by w));
             w = close_card s rid (rr_argv req) decision by w
         in Some (denied ''cancelled'', ts, save_result (sv_store s) rid (-1) ''cancelled'' w))
      else
        let w = audit s ((initial_event ''verdict'' req rid by)\<lparr>ev_decision := decision\<rparr>) w in
        if decision \<noteq> ''approve'' then
          Some (denied decision, ts, save_result (sv_store s) rid (-1) []
            (close_card s rid (rr_argv req) decision by w))
        else if needs_confirm s (rr_argv req) then
          confirm s rid req uid clean by (cancellable \<and> \<not> detached) ts w
        else (case run_approved s rid req clean (close_card s rid (rr_argv req) decision by w) of
                (res, w) \<Rightarrow> Some (res, ts, w)))"

text \<open>The wait of a foreground or background request, with the caller's group held meanwhile.\<close>

definition hold_and_wait ::
  "service \<Rightarrow> string \<Rightarrow> run_request \<Rightarrow> uid \<Rightarrow> (string \<times> string) list \<Rightarrow> int \<Rightarrow> int \<Rightarrow> bool \<Rightarrow> bool \<Rightarrow> tick list \<Rightarrow> world
    \<Rightarrow> (run_result \<times> tick list \<times> world) option" where
  "hold_and_wait s rid req uid clean expires peer detached cancellable ticks w =
     (case snapshot_suspend s rid peer uid w of
        (pin, w) \<Rightarrow>
          (case await s rid expires (cancellable \<and> \<not> detached) ticks w of
             None \<Rightarrow> None
           | Some (v, ts, w) \<Rightarrow>
               (case first_decided s rid req uid clean detached cancellable v ts w of
                  None \<Rightarrow> None
                | Some (res, ts, w) \<Rightarrow> Some (res, ts, resume_suspend s rid pin w))))"

definition run_detached ::
  "service \<Rightarrow> string \<Rightarrow> run_request \<Rightarrow> uid \<Rightarrow> (string \<times> string) list \<Rightarrow> int \<Rightarrow> int \<Rightarrow> tick list \<Rightarrow> world
    \<Rightarrow> (tick list \<times> world) option" where
  "run_detached s rid req uid clean expires peer ticks w =
     map_option snd (hold_and_wait s rid req uid clean expires peer True False ticks w)"

definition run_with_peer_cancel ::
  "service \<Rightarrow> run_request \<Rightarrow> uid \<Rightarrow> int \<Rightarrow> bool \<Rightarrow> tick list \<Rightarrow> world \<Rightarrow> (run_result \<times> tick list \<times> world) option" where
  "run_with_peer_cancel s req uid peer cancellable ticks w =
     (let (clean, dropped) = scrub_env s (rr_env req);
          t = tier (y_look_path (sv_sys s)) (sv_policy s) (rr_argv req);
          w = audit s (audit_event_zero\<lparr>ev_ev := ''request'', ev_uid := uid, ev_argv := rr_argv req,
                ev_cwd := rr_cwd req, ev_tier := t, ev_env_dropped := dropped, ev_step := ''initial''\<rparr>) w
      in if t = ''allow'' then
           (case execute s (rr_argv req) (rr_cwd req) clean w of
              ((code, out, as_uid), w) \<Rightarrow>
                Some (run_result_zero\<lparr>rs_status := ''allowed'', rs_exit := code, rs_output := out\<rparr>, ticks,
                  audit s (audit_event_zero\<lparr>ev_ev := ''allow'', ev_uid := uid, ev_argv := rr_argv req,
                    ev_as_uid := as_uid, ev_exit := code, ev_step := ''initial''\<rparr>) w))
         else if t = ''deny'' then Some (denied ''policy'', ticks, w)
         else case file_petition s req uid clean w of
                (rid, expires, w) \<Rightarrow>
                  if rr_detach req then Some (run_result_zero\<lparr>rs_status := ''pending'', rs_id := rid\<rparr>, ticks, w)
                  else hold_and_wait s rid req uid clean expires peer False cancellable ticks w)"

section \<open>Orphans\<close>

definition adopt_one :: "service \<Rightarrow> string \<Rightarrow> pending_record \<Rightarrow> tick list \<Rightarrow> world \<Rightarrow> (tick list \<times> world) option" where
  "adopt_one s rid rec ticks w =
     (let req = \<lparr>rr_argv = pr_argv rec, rr_cwd = pr_cwd rec, rr_env = pr_env rec, rr_detach = False\<rparr> in
      case await s rid (pr_expires rec * second_ns) False ticks w of
        None \<Rightarrow> None
      | Some (v, ts, w) \<Rightarrow>
          let (decision, by) = decide ''timeout'' ''system'' v;
              w = audit s (audit_event_zero\<lparr>ev_ev := ''verdict'', ev_argv := pr_argv rec, ev_rid := rid,
                    ev_step := pr_step rec, ev_decision := decision, ev_by := by\<rparr>) w
          in if decision \<noteq> ''approve'' then
               Some (ts, resume_stored s rid (save_result (sv_store s) rid (-1) []
                 (close_card s rid (rr_argv req) decision by w)))
             else let clean = fst (scrub_env s (rr_env req)) in
               if pr_step rec \<noteq> ''confirm'' \<and> needs_confirm s (rr_argv req) then
                 map_option (\<lambda>(res, ts, w). (ts, resume_stored s rid w))
                   (confirm s rid req (pr_uid rec) clean by False ts w)
               else (case run_approved s rid req clean (close_card s rid (rr_argv req) decision by w) of
                       (res, w) \<Rightarrow> Some (ts, resume_stored s rid w)))"

text \<open>\<open>AdoptOrphans\<close>: the petitions a waiter is started for, and the world after the call.\<close>

fun adopt_orphans_loop ::
  "service \<Rightarrow> int \<Rightarrow> pending_item list \<Rightarrow> world \<Rightarrow> (string \<times> pending_record) list \<times> world" where
  "adopt_orphans_loop s now [] w = ([], w)"
| "adopt_orphans_loop s now (it # its) w =
     (case store_load (sv_store s) (pi_id it) w of
        None \<Rightarrow> adopt_orphans_loop s now its w
      | Some rec \<Rightarrow>
          if store_verdict (sv_store s) (pi_id it) w \<noteq> None then adopt_orphans_loop s now its w
          else if pr_expires rec \<le> now then
            adopt_orphans_loop s now its
              (resume_stored s (pi_id it)
                (save_result (sv_store s) (pi_id it) (-1) ''timeout''
                  (close_card s (pi_id it) (pr_argv rec) ''timeout'' ''system'' w)))
          else (case adopt_orphans_loop s now its w of (started, w') \<Rightarrow> ((pi_id it, rec) # started, w')))"

definition adopt_orphans :: "service \<Rightarrow> world \<Rightarrow> (string \<times> pending_record) list \<times> world" where
  "adopt_orphans s w = adopt_orphans_loop s (now_s w) (store_list (sv_store s) (now_s w) w) w"

end
