(* ===== verification/Frames.thy ===== *)
theory Frames imports World StoreLife begin

text \<open>
  What the operations of the store leave alone in the larger state of the service: the store
  is polymorphic in the rest of the state and hands it through, so no store operation sends a
  message, signals a process, starts a command or moves the clock. The facts are collected in
  \<open>world_frame\<close>; \<open>spawned\<close> reads the commands off the trace.
\<close>

section \<open>The rest of the state and the clock\<close>

lemma more_store [world_frame, simp]:
  "disk.more (snd (store_save st rec rid d)) = disk.more d"
  "disk.more (store_modify st rid f d) = disk.more d"
  "disk.more (attach_pager st rid chat msg d) = disk.more d"
  "disk.more (set_auth_url st rid url d) = disk.more d"
  "disk.more (snd (store_consume st rid dc by d)) = disk.more d"
  "disk.more (snd (store_ack st rid by d)) = disk.more d"
  "disk.more (snd (select_record st rid x i xs by d)) = disk.more d"
  "disk.more (snd (store_cancel st rid by why d)) = disk.more d"
  "disk.more (snd (set_selected_idxs st rid xs d)) = disk.more d"
  "disk.more (save_result st rid ex out d) = disk.more d"
  "disk.more (set_offset st n d) = disk.more d"
  "disk.more (store_append st ev d) = disk.more d"
  "disk.more (store_purge st rid d) = disk.more d"
  by (simp_all add: store_save_def store_modify_def attach_pager_def set_auth_url_def store_consume_def
      store_ack_def select_record_def store_cancel_def set_selected_idxs_def save_result_def set_offset_def
      store_append_def store_purge_def all_kinds_def split: option.splits)

lemma now_store [world_frame, simp]:
  "d_now (snd (store_save st rec rid d)) = d_now d"
  "d_now (store_modify st rid f d) = d_now d"
  "d_now (attach_pager st rid chat msg d) = d_now d"
  "d_now (set_auth_url st rid url d) = d_now d"
  "d_now (snd (store_consume st rid dc by d)) = d_now d"
  "d_now (snd (store_ack st rid by d)) = d_now d"
  "d_now (snd (select_record st rid x i xs by d)) = d_now d"
  "d_now (snd (store_cancel st rid by why d)) = d_now d"
  "d_now (snd (set_selected_idxs st rid xs d)) = d_now d"
  "d_now (save_result st rid ex out d) = d_now d"
  "d_now (set_offset st n d) = d_now d"
  "d_now (store_append st ev d) = d_now d"
  by (simp_all add: store_save_def store_modify_def attach_pager_def set_auth_url_def store_consume_def
      store_ack_def select_record_def store_cancel_def set_selected_idxs_def save_result_def set_offset_def
      store_append_def split: option.splits)

lemma more_views:
  assumes "disk.more w' = disk.more w"
  shows "w_trace w' = w_trace w" "w_live w' = w_live w" "w_fs w' = w_fs w" "w_git w' = w_git w"
    "w_n w' = w_n w" "w_dyn w' = w_dyn w" "w_user_file w' = w_user_file w"
  using assms by (cases w; cases w'; simp)+

lemmas trace_store [world_frame, simp] = more_store [THEN more_views(1)]
lemmas dyn_store [world_frame, simp] = more_store [THEN more_views(6)]
lemmas live_store [world_frame, simp] = more_store [THEN more_views(2)]
lemmas git_store [world_frame, simp] = more_store [THEN more_views(4)]

section \<open>Commands on the trace\<close>

definition spawned :: "world \<Rightarrow> spawn list" where
  "spawned w = List.map_filter (\<lambda>e. case e of Spawned sp \<Rightarrow> Some sp | _ \<Rightarrow> None) (w_trace w)"

lemma spawned_cong: "w_trace w' = w_trace w \<Longrightarrow> spawned w' = spawned w"
  by (simp add: spawned_def)

lemmas spawned_store [world_frame, simp] = trace_store [THEN spawned_cong]

lemma spawned_emit [simp]:
  "spawned (emit e w) = spawned w @ (case e of Spawned sp \<Rightarrow> [sp] | _ \<Rightarrow> [])"
  by (simp add: spawned_def emit_def map_filter_append List.map_filter_simps split: effect.splits)

lemma emit_fields [simp]:
  "d_files (emit e w) = d_files w" "d_now (emit e w) = d_now w" "d_io (emit e w) = d_io w"
  "d_audit (emit e w) = d_audit w" "w_dyn (emit e w) = w_dyn w" "w_live (emit e w) = w_live w"
  "w_git (emit e w) = w_git w" "w_trace (emit e w) = w_trace w @ [e]"
  by (simp_all add: emit_def)

lemma bump_fields [simp]:
  "d_files (bump w) = d_files w" "d_now (bump w) = d_now w" "d_io (bump w) = d_io w"
  "d_audit (bump w) = d_audit w" "w_dyn (bump w) = w_dyn w" "w_live (bump w) = w_live w"
  "w_git (bump w) = w_git w" "w_trace (bump w) = w_trace w" "spawned (bump w) = spawned w"
  by (simp_all add: bump_def spawned_def)

lemma audit_fields [simp]:
  "w_trace (audit s ev w) = w_trace w" "spawned (audit s ev w) = spawned w"
  "d_now (audit s ev w) = d_now w" "d_files (audit s ev w) = d_files w" "w_dyn (audit s ev w) = w_dyn w"
  "w_live (audit s ev w) = w_live w" "w_git (audit s ev w) = w_git w"
  by (simp_all add: audit_def) (simp add: store_append_def)

lemma new_rid_fields [simp]:
  "w_trace (snd (new_rid s w)) = w_trace w" "spawned (snd (new_rid s w)) = spawned w"
  "d_now (snd (new_rid s w)) = d_now w" "d_files (snd (new_rid s w)) = d_files w"
  by (simp_all add: new_rid_def split: option.splits)

lemma exec_identity_quiet [simp]: "spawned (snd (exec_identity s argv cwd w)) = spawned w"
  by (simp add: exec_identity_def Let_def split: sum.splits)

lemma tg_send_quiet [simp]: "spawned (snd (tg_send s chat msg reply kb w)) = spawned w"
  by (simp add: tg_send_def Let_def)

lemma notify_auth_url_quiet [simp]: "spawned (notify_auth_url s rid url w) = spawned w"
  by (simp add: notify_auth_url_def Let_def split: option.splits)

lemma close_card_quiet [simp]: "spawned (close_card s rid argv dc by w) = spawned w"
  by (simp add: close_card_def split: option.splits)

lemma tg_send_spawned: "tg_send s chat msg reply kb w = (m, w') \<Longrightarrow> spawned w' = spawned w"
  using tg_send_quiet [of s chat msg reply kb w] by simp

lemma page_request_quiet [simp]: "spawned (page_request s rid req uid w) = spawned w"
  unfolding page_request_def Let_def by (auto dest!: tg_send_spawned split: prod.splits option.splits)

end
