(* ===== verification/Waiting.thy ===== *)
theory Waiting imports Asking ServiceRun Frames begin

text \<open>
  The two waits of the service, for a verdict and for a selection, are one loop over different
  looks at the store. The locale states the loop: an answer that can be seen is returned at
  once; without one the next tick passes, and a caller who has gone ends a wait that can be
  broken off. What holds of every such loop is proved here once.
\<close>

locale poll_loop =
  fixes loop :: "tick list \<Rightarrow> world \<Rightarrow> ('v \<times> tick list \<times> world) option"
    and look :: "world \<Rightarrow> 'v option"
    and aborted :: "'v option"
  assumes loop_seen: "look w = Some v \<Longrightarrow> loop ticks w = Some (v, ticks, w)"
    and loop_idle: "look w = None \<Longrightarrow> loop [] w = None"
    and loop_tick: "look w = None \<Longrightarrow> loop ((act, gone) # ts) w =
      (case aborted of Some v \<Rightarrow> if gone then Some (v, ts, act w) else loop ts (act w) | None \<Rightarrow> loop ts (act w))"
begin

lemma loop_Nil: "loop [] w = Some (v, ts, w') \<longleftrightarrow> look w = Some v \<and> ts = [] \<and> w' = w"
  by (cases "look w") (auto simp: loop_seen loop_idle)

lemma loop_Cons:
  assumes "loop (t # ticks) w = Some (v, ts, w')"
  obtains "look w = Some v" "ts = t # ticks" "w' = w"
  | "aborted = Some v" "snd t" "ts = ticks" "w' = fst t w"
  | "look w = None" "loop ticks (fst t w) = Some (v, ts, w')"
  using assms by (cases t; cases "look w"; cases aborted) (auto simp: loop_seen loop_tick split: if_splits)

text \<open>The answer is what the last look shows, unless the caller has gone.\<close>

lemma answer:
  "loop ticks w = Some (v, ts, w') \<Longrightarrow> (look w' = Some v \<or> aborted = Some v) \<and> suffix ts ticks"
proof (induction ticks arbitrary: w)
  case Nil
  then show ?case by (simp add: loop_Nil)
next
  case (Cons t ticks)
  from Cons.prems show ?case
  proof (rule loop_Cons)
    assume "loop ticks (fst t w) = Some (v, ts, w')"
    then show ?thesis using Cons.IH by (auto intro: suffix_ConsI)
  qed (auto simp: suffix_ConsI)
qed

text \<open>What everybody else keeps is kept over the whole wait.\<close>

lemma keeps:
  assumes "loop ticks w = Some (v, ts, w')" and "list_all (\<lambda>t. \<forall>w. R w (fst t w)) ticks"
    and refl: "\<And>w. R w w" and trans: "\<And>a b c. R a b \<Longrightarrow> R b c \<Longrightarrow> R a c"
  shows "R w w'"
  using assms(1,2)
proof (induction ticks arbitrary: w)
  case Nil
  then show ?case by (simp add: loop_Nil refl)
next
  case (Cons t ticks)
  have step: "R w (fst t w)" using Cons.prems(2) by simp
  from Cons.prems(1) show ?case
  proof (rule loop_Cons)
    assume "loop ticks (fst t w) = Some (v, ts, w')"
    then show ?thesis using Cons.IH [of "fst t w"] Cons.prems(2) step trans by auto
  qed (auto simp: refl step)
qed

text \<open>The wait ends when enough ticks pass, each by \<open>\<delta>\<close> at least, and a late look shows an answer.\<close>

lemma returns:
  assumes late: "\<And>w. expires < d_now w \<Longrightarrow> look w \<noteq> None"
    and "list_all (\<lambda>t. \<forall>w. d_now w + \<delta> \<le> d_now (fst t w)) ticks"
    and "expires < d_now w + \<delta> * int (length ticks)"
  shows "loop ticks w \<noteq> None"
  using assms(2,3)
proof (induction ticks arbitrary: w)
  case Nil
  then show ?case using late [of w] loop_seen [of w] by auto
next
  case (Cons t ticks)
  obtain act gone where t: "t = (act, gone)" by fastforce
  have "d_now w + \<delta> \<le> d_now (act w)" using Cons.prems(1) by (simp add: t)
  then have "expires < d_now (act w) + \<delta> * int (length ticks)" using Cons.prems(2) by (simp add: algebra_simps)
  then have "loop ticks (act w) \<noteq> None" using Cons.IH [of "act w"] Cons.prems(1) by simp
  then show ?case
    using loop_seen [of w] by (cases "look w") (auto simp: t loop_tick split: option.split)
qed

end

section \<open>Waiting for a verdict\<close>

definition verdict_look :: "service \<Rightarrow> string \<Rightarrow> int \<Rightarrow> world \<Rightarrow> outcome option" where
  "verdict_look s rid expires w =
     (case store_verdict (sv_store s) rid w of
        Some v \<Rightarrow> Some (Some (vd_decision v, vd_by v))
      | None \<Rightarrow>
          (case store_cancel_info (sv_store s) rid w of
             Some c \<Rightarrow> Some (Some (''cancelled'', cn_by c))
           | None \<Rightarrow> if d_now w > expires then Some None else None))"

interpretation verdict_wait: poll_loop "await s rid expires cancellable" "verdict_look s rid expires"
  "if cancellable then Some (Some (''client_aborted'', ''client'')) else None"
proof unfold_locales
  fix w v ticks
  assume "verdict_look s rid expires w = Some v"
  then show "await s rid expires cancellable ticks w = Some (v, ticks, w)"
    by (subst await.simps) (auto simp: verdict_look_def split: option.splits if_splits)
next
  fix w :: world
  assume "verdict_look s rid expires w = None"
  then show "await s rid expires cancellable [] w = None"
    by (subst await.simps) (auto simp: verdict_look_def split: option.splits if_splits)
next
  fix w act gone ts
  assume "verdict_look s rid expires w = None"
  then show "await s rid expires cancellable ((act, gone) # ts) w =
      (case if cancellable then Some (Some (''client_aborted'', ''client'')) else None of
         Some v \<Rightarrow> if gone then Some (v, ts, act w) else await s rid expires cancellable ts (act w)
       | None \<Rightarrow> await s rid expires cancellable ts (act w))"
    by (subst await.simps) (auto simp: verdict_look_def split: option.splits if_splits)
qed

section \<open>Waiting for a selection\<close>

definition selection_look :: "service \<Rightarrow> string \<Rightarrow> int \<Rightarrow> world \<Rightarrow> (selection_record option \<times> bool) option" where
  "selection_look s rid expires w =
     (case store_selection_info (sv_store s) rid w of
        Some sel \<Rightarrow> Some (Some sel, False)
      | None \<Rightarrow> if store_cancel_info (sv_store s) rid w \<noteq> None then Some (None, True)
                else if d_now w > expires then Some (None, False) else None)"

interpretation selection_wait: poll_loop "await_selection s rid expires cancellable"
  "selection_look s rid expires" "if cancellable then Some (None, True) else None"
proof unfold_locales
  fix w v ticks
  assume "selection_look s rid expires w = Some v"
  then show "await_selection s rid expires cancellable ticks w = Some (v, ticks, w)"
    by (subst await_selection.simps) (auto simp: selection_look_def split: option.splits if_splits)
next
  fix w :: world
  assume "selection_look s rid expires w = None"
  then show "await_selection s rid expires cancellable [] w = None"
    by (subst await_selection.simps) (auto simp: selection_look_def split: option.splits if_splits)
next
  fix w act gone ts
  assume "selection_look s rid expires w = None"
  then show "await_selection s rid expires cancellable ((act, gone) # ts) w =
      (case if cancellable then Some (None, True) else None of
         Some v \<Rightarrow> if gone then Some (v, ts, act w) else await_selection s rid expires cancellable ts (act w)
       | None \<Rightarrow> await_selection s rid expires cancellable ts (act w))"
    by (subst await_selection.simps) (auto simp: selection_look_def split: option.splits if_splits)
qed

lemma verdict_look_late: "expires < d_now w \<Longrightarrow> verdict_look s rid expires w \<noteq> None"
  by (simp add: verdict_look_def split: option.split)

lemma selection_look_late: "expires < d_now w \<Longrightarrow> selection_look s rid expires w \<noteq> None"
  unfolding selection_look_def by (auto split: option.split)

end
