(* ===== verification/Samples.thy ===== *)
theory Samples imports Pins Frames begin

text \<open>
  A small daemon and workspace on which the theorems about the service are evaluated: an
  unprivileged daemon for user 1000, one Telegram approver, state below \<open>/s\<close>, a repository
  in \<open>/w\<close> with a script, and a process that prints a line.
\<close>

definition sample_sys :: sys where
  "sample_sys = \<lparr>y_uid = 1000, y_euid = 1000, y_pid = 50, y_pgrp = 50, y_env = (\<lambda>_. []),
     y_user_id = (\<lambda>_. Inl ''unknown user''), y_user_name = (\<lambda>_. None),
     y_getpgid = (\<lambda>p. Some (p + 1)), y_kill = (\<lambda>_ _ _. None), y_rand = (\<lambda>_. Some ''12345678''),
     y_send = (\<lambda>_. Some 7), y_get_me = (\<lambda>_ _. Inr ''bot''), y_save_user = (\<lambda>_. No_fault), y_save_error = (\<lambda>_. []),
     y_encode_user = uc_bot_token,
     y_proc = (\<lambda>_ _. Proc [(1, ''hi'')] 2 (Exit_status 0)), y_look_path = (\<lambda>_. None),
     y_eval_links = (\<lambda>p. Some p), y_sha256 = (\<lambda>b. b)\<rparr>"

definition sample_conf :: conf where
  "sample_conf = \<lparr>cf_bot_token = ''12:ab'', cf_approvers = [''7''], cf_chat_id = ''7'', cf_socket = ''/run/s'',
     cf_state_dir = ''/s'', cf_policy = ''/p'', cf_timeout = 60, cf_dry_run = False, cf_confirm_all = False,
     cf_pager = [], cf_notify_target = ''both'', cf_allow_root = False, cf_exec_timeout = 0,
     cf_max_output = 0, cf_max_tg_body = 0\<rparr>"

definition sample_policy :: policy where
  "sample_policy = \<lparr>p_mode = ''blacklist'', p_whitelist = [], p_blacklist = [], p_confirm = [], p_default = ''ask'',
     p_env_keep = [], p_target = []\<rparr>"

definition sample_service :: service where
  "sample_service = \<lparr>sv_sys = sample_sys, sv_conf = sample_conf, sv_policy = sample_policy,
     sv_store = store_new ''/s'', sv_host = ''box''\<rparr>"

definition plain_file :: "string \<Rightarrow> live_file" where
  "plain_file b = \<lparr>lf_dir = False, lf_regular = True, lf_mode = 420, lf_size = int (length b), lf_dev = 1,
     lf_ino = 2, lf_bytes = Some b\<rparr>"

definition sample_dir :: live_file where
  "sample_dir = \<lparr>lf_dir = True, lf_regular = False, lf_mode = 493, lf_size = 0, lf_dev = 1, lf_ino = 3, lf_bytes = None\<rparr>"

definition sample_live :: "path \<Rightarrow> live_file option" where
  "sample_live p =
     (if p = ''/w'' then Some sample_dir
      else if p = ''/bin/sh'' then Some (plain_file ''ELF'')
      else if p = ''/w/run.sh'' then Some (plain_file ''echo hi'') else None)"

definition sample_fs :: fs where
  "sample_fs = \<lparr>fs_stat = (\<lambda>p. map_option (\<lambda>f. (lf_dir f, lf_size f)) (sample_live p)),
     fs_is_dir = (\<lambda>p. map_option lf_dir (sample_live p)), fs_glob = (\<lambda>_. []), fs_walk = (\<lambda>_. []),
     fs_wd = Some ''/w'', fs_path_env = safe_path, fs_look_path = (\<lambda>_. None)\<rparr>"

definition sample_git :: "path \<Rightarrow> git_probe" where
  "sample_git p = \<lparr>gq_stat = True, gq_git = (p = ''/w''), gq_head = Some ''abc'', gq_branch = Some ''main'',
     gq_status = Some []\<rparr>"

definition sample_dyn :: dyn_state where
  "sample_dyn = \<lparr>dy_polling = True, dy_username = ''bot'', dy_status = ''ok'', dy_error = [], dy_token = ''12:ab'',
     dy_chat = ''7'', dy_approvers = [''7''], dy_approver_set = [''7''], dy_target = ''both''\<rparr>"

definition sample_world :: "(path \<times> node) list \<Rightarrow> world" where
  "sample_world files = \<lparr>d_files = files, d_io = (\<lambda>_. IoOk), d_now = 100 * 10 ^ 9, d_audit = [],
     w_live = sample_live, w_fs = sample_fs, w_git = sample_git, w_n = 0, w_trace = [], w_dyn = sample_dyn, w_user_file = None\<rparr>"

definition sample_argv :: "string list" where
  "sample_argv = [''/bin/sh'', ''run.sh'']"

text \<open>The petition for \<open>sh run.sh\<close>, pinned in a given state.\<close>

definition sample_petition :: "world \<Rightarrow> pending_record" where
  "sample_petition w = pending_record_zero\<lparr>pr_argv := sample_argv, pr_uid := 1000, pr_as_uid := 1000, pr_cwd := ''/w'',
     pr_expires := 160, pr_step := ''initial'', pr_git := snapshot_git ''/w'' w,
     pr_fd := snapshot_entry sample_service sample_argv ''/w'' w,
     pr_seal := fst (snapshot_seal sample_service ''a'' sample_argv ''/w'' w)\<rparr>"

definition sample_fd :: fd_pin where
  "sample_fd = \<lparr>fp_path = ''/bin/sh'', fp_resolved = ''/bin/sh'', fp_sha256 = ''ELF'', fp_dev = 1, fp_ino = 2,
     fp_size = 3, fp_mode = 420, fp_is_script = False, fp_interpreter = [], fp_interp_arg = []\<rparr>"

definition sample_seal :: seal_pin where
  "sample_seal = \<lparr>sp_root = ''run.sh'' @ [CHR 0x00] @ ''echo hi'' @ [CHR 0x00],
     sp_files = [\<lparr>sf_rel = ''run.sh'', sf_abs = ''/w/run.sh'', sf_sha256 = ''echo hi'', sf_size = 7, sf_mode = 420\<rparr>],
     sp_archive = ''/s/sealed/a.tar.gz''\<rparr>"

lemma sample_pin_git:
  "snapshot_git ''/w'' (sample_world []) =
     Some \<lparr>gp_head = ''abc'', gp_branch = ''main'', gp_porcelain = [], gp_clean = True, gp_present = True\<rparr>"
  by code_simp

lemma sample_entry: "entry_path sample_service sample_argv ''/w'' (sample_world []) = ''/bin/sh''"
  by code_simp

lemma sample_live_at: "live_at (sample_world []) p = sample_live p"
  by (simp add: live_at_def node_at_def sample_world_def)

lemma sample_word: "(sample_argv = [] \<or> trim_space (hd sample_argv) = []) = False"
  by code_simp

lemma sample_pin_fd: "snapshot_entry sample_service sample_argv ''/w'' (sample_world []) = Some sample_fd"
  unfolding snapshot_entry_def sample_entry Let_def sample_live_at sample_word
  by (simp add: sample_argv_def sample_live_def plain_file_def pin_from_file_def parse_shebang_def
      sample_service_def sample_sys_def max_pin_hash_bytes_def sample_fd_def)


lemma sample_candidates:
  "seal_candidates (sample_world []) sample_argv ''/w'' = [(''/w/run.sh'', ''run.sh'')]"
  by code_simp

lemma sample_pin_seal:
  "fst (snapshot_seal sample_service ''a'' sample_argv ''/w'' (sample_world [])) = Some sample_seal"
  unfolding snapshot_seal_def sample_candidates
  by code_simp

text \<open>The daemon with that petition on disk, and the same after the script was changed.\<close>

definition sample_files :: "(path \<times> node) list" where
  "sample_files = [(''/s/pending/a.json'', Reg (JRecord (sample_petition (sample_world []))) 5)]"

definition sample_pending :: world where
  "sample_pending = sample_world sample_files"

definition sample_tampered :: world where
  "sample_tampered = sample_pending\<lparr>w_live := sample_live(''/w/run.sh'' := Some (plain_file ''evil''))\<rparr>"

lemma sample_record:
  "sample_petition (sample_world []) = pending_record_zero\<lparr>pr_argv := sample_argv, pr_uid := 1000, pr_as_uid := 1000,
     pr_cwd := ''/w'', pr_expires := 160, pr_step := ''initial'',
     pr_git := Some \<lparr>gp_head = ''abc'', gp_branch = ''main'', gp_porcelain = [], gp_clean = True, gp_present = True\<rparr>,
     pr_fd := Some sample_fd, pr_seal := Some sample_seal\<rparr>"
  by (simp add: sample_petition_def sample_pin_git sample_pin_fd sample_pin_seal)

lemma sample_load:
  "store_load (sv_store sample_service) ''a'' sample_pending = Some (sample_petition (sample_world []))"
  "store_load (sv_store sample_service) ''a'' sample_tampered = Some (sample_petition (sample_world []))"
  by (simp_all add: sample_service_def sample_tampered_def sample_pending_def sample_world_def sample_files_def
      store_eval)

lemma sample_pending_live:
  "live_at sample_pending p = sample_live p"
  "live_at sample_tampered p = (sample_live(''/w/run.sh'' := Some (plain_file ''evil''))) p"
  "w_git sample_pending = w_git (sample_world [])"
  by (simp_all add: live_at_def node_at_def sample_pending_def sample_tampered_def sample_world_def sample_files_def)

end
