(* ===== verification/PinFacts.thy ===== *)
theory PinFacts imports Samples begin

text \<open>
  The three checks between a petition and its approval share one contract: a pin that was
  just taken passes its own check, the check looks at nothing but the pinned object, and
  passing it means the object agrees with the pin. The locale draws the two consequences
  that matter to a user, and the Git, entry-point and sealed-input checks are its instances.
\<close>

section \<open>The contract of a pin\<close>

locale pin_gate =
  fixes snap :: "'w \<Rightarrow> 'p option"
    and chk :: "'p \<Rightarrow> 'w \<Rightarrow> 'd option"
    and same :: "'p \<Rightarrow> 'w \<Rightarrow> 'w \<Rightarrow> bool"
    and ok :: "'w \<Rightarrow> bool"
    and agrees :: "'p \<Rightarrow> 'w \<Rightarrow> bool"
  assumes fresh: "ok w \<Longrightarrow> snap w = Some p \<Longrightarrow> chk p w = None"
    and looks_only: "same p w w' \<Longrightarrow> chk p w' = chk p w"
    and passed: "chk p w = None \<Longrightarrow> agrees p w"
begin

lemma no_false_alarm: "ok w \<Longrightarrow> snap w = Some p \<Longrightarrow> same p w w' \<Longrightarrow> chk p w' = None"
  by (simp add: looks_only fresh)

lemma drift_is_change: "ok w \<Longrightarrow> snap w = Some p \<Longrightarrow> chk p w' = Some d \<Longrightarrow> \<not> same p w w'"
  using no_false_alarm by fastforce

lemma snapshot_agrees: "ok w \<Longrightarrow> snap w = Some p \<Longrightarrow> agrees p w"
  by (rule passed [OF fresh])

lemma passed_or_blocked: "agrees p w \<or> (\<exists>d. chk p w = Some d)"
  using passed by (cases "chk p w") auto

end

section \<open>Git\<close>

definition git_check :: "service \<Rightarrow> path \<Rightarrow> git_pin \<Rightarrow> world \<Rightarrow> git_drift option" where
  "git_check s dir pin w =
     (if \<not> gp_present pin then None
      else case snapshot_git dir w of None \<Rightarrow> None | Some live \<Rightarrow> compare_git s dir pin live)"

definition git_agrees :: "path \<Rightarrow> git_pin \<Rightarrow> world \<Rightarrow> bool" where
  "git_agrees dir pin w \<longleftrightarrow>
     \<not> gp_present pin \<or>
     (case snapshot_git dir w of
        None \<Rightarrow> True
      | Some live \<Rightarrow> gp_head live = gp_head pin \<and> gp_branch live = gp_branch pin
          \<and> gp_porcelain live = gp_porcelain pin)"

lemma snapshot_git_looks: "w_git w dir = w_git w' dir \<Longrightarrow> snapshot_git dir w' = snapshot_git dir w"
  by (simp add: snapshot_git_def)

lemma compare_git_self: "gp_present p \<Longrightarrow> compare_git s dir p p = None"
  by (simp add: compare_git_def)

lemma compare_git_None:
  "compare_git s dir p live = None \<Longrightarrow>
    gp_head live = gp_head p \<and> gp_branch live = gp_branch p \<and> gp_porcelain live = gp_porcelain p"
  unfolding compare_git_def by (simp only: option.distinct simp_thms split: if_split_asm)

interpretation git_gate: pin_gate "snapshot_git dir" "git_check s dir" "\<lambda>_ w w'. w_git w dir = w_git w' dir"
  "\<lambda>_. True" "git_agrees dir" for s dir
proof unfold_locales
  show "git_check s dir p w = None" if "snapshot_git dir w = Some p" for w p
    using that by (simp add: git_check_def compare_git_self)
  show "git_check s dir p w' = git_check s dir p w" if "w_git w dir = w_git w' dir" for p w w'
    by (simp only: git_check_def snapshot_git_looks [OF that])
  show "git_agrees dir p w" if "git_check s dir p w = None" for p w
  proof (cases "gp_present p")
    case True
    then show ?thesis
      using that compare_git_None [of s dir p] unfolding git_check_def git_agrees_def
      by (cases "snapshot_git dir w") simp_all
  qed (simp add: git_agrees_def)
qed

lemma check_git_drift_gate:
  "check_git_drift s rid cwd w =
     (case store_load (sv_store s) rid w of
        None \<Rightarrow> None
      | Some rec \<Rightarrow> (case pr_git rec of None \<Rightarrow> None
                    | Some p \<Rightarrow> git_check s (if pr_cwd rec = [] then cwd else pr_cwd rec) p w))"
  unfolding check_git_drift_def git_check_def Let_def by (simp split: option.splits)

section \<open>Entry point\<close>

definition fd_check :: "service \<Rightarrow> fd_pin \<Rightarrow> world \<Rightarrow> fd_drift option" where
  "fd_check s pin w =
     (if fp_path pin = [] then None
      else case open_verified s pin w of Inl d \<Rightarrow> Some d | Inr b \<Rightarrow> None)"

definition fd_agrees :: "sys \<Rightarrow> fd_pin \<Rightarrow> world \<Rightarrow> bool" where
  "fd_agrees y pin w \<longleftrightarrow>
     fp_path pin = [] \<or>
     (case live_at w (fp_path pin) of
        None \<Rightarrow> False
      | Some f \<Rightarrow> \<not> lf_dir f
          \<and> (case lf_bytes f of None \<Rightarrow> False | Some b \<Rightarrow> y_sha256 y (take max_pin_hash_bytes b) = fp_sha256 pin)
          \<and> (fp_ino pin = 0 \<or> lf_dev f = fp_dev pin \<and> lf_ino f = fp_ino pin))"

lemma pin_from_file_Some:
  "pin_from_file y p f = Some pin \<longleftrightarrow> (\<exists>b. lf_bytes f = Some b \<and> \<not> lf_dir f \<and>
     pin = \<lparr>fp_path = p, fp_resolved = some_or (y_eval_links y p) p,
                 fp_sha256 = y_sha256 y (take max_pin_hash_bytes b), fp_dev = lf_dev f, fp_ino = lf_ino f,
                 fp_size = lf_size f, fp_mode = lf_mode f,
                 fp_is_script = (parse_shebang b \<noteq> None),
                 fp_interpreter = (case parse_shebang b of Some (i, a) \<Rightarrow> i | None \<Rightarrow> []),
                 fp_interp_arg = (case parse_shebang b of Some (i, a) \<Rightarrow> a | None \<Rightarrow> [])\<rparr>)"
  by (auto simp: pin_from_file_def split: option.splits)

lemma open_verified_Inr:
  "open_verified s pin w = Inr bytes \<longleftrightarrow>
     (\<exists>f. live_at w (fp_path pin) = Some f \<and> \<not> lf_dir f \<and> lf_bytes f = Some bytes
        \<and> y_sha256 (sv_sys s) (take max_pin_hash_bytes bytes) = fp_sha256 pin
        \<and> (fp_ino pin = 0 \<or> lf_dev f = fp_dev pin \<and> lf_ino f = fp_ino pin))"
  by (auto simp: open_verified_def pin_from_file_Some split: option.splits if_splits)
    (auto simp: pin_from_file_def split: option.splits if_splits)

lemma open_verified_looks:
  "live_at w (fp_path pin) = live_at w' (fp_path pin) \<Longrightarrow> open_verified s pin w' = open_verified s pin w"
  by (simp add: open_verified_def)

lemma pin_from_file_path: "pin_from_file y p f = Some pin \<Longrightarrow> fp_path pin = p"
  by (auto simp: pin_from_file_Some)

lemma snapshot_entry_Some:
  "snapshot_entry s argv cwd w = Some p \<Longrightarrow>
    fp_path p = entry_path s argv cwd w
    \<and> (\<exists>f. live_at w (fp_path p) = Some f \<and> pin_from_file (sv_sys s) (fp_path p) f = Some p)"
proof -
  assume "snapshot_entry s argv cwd w = Some p"
  then obtain f where "live_at w (entry_path s argv cwd w) = Some f"
    and pin: "pin_from_file (sv_sys s) (entry_path s argv cwd w) f = Some p"
    by (auto simp: snapshot_entry_def Let_def split: if_splits option.splits)
  then show ?thesis using pin_from_file_path [OF pin] by simp
qed

interpretation fd_gate: pin_gate "snapshot_entry s argv cwd" "fd_check s"
  "\<lambda>p w w'. live_at w (fp_path p) = live_at w' (fp_path p)" "\<lambda>_. True" "fd_agrees (sv_sys s)" for s argv cwd
proof unfold_locales
  show "fd_check s p w = None" if snap: "snapshot_entry s argv cwd w = Some p" for w p
  proof -
    obtain f where f: "live_at w (fp_path p) = Some f" "pin_from_file (sv_sys s) (fp_path p) f = Some p"
      using snapshot_entry_Some [OF snap] by blast
    have "open_verified s p w = Inr (some_or (lf_bytes f) [])"
      unfolding open_verified_def f(1) option.case f(2) by simp
    then show ?thesis by (simp add: fd_check_def)
  qed
  show "fd_check s p w' = fd_check s p w" if "live_at w (fp_path p) = live_at w' (fp_path p)" for p w w'
    by (simp only: fd_check_def open_verified_looks [OF that])
  show "fd_agrees (sv_sys s) p w" if passed: "fd_check s p w = None" for p w
  proof (cases "fp_path p = []")
    case False
    then obtain b where "open_verified s p w = Inr b"
      using passed by (auto simp: fd_check_def split: sum.splits)
    then show ?thesis unfolding open_verified_Inr fd_agrees_def by auto
  qed (simp add: fd_agrees_def)
qed

lemma check_fd_drift_gate:
  "check_fd_drift s rid w =
     (case store_load (sv_store s) rid w of
        None \<Rightarrow> None
      | Some rec \<Rightarrow> (case pr_fd rec of None \<Rightarrow> None | Some p \<Rightarrow> fd_check s p w))"
  unfolding check_fd_drift_def fd_check_def ..

text \<open>The hash covers the first 32 MiB only, and the interpreter line the first 512 bytes.\<close>

lemma pin_from_file_head:
  assumes "take max_pin_hash_bytes b = take max_pin_hash_bytes b'"
  shows "pin_from_file y p (f\<lparr>lf_bytes := Some b\<rparr>) = pin_from_file y p (f\<lparr>lf_bytes := Some b'\<rparr>)"
proof -
  have "take 512 (take max_pin_hash_bytes b) = take 512 (take max_pin_hash_bytes b')" using assms by simp
  then have "take 512 b = take 512 b'" by (simp add: max_pin_hash_bytes_def)
  then have "parse_shebang b = parse_shebang b'" by (simp add: parse_shebang_def)
  then show ?thesis using assms by (simp add: pin_from_file_def)
qed

section \<open>Sealed inputs\<close>

definition seal_check :: "sys \<Rightarrow> seal_pin \<Rightarrow> world \<Rightarrow> seal_drift option" where
  "seal_check y pin w = first_drift y w (sp_files pin)"

definition seal_same :: "seal_pin \<Rightarrow> world \<Rightarrow> world \<Rightarrow> bool" where
  "seal_same pin w w' \<longleftrightarrow> list_all (\<lambda>f. live_at w (sf_abs f) = live_at w' (sf_abs f)) (sp_files pin)"

definition intact :: "sys \<Rightarrow> world \<Rightarrow> seal_file \<Rightarrow> bool" where
  "intact y w f \<longleftrightarrow>
     sf_abs f = [] \<or> sf_rel f = [] \<or>
     (case live_at w (sf_abs f) of
        None \<Rightarrow> False
      | Some lf \<Rightarrow> lf_regular lf \<and> lf_size lf = sf_size f
          \<and> (case lf_bytes lf of None \<Rightarrow> False | Some b \<Rightarrow> y_sha256 y b = sf_sha256 f))"

text \<open>Sizes are honest: what \<open>Stat\<close> says of a file is what reading it yields.\<close>

definition honest_sizes :: "world \<Rightarrow> bool" where
  "honest_sizes w \<longleftrightarrow> (\<forall>p f b. live_at w p = Some f \<longrightarrow> lf_bytes f = Some b \<longrightarrow> lf_size f = int (length b))"

lemma check_sealed_None: "check_sealed y w f = None \<longleftrightarrow> intact y w f"
  by (auto simp: check_sealed_def intact_def split: option.splits)

lemma first_drift_None: "first_drift y w fs = None \<longleftrightarrow> list_all (intact y w) fs"
proof (induction fs)
  case (Cons f fs)
  then show ?case using check_sealed_None [of y w f] by (cases "check_sealed y w f") auto
qed simp

lemma check_sealed_looks:
  "live_at w (sf_abs f) = live_at w' (sf_abs f) \<Longrightarrow> check_sealed y w' f = check_sealed y w f"
  by (simp add: check_sealed_def)

lemma first_drift_looks:
  "list_all (\<lambda>f. live_at w (sf_abs f) = live_at w' (sf_abs f)) fs \<Longrightarrow> first_drift y w' fs = first_drift y w fs"
proof (induction fs)
  case (Cons f fs)
  then have "live_at w (sf_abs f) = live_at w' (sf_abs f)" by simp
  from check_sealed_looks [OF this] show ?case using Cons by (simp cong: option.case_cong)
qed simp

lemma seal_blobs_read:
  "(p, rel, b, mode) \<in> set (seal_blobs w n ts) \<Longrightarrow>
    \<exists>f. live_at w p = Some f \<and> lf_regular f \<and> lf_bytes f = Some b"
  by (induction w n ts rule: seal_blobs.induct) (auto simp: Let_def split: option.splits if_splits)

lemma snapshot_seal_files:
  assumes "fst (snapshot_seal s rid argv cwd w) = Some p"
  shows "sp_files p = map (seal_file_of (sv_sys s)) (seal_blobs w 0 (seal_candidates w argv cwd))"
  using assms by (auto simp: snapshot_seal_def Let_def split: if_splits prod.splits bool.splits)

interpretation seal_gate: pin_gate "\<lambda>w. fst (snapshot_seal s rid argv cwd w)" "seal_check (sv_sys s)"
  seal_same honest_sizes "\<lambda>p w. list_all (intact (sv_sys s) w) (sp_files p)" for s rid argv cwd
proof unfold_locales
  show "seal_check (sv_sys s) p w = None"
    if ok: "honest_sizes w" and snap: "fst (snapshot_seal s rid argv cwd w) = Some p" for w p
  proof -
    have "intact (sv_sys s) w f" if "f \<in> set (sp_files p)" for f
    proof -
      obtain q rel b mode where
        "(q, rel, b, mode) \<in> set (seal_blobs w 0 (seal_candidates w argv cwd))"
        and f: "f = seal_file_of (sv_sys s) (q, rel, b, mode)"
        using \<open>f \<in> set (sp_files p)\<close> snapshot_seal_files [OF snap] by fastforce
      then obtain lf where "live_at w q = Some lf" "lf_regular lf" "lf_bytes lf = Some b"
        using seal_blobs_read by blast
      moreover from this have "lf_size lf = int (length b)" using ok unfolding honest_sizes_def by blast
      ultimately show ?thesis by (simp add: intact_def f seal_file_of_def)
    qed
    then show ?thesis by (simp add: seal_check_def first_drift_None list_all_iff)
  qed
  show "seal_check (sv_sys s) p w' = seal_check (sv_sys s) p w" if "seal_same p w w'" for p w w'
    using first_drift_looks [of w w' "sp_files p"] that by (simp add: seal_check_def seal_same_def)
  show "list_all (intact (sv_sys s) w) (sp_files p)" if "seal_check (sv_sys s) p w = None" for p w
    using that by (simp add: seal_check_def first_drift_None)
qed

lemma check_seal_drift_gate:
  "check_seal_drift s rid w =
     (case store_load (sv_store s) rid w of
        None \<Rightarrow> None
      | Some rec \<Rightarrow> (case pr_seal rec of None \<Rightarrow> None | Some p \<Rightarrow> seal_check (sv_sys s) p w))"
  unfolding check_seal_drift_def seal_check_def ..

section \<open>Extraction\<close>

definition entry_ok :: "sys \<Rightarrow> seal_file list \<Rightarrow> archive_entry \<Rightarrow> bool" where
  "entry_ok y files e \<longleftrightarrow>
     (case manifest files (ae_name e) of
        None \<Rightarrow> False
      | Some f \<Rightarrow> y_sha256 y (ae_data e) = sf_sha256 f \<and> int (length (ae_data e)) = ae_size e
          \<and> ae_size e \<le> max_seal_file_size)"

lemma manifest_dom: "manifest files n \<noteq> None \<longleftrightarrow> n \<in> set (map sf_rel files)"
  by (simp add: manifest_def map_of_eq_None_iff image_image)

lemma entry_ok_name: "entry_ok y files e \<Longrightarrow> ae_name e \<in> set (map sf_rel files)"
  using manifest_dom [of files "ae_name e"] by (auto simp: entry_ok_def split: option.splits)

lemma extract_entries_step:
  "extract_entries y files dir (e # es) seen w =
     (if \<not> entry_ok y files e \<or> ae_name e \<in> set seen then (None, remove_all dir w)
      else case write_file (filepath_join [dir, ae_name e]) (Raw (ae_data e)) w of
             (False, w') \<Rightarrow> (None, remove_all dir w')
           | (True, w') \<Rightarrow> extract_entries y files dir es (ae_name e # seen) w')"
  by (auto simp: extract_entries.simps(2) entry_ok_def split: option.split)

lemma extract_entries_Some:
  "extract_entries y files dir es seen w = (Some out, w') \<Longrightarrow> distinct seen \<Longrightarrow>
    out = rev (map ae_name es) @ seen \<and> distinct (map ae_name es) \<and> set (map ae_name es) \<inter> set seen = {}
    \<and> list_all (entry_ok y files) es"
proof (induction es arbitrary: seen w)
  case (Cons e es)
  from Cons.prems(1) obtain w1 where ok: "entry_ok y files e" "ae_name e \<notin> set seen"
    and go: "extract_entries y files dir es (ae_name e # seen) w1 = (Some out, w')"
    by (auto simp: extract_entries_step split: if_splits prod.splits bool.splits)
  show ?case using Cons.IH [OF go] ok Cons.prems(2) by simp
qed simp

definition nothing_below :: "path \<Rightarrow> 'a disk_scheme \<Rightarrow> bool" where
  "nothing_below p d \<longleftrightarrow> list_all (\<lambda>(q, _). \<not> below p q) (d_files d)"

lemma nothing_below_removed [simp]: "nothing_below p (remove_all p d)"
  by (auto simp: nothing_below_def remove_all_def list_all_iff)

lemma extract_entries_None: "extract_entries y files dir es seen w = (None, w') \<Longrightarrow> nothing_below dir w'"
proof (induction es arbitrary: seen w)
  case (Cons e es)
  then show ?case by (auto simp: extract_entries_step split: if_splits prod.splits bool.splits)
qed simp

lemma cover_eq:
  assumes "distinct out" and "set out \<subseteq> set rels" and "length out = length (remdups rels)"
  shows "set out = set rels"
proof -
  have "card (set out) = card (set rels)"
    using assms(1,3) by (simp add: distinct_card length_remdups_card_conv)
  then show ?thesis using assms(2) by (simp add: card_subset_eq)
qed

text \<open>The archive holds every file of the manifest once, each with its recorded hash.\<close>

definition archive_matches :: "sys \<Rightarrow> seal_file list \<Rightarrow> archive_entry list \<Rightarrow> bool" where
  "archive_matches y files es \<longleftrightarrow>
     list_all (entry_ok y files) es \<and> distinct (map ae_name es) \<and> set (map ae_name es) = set (map sf_rel files)"

lemma extract_complete:
  assumes "extract_entries y files dir es [] w = (Some out, w')"
    and "length out = length (remdups (map sf_rel files))"
  shows "archive_matches y files es"
proof -
  have out: "out = rev (map ae_name es)" "distinct (map ae_name es)" "list_all (entry_ok y files) es"
    using extract_entries_Some [OF assms(1)] by simp_all
  have "set (map ae_name es) \<subseteq> set (map sf_rel files)"
    using out(3) entry_ok_name [of y files] by (fastforce simp: list_all_iff)
  then have "set (map ae_name es) = set (map sf_rel files)"
    using cover_eq [OF out(2), of "map sf_rel files"] assms(2) out(1) by simp
  then show ?thesis using out(2,3) by (simp add: archive_matches_def)
qed

text \<open>What the unpacked copies hold: every archive entry at its place, and nothing else is touched.\<close>

abbreviation copy_path :: "path \<Rightarrow> string \<Rightarrow> path" where
  "copy_path dir rel \<equiv> filepath_join [dir, rel]"

abbreviation keys :: "'a disk_scheme \<Rightarrow> path set" where
  "keys d \<equiv> fst ` set (d_files d)"

lemma write_file_True:
  assumes "write_file p c w = (True, w')"
  shows "read_file w' q = (if q = p then Some c else read_file w q)" and "keys w' = insert p (keys w)"
proof -
  have "w' = w\<lparr>d_files := AList.update p (Reg c (d_now w)) (d_files w)\<rparr>
      \<or> w' = w\<lparr>d_files := AList.update p (Link (Some c) (d_now w)) (d_files w)\<rparr>"
    using assms by (auto simp: write_file_def Let_def put_file_def split: io.splits option.splits node.splits if_splits)
  then obtain n where n: "node_content n = Some c" "w' = w\<lparr>d_files := AList.update p n (d_files w)\<rparr>"
    by (metis node_content.simps)
  show "read_file w' q = (if q = p then Some c else read_file w q)"
    by (simp add: n read_file_def node_at_def update_conv')
  show "keys w' = insert p (keys w)" by (simp add: n(2) AList.dom_update)
qed

text \<open>An entry at its place, or the later entry that took the place.\<close>

definition copied :: "path \<Rightarrow> archive_entry list \<Rightarrow> world \<Rightarrow> archive_entry \<Rightarrow> bool" where
  "copied dir es w e \<longleftrightarrow>
     list_ex (\<lambda>g. copy_path dir (ae_name g) = copy_path dir (ae_name e)
       \<and> read_file w (copy_path dir (ae_name e)) = Some (Raw (ae_data g))) es"

lemma copied_Cons: "copied dir es w e \<Longrightarrow> copied dir (x # es) w e"
  by (simp add: copied_def)

abbreviation copy_paths :: "path \<Rightarrow> archive_entry list \<Rightarrow> path set" where
  "copy_paths dir es \<equiv> set (map (\<lambda>e. copy_path dir (ae_name e)) es)"

lemma copied_elsewhere:
  "copy_path dir (ae_name x) \<in> copy_paths dir es \<Longrightarrow> list_all (copied dir es w) es \<Longrightarrow> copied dir es w x"
proof -
  assume "copy_path dir (ae_name x) \<in> copy_paths dir es" and all: "list_all (copied dir es w) es"
  then obtain e where e: "e \<in> set es" "copy_path dir (ae_name x) = copy_path dir (ae_name e)" by auto
  then have "copied dir es w e" using all by (simp add: list_all_iff)
  then show ?thesis by (simp only: copied_def e(2))
qed

lemma extract_entries_copies:
  assumes "extract_entries y files dir es seen w = (Some out, w')"
  shows "list_all (copied dir es w') es \<and> (\<forall>q. q \<notin> copy_paths dir es \<longrightarrow> read_file w' q = read_file w q)
    \<and> keys w' = keys w \<union> copy_paths dir es"
  using assms
proof (induction es arbitrary: seen w)
  case (Cons e es)
  from Cons.prems obtain w1 where wr: "write_file (copy_path dir (ae_name e)) (Raw (ae_data e)) w = (True, w1)"
    and go: "extract_entries y files dir es (ae_name e # seen) w1 = (Some out, w')"
    by (auto simp: extract_entries_step split: if_splits prod.splits bool.splits)
  note ih = Cons.IH [OF go]
  have "copied dir (e # es) w' e"
  proof (cases "copy_path dir (ae_name e) \<in> copy_paths dir es")
    case True
    then show ?thesis using copied_elsewhere copied_Cons ih by blast
  next
    case False
    then have "read_file w' (copy_path dir (ae_name e)) = Some (Raw (ae_data e))"
      using ih write_file_True(1) [OF wr] by simp
    then show ?thesis by (simp add: copied_def)
  qed
  moreover have "list_all (copied dir (e # es) w') es"
    using ih copied_Cons by (metis (no_types, lifting) list_all_iff)
  moreover have "\<forall>q. q \<notin> copy_paths dir (e # es) \<longrightarrow> read_file w' q = read_file w q"
    using ih write_file_True(1) [OF wr] by simp
  moreover have "keys w' = keys w \<union> copy_paths dir (e # es)"
    using ih write_file_True(2) [OF wr] by simp
  ultimately show ?case by simp
qed simp

text \<open>
  Every sealed file has a copy whose contents have its recorded hash (or that of another sealed
  file with the same place, when the manifest names one place twice), and below the directory
  there is nothing but the copies.
\<close>

definition copies_verified :: "sys \<Rightarrow> seal_file list \<Rightarrow> path \<Rightarrow> world \<Rightarrow> bool" where
  "copies_verified y files dir w \<longleftrightarrow>
     list_all (\<lambda>f. case read_file w (copy_path dir (sf_rel f)) of
         Some (Raw b) \<Rightarrow> list_ex (\<lambda>g. copy_path dir (sf_rel g) = copy_path dir (sf_rel f)
                                    \<and> y_sha256 y b = sf_sha256 g) files
       | _ \<Rightarrow> False) files
     \<and> list_all (\<lambda>(q, n). \<not> below dir q \<or> q \<in> set (map (\<lambda>f. copy_path dir (sf_rel f)) files)) (d_files w)"

lemma entry_ok_file:
  assumes "entry_ok y files e"
  obtains f where "f \<in> set files" "sf_rel f = ae_name e" "y_sha256 y (ae_data e) = sf_sha256 f"
proof -
  obtain f where f: "manifest files (ae_name e) = Some f" "y_sha256 y (ae_data e) = sf_sha256 f"
    using assms by (auto simp: entry_ok_def split: option.splits)
  then have "(ae_name e, f) \<in> (\<lambda>f. (sf_rel f, f)) ` set files"
    by (auto simp: manifest_def dest: map_of_SomeD)
  then show ?thesis using f(2) by (auto intro: that)
qed

lemma extract_verified:
  assumes "extract_entries y files dir es [] (remove_all dir w) = (Some out, w')"
    and "archive_matches y files es"
  shows "copies_verified y files dir w'"
proof -
  have ok: "\<And>e. e \<in> set es \<Longrightarrow> entry_ok y files e" and names: "set (map ae_name es) = set (map sf_rel files)"
    using assms(2) by (simp_all add: archive_matches_def list_all_iff)
  note cp = extract_entries_copies [OF assms(1)]
  have "case read_file w' (copy_path dir (sf_rel f)) of
         Some (Raw b) \<Rightarrow> list_ex (\<lambda>g. copy_path dir (sf_rel g) = copy_path dir (sf_rel f)
                                    \<and> y_sha256 y b = sf_sha256 g) files
       | _ \<Rightarrow> False" if f: "f \<in> set files" for f
  proof -
    have "sf_rel f \<in> set (map ae_name es)" using f names by simp
    then obtain e where e: "e \<in> set es" "sf_rel f = ae_name e" by auto
    then have "copied dir es w' e" using cp by (simp add: list_all_iff)
    then obtain g where g: "g \<in> set es" "copy_path dir (ae_name g) = copy_path dir (sf_rel f)"
      "read_file w' (copy_path dir (sf_rel f)) = Some (Raw (ae_data g))"
      unfolding copied_def list_ex_iff e(2) by blast
    obtain h where "h \<in> set files" "sf_rel h = ae_name g" "y_sha256 y (ae_data g) = sf_sha256 h"
      using entry_ok_file [OF ok [OF g(1)]] by blast
    then have "list_ex (\<lambda>k. copy_path dir (sf_rel k) = copy_path dir (sf_rel f)
        \<and> y_sha256 y (ae_data g) = sf_sha256 k) files"
      using g(2) unfolding list_ex_iff by metis
    then show ?thesis by (simp add: g(3))
  qed
  moreover have "\<not> below dir q \<or> q \<in> set (map (\<lambda>f. copy_path dir (sf_rel f)) files)"
    if "(q, n) \<in> set (d_files w')" for q n
  proof -
    have places: "copy_paths dir es = copy_path dir ` set (map ae_name es)" by auto
    have "q \<in> keys w'" using that by force
    then have "q \<in> keys (remove_all dir w) \<or> q \<in> copy_path dir ` set (map sf_rel files)"
      unfolding cp [THEN conjunct2, THEN conjunct2] places names by blast
    moreover have "\<not> below dir q" if "q \<in> keys (remove_all dir w)" using that by (auto simp: remove_all_def)
    ultimately show ?thesis by auto
  qed
  ultimately show ?thesis unfolding copies_verified_def list_all_iff by blast
qed

section \<open>Rewriting onto the copies\<close>

text \<open>A word is replaced when it names a sealed file, by the copy of that file.\<close>

definition names_sealed :: "seal_pin \<Rightarrow> path \<Rightarrow> string \<Rightarrow> bool" where
  "names_sealed pin cwd tok \<longleftrightarrow> trim_space tok \<noteq> [] \<and> token_path tok cwd \<in> set (map sf_abs (sp_files pin))"

definition copy_of :: "seal_pin \<Rightarrow> path \<Rightarrow> path \<Rightarrow> path \<Rightarrow> bool" where
  "copy_of pin dir p q \<longleftrightarrow> list_ex (\<lambda>f. sf_abs f = p \<and> q = filepath_join [dir, sf_rel f]) (sp_files pin)"

definition rewritten :: "seal_pin \<Rightarrow> path \<Rightarrow> path \<Rightarrow> string \<Rightarrow> string \<Rightarrow> bool" where
  "rewritten pin cwd dir tok tok' \<longleftrightarrow>
     (if names_sealed pin cwd tok then copy_of pin dir (token_path tok cwd) tok' else tok' = tok)"

lemma map_of_rev_map_Some:
  "map_of (rev (map (\<lambda>f. (g f, h f)) fs)) k = Some v \<Longrightarrow> \<exists>f \<in> set fs. g f = k \<and> h f = v"
  by (drule map_of_SomeD) auto

lemma sealed_word:
  assumes "trim_space cwd \<noteq> []" and "sp_files pin \<noteq> []"
  shows "\<exists>tok'. sealed_argv [tok] cwd (Some pin) dir = [tok'] \<and> rewritten pin cwd dir tok tok'"
proof -
  let ?m = "map_of (rev (map (\<lambda>f. (sf_abs f, filepath_join [dir, sf_rel f])) (sp_files pin)))"
  have e: "sealed_argv [tok] cwd (Some pin) dir =
      [if trim_space tok = [] then tok else some_or (?m (token_path tok cwd)) tok]"
    using assms by (simp add: sealed_argv_def token_path_def Let_def)
  have dom: "?m p = None \<longleftrightarrow> p \<notin> set (map sf_abs (sp_files pin))" for p
    by (simp add: map_of_eq_None_iff image_image)
  have "rewritten pin cwd dir tok (if trim_space tok = [] then tok else some_or (?m (token_path tok cwd)) tok)"
  proof (cases "?m (token_path tok cwd)")
    case None
    then have "\<not> names_sealed pin cwd tok" using dom [of "token_path tok cwd"] by (simp add: names_sealed_def)
    then show ?thesis by (simp add: rewritten_def None)
  next
    case (Some q)
    then have "copy_of pin dir (token_path tok cwd) q"
      using map_of_rev_map_Some by (fastforce simp: copy_of_def list_ex_iff)
    then show ?thesis
      using Some dom [of "token_path tok cwd"] by (simp add: rewritten_def names_sealed_def)
  qed
  then show ?thesis using e by blast
qed

lemma sealed_argv_Cons: "sealed_argv (tok # argv) cwd pin dir = sealed_argv [tok] cwd pin dir @ sealed_argv argv cwd pin dir"
  by (simp add: sealed_argv_def Let_def split: option.split)

section \<open>Signals\<close>

lemma stop_trace:
  "w_trace (snd (stop_pgid s g w)) =
    w_trace w @ (if g \<le> 1 \<or> g = y_pgrp (sv_sys s) then [] else [Signalled STOP g (fst (stop_pgid s g w) = None)])"
  by (simp add: stop_pgid_def send_signal_def Let_def)

lemma resume_trace:
  "w_trace (resume_suspend s rid pin w) =
    w_trace w @ (case pin of None \<Rightarrow> []
       | Some p \<Rightarrow> if su_suspended p \<and> 1 < su_pgid p
                 then [Signalled CONT (su_pgid p) (fst (cont_pgid s (su_pgid p) w) = None)] else [])"
  by (auto simp: resume_suspend_def cont_pgid_def send_signal_def Let_def split: option.split)

lemma resolve_suspend_Some:
  "resolve_suspend_pgid s peer uid = Some g \<Longrightarrow>
    1 < g \<and> g \<noteq> y_pgrp (sv_sys s) \<and> y_getpgid (sv_sys s) peer = Some g
    \<and> (y_euid (sv_sys s) = 0 \<or> uid = y_euid (sv_sys s)) \<and> suspend_enabled s"
  by (auto simp: resolve_suspend_pgid_def Let_def split: if_splits option.splits)

text \<open>The one signal a suspension sends, if any, and what it records of it.\<close>

lemma snapshot_suspend_cases:
  "snapshot_suspend s rid peer uid w = (pin, w') \<Longrightarrow>
    (pin = None \<and> w' = w \<and> resolve_suspend_pgid s peer uid = None)
    \<or> (\<exists>g ok. resolve_suspend_pgid s peer uid = Some g \<and> w_trace w' = w_trace w @ [Signalled STOP g ok]
         \<and> pin = Some \<lparr>su_pid = peer, su_pgid = g, su_suspended = ok\<rparr>)"
proof (cases "resolve_suspend_pgid s peer uid")
  case (Some g)
  assume run: "snapshot_suspend s rid peer uid w = (pin, w')"
  obtain err w1 where stop: "stop_pgid s g w = (err, w1)" by fastforce
  have tr: "w_trace w1 = w_trace w @ [Signalled STOP g (err = None)]"
    using stop_trace [of s g w] resolve_suspend_Some [OF Some] stop by simp
  show ?thesis
    using run Some stop tr by (cases err) (auto simp: snapshot_suspend_def Let_def)
qed (simp add: snapshot_suspend_def)

lemma trace_spawned: "w_trace w' = w_trace w @ [Signalled sig g ok] \<Longrightarrow> spawned w' = spawned w"
  by (simp add: spawned_def map_filter_append List.map_filter_simps)

lemma snapshot_suspend_quiet [simp]: "spawned (snd (snapshot_suspend s rid peer uid w)) = spawned w"
  using snapshot_suspend_cases [of s rid peer uid w "fst (snapshot_suspend s rid peer uid w)"
      "snd (snapshot_suspend s rid peer uid w)"] trace_spawned by auto

lemma resume_suspend_quiet [simp]: "spawned (resume_suspend s rid pin w) = spawned w"
  using resume_trace [of s rid pin w]
  by (auto simp: spawned_def map_filter_append List.map_filter_simps split: option.splits)

lemma resume_stored_quiet [simp]: "spawned (resume_stored s rid w) = spawned w"
  by (simp add: resume_stored_def split: option.split)

section \<open>Properties\<close>

text \<open>The paths a petition's pins name.\<close>

definition pinned_paths :: "pending_record \<Rightarrow> path list" where
  "pinned_paths rec =
     (case pr_fd rec of None \<Rightarrow> [] | Some p \<Rightarrow> [fp_path p])
     @ (case pr_seal rec of None \<Rightarrow> [] | Some p \<Rightarrow> map sf_abs (sp_files p))"


lemma sample_honest: "honest_sizes (sample_world [])"
  by (auto simp: honest_sizes_def sample_live_at sample_live_def plain_file_def sample_dir_def split: if_splits)


text \<open>
  C8. The checks are exact. At approval the entry point passes if and only if it is a readable
  file whose first 32 MiB have the pinned hash behind the pinned device and inode, and the
  sealed inputs pass if and only if each is still a regular file of the recorded size whose
  contents have the recorded hash.
\<close>

theorem pins_decide_exactly:
  assumes "store_load (sv_store s) rid w = Some rec"
  shows "(check_fd_drift s rid w = None
           \<longleftrightarrow> (case pr_fd rec of None \<Rightarrow> True | Some p \<Rightarrow> fd_agrees (sv_sys s) p w))
       \<and> (check_seal_drift s rid w = None
           \<longleftrightarrow> (case pr_seal rec of None \<Rightarrow> True | Some p \<Rightarrow> list_all (intact (sv_sys s) w) (sp_files p)))"
proof
  have "fd_check s p w = None" if agree: "fd_agrees (sv_sys s) p w" for p
  proof (cases "fp_path p = []")
    case False
    obtain f b where "live_at w (fp_path p) = Some f" "\<not> lf_dir f" "lf_bytes f = Some b"
      "y_sha256 (sv_sys s) (take max_pin_hash_bytes b) = fp_sha256 p"
      "fp_ino p = 0 \<or> lf_dev f = fp_dev p \<and> lf_ino f = fp_ino p"
      using agree False unfolding fd_agrees_def by (force split: option.splits)
    then have "open_verified s p w = Inr b" unfolding open_verified_Inr by blast
    then show ?thesis by (simp add: fd_check_def)
  qed (simp add: fd_check_def)
  then have "fd_check s p w = None \<longleftrightarrow> fd_agrees (sv_sys s) p w" for p
    using fd_gate.passed by blast
  then show "check_fd_drift s rid w = None
           \<longleftrightarrow> (case pr_fd rec of None \<Rightarrow> True | Some p \<Rightarrow> fd_agrees (sv_sys s) p w)"
    by (simp add: check_fd_drift_gate assms split: option.split)
  show "check_seal_drift s rid w = None
           \<longleftrightarrow> (case pr_seal rec of None \<Rightarrow> True | Some p \<Rightarrow> list_all (intact (sv_sys s) w) (sp_files p))"
    by (simp add: check_seal_drift_gate seal_check_def first_drift_None assms split: option.split)
qed

theorem pins_decide_exactly_witness:
  "check_fd_drift sample_service ''a'' sample_tampered = None
   \<and> check_seal_drift sample_service ''a'' sample_tampered \<noteq> None"
proof -
  have fd: "fd_agrees (sv_sys sample_service) sample_fd sample_tampered"
    by (simp add: fd_agrees_def sample_pending_live sample_fd_def sample_live_def plain_file_def
        sample_service_def sample_sys_def max_pin_hash_bytes_def)
  have "\<not> list_all (intact (sv_sys sample_service) sample_tampered) (sp_files sample_seal)"
    by (simp add: sample_seal_def intact_def sample_pending_live plain_file_def)
  then show ?thesis using pins_decide_exactly [OF sample_load(2)] fd by (simp add: sample_record)
qed

text \<open>
  An entry point is pinned by its first 32 MiB only: whatever follows them, the pin is the
  same, so a change there is not seen at approval.
\<close>

theorem pin_ignores_tail:
  assumes "max_pin_hash_bytes \<le> length b"
  shows "pin_from_file y p (f\<lparr>lf_bytes := Some (b @ tail)\<rparr>) = pin_from_file y p (f\<lparr>lf_bytes := Some (b @ tail')\<rparr>)"
  by (rule pin_from_file_head) (simp add: assms)

theorem pin_ignores_tail_witness:
  "pin_from_file sample_sys ''/b'' ((plain_file [])\<lparr>lf_bytes := Some (replicate max_pin_hash_bytes CHR 0x00 @ ''good'')\<rparr>)
   = pin_from_file sample_sys ''/b'' ((plain_file [])\<lparr>lf_bytes := Some (replicate max_pin_hash_bytes CHR 0x00 @ ''evil'')\<rparr>)"
  by (rule pin_ignores_tail) simp

text \<open>
  C13. What an approved command reads instead of its sealed inputs is what was sealed. When the
  archive is unpacked, every file of the manifest has a copy below the extraction directory
  whose contents have the recorded hash, there is nothing else below that directory, and the
  archive held every file of the manifest exactly once. When the archive is refused half way,
  nothing of it stays behind.
\<close>

theorem sealed_copies_verified:
  "case materialize_seal s rid w of
     (Some dir, w') \<Rightarrow>
       dir = seal_extract_dir (seal_state_dir s) rid
       \<and> (\<exists>rec pin p es. store_load (sv_store s) rid w = Some rec \<and> pr_seal rec = Some pin
            \<and> read_file w p = Some (Archive es) \<and> archive_matches (sv_sys s) (sp_files pin) es
            \<and> copies_verified (sv_sys s) (sp_files pin) dir w')
   | (None, w') \<Rightarrow> w' = w \<or> nothing_below (seal_extract_dir (seal_state_dir s) rid) w'"
proof -
  obtain res w' where run: "materialize_seal s rid w = (res, w')" by fastforce
  let ?dir = "seal_extract_dir (seal_state_dir s) rid"
  show ?thesis
  proof (cases res)
    case None
    then show ?thesis using run
      by (auto simp: materialize_seal_def Let_def dest: extract_entries_None
          split: option.splits if_splits content.splits prod.splits)
  next
    case (Some dir)
    obtain rec pin where rec: "store_load (sv_store s) rid w = Some rec" "pr_seal rec = Some pin"
      using run Some by (auto simp: materialize_seal_def split: option.splits)
    obtain p es out where c: "read_file w p = Some (Archive es)" "dir = ?dir"
      "extract_entries (sv_sys s) (sp_files pin) ?dir es [] (remove_all ?dir w) = (Some out, w')"
      "length out = length (remdups (map sf_rel (sp_files pin)))"
      using run Some rec
      by (auto simp: materialize_seal_def Let_def split: option.splits if_splits content.splits prod.splits)
    note m = extract_complete [OF c(3,4)]
    show ?thesis using run Some rec c(1,2) m extract_verified [OF c(3) m] by auto
  qed
qed

text \<open>
  Rewriting a command onto the copies replaces exactly the words that name a sealed file,
  each by the copy of the file it names, and leaves every other word alone.
\<close>

theorem sealed_words_replaced:
  assumes "trim_space cwd \<noteq> []" and "sp_files pin \<noteq> []"
  shows "list_all2 (rewritten pin cwd dir) argv (sealed_argv argv cwd (Some pin) dir)"
proof (induction argv)
  case (Cons tok argv)
  obtain tok' where "sealed_argv [tok] cwd (Some pin) dir = [tok']" "rewritten pin cwd dir tok tok'"
    using sealed_word [OF assms] by blast
  then show ?case using Cons sealed_argv_Cons [of tok argv] by simp
qed (simp add: sealed_argv_def assms(2) Let_def)

theorem sealed_words_replaced_witness:
  "list_all2 (rewritten sample_seal ''/w'' ''/d'') sample_argv (sealed_argv sample_argv ''/w'' (Some sample_seal) ''/d'')
   \<and> sealed_argv sample_argv ''/w'' (Some sample_seal) ''/d'' = [''/bin/sh'', ''/d/run.sh'']"
proof
  have "trim_space ''/w'' \<noteq> [] \<and> sp_files sample_seal \<noteq> []" by code_simp
  then show "list_all2 (rewritten sample_seal ''/w'' ''/d'') sample_argv
      (sealed_argv sample_argv ''/w'' (Some sample_seal) ''/d'')"
    using sealed_words_replaced [of "''/w''" sample_seal] by blast
  show "sealed_argv sample_argv ''/w'' (Some sample_seal) ''/d'' = [''/bin/sh'', ''/d/run.sh'']" by code_simp
qed

text \<open>
  Suspending a caller sends at most one signal, to the caller's own process group: never to
  the daemon's group, to init or to a broadcast, and for an unprivileged daemon never on behalf
  of another user. The pin says whether it was stopped, and resuming it continues just that group.
\<close>

theorem suspension_is_confined:
  "case snapshot_suspend s rid peer uid w of
     (None, w') \<Rightarrow> w_trace w' = w_trace w
   | (Some p, w') \<Rightarrow>
       w_trace w' = w_trace w @ [Signalled STOP (su_pgid p) (su_suspended p)]
       \<and> 1 < su_pgid p \<and> su_pgid p \<noteq> y_pgrp (sv_sys s) \<and> y_getpgid (sv_sys s) peer = Some (su_pgid p)
       \<and> (y_euid (sv_sys s) = 0 \<or> uid = y_euid (sv_sys s))
       \<and> (\<exists>ok. w_trace (resume_suspend s rid (Some p) w')
             = w_trace w' @ (if su_suspended p then [Signalled CONT (su_pgid p) ok] else []))"
proof -
  obtain pin w' where run: "snapshot_suspend s rid peer uid w = (pin, w')" by fastforce
  then show ?thesis
    using snapshot_suspend_cases [OF run] resolve_suspend_Some [of s peer uid] resume_trace [of s rid pin w']
    by (auto split: if_splits)
qed

end
