(* ===== verification/RunFacts.thy ===== *)
theory RunFacts imports Waiting PinFacts begin

text \<open>
  What the life of a run request guarantees. \<open>calm\<close> relates two states between which no
  command was started and no approval came into being; it is kept by everything the service
  does on a request's behalf except running it, and it is what is asked of everybody else.
\<close>

section \<open>Calm stretches\<close>

text \<open>No file holds an approving verdict.\<close>

definition no_approval :: "'a disk_scheme \<Rightarrow> bool" where
  "no_approval d \<longleftrightarrow> (\<forall>p v. read_file d p = Some (JVerdict v) \<longrightarrow> vd_decision v \<noteq> ''approve'')"

definition calm :: "world \<Rightarrow> world \<Rightarrow> bool" where
  "calm w w' \<longleftrightarrow> spawned w' = spawned w \<and> (no_approval w \<longrightarrow> no_approval w')"

lemma calm_refl [simp]: "calm w w"
  by (simp add: calm_def)

lemma calm_trans [trans]: "calm w w1 \<Longrightarrow> calm w1 w2 \<Longrightarrow> calm w w2"
  by (simp add: calm_def)

text \<open>
  A finer relation: no command was started and no approval was added to those there are.
  Every operation but an approval keeps it, and it implies \<open>calm\<close>.
\<close>

definition approvals :: "'a disk_scheme \<Rightarrow> (path \<times> verdict_record) set" where
  "approvals d = {(p, v). read_file d p = Some (JVerdict v) \<and> vd_decision v = ''approve''}"

definition approvals_in :: "(path \<times> verdict_record) set \<Rightarrow> 'a disk_scheme \<Rightarrow> bool" where
  "approvals_in A d \<longleftrightarrow> (\<forall>p v. read_file d p = Some (JVerdict v) \<longrightarrow> vd_decision v = ''approve'' \<longrightarrow> (p, v) \<in> A)"

definition tame :: "world \<Rightarrow> world \<Rightarrow> bool" where
  "tame w w' \<longleftrightarrow> spawned w' = spawned w \<and> (\<forall>A. approvals_in A w \<longrightarrow> approvals_in A w')"

lemma approvals_in_iff: "approvals_in A d \<longleftrightarrow> approvals d \<subseteq> A"
  by (auto simp: approvals_in_def approvals_def)

lemma no_approval_iff: "no_approval d \<longleftrightarrow> approvals_in {} d"
  by (auto simp: approvals_in_def no_approval_def)

lemma tame_calm: "tame w w' \<Longrightarrow> calm w w'"
  by (simp add: tame_def calm_def no_approval_iff)

lemma tame_refl [simp]: "tame w w"
  by (simp add: tame_def)

lemma tame_trans [trans]: "tame w w1 \<Longrightarrow> tame w1 w2 \<Longrightarrow> tame w w2"
  by (simp add: tame_def)

text \<open>Contents that approve nothing can be written anywhere.\<close>

definition innocuous :: "content \<Rightarrow> bool" where
  "innocuous c \<longleftrightarrow> (case c of JVerdict v \<Rightarrow> vd_decision v \<noteq> ''approve'' | _ \<Rightarrow> True)"

lemma innocuous_simps [simp]:
  "innocuous (JRecord r)" "innocuous (JResult i e out)" "innocuous (JAck a)" "innocuous (JSelection x)"
  "innocuous (JCancel c)" "innocuous (Archive es)" "innocuous (Raw b)" "innocuous Junk"
  "innocuous (JVerdict v) \<longleftrightarrow> vd_decision v \<noteq> ''approve''"
  by (simp_all add: innocuous_def)

lemma approvals_put: "innocuous c \<Longrightarrow> approvals_in A d \<Longrightarrow> approvals_in A (put_file p c d)"
  by (auto simp: approvals_in_def read_file_put)

lemma approvals_remove_all: "approvals_in A d \<Longrightarrow> approvals_in A (remove_all p d)"
  by (auto simp: approvals_in_def read_file_def node_at_remove_all split: if_splits)

lemma approvals_files: "d_files d' = d_files d \<Longrightarrow> approvals_in A d' = approvals_in A d"
  by (simp add: approvals_in_def read_file_def node_at_def)

lemma approvals_write:
  "innocuous c \<Longrightarrow> approvals_in A d \<Longrightarrow> approvals_in A (snd (write_no_follow p c fsync d))"
  "innocuous c \<Longrightarrow> approvals_in A d \<Longrightarrow> approvals_in A (snd (write_excl p c d))"
  by (simp_all add: write_no_follow_def write_excl_def approvals_put split: io.splits)

lemma approvals_save: "approvals_in A d \<Longrightarrow> approvals_in A (snd (store_save st rec rid d))"
  by (simp add: store_save_def approvals_write)

lemma approvals_modify: "approvals_in A d \<Longrightarrow> approvals_in A (store_modify st rid f d)"
  by (simp add: store_modify_def approvals_save split: option.split)

lemma approvals_auth: "approvals_in A d \<Longrightarrow> approvals_in A (set_auth_url st rid url d)"
  by (simp add: set_auth_url_def approvals_save split: option.split)

lemma approvals_result: "approvals_in A d \<Longrightarrow> approvals_in A (save_result st rid ex out d)"
  by (simp add: save_result_def approvals_write)

lemma approvals_consume:
  "approvals_in A d \<Longrightarrow> dc \<noteq> ''approve'' \<Longrightarrow> approvals_in A (snd (store_consume st rid dc by d))"
  by (simp add: store_consume_def approvals_write)

lemmas approvals_store =
  approvals_save approvals_modify approvals_auth approvals_result approvals_consume

lemma tame_intro: "spawned w' = spawned w \<Longrightarrow> (\<And>A. approvals_in A w \<Longrightarrow> approvals_in A w') \<Longrightarrow> tame w w'"
  by (simp add: tame_def)

lemma tame_store [world_frame, simp]:
  "tame w (snd (store_save st rec rid w))" "tame w (store_modify st rid f w)"
  "tame w (attach_pager st rid chat msg w)" "tame w (set_auth_url st rid url w)"
  "tame w (save_result st rid ex out w)" "dc \<noteq> ''approve'' \<Longrightarrow> tame w (snd (store_consume st rid dc by w))"
  by (simp_all add: tame_def attach_pager_def approvals_store)

lemma tame_files: "d_files w' = d_files w \<Longrightarrow> spawned w' = spawned w \<Longrightarrow> tame w w'"
  using approvals_files [of w' w] by (simp add: tame_def)

lemma tame_world [world_frame, simp]:
  "tame w (audit s ev w)" "tame w (bump w)" "tame w (snd (new_rid s w))"
  "(case e of Spawned sp \<Rightarrow> False | _ \<Rightarrow> True) \<Longrightarrow> tame w (emit e w)"
  by (rule tame_files; simp split: effect.splits)+

lemma tame_tg_send: "tg_send s chat msg reply kb w = (m, w') \<Longrightarrow> tame w w'"
  by (rule tame_files) (auto simp: tg_send_def Let_def)

lemma tame_close_card [world_frame, simp]: "tame w (close_card s rid argv dc by w)"
  by (rule tame_files) (simp_all add: close_card_def split: option.splits)

text \<open>The same facts as rules for a step at the end of a tame stretch.\<close>

lemmas tame_then =
  tame_store [THEN [2] tame_trans] tame_world [THEN [2] tame_trans] tame_close_card [THEN [2] tame_trans]

lemma tame_page_request [world_frame, simp]: "tame w (page_request s rid req uid w)"
  unfolding page_request_def Let_def
  by (auto dest!: tame_tg_send intro!: tame_then split: prod.splits option.splits)

lemma tame_write_file: "write_file p c w = (ok, w') \<Longrightarrow> innocuous c \<Longrightarrow> tame w w'"
proof -
  assume run: "write_file p c w = (ok, w')" and c: "innocuous c"
  have put: "tame w (put_file p k w)" if "innocuous k" for k
    using that more_views(1) [of "put_file p k w" w] by (auto intro!: tame_intro approvals_put spawned_cong)
  have link: "tame w (w\<lparr>d_files := AList.update p (Link (Some k) m) (d_files w)\<rparr>)" if "innocuous k" for k m
    using that by (auto simp: tame_def approvals_in_def read_file_def node_at_def spawned_def update_conv
        innocuous_def split: if_splits)
  show ?thesis
    using run c by (auto simp: write_file_def Let_def intro!: put link split: io.splits option.splits node.splits)
qed

lemma tame_remove_all [world_frame, simp]: "tame w (remove_all p w)"
  using more_views(1) [of "remove_all p w" w] by (auto intro!: tame_intro approvals_remove_all spawned_cong)

lemma tame_snapshot_seal: "snapshot_seal s rid argv cwd w = (pin, w') \<Longrightarrow> tame w w'"
  by (auto simp: snapshot_seal_def Let_def dest!: tame_write_file split: if_splits prod.splits bool.splits)

lemma tame_extract: "extract_entries y files dir es seen w = (res, w') \<Longrightarrow> tame w w'"
proof (induction es arbitrary: seen w)
  case (Cons e es)
  then show ?case
    by (auto simp: extract_entries_step intro: tame_trans dest!: tame_write_file
        split: if_splits prod.splits bool.splits)
qed simp

lemmas tame_removed = tame_remove_all [THEN [2] tame_trans]

lemma tame_materialize: "materialize_seal s rid w = (res, w') \<Longrightarrow> tame w w'"
  by (auto simp: materialize_seal_def Let_def intro!: tame_removed intro: tame_trans [OF tame_remove_all]
      dest!: tame_extract split: option.splits if_splits content.splits prod.splits)

lemma tame_suspend: "snapshot_suspend s rid peer uid w = (pin, w') \<Longrightarrow> tame w w'"
proof -
  assume run: "snapshot_suspend s rid peer uid w = (pin, w')"
  have "tame w w1" if "stop_pgid s g w = (err, w1)" for g err w1
    using that by (auto simp: stop_pgid_def send_signal_def Let_def intro!: tame_then split: if_splits)
  then show ?thesis
    using run by (auto simp: snapshot_suspend_def Let_def intro!: tame_then split: option.splits prod.splits)
qed

lemma tame_resume [world_frame, simp]: "tame w (resume_suspend s rid pin w)"
proof -
  have "tame w w1" if "cont_pgid s g w = (err, w1)" for g err w1
    using that by (auto simp: cont_pgid_def send_signal_def Let_def intro!: tame_then split: if_splits)
  then show ?thesis
    by (auto simp: resume_suspend_def Let_def intro!: tame_then split: option.splits prod.splits)
qed

lemma tame_file_petition: "file_petition s req uid clean w = (rid, exp, w') \<Longrightarrow> tame w w'"
proof -
  assume run: "file_petition s req uid clean w = (rid, exp, w')"
  obtain r w1 where r: "new_rid s w = (r, w1)" by fastforce
  obtain seal w2 where seal: "snapshot_seal s r (rr_argv req) (rr_cwd req) w1 = (seal, w2)" by fastforce
  have "tame w w1" using tame_world(3) [of w s] r by simp
  also have "tame w1 w2" using tame_snapshot_seal [OF seal] .
  finally show ?thesis
    using run unfolding file_petition_def r Let_def prod.case seal
    by (auto intro!: tame_then tame_page_request [THEN [2] tame_trans])
qed

lemmas calm_files = tame_files [THEN tame_calm]
lemmas calm_file_petition = tame_file_petition [THEN tame_calm]
lemmas calm_suspend = tame_suspend [THEN tame_calm]
lemmas calm_world = tame_world [THEN tame_calm]

section \<open>Waiting\<close>

lemma store_verdict_read:
  "store_verdict st rid d = Some v \<Longrightarrow> \<exists>p. read_file d p = Some (JVerdict v)"
  by (auto simp: store_verdict_def split: option.splits content.splits)

lemma no_approval_verdict: "no_approval d \<Longrightarrow> store_verdict st rid d = Some v \<Longrightarrow> vd_decision v \<noteq> ''approve''"
  using store_verdict_read by (fastforce simp: no_approval_def)

lemmas await_Nil = await.simps [of _ _ _ _ "[]", unfolded list.case]
lemmas await_Cons = await.simps [of _ _ _ _ "(act, gone) # ticks" for act gone ticks, unfolded list.case prod.case]

text \<open>What the loop answers is what the store held when it answered.\<close>

definition outcome_now :: "service \<Rightarrow> string \<Rightarrow> int \<Rightarrow> bool \<Rightarrow> outcome \<Rightarrow> world \<Rightarrow> bool" where
  "outcome_now s rid expires cancellable v w \<longleftrightarrow>
     (case v of
        None \<Rightarrow> store_verdict (sv_store s) rid w = None \<and> store_cancel_info (sv_store s) rid w = None
                  \<and> expires < d_now w
      | Some (d, by) \<Rightarrow>
          (\<exists>r. store_verdict (sv_store s) rid w = Some r \<and> vd_decision r = d \<and> vd_by r = by)
          \<or> (store_verdict (sv_store s) rid w = None \<and> d = ''cancelled''
             \<and> (\<exists>c. store_cancel_info (sv_store s) rid w = Some c \<and> cn_by c = by))
          \<or> (cancellable \<and> d = ''client_aborted'' \<and> by = ''client''))"

lemma outcome_look: "verdict_look s rid expires w = Some v \<Longrightarrow> outcome_now s rid expires c v w"
  by (auto simp: verdict_look_def outcome_now_def split: option.splits if_splits)

lemma await_outcome:
  "await s rid expires c ticks w = Some (v, ts, w') \<Longrightarrow> outcome_now s rid expires c v w' \<and> suffix ts ticks"
  using verdict_wait.answer [of s rid expires c ticks w v ts w'] outcome_look [of s rid expires w' v c]
  by (auto simp: outcome_now_def split: if_splits)

text \<open>Everybody else: no command started for this request, no approval given.\<close>

definition bystander :: "tick \<Rightarrow> bool" where
  "bystander t \<longleftrightarrow> (\<forall>w. calm w (fst t w))"

definition quiet :: "tick \<Rightarrow> bool" where
  "quiet t \<longleftrightarrow> (\<forall>w. spawned (fst t w) = spawned w)"

lemma bystander_quiet: "list_all bystander ticks \<Longrightarrow> list_all quiet ticks"
  by (auto simp: list_all_iff bystander_def quiet_def calm_def)

lemma await_calm:
  "await s rid expires c ticks w = Some (v, ts, w') \<Longrightarrow> list_all bystander ticks \<Longrightarrow> calm w w'"
  by (erule verdict_wait.keeps) (auto simp: bystander_def [abs_def] intro: calm_trans)

lemma await_quiet:
  "await s rid expires c ticks w = Some (v, ts, w') \<Longrightarrow> list_all quiet ticks \<Longrightarrow> spawned w' = spawned w"
  by (erule verdict_wait.keeps [where R = "\<lambda>a b. spawned b = spawned a"]) (auto simp: quiet_def [abs_def])

lemma await_no_approval:
  assumes "await s rid expires c ticks w = Some (v, ts, w')" and "list_all bystander ticks" and "no_approval w"
  shows "fst (decide t b v) \<noteq> ''approve'' \<or> t = ''approve''"
proof -
  have "no_approval w'" using await_calm [OF assms(1,2)] assms(3) by (simp add: calm_def)
  then show ?thesis
    using await_outcome [OF assms(1)] no_approval_verdict [of w' "sv_store s" rid]
    by (auto simp: outcome_now_def decide_def split: option.splits)
qed

text \<open>The clock goes on by \<open>\<delta>\<close> at least between two looks.\<close>

definition advancing :: "int \<Rightarrow> tick \<Rightarrow> bool" where
  "advancing \<delta> t \<longleftrightarrow> (\<forall>w. d_now w + \<delta> \<le> d_now (fst t w))"

lemma await_returns:
  "list_all (advancing \<delta>) ticks \<Longrightarrow> expires < d_now w + \<delta> * int (length ticks)
    \<Longrightarrow> await s rid expires c ticks w \<noteq> None"
  by (rule verdict_wait.returns [OF verdict_look_late]) (simp_all add: advancing_def [abs_def])

section \<open>Nothing runs without an approval\<close>

lemma first_decided_tame:
  assumes "first_decided s rid req uid clean det c v ts w = Some (res, ts', w')"
    and "fst (decide ''timeout'' [] v) \<noteq> ''approve''"
  shows "tame w w' \<and> rs_status res = ''denied''"
proof -
  obtain d b where d: "decide ''timeout'' [] v = (d, b)" by fastforce
  then have "d \<noteq> ''approve''" using assms(2) by simp
  then show ?thesis
    using assms(1) unfolding first_decided_def d Let_def prod.case
    by (auto simp: denied_def intro!: tame_then split: if_splits)
qed

lemma first_decided_calm:
  assumes "first_decided s rid req uid clean det c v ts w = Some (res, ts', w')"
    and "fst (decide ''timeout'' [] v) \<noteq> ''approve''"
  shows "calm w w' \<and> rs_status res = ''denied''"
  using first_decided_tame [OF assms] tame_calm by blast

lemma hold_and_wait_calm:
  assumes run: "hold_and_wait s rid req uid clean expires peer det c ticks w = Some (res, ts, w')"
    and others: "list_all bystander ticks" and "no_approval w"
  shows "calm w w' \<and> rs_status res = ''denied''"
proof -
  obtain pin w1 where stop: "snapshot_suspend s rid peer uid w = (pin, w1)" by fastforce
  obtain v ts1 w2 where wait: "await s rid expires (c \<and> \<not> det) ticks w1 = Some (v, ts1, w2)"
    using run stop by (auto simp: hold_and_wait_def split: option.splits)
  obtain w3 where first: "first_decided s rid req uid clean det c v ts1 w2 = Some (res, ts, w3)"
    and w': "w' = resume_suspend s rid pin w3"
    using run stop wait by (auto simp: hold_and_wait_def split: option.splits)
  have 1: "calm w w1" using calm_suspend [OF stop] .
  then have "no_approval w1" using assms(3) by (simp add: calm_def)
  then have "fst (decide ''timeout'' [] v) \<noteq> ''approve''" using await_no_approval [OF wait others] by force
  from first_decided_calm [OF first this] have 3: "calm w2 w3" "rs_status res = ''denied''" by simp_all
  note 1
  also note await_calm [OF wait others]
  also note 3(1)
  also have "calm w3 w'" by (simp add: w' tame_calm)
  finally show ?thesis using 3(2) by simp
qed

lemma run_calm:
  assumes run: "run_with_peer_cancel s req uid peer c ticks w = Some (res, ts, w')"
    and others: "list_all bystander ticks" and none: "no_approval w"
    and tier: "tier (y_look_path (sv_sys s)) (sv_policy s) (rr_argv req) \<noteq> ''allow''"
  shows "calm w w' \<and> rs_status res \<noteq> ''allowed''"
proof -
  obtain clean dropped where env: "scrub_env s (rr_env req) = (clean, dropped)" by fastforce
  define w1 where "w1 = audit s (audit_event_zero\<lparr>ev_ev := ''request'', ev_uid := uid, ev_argv := rr_argv req,
    ev_cwd := rr_cwd req, ev_tier := tier (y_look_path (sv_sys s)) (sv_policy s) (rr_argv req),
    ev_env_dropped := dropped, ev_step := ''initial''\<rparr>) w"
  have 1: "calm w w1" by (simp add: w1_def tame_calm)
  obtain rid expires w2 where filed: "file_petition s req uid clean w1 = (rid, expires, w2)"
    using prod_cases3 by blast
  have 2: "calm w w2" using 1 calm_file_petition [OF filed] by (rule calm_trans)
  consider "w' = w1" "rs_status res = ''denied''" | "w' = w2" "rs_status res = ''pending''"
    | "hold_and_wait s rid req uid clean expires peer False c ticks w2 = Some (res, ts, w')"
    using run tier filed unfolding run_with_peer_cancel_def env Let_def prod.case w1_def [symmetric]
    by (auto simp: denied_def split: if_splits)
  then show ?thesis
  proof cases
    case 3
    have "no_approval w2" using 2 none by (simp add: calm_def)
    from hold_and_wait_calm [OF 3 others this] show ?thesis using 2 by (auto intro: calm_trans)
  qed (use 1 2 in simp_all)
qed

section \<open>Unanswered requests end\<close>

lemma now_world [simp]: "d_now (bump w) = d_now w" "d_now (emit e w) = d_now w" "d_now (audit s ev w) = d_now w"
  "d_now (snd (new_rid s w)) = d_now w"
  by simp_all

lemma now_tg_send: "tg_send s chat msg reply kb w = (m, w') \<Longrightarrow> d_now w' = d_now w"
  by (auto simp: tg_send_def Let_def)

lemma now_page_request [simp]: "d_now (page_request s rid req uid w) = d_now w"
  unfolding page_request_def Let_def by (auto dest!: now_tg_send split: prod.splits option.splits)

lemma now_snapshot_seal: "snapshot_seal s rid argv cwd w = (pin, w') \<Longrightarrow> d_now w' = d_now w"
  by (auto simp: snapshot_seal_def write_file_def Let_def
      split: if_splits prod.splits bool.splits io.splits option.splits node.splits)

lemma now_suspend: "snapshot_suspend s rid peer uid w = (pin, w') \<Longrightarrow> d_now w' = d_now w"
  by (auto simp: snapshot_suspend_def stop_pgid_def send_signal_def Let_def split: option.splits prod.splits if_splits)

lemma file_petition_clock:
  assumes "file_petition s req uid clean w = (rid, expires, w')"
  shows "d_now w' = d_now w \<and> expires = expiry s w"
proof -
  obtain r w1 where r: "new_rid s w = (r, w1)" by fastforce
  obtain seal w2 where seal: "snapshot_seal s r (rr_argv req) (rr_cwd req) w1 = (seal, w2)" by fastforce
  have "d_now w1 = d_now w" using now_world(4) [of s w] r by simp
  then show ?thesis
    using assms now_snapshot_seal [OF seal] unfolding file_petition_def r Let_def prod.case seal
    by (auto simp: expiry_def)
qed

lemma first_decided_refused_returns:
  "fst (decide ''timeout'' [] v) \<noteq> ''approve'' \<Longrightarrow> first_decided s rid req uid clean det c v ts w \<noteq> None"
proof -
  assume "fst (decide ''timeout'' [] v) \<noteq> ''approve''"
  moreover obtain d b where d: "decide ''timeout'' [] v = (d, b)" by fastforce
  ultimately show ?thesis unfolding first_decided_def d Let_def prod.case by simp
qed

lemma hold_and_wait_returns:
  assumes "list_all bystander ticks" and "list_all (advancing \<delta>) ticks"
    and "expires < d_now w + \<delta> * int (length ticks)" and "no_approval w"
  shows "hold_and_wait s rid req uid clean expires peer det c ticks w \<noteq> None"
proof -
  obtain pin w1 where stop: "snapshot_suspend s rid peer uid w = (pin, w1)" by fastforce
  have "await s rid expires (c \<and> \<not> det) ticks w1 \<noteq> None"
    using assms(2,3) now_suspend [OF stop] await_returns [of \<delta> ticks expires w1] by simp
  then obtain v ts w2 where wait: "await s rid expires (c \<and> \<not> det) ticks w1 = Some (v, ts, w2)" by auto
  have "no_approval w1" using assms(4) calm_suspend [OF stop] by (simp add: calm_def)
  from await_no_approval [OF wait assms(1) this, of "''timeout''" "[]"]
  have "fst (decide ''timeout'' [] v) \<noteq> ''approve''" by simp
  from first_decided_refused_returns [OF this, of s rid req uid clean det c ts w2] show ?thesis
    using stop wait by (auto simp: hold_and_wait_def)
qed

lemma run_returns:
  assumes others: "list_all bystander ticks" and "list_all (advancing \<delta>) ticks"
    and "i64 (cf_timeout (sv_conf s) * second_ns) < \<delta> * int (length ticks)" and none: "no_approval w"
    and "tier (y_look_path (sv_sys s)) (sv_policy s) (rr_argv req) \<noteq> ''allow''"
  shows "run_with_peer_cancel s req uid peer c ticks w \<noteq> None"
proof -
  obtain clean dropped where env: "scrub_env s (rr_env req) = (clean, dropped)" by fastforce
  define w1 where "w1 = audit s (audit_event_zero\<lparr>ev_ev := ''request'', ev_uid := uid, ev_argv := rr_argv req,
    ev_cwd := rr_cwd req, ev_tier := tier (y_look_path (sv_sys s)) (sv_policy s) (rr_argv req),
    ev_env_dropped := dropped, ev_step := ''initial''\<rparr>) w"
  obtain rid expires w2 where filed: "file_petition s req uid clean w1 = (rid, expires, w2)"
    using prod_cases3 by blast
  have "calm w w2" using calm_file_petition [OF filed] by (simp add: w1_def calm_trans [OF calm_world(1)])
  then have "no_approval w2" using none by (simp add: calm_def)
  moreover have "expires < d_now w2 + \<delta> * int (length ticks)"
    using file_petition_clock [OF filed] assms(3) by (simp add: expiry_def w1_def)
  ultimately have "hold_and_wait s rid req uid clean expires peer False c ticks w2 \<noteq> None"
    using hold_and_wait_returns [OF others assms(2)] by blast
  then show ?thesis
    using assms(5) filed unfolding run_with_peer_cancel_def env Let_def prod.case w1_def [symmetric] by simp
qed

section \<open>The second approval\<close>

lemma tame_confirm_close [world_frame, simp]:
  "dc \<noteq> ''approve'' \<Longrightarrow> tame w (confirm_close s rid rid1 req dc by out w)"
  unfolding confirm_close_def Let_def by (intro tame_then) auto

lemma confirm_decided_refused:
  assumes "fst (decide ''confirmation_timeout'' [] v) \<noteq> ''approve''"
  shows "tame w (snd (confirm_decided s rid rid1 req clean v w))
    \<and> rs_status (fst (confirm_decided s rid rid1 req clean v w)) = ''denied''"
proof -
  obtain d b where d: "decide ''confirmation_timeout'' [] v = (d, b)" by fastforce
  then have "d \<noteq> ''approve''" using assms by simp
  then show ?thesis
    unfolding confirm_decided_def d Let_def prod.case denied_def
    by (simp add: tame_then tame_confirm_close [THEN [2] tame_trans])
qed

lemma tame_confirm_file: "confirm_file s rid1 rec1 req uid clean by w = (rid, exp, w') \<Longrightarrow> tame w w'"
proof -
  assume run: "confirm_file s rid1 rec1 req uid clean by w = (rid, exp, w')"
  obtain r w1 where r: "new_rid s w = (r, w1)" by fastforce
  obtain seal w2 where seal: "snapshot_seal s r (rr_argv req) (rr_cwd req) w1 = (seal, w2)" by fastforce
  have "tame w w1" using tame_world(3) [of w s] r by simp
  also have "tame w1 w2" using tame_snapshot_seal [OF seal] .
  finally show ?thesis
    using run unfolding confirm_file_def r Let_def prod.case seal
    by (auto intro!: tame_then)
qed

text \<open>Only a run starts commands, and at most one.\<close>

lemma run_cmd_spawned: "run_cmd s on_auth sp w = ((code, out), w') \<Longrightarrow>
  (\<And>f u w. on_auth = Some f \<Longrightarrow> spawned (f u w) = spawned w) \<Longrightarrow> spawned w' = spawned w @ [sp]"
proof -
  assume run: "run_cmd s on_auth sp w = ((code, out), w')"
    and quiet: "\<And>f u w. on_auth = Some f \<Longrightarrow> spawned (f u w) = spawned w"
  have fold: "spawned (foldl (\<lambda>w u. case on_auth of Some f \<Rightarrow> f u w | None \<Rightarrow> w) w urls) = spawned w" for urls w
    by (induction urls arbitrary: w) (simp_all add: quiet split: option.split)
  have now: "spawned (w\<lparr>d_now := t\<rparr>) = spawned w" for w :: world and t by (simp add: spawned_def)
  show ?thesis
    using run by (auto simp: run_cmd_def Let_def fold now split: prod.splits)
qed

lemma on_auth_url_quiet [simp]: "spawned (on_auth_url s rid url w) = spawned w"
  by (simp add: on_auth_url_def)

text \<open>What a pinned run spawns, as a function of the files it finds.\<close>

definition runs_as_self :: "service \<Rightarrow> bool" where
  "runs_as_self s \<longleftrightarrow> target_uid s = Inr (y_euid (sv_sys s)) \<and> y_euid (sv_sys s) \<noteq> 0"

definition spawn_of :: "service \<Rightarrow> string list \<Rightarrow> path \<Rightarrow> (string \<times> string) list \<Rightarrow> fd_pin option \<Rightarrow> world \<Rightarrow> spawn option" where
  "spawn_of s argv cwd env pin w =
     (if cf_dry_run (sv_conf s) \<or> \<not> runs_as_self s then None
      else case pin of
             None \<Rightarrow> Some (plain_cmd argv cwd (flatten_env env))
           | Some p \<Rightarrow>
               if fp_path p = [] then Some (pinned_cmd s argv cwd (flatten_env env) p [])
               else case open_verified s p w of
                      Inl d \<Rightarrow> None
                    | Inr bytes \<Rightarrow> Some (pinned_cmd s argv cwd (flatten_env env) p bytes))"

lemma exec_identity_self: "snd (fst (exec_identity s argv cwd w)) = None \<longleftrightarrow> runs_as_self s"
  by (auto simp: exec_identity_def runs_as_self_def Let_def split: sum.splits)

lemma live_at_audit [simp]: "live_at (audit s ev w) p = live_at w p"
  unfolding live_at_def node_at_def audit_fields ..

lemma open_verified_audit [simp]: "open_verified s pin (audit s' ev w) = open_verified s pin w"
  by (simp add: open_verified_def)

lemma open_verified_identity [simp]: "open_verified s pin (snd (exec_identity s argv cwd w)) = open_verified s pin w"
  by (simp add: exec_identity_def Let_def split: sum.splits)

lemma spawn_of_audit [simp]: "spawn_of s argv cwd env pin (audit s' ev w) = spawn_of s argv cwd env pin w"
  unfolding spawn_of_def open_verified_audit ..

lemma run_pinned_spawned:
  assumes "run_pinned s argv cwd env pin (Some (on_auth_url s rid)) w = (r, w')"
  shows "spawned w' = spawned w @ (case spawn_of s argv cwd env pin w of None \<Rightarrow> [] | Some sp \<Rightarrow> [sp])"
proof (cases "cf_dry_run (sv_conf s)")
  case True
  then show ?thesis using assms by (auto simp: run_pinned_def spawn_of_def)
next
  case False
  obtain uid refusal w1 where id: "exec_identity s argv cwd w = ((uid, refusal), w1)" by (metis surj_pair)
  then have w1: "spawned w1 = spawned w" and self: "refusal = None \<longleftrightarrow> runs_as_self s"
    and ov: "open_verified s p w1 = open_verified s p w" for p
    using exec_identity_quiet [of s argv cwd w] exec_identity_self [of s argv cwd w]
      open_verified_identity [of s p argv cwd w] by simp_all
  show ?thesis
  proof (cases "spawn_of s argv cwd env pin w")
    case None
    then show ?thesis
      using assms id False w1 self
      by (auto simp: run_pinned_def spawn_of_def ov split: option.splits if_splits sum.splits)
  next
    case (Some sp)
    then obtain code out where "run_cmd s (Some (on_auth_url s rid)) sp w1 = ((code, out), w')"
      using assms id False self
      by (auto simp: run_pinned_def spawn_of_def ov split: option.splits if_splits sum.splits prod.splits)
    then have "spawned w' = spawned w1 @ [sp]" by (rule run_cmd_spawned) auto
    then show ?thesis using Some w1 by simp
  qed
qed

lemma run_and_record_spawned:
  assumes "run_and_record s rid stored argv cwd env pin warning w = (res, w')"
  shows "spawned w' = spawned w @ (case spawn_of s argv cwd env pin w of None \<Rightarrow> [] | Some sp \<Rightarrow> [sp])"
proof -
  obtain code out uid w1 where run: "run_pinned s argv cwd env pin (Some (on_auth_url s rid)) w = ((code, out, uid), w1)"
    by (metis surj_pair)
  then show ?thesis
    using assms run_pinned_spawned [OF run] by (auto simp: run_and_record_def Let_def)
qed

lemma block_run_quiet [simp]: "spawned (snd (block_run s rid argv ev tag reason w)) = spawned w"
  by (simp add: block_run_def)

lemma sealed_plan_quiet: "sealed_plan s rid rec w = (plan, w') \<Longrightarrow> spawned w' = spawned w"
  by (auto simp: sealed_plan_def Let_def tame_def dest!: tame_materialize split: option.splits if_splits prod.splits)

text \<open>The conditions under which an approved petition is executed.\<close>

definition may_run :: "service \<Rightarrow> string \<Rightarrow> (string \<times> string) list \<Rightarrow> world \<Rightarrow> spawn option" where
  "may_run s rid clean w =
     (case store_load (sv_store s) rid w of
        None \<Rightarrow> None
      | Some rec \<Rightarrow>
          if pr_argv rec = [] \<or> check_seal_drift s rid w \<noteq> None then None
          else case sealed_plan s rid rec w of
                 (None, w1) \<Rightarrow> None
               | (Some (argv, pin), w1) \<Rightarrow>
                   if check_fd_drift s rid w1 \<noteq> None
                     \<or> (case check_git_drift s rid (pr_cwd rec) w1 of None \<Rightarrow> False | Some d \<Rightarrow> gd_block d)
                   then None
                   else spawn_of s argv (pr_cwd rec) clean pin w1)"

lemma run_approved_spawned:
  assumes "run_approved s rid req clean w = (res, w')"
  shows "spawned w' = spawned w @ (case may_run s rid clean w of None \<Rightarrow> [] | Some sp \<Rightarrow> [sp])"
proof (cases "store_load (sv_store s) rid w")
  case None
  then show ?thesis using assms by (auto simp: run_approved_def may_run_def)
next
  case (Some rec)
  have quiet: "spawned w2 = spawned w1"
    if "block_run s rid argv ev tag reason w1 = (r, w2)" for argv ev tag reason w1 r w2
    using that block_run_quiet [of s rid argv ev tag reason w1] by simp
  show ?thesis
  proof (cases "pr_argv rec = [] \<or> check_seal_drift s rid w \<noteq> None")
    case True
    then show ?thesis
      using assms Some by (auto simp: run_approved_def may_run_def dest!: quiet split: if_splits option.splits)
  next
    case False
    obtain plan w1 where plan: "sealed_plan s rid rec w = (plan, w1)" by fastforce
    from sealed_plan_quiet [OF this] show ?thesis
      using assms Some False plan
      by (auto simp: run_approved_def may_run_def dest!: quiet run_and_record_spawned
          split: option.splits if_splits)
  qed
qed

lemma confirm_spawns:
  assumes run: "confirm s rid1 req uid clean by c ticks w = Some (res, ts, w')"
    and others: "list_all quiet ticks" and spawn: "spawned w' \<noteq> spawned w"
  obtains rec1 rid2 expires w1 by2 ts2 w2 where "store_load (sv_store s) rid1 w = Some rec1"
    "confirm_file s rid1 rec1 req uid clean by w = (rid2, expires, w1)"
    "await s rid2 expires c ticks w1 = Some (Some (''approve'', by2), ts2, w2)"
proof -
  obtain rec1 where rec1: "store_load (sv_store s) rid1 w = Some rec1"
    using run spawn by (auto simp: confirm_def split: option.splits)
  obtain rid2 expires w1 where filed: "confirm_file s rid1 rec1 req uid clean by w = (rid2, expires, w1)"
    using prod_cases3 by blast
  obtain v ts2 w2 where wait: "await s rid2 expires c ticks w1 = Some (v, ts2, w2)"
    and w': "w' = snd (confirm_decided s rid2 rid1 req clean v w2)"
    using run rec1 filed by (auto simp: confirm_def split: option.splits prod.splits)
  have "spawned w2 = spawned w"
    using await_quiet [OF wait others] tame_confirm_file [OF filed] by (simp add: tame_def)
  then have "fst (decide ''confirmation_timeout'' [] v) = ''approve''"
    using confirm_decided_refused [of v w2 s rid2 rid1 req clean] spawn w' by (auto simp: tame_def)
  then obtain by2 where "v = Some (''approve'', by2)" by (cases v) (auto simp: decide_def)
  with rec1 filed wait show thesis using that by blast
qed

section \<open>Orphans\<close>

lemma list_item_live: "list_item st now d rid = Some it \<Longrightarrow> pi_id it = rid \<and>
  (\<exists>rec. store_load st rid d = Some rec \<and> now < pr_expires rec) \<and> store_verdict st rid d = None"
  by (auto simp: list_item_def split: if_splits option.splits)

lemma adopt_loop_live:
  assumes "list_all (\<lambda>it. (\<exists>rec. store_load (sv_store s) (pi_id it) w = Some rec \<and> now < pr_expires rec)
    \<and> store_verdict (sv_store s) (pi_id it) w = None) its"
  shows "snd (adopt_orphans_loop s now its w) = w
    \<and> map fst (fst (adopt_orphans_loop s now its w)) = map pi_id its"
  using assms
proof (induction its)
  case (Cons it its)
  then show ?case by (auto split: prod.split)
qed simp

section \<open>Properties\<close>

text \<open>
  C3. Nothing runs without an approval. A request whose command the policy does not allow
  outright starts no command and is not answered with "allowed", whatever happens while it
  waits, as long as no approving verdict is recorded: not on denial, cancellation, time-out, a
  vanished client, or a drift, and for every interleaving with the other users of the store.
\<close>

theorem no_run_without_approval:
  assumes "run_with_peer_cancel s req uid peer c ticks w = Some (res, ts, w')"
    and "list_all bystander ticks" and "no_approval w"
    and "tier (y_look_path (sv_sys s)) (sv_policy s) (rr_argv req) \<noteq> ''allow''"
  shows "spawned w' = spawned w \<and> rs_status res \<noteq> ''allowed''"
  using run_calm [OF assms] by (simp add: calm_def)

definition sample_request :: run_request where
  "sample_request = \<lparr>rr_argv = sample_argv, rr_cwd = ''/w'', rr_env = [], rr_detach = False\<rparr>"

text \<open>Nobody does anything for longer than the petition lives.\<close>

definition sample_silence :: tick where
  "sample_silence = (\<lambda>w. w\<lparr>d_now := d_now w + 61 * second_ns\<rparr>, False)"

lemma sample_silence_facts: "bystander sample_silence" "advancing 61000000000 sample_silence"
  by (simp_all add: bystander_def advancing_def sample_silence_def calm_files spawned_def second_ns_def)

lemma sample_clock: "d_now (sample_world fs) = 100000000000" "160 * second_ns = 160000000000"
  by (simp_all add: sample_world_def second_ns_def)

lemma sample_none: "no_approval (sample_world [])"
  by (simp add: no_approval_def read_file_def node_at_def sample_world_def)

lemma sample_asks: "tier (y_look_path (sv_sys sample_service)) (sv_policy sample_service) (rr_argv sample_request) = ''ask''"
  by code_simp

lemma sample_deadline: "i64 (cf_timeout (sv_conf sample_service) * second_ns) < 61000000000"
  by code_simp

lemma sample_run_returns:
  "run_with_peer_cancel sample_service sample_request 1000 60 False [sample_silence] (sample_world []) \<noteq> None"
  by (rule run_returns [where \<delta> = 61000000000])
    (simp_all add: sample_silence_facts sample_deadline sample_none sample_asks)

theorem no_run_without_approval_witness:
  "case run_with_peer_cancel sample_service sample_request 1000 60 False [sample_silence] (sample_world []) of
     None \<Rightarrow> False
   | Some (res, ts, w') \<Rightarrow> spawned w' = [] \<and> rs_status res \<noteq> ''allowed''"
proof -
  obtain res ts w' where run: "run_with_peer_cancel sample_service sample_request 1000 60 False [sample_silence]
      (sample_world []) = Some (res, ts, w')"
    using sample_run_returns by auto
  have "spawned (sample_world []) = []" by (simp add: spawned_def sample_world_def List.map_filter_simps)
  then show ?thesis
    using no_run_without_approval [OF run] by (simp add: run sample_silence_facts sample_none sample_asks)
qed

text \<open>
  C17. An unanswered request ends. If nobody approves and the clock goes on, a request the
  policy does not allow outright is answered within as many looks at the store as it takes to
  pass the configured time limit.
\<close>

theorem unanswered_request_ends:
  assumes "list_all bystander ticks" and "list_all (advancing \<delta>) ticks"
    and "i64 (cf_timeout (sv_conf s) * second_ns) < \<delta> * int (length ticks)" and "no_approval w"
    and "tier (y_look_path (sv_sys s)) (sv_policy s) (rr_argv req) \<noteq> ''allow''"
  shows "\<exists>res ts w'. run_with_peer_cancel s req uid peer c ticks w = Some (res, ts, w') \<and> rs_status res \<noteq> ''allowed''"
proof -
  obtain res ts w' where run: "run_with_peer_cancel s req uid peer c ticks w = Some (res, ts, w')"
    using run_returns [OF assms, of uid peer c] by auto
  then show ?thesis using run_calm [OF run assms(1,4,5)] by blast
qed

theorem unanswered_request_ends_witness:
  "\<exists>res ts w'. run_with_peer_cancel sample_service sample_request 1000 60 True [sample_silence] (sample_world [])
     = Some (res, ts, w') \<and> rs_status res \<noteq> ''allowed''"
  by (rule unanswered_request_ends [where \<delta> = 61000000000])
    (simp_all add: sample_silence_facts sample_deadline sample_none sample_asks)

text \<open>
  C4. An approved petition is executed exactly when it may be: its record is readable and has
  a command, the sealed inputs and the entry point did not drift, the repository did not drift
  in a blocking way, the daemon is not in dry-run mode and the target is the daemon's own user.
  Then exactly one command is started, the one that was pinned, and otherwise none.
\<close>

theorem approved_run_is_guarded:
  "spawned (snd (run_approved s rid req clean w))
     = spawned w @ (case may_run s rid clean w of None \<Rightarrow> [] | Some sp \<Rightarrow> [sp])"
  by (cases "run_approved s rid req clean w") (simp add: run_approved_spawned)

text \<open>
  C10. A command that needs confirmation takes two approvals: if the confirmation step starts
  anything, a second petition was filed after the first approval and the wait on that one ended
  with an approving verdict recorded for it.
\<close>

theorem confirmation_needs_second_approval:
  assumes "confirm s rid1 req uid clean by c ticks w = Some (res, ts, w')"
    and "list_all quiet ticks" and "spawned w' \<noteq> spawned w"
  shows "\<exists>rec1 rid2 expires w1 ts2 w2 v. store_load (sv_store s) rid1 w = Some rec1
    \<and> confirm_file s rid1 rec1 req uid clean by w = (rid2, expires, w1)
    \<and> await s rid2 expires c ticks w1 = Some (Some (''approve'', vd_by v), ts2, w2)
    \<and> store_verdict (sv_store s) rid2 w2 = Some v \<and> vd_decision v = ''approve''"
proof -
  obtain rec1 rid2 expires w1 by2 ts2 w2 where x: "store_load (sv_store s) rid1 w = Some rec1"
    "confirm_file s rid1 rec1 req uid clean by w = (rid2, expires, w1)"
    "await s rid2 expires c ticks w1 = Some (Some (''approve'', by2), ts2, w2)"
    using confirm_spawns [OF assms] .
  moreover obtain v where "store_verdict (sv_store s) rid2 w2 = Some v" "vd_decision v = ''approve''" "vd_by v = by2"
    using await_outcome [OF x(3)] by (auto simp: outcome_now_def)
  ultimately show ?thesis by blast
qed

definition sample_tool :: run_request where
  "sample_tool = \<lparr>rr_argv = [''tool''], rr_cwd = [], rr_env = [], rr_detach = False\<rparr>"

definition sample_first :: world where
  "sample_first = (sample_world [(''/s/pending/a.json'', Reg (JRecord (pending_record_zero\<lparr>pr_argv := [''tool'']\<rparr>)) 5)])
     \<lparr>w_dyn := sample_dyn\<lparr>dy_target := ''paseo''\<rparr>\<rparr>"

text \<open>While the second petition waits, somebody approves it.\<close>

definition sample_second :: tick where
  "sample_second = (\<lambda>w. snd (store_consume (sv_store sample_service) ''3132333435363738'' ''approve'' ''me'' w), False)"

lemma sample_confirm_spawns:
  "map_option (\<lambda>(res, ts, w'). spawned w')
     (confirm sample_service ''a'' sample_tool 1000 [] ''me'' False [sample_second] sample_first)
   = Some [\<lparr>ex_path = ''tool'', ex_args = [], ex_cwd = [], ex_env = [], ex_fd = None\<rparr>]"
  by code_simp

theorem confirmation_needs_second_approval_witness:
  "\<exists>rid2 w2 v. store_verdict (sv_store sample_service) rid2 w2 = Some v \<and> vd_decision v = ''approve''
    \<and> (\<exists>expires w1 ts2. await sample_service rid2 expires False [sample_second] w1
          = Some (Some (''approve'', vd_by v), ts2, w2))"
proof -
  obtain res ts w' where run: "confirm sample_service ''a'' sample_tool 1000 [] ''me'' False [sample_second] sample_first
      = Some (res, ts, w')" and sp: "spawned w' \<noteq> []"
    using sample_confirm_spawns by auto
  have "spawned sample_first = []"
    by (simp add: spawned_def sample_first_def sample_world_def List.map_filter_simps)
  moreover have "list_all quiet [sample_second]" by (simp add: quiet_def sample_second_def)
  ultimately show ?thesis using confirmation_needs_second_approval [OF run] sp by fastforce
qed

text \<open>
  A wait reports what the store holds when it ends: a decision is the recorded verdict, a
  cancellation is the recorded one and only while there is no verdict, and a time-out is
  reported only after the deadline and only while neither is recorded.
\<close>

theorem wait_reports_the_store:
  assumes "await s rid expires c ticks w = Some (v, ts, w')"
  shows "outcome_now s rid expires c v w'"
  using await_outcome [OF assms] by simp

definition sample_verdict :: verdict_record where
  "sample_verdict = \<lparr>vd_decision = ''deny'', vd_by = ''telegram:7'', vd_unix_nano = 9\<rparr>"

definition sample_denied :: world where
  "sample_denied = sample_world [(''/s/pending/a.verdict'', Reg (JVerdict sample_verdict) 9)]"

lemma sample_denied_verdict: "store_verdict (sv_store sample_service) ''a'' sample_denied = Some sample_verdict"
  by (simp add: sample_denied_def sample_service_def sample_world_def store_eval)

theorem wait_reports_the_store_witness:
  "outcome_now sample_service ''a'' 0 True (Some (''deny'', ''telegram:7'')) sample_denied"
proof -
  have "await sample_service ''a'' 0 True [] sample_denied = Some (Some (''deny'', ''telegram:7''), [], sample_denied)"
    by (simp add: await_Nil sample_denied_verdict) (simp add: sample_verdict_def)
  from wait_reports_the_store [OF this] show ?thesis .
qed

text \<open>
  A wait ends: when every look at the store comes at least \<open>\<delta>\<close> after the one before, no
  more looks are needed than it takes to pass the deadline.
\<close>

theorem wait_terminates:
  assumes "list_all (advancing \<delta>) ticks"
    and "expires < d_now w + \<delta> * int (length ticks)"
  shows "await s rid expires c ticks w \<noteq> None"
  by (rule await_returns [OF assms])

theorem wait_terminates_witness:
  "await sample_service ''a'' (160 * second_ns) True [sample_silence] (sample_world []) \<noteq> None"
  by (rule wait_terminates [where \<delta> = 61000000000])
    (simp_all add: sample_silence_facts sample_clock)

text \<open>
  C23. A caller that was stopped is continued. However a foreground or background request ends,
  the last signal is the one that continues the group stopped when the wait began.
\<close>

theorem stopped_caller_is_continued:
  assumes "hold_and_wait s rid req uid clean expires peer det c ticks w = Some (res, ts, w')"
    and "fst (snapshot_suspend s rid peer uid w) = Some p" and "su_suspended p"
  shows "\<exists>ok. last (w_trace w') = Signalled CONT (su_pgid p) ok"
proof -
  obtain w1 where stop: "snapshot_suspend s rid peer uid w = (Some p, w1)" using assms(2) by (metis prod.collapse)
  have "1 < su_pgid p" using snapshot_suspend_cases [OF stop] resolve_suspend_Some by force
  moreover obtain w3 where "w' = resume_suspend s rid (Some p) w3"
    using assms(1) stop by (auto simp: hold_and_wait_def split: option.splits)
  ultimately show ?thesis using resume_trace [of s rid "Some p" w3] assms(3) by simp
qed

theorem stopped_caller_is_continued_witness:
  "case hold_and_wait sample_service ''a'' sample_request 1000 [] (160 * second_ns) 60 False True [sample_silence]
     (sample_world []) of None \<Rightarrow> False
   | Some (res, ts, w') \<Rightarrow> \<exists>ok. last (w_trace w') = Signalled CONT 61 ok"
proof -
  have "hold_and_wait sample_service ''a'' sample_request 1000 [] (160 * second_ns) 60 False True [sample_silence]
     (sample_world []) \<noteq> None"
    by (rule hold_and_wait_returns [where \<delta> = 61000000000])
      (simp_all add: sample_silence_facts sample_none sample_clock)
  then obtain res ts w' where run: "hold_and_wait sample_service ''a'' sample_request 1000 [] (160 * second_ns) 60
     False True [sample_silence] (sample_world []) = Some (res, ts, w')" by auto
  have "fst (snapshot_suspend sample_service ''a'' 60 1000 (sample_world [])) =
      Some \<lparr>su_pid = 60, su_pgid = 61, su_suspended = True\<rparr>"
    by code_simp
  from stopped_caller_is_continued [OF run this] show ?thesis by (simp add: run)
qed

text \<open>
  The second petition is filed with pins of its own. Nothing of the first petition's pins
  reaches it, so a change between the first petition and its approval is not noticed when the
  command needs confirmation.
\<close>

theorem confirmation_forgets_first_pins:
  "confirm_file s rid1 (rec1\<lparr>pr_git := g, pr_fd := f, pr_seal := x\<rparr>) req uid clean by w
     = confirm_file s rid1 rec1 req uid clean by w"
proof -
  let ?r = "rec1\<lparr>pr_git := g, pr_fd := f, pr_seal := x\<rparr>"
  have same: "pr_as_uid ?r = pr_as_uid rec1" "pr_chat_id ?r = pr_chat_id rec1" "pr_msg_id ?r = pr_msg_id rec1"
    "pr_preview ?r = pr_preview rec1" "pr_suspend ?r = pr_suspend rec1" by simp_all
  show ?thesis unfolding confirm_file_def same ..
qed

text \<open>
  After a restart every petition of the pending list gets a waiter and nothing else
  changes. In particular the branch that times an expired petition out and continues its
  stopped caller is never taken, since the list holds no expired petition.
\<close>

theorem adoption_starts_every_waiter:
  "snd (adopt_orphans s w) = w
   \<and> map fst (fst (adopt_orphans s w)) = map pi_id (store_list (sv_store s) (now_s w) w)"
  unfolding adopt_orphans_def
  by (rule adopt_loop_live)
    (auto simp: store_list_def list_all_iff map_filter_set dest!: list_item_live)

end
