(* ===== verification/Operators.thy ===== *)
theory Operators imports Asking ServiceRun begin

text \<open>
  The rest of \<open>service.go\<close>: what operators and the plugin ask of the daemon. Queries
  (\<open>List\<close>, \<open>Recent\<close>, \<open>Audit\<close>, \<open>Status\<close>), verdicts and cancellation, the settings that can
  be changed live, and \<open>TelegramPump\<close>, which turns button presses into store operations.
\<close>

section \<open>Queries\<close>

text \<open>A listed petition with its pins and their live drift.\<close>

definition with_pins :: "service \<Rightarrow> world \<Rightarrow> pending_item \<Rightarrow> pending_item" where
  "with_pins s w it =
     (case store_load (sv_store s) (pi_id it) w of
        None \<Rightarrow> it
      | Some rec \<Rightarrow>
          let it = (case pr_git rec of
                      Some g \<Rightarrow> if gp_present g
                        then it\<lparr>pi_git := Some g, pi_git_drift := check_git_drift s (pi_id it) (pr_cwd rec) w\<rparr> else it
                    | None \<Rightarrow> it);
              it = (case pr_fd rec of
                      Some f \<Rightarrow> if fp_path f \<noteq> []
                        then it\<lparr>pi_fd := Some f, pi_fd_drift := check_fd_drift s (pi_id it) w\<rparr> else it
                    | None \<Rightarrow> it);
              it = (case pr_seal rec of
                      Some x \<Rightarrow> if sp_files x \<noteq> []
                        then it\<lparr>pi_seal := Some x, pi_seal_drift := check_seal_drift s (pi_id it) w\<rparr> else it
                    | None \<Rightarrow> it)
          in case pr_suspend rec of Some p \<Rightarrow> it\<lparr>pi_suspend := Some p\<rparr> | None \<Rightarrow> it)"

definition service_list :: "service \<Rightarrow> world \<Rightarrow> pending_item list" where
  "service_list s w =
     (if \<not> notify_paseo s w then []
      else map (with_pins s w) (store_list (sv_store s) (now_s w) w))"

definition drift_reason :: "string \<Rightarrow> int \<Rightarrow> string \<Rightarrow> string option" where
  "drift_reason tag code out =
     (if code = -1 \<and> has_prefix out tag then Some (trim_space (trim_prefix out tag)) else None)"

definition mark_drift :: "recent_item \<Rightarrow> recent_item" where
  "mark_drift it =
     (let it = (case drift_reason ''git-drift:'' (ri_exit it) (ri_output it) of
                  Some r \<Rightarrow> it\<lparr>ri_git_drift := Some \<lparr>gd_drift = True, gd_reason = r, gd_block = True\<rparr>\<rparr> | None \<Rightarrow> it);
          it = (case drift_reason ''fd-drift:'' (ri_exit it) (ri_output it) of
                  Some r \<Rightarrow> it\<lparr>ri_fd_drift := Some \<lparr>fd_drifted = True, fd_reason = r, fd_block = True\<rparr>\<rparr> | None \<Rightarrow> it)
      in case drift_reason ''seal-drift:'' (ri_exit it) (ri_output it) of
           Some r \<Rightarrow> it\<lparr>ri_seal_drift := Some \<lparr>sd_drift = True, sd_reason = r, sd_block = True\<rparr>\<rparr> | None \<Rightarrow> it)"

definition service_recent :: "service \<Rightarrow> int \<Rightarrow> world \<Rightarrow> recent_item list" where
  "service_recent s limit w = map mark_drift (store_recent (sv_store s) limit w)"

definition service_audit :: "service \<Rightarrow> audit_query_request \<Rightarrow> world \<Rightarrow> audit_query_response" where
  "service_audit s req w = audit_query (sv_store s) req w"

definition drift_decision :: "string \<Rightarrow> status_response \<Rightarrow> status_response" where
  "drift_decision kind st =
     (if st_output st \<noteq> [] \<and> has_prefix (st_output st) (kind @ '':'') \<and> st_exit st = -1
      then st\<lparr>st_status := ''denied'', st_decision := kind\<rparr> else st)"

text \<open>The drift of the repository as \<open>Status\<close> shows it.\<close>

definition status_git :: "service \<Rightarrow> string \<Rightarrow> pending_record \<Rightarrow> world \<Rightarrow> status_response \<Rightarrow> status_response" where
  "status_git s rid rec w st =
     (case pr_git rec of
        None \<Rightarrow> st
      | Some g \<Rightarrow>
          if \<not> gp_present g then st
          else let st = st\<lparr>st_git := Some g\<rparr>; dir = pr_cwd rec in
            if dir = [] then st
            else case snapshot_git dir w of
                   None \<Rightarrow> st
                 | Some live \<Rightarrow>
                     if \<not> gp_present live
                     then st\<lparr>st_git_drift := Some \<lparr>gd_drift = True,
                            gd_reason = ''git worktree at '' @ dir @ '' is no longer a git repo'', gd_block = True\<rparr>\<rparr>
                     else case check_git_drift s rid dir w of
                            Some drift \<Rightarrow> st\<lparr>st_git_drift := Some drift\<rparr> | None \<Rightarrow> st)"

definition status_fd :: "service \<Rightarrow> string \<Rightarrow> pending_record \<Rightarrow> world \<Rightarrow> status_response \<Rightarrow> status_response" where
  "status_fd s rid rec w st =
     (case pr_fd rec of
        None \<Rightarrow> st
      | Some f \<Rightarrow>
          if fp_path f = [] then st
          else case check_fd_drift s rid w of
                 Some drift \<Rightarrow> st\<lparr>st_fd := Some f, st_fd_drift := Some drift\<rparr>
               | None \<Rightarrow> st\<lparr>st_fd := Some f\<rparr>)"

definition status_seal :: "service \<Rightarrow> string \<Rightarrow> pending_record \<Rightarrow> world \<Rightarrow> status_response \<Rightarrow> status_response" where
  "status_seal s rid rec w st =
     (case pr_seal rec of
        None \<Rightarrow> st
      | Some x \<Rightarrow>
          if sp_files x = [] then st
          else case check_seal_drift s rid w of
                 Some drift \<Rightarrow> st\<lparr>st_seal := Some x, st_seal_drift := Some drift\<rparr>
               | None \<Rightarrow> st\<lparr>st_seal := Some x\<rparr>)"

definition service_status :: "service \<Rightarrow> string \<Rightarrow> world \<Rightarrow> status_response" where
  "service_status s rid w =
     (let st = drift_decision ''seal-drift'' (drift_decision ''fd-drift'' (drift_decision ''git-drift''
                 (store_status (sv_store s) rid (now_s w) w)))
      in case store_load (sv_store s) rid w of
           None \<Rightarrow> st
         | Some rec \<Rightarrow>
             status_git s rid rec w (status_seal s rid rec w (status_fd s rid rec w
               (case pr_suspend rec of Some p \<Rightarrow> st\<lparr>st_suspend := Some p\<rparr> | None \<Rightarrow> st))))"

section \<open>Verdicts and cancellation\<close>

definition service_submit :: "service \<Rightarrow> verdict_submit \<Rightarrow> uid \<Rightarrow> world \<Rightarrow> verdict_ack \<times> world" where
  "service_submit s sub caller w =
     (if \<not> is_admin_uid s caller then
        (\<lparr>va_recorded = False, va_error = ''unauthorized''\<rparr>,
         audit s (audit_event_zero\<lparr>ev_ev := ''verdict_unauthorized'', ev_by := clean_by (vs_by sub),
           ev_rid := vs_id sub, ev_decision := vs_decision sub\<rparr>) w)
      else if vs_decision sub \<noteq> ''approve'' \<and> vs_decision sub \<noteq> ''deny'' then
        (\<lparr>va_recorded = False, va_error = []\<rparr>, w)
      else case store_consume (sv_store s) (vs_id sub) (vs_decision sub) (clean_by (vs_by sub)) w of
             (ok, w') \<Rightarrow> (\<lparr>va_recorded = ok, va_error = []\<rparr>, w'))"

definition cancel_done :: cancel_response where
  "cancel_done = \<lparr>cx_cancelled = True, cx_error = []\<rparr>"

definition cancel_refused :: "string \<Rightarrow> cancel_response" where
  "cancel_refused why = \<lparr>cx_cancelled = False, cx_error = why\<rparr>"

definition already_cancelled :: "service \<Rightarrow> string \<Rightarrow> pending_record \<Rightarrow> world \<Rightarrow> bool" where
  "already_cancelled s rid rec w \<longleftrightarrow>
     store_cancel_info (sv_store s) rid w \<noteq> None
     \<or> (case store_verdict (sv_store s) rid w of Some v \<Rightarrow> vd_decision v = ''cancelled'' | None \<Rightarrow> False)
     \<or> pr_step rec = ''confirm'' \<and> pr_confirm_of rec \<noteq> []
       \<and> store_cancel_info (sv_store s) (pr_confirm_of rec) w \<noteq> None
     \<or> pr_step rec = ''initial''
       \<and> (case find_confirmation (sv_store s) rid w of
            Some (child, _) \<Rightarrow> child \<noteq> [] \<and> store_cancel_info (sv_store s) child w \<noteq> None
          | None \<Rightarrow> False)"

definition cancel_event :: "string \<Rightarrow> string \<Rightarrow> string \<Rightarrow> string \<Rightarrow> string \<Rightarrow> uid \<Rightarrow> audit_event" where
  "cancel_event rid step confirm_of by reason uid = audit_event_zero\<lparr>ev_ev := ''cancelled'', ev_rid := rid,
     ev_step := step, ev_confirm_of := confirm_of, ev_by := by, ev_reason := reason, ev_uid := uid\<rparr>"

text \<open>
  One run petition is cancelled: the same calls for the petition, its confirmation and its
  parent. \<open>Cancel\<close> holds no lock, so other clients act between its two writes: \<open>act rid\<close> is
  what they do for petition \<open>rid\<close> after the cancellation record and before the verdict.
  \<open>undisturbed\<close> is that nobody does. \<open>cancel_rest\<close> is what follows, whatever became of the
  two writes, whose results the code ignores.
\<close>

abbreviation undisturbed :: "string \<Rightarrow> world \<Rightarrow> world" where "undisturbed \<equiv> \<lambda>_ w. w"

definition cancel_rest ::
  "service \<Rightarrow> string \<Rightarrow> pending_record \<Rightarrow> string \<Rightarrow> string \<Rightarrow> string \<Rightarrow> string \<Rightarrow> world \<Rightarrow> world" where
  "cancel_rest s rid rec step confirm_of by reason w =
     (let w = snd (store_consume (sv_store s) rid ''cancelled'' by w);
          w = save_result (sv_store s) rid (-1) ''cancelled'' w;
          w = close_card s rid (pr_argv rec) ''cancelled'' by w;
          w = resume_stored s rid w
      in audit s ((cancel_event rid step confirm_of by reason (pr_uid rec))\<lparr>ev_argv := pr_argv rec\<rparr>) w)"

definition cancel_run ::
  "(string \<Rightarrow> world \<Rightarrow> world) \<Rightarrow> service \<Rightarrow> string \<Rightarrow> pending_record \<Rightarrow> string \<Rightarrow> string \<Rightarrow> string \<Rightarrow> string
    \<Rightarrow> world \<Rightarrow> world" where
  "cancel_run act s rid rec step confirm_of by reason w =
     cancel_rest s rid rec step confirm_of by reason (act rid (snd (store_cancel (sv_store s) rid by reason w)))"

definition cancel_ask ::
  "service \<Rightarrow> string \<Rightarrow> pending_record \<Rightarrow> string \<Rightarrow> string \<Rightarrow> world \<Rightarrow> cancel_response \<times> world" where
  "cancel_ask s rid rec by reason w =
     (if store_selection_info (sv_store s) rid w \<noteq> None then (cancel_refused ''already decided'', w)
      else if pr_expires rec \<le> now_s w then (cancel_refused ''already expired'', w)
      else (cancel_done,
            audit s ((cancel_event rid ''initial'' [] by reason (pr_uid rec))\<lparr>ev_question := pr_question rec\<rparr>)
              (close_ask_card s rid [] by (snd (store_cancel (sv_store s) rid by reason w)))))"

definition cancel_notify ::
  "service \<Rightarrow> string \<Rightarrow> pending_record \<Rightarrow> string \<Rightarrow> string \<Rightarrow> world \<Rightarrow> cancel_response \<times> world" where
  "cancel_notify s rid rec by reason w =
     (if store_ack_info (sv_store s) rid w \<noteq> None then (cancel_refused ''already acknowledged'', w)
      else if pr_expires rec \<le> now_s w then (cancel_refused ''already expired'', w)
      else (cancel_done,
            audit s ((cancel_event rid ''initial'' [] by reason (pr_uid rec))
                \<lparr>ev_link := pr_link rec, ev_summary := pr_summary rec\<rparr>)
              (close_notify_card s rid by (snd (store_cancel (sv_store s) rid by reason w)))))"

definition cancel_confirm ::
  "(string \<Rightarrow> world \<Rightarrow> world) \<Rightarrow> service \<Rightarrow> string \<Rightarrow> pending_record \<Rightarrow> string \<Rightarrow> string \<Rightarrow> world \<Rightarrow> cancel_response \<times> world" where
  "cancel_confirm act s rid rec by reason w =
     (if (case store_verdict (sv_store s) rid w of Some v \<Rightarrow> vd_decision v \<noteq> ''cancelled'' | None \<Rightarrow> False)
      then (cancel_refused ''already decided'', w)
      else if pr_expires rec \<le> now_s w then (cancel_refused ''already expired'', w)
      else let parent = pr_confirm_of rec;
               w = cancel_run act s rid rec ''confirm'' parent by reason w
           in (cancel_done, if parent = [] then w else cancel_run act s parent rec ''initial'' [] by reason w))"

definition cancel_initial ::
  "(string \<Rightarrow> world \<Rightarrow> world) \<Rightarrow> service \<Rightarrow> string \<Rightarrow> pending_record \<Rightarrow> string \<Rightarrow> string \<Rightarrow> world \<Rightarrow> cancel_response \<times> world" where
  "cancel_initial act s rid rec by reason w =
     (let finish = (\<lambda>w. (cancel_done, cancel_run act s rid rec ''initial'' [] by reason w)) in
      case store_verdict (sv_store s) rid w of
        None \<Rightarrow> if pr_expires rec \<le> now_s w then (cancel_refused ''already expired'', w) else finish w
      | Some v \<Rightarrow>
          if vd_decision v = ''deny'' then (cancel_refused ''already denied'', w)
          else if vd_decision v = ''approve'' then
            (case find_confirmation (sv_store s) rid w of
               None \<Rightarrow> (cancel_refused ''already executed'', w)
             | Some (child, crec) \<Rightarrow>
                 if (case store_verdict (sv_store s) child w of
                       Some cv \<Rightarrow> vd_decision cv \<noteq> ''cancelled'' | None \<Rightarrow> False)
                 then (cancel_refused ''already decided'', w)
                 else if pr_expires crec \<le> now_s w then (cancel_refused ''already expired'', w)
                 else finish (cancel_run act s child crec ''confirm'' rid by reason w))
          else finish w)"

definition service_cancel_during ::
  "(string \<Rightarrow> world \<Rightarrow> world) \<Rightarrow> service \<Rightarrow> cancel_request \<Rightarrow> uid \<Rightarrow> world \<Rightarrow> cancel_response \<times> world" where
  "service_cancel_during act s req caller w =
     (let rid = trim_space (cr_id req) in
      if rid = [] then (cancel_refused ''missing id'', w)
      else case store_load (sv_store s) rid w of
             None \<Rightarrow> (cancel_refused ''not found'', w)
           | Some rec \<Rightarrow>
               let by = clean_by (cr_by req); reason = trim_space (cr_reason req) in
               if \<not> is_admin_uid s caller \<and> caller \<noteq> pr_uid rec then
                 (cancel_refused ''unauthorized'',
                  audit s (audit_event_zero\<lparr>ev_ev := ''cancel_unauthorized'', ev_by := by, ev_rid := rid,
                    ev_reason := reason, ev_uid := caller\<rparr>) w)
               else if already_cancelled s rid rec w then (cancel_done, w)
               else if pr_kind rec = ''ask'' then cancel_ask s rid rec by reason w
               else if pr_kind rec = ''notify'' then cancel_notify s rid rec by reason w
               else if pr_step rec = ''confirm'' then cancel_confirm act s rid rec by reason w
               else cancel_initial act s rid rec by reason w)"

text \<open>\<open>Cancel\<close> as one step, as the handlers below and the daemon use it.\<close>

definition service_cancel :: "service \<Rightarrow> cancel_request \<Rightarrow> uid \<Rightarrow> world \<Rightarrow> cancel_response \<times> world" where
  "service_cancel = service_cancel_during undisturbed"

section \<open>Start and live settings\<close>

text \<open>\<open>New\<close>: the service and its live settings; \<open>host\<close> is the answer of \<open>os.Hostname\<close>.\<close>

definition new_service :: "sys \<Rightarrow> conf \<Rightarrow> string \<Rightarrow> policy_disk \<Rightarrow> service \<times> dyn_state" where
  "new_service y c host pd =
     (\<lparr>sv_sys = y, sv_conf = c, sv_policy = policy_load pd, sv_store = store_new (cf_state_dir c), sv_host = host\<rparr>,
      \<lparr>dy_polling = False, dy_username = [], dy_status = (if conf_placeholder c then ''unconfigured'' else ''connected''),
       dy_error = [], dy_token = cf_bot_token c, dy_chat = cf_chat_id c, dy_approvers = cf_approvers c,
       dy_approver_set = approver_set c, dy_target = normalize_target (cf_notify_target c)\<rparr>)"

definition start_telegram :: "service \<Rightarrow> world \<Rightarrow> world" where
  "start_telegram s w =
     (if is_placeholder w then
        emit (line ''2fadod: no BOT_TOKEN configured, pager=stdout; verdicts via `2fado approve|deny <id>`'') w
      else let d = w_dyn w in
        emit (Polling (dy_token d) (get_offset (sv_store s) w) (dy_approver_set d))
          (w\<lparr>w_dyn := d\<lparr>dy_polling := True\<rparr>\<rparr>))"

definition offline_error :: "string \<Rightarrow> bool" where
  "offline_error msg \<longleftrightarrow> str_contains msg ''dial'' \<or> str_contains msg ''timeout'' \<or> str_contains msg ''no such host''"

definition info_of :: "dyn_state \<Rightarrow> telegram_info_response" where
  "info_of d = \<lparr>ti_configured = True, ti_bot_username = dy_username d, ti_chat_id = dy_chat d,
     ti_approvers = dy_approvers d, ti_status = dy_status d, ti_error = dy_error d,
     ti_notification_target = normalize_target (dy_target d)\<rparr>"

definition telegram_info :: "service \<Rightarrow> world \<Rightarrow> telegram_info_response \<times> world" where
  "telegram_info s w =
     (let d = w_dyn w in
      if is_placeholder w then
        (\<lparr>ti_configured = False, ti_bot_username = [], ti_chat_id = dy_chat d, ti_approvers = dy_approvers d,
          ti_status = ''unconfigured'', ti_error = [], ti_notification_target = normalize_target (dy_target d)\<rparr>, w)
      else if dy_status d = ''connected'' \<and> dy_username d \<noteq> [] then (info_of d, w)
      else let d' = (case y_get_me (sv_sys s) (w_n w) (dy_token d) of
                       Inr name \<Rightarrow> d\<lparr>dy_username := name, dy_status := ''connected'', dy_error := []\<rparr>
                     | Inl msg \<Rightarrow> d\<lparr>dy_status := (if offline_error msg then ''disconnected'' else ''error''),
                                    dy_error := msg\<rparr>)
           in (info_of d', (bump w)\<lparr>w_dyn := d'\<rparr>))"

definition set_config_failed :: "string \<Rightarrow> telegram_set_config_response" where
  "set_config_failed why = \<lparr>tx_success = False, tx_bot_username = [], tx_error = why\<rparr>"

definition requested_target :: "service \<Rightarrow> telegram_set_config_request \<Rightarrow> world \<Rightarrow> string option" where
  "requested_target s req w =
     (let t = to_lower (trim_space (ts_notification_target req)) in
      if trim_space (ts_notification_target req) = [] then Some (notify_target s w)
      else if t \<noteq> ''telegram'' \<and> t \<noteq> ''paseo'' \<and> t \<noteq> ''both'' then None else Some t)"

definition requested_config :: "telegram_set_config_request \<Rightarrow> string \<Rightarrow> string \<Rightarrow> user_config" where
  "requested_config req token target =
     (let chat = trim_space (ts_chat_id req) in
      \<lparr>uc_bot_token = token, uc_chat_id = chat,
       uc_approvers = (if ts_approvers req = [] \<and> chat \<noteq> [] then [chat] else ts_approvers req),
       uc_notify_target = target\<rparr>)"

text \<open>The settings once they are saved: the old poll is stopped and a new one started.\<close>

definition apply_config :: "service \<Rightarrow> user_config \<Rightarrow> string \<Rightarrow> world \<Rightarrow> world" where
  "apply_config s u username w =
     (let token = uc_bot_token u;
          approvers = filter (\<lambda>a. a \<noteq> []) (map trim_space (uc_approvers u));
          polls = (\<not> placeholder_token token);
          d = \<lparr>dy_polling = polls, dy_username = username, dy_status = (if polls then ''connected'' else ''unconfigured''),
            dy_error = [], dy_token = token, dy_chat = uc_chat_id u, dy_approvers = uc_approvers u,
            dy_approver_set = approvers, dy_target = uc_notify_target u\<rparr>;
          w = w\<lparr>w_dyn := d\<rparr>
      in if polls then emit (Polling token (get_offset (sv_store s) w) approvers) w else w)"

text \<open>\<open>SaveUserConfig\<close> may fail before, in or after the write; only its success changes anything live.\<close>

definition save_config :: "service \<Rightarrow> user_config \<Rightarrow> string \<Rightarrow> world \<Rightarrow> telegram_set_config_response \<times> world" where
  "save_config s u username w =
     (let y = sv_sys s; fault = y_save_user y (w_n w) in
      case save_user_config (y_encode_user y) fault u (w_user_file w) of
        (False, file) \<Rightarrow>
          (set_config_failed (''failed to save config: '' @ y_save_error y fault), (bump w)\<lparr>w_user_file := file\<rparr>)
      | (True, file) \<Rightarrow>
          (\<lparr>tx_success = True, tx_bot_username = username, tx_error = []\<rparr>,
           apply_config s u username ((bump w)\<lparr>w_user_file := file\<rparr>)))"

definition telegram_set_config ::
  "service \<Rightarrow> telegram_set_config_request \<Rightarrow> uid \<Rightarrow> world \<Rightarrow> telegram_set_config_response \<times> world" where
  "telegram_set_config s req caller w =
     (if \<not> is_admin_uid s caller then
        (set_config_failed ''unauthorized'', audit s (audit_event_zero\<lparr>ev_ev := ''config_unauthorized''\<rparr>) w)
      else case requested_target s req w of
        None \<Rightarrow> (set_config_failed ''invalid notification_target (want telegram|paseo|both)'', w)
      | Some target \<Rightarrow>
          let token = (case ts_bot_token req of Some t \<Rightarrow> trim_space t | None \<Rightarrow> dy_token (w_dyn w));
              (me, w) = (if placeholder_token token then (Inr [], w)
                         else (y_get_me (sv_sys s) (w_n w) token, bump w))
          in case me of
               Inl msg \<Rightarrow> (set_config_failed (''invalid bot token: '' @ msg), w)
             | Inr username \<Rightarrow> save_config s (requested_config req token target) username w)"

text \<open>\<open>PolicyAddRule\<close>, with the policy file beside the state; an error is kept as its value.\<close>

datatype rule_answer = Rule_unauthorized | Rule_rejected policy_error | Rule_added nat

definition policy_add_rule ::
  "service \<Rightarrow> (save_step \<Rightarrow> bool) \<Rightarrow> policy_add_rule_request \<Rightarrow> uid \<Rightarrow> policy_disk \<Rightarrow> world
    \<Rightarrow> rule_answer \<times> service \<times> policy_disk \<times> world" where
  "policy_add_rule s fails req caller pd w =
     (if \<not> is_admin_uid s caller then
        (Rule_unauthorized, s, pd, audit s (audit_event_zero\<lparr>ev_ev := ''policy_unauthorized''\<rparr>) w)
      else case add_rule fails pd (pa_target req) (pa_match_type req) (pa_pattern req) of
             (Inl e, pd') \<Rightarrow> (Rule_rejected e, s, pd', w)
           | (Inr (p, n), pd') \<Rightarrow> (Rule_added n, s\<lparr>sv_policy := p\<rparr>, pd', w))"

section \<open>Button presses\<close>

text \<open>
  One turn of \<open>TelegramPump\<close>; \<open>None\<close> is the panic of a page event without a page number.
\<close>

definition pick_ask :: "service \<Rightarrow> tg_verdict \<Rightarrow> world \<Rightarrow> world" where
  "pick_ask s v w =
     (let by = clean_by (''telegram:'' @ tv_by v) in
      case store_load (sv_store s) (tv_rid v) w of
        None \<Rightarrow> w
      | Some rec \<Rightarrow>
          let labels = labels_of (pr_options rec) (tv_idxs v); valid = valid_idxs (pr_options rec) (tv_idxs v) in
          if tv_idxs v = [] \<or> labels = [] then w
          else if length valid = 1 then
            snd (store_select (sv_store s) (tv_rid v) (hd labels) (hd valid) by w)
          else snd (store_select_many (sv_store s) (tv_rid v) (str_join '', '' labels) valid by w))"

definition pump_one :: "service \<Rightarrow> tg_verdict \<Rightarrow> world \<Rightarrow> world option" where
  "pump_one s v w =
     (let by = clean_by (''telegram:'' @ tv_by v); rid = tv_rid v; d = tv_decision v in
      if d = ''page'' then (case tv_idxs v of [] \<Rightarrow> None | i # _ \<Rightarrow> Some (repage s rid i w))
      else if d = ''ack'' then
        (case store_ack (sv_store s) rid by w of
           (False, w') \<Rightarrow> Some w' | (True, w') \<Rightarrow> Some (acked s rid by w'))
      else if d = ''asktoggle'' then
        Some (case tv_idxs v of [] \<Rightarrow> w | i # _ \<Rightarrow> toggle_ask s rid i w)
      else if d = ''asksubmit'' then Some (submit_ask s rid by w)
      else if d = ''ask'' then Some (pick_ask s v w)
      else if d = ''cancel'' \<or> d = ''cancelled'' then
        Some (snd (service_cancel s \<lparr>cr_id = rid, cr_reason = ''telegram'', cr_by = ''telegram:'' @ tv_by v\<rparr>
          (y_uid (sv_sys s)) w))
      else Some (snd (store_consume (sv_store s) rid d (tv_by v) w)))"

fun telegram_pump :: "service \<Rightarrow> tg_verdict list \<Rightarrow> world \<Rightarrow> world option" where
  "telegram_pump s [] w = Some w"
| "telegram_pump s (v # vs) w = (case pump_one s v w of None \<Rightarrow> None | Some w' \<Rightarrow> telegram_pump s vs w')"

end
