(* ===== verification/Bystanders.thy ===== *)
theory Bystanders imports RunFacts Operators begin

text \<open>
  What the daemon does for everybody else while a run request waits: none of it starts a
  command, and only an approving verdict, submitted or pressed, can make one start. The
  operations are the steps of a relation, and the facts hold along every sequence of steps. A run
  that was approved starts a command, but adds no approval either.
\<close>

section \<open>Store operations\<close>

lemma approvals_once:
  "approvals_in A d \<Longrightarrow> approvals_in A (snd (store_ack st rid by d))"
  "approvals_in A d \<Longrightarrow> approvals_in A (snd (select_record st rid x i xs by d))"
  "approvals_in A d \<Longrightarrow> approvals_in A (snd (store_cancel st rid by why d))"
  "approvals_in A d \<Longrightarrow> approvals_in A (snd (set_selected_idxs st rid xs d))"
  "approvals_in A d \<Longrightarrow> approvals_in A (set_offset st n d)"
  by (simp_all add: store_ack_def select_record_def store_cancel_def set_selected_idxs_def set_offset_def
      approvals_write approvals_save split: option.split)

lemma tame_once [world_frame, simp]:
  "tame w (snd (store_ack st rid by w))" "tame w (snd (select_record st rid x i xs by w))"
  "tame w (snd (store_cancel st rid by why w))" "tame w (snd (set_selected_idxs st rid xs w))"
  "tame w (set_offset st n w)" "tame w (set_page_list st rid title lines w)"
  by (rule tame_intro; simp add: approvals_once set_page_list_def approvals_modify)+

lemma approvals_remove: "approvals_in A d \<Longrightarrow> approvals_in A (remove_file p d)"
  by (auto simp: approvals_in_def read_file_def node_at_remove split: if_splits)

lemma tame_remove: "tame w (remove_file p w)"
  by (rule tame_intro [OF _ approvals_remove]) (simp_all add: spawned_def remove_file_def)

lemma tame_fold_remove: "tame w (foldl (\<lambda>d k. remove_file (f k) d) w ks)"
proof (induction ks arbitrary: w)
  case (Cons k ks)
  show ?case using tame_trans [OF tame_remove [of w "f k"] Cons.IH [of "remove_file (f k) w"]] by simp
qed simp

lemma tame_purge: "tame w (store_purge st rid w)"
  unfolding store_purge_def
  by (rule tame_remove_all [THEN [2] tame_trans], rule tame_remove [THEN [2] tame_trans], rule tame_fold_remove)

lemma tame_prune: "tame w (snd (store_prune st older w))"
proof -
  have "tame w (snd (prune_loop st older names seen n w))" for names seen n
  proof (induction names arbitrary: seen n w)
    case (Cons name names)
    have "tame w (snd (prune_loop st older names sn k (store_purge st r w)))" for sn k r
      by (rule tame_trans [OF tame_purge Cons.IH])
    then show ?case using Cons.IH by (simp split: option.split)
  qed simp
  then show ?thesis by (simp add: store_prune_def)
qed

lemmas once_then = tame_once [THEN [2] tame_trans]

section \<open>Cards and pages\<close>

lemma tame_emits: "list_all (\<lambda>e. case e of Spawned sp \<Rightarrow> False | _ \<Rightarrow> True) es \<Longrightarrow> tame w (emits es w)"
  unfolding emits_def
proof (induction es arbitrary: w)
  case (Cons e es)
  then show ?case using tame_trans [OF tame_world(4) Cons.IH] by simp
qed simp

lemma line_prints [simp]: "(case line t of Spawned sp \<Rightarrow> False | _ \<Rightarrow> True)"
  by (simp add: line_def)

lemma tame_close_ask [world_frame, simp]: "tame w (close_ask_card s rid x by w)"
  by (rule tame_files) (simp_all add: close_ask_card_def split: option.splits)

lemma tame_close_notify [world_frame, simp]: "tame w (close_notify_card s rid by w)"
  by (rule tame_files) (simp_all add: close_notify_card_def split: option.splits)

lemma tame_repage [world_frame, simp]: "tame w (repage s rid page w)"
  by (rule tame_files) (simp_all add: repage_def Let_def split: option.splits)

lemma tame_page_ask [world_frame, simp]:
  "tame w (page_ask s rid question link opts rec ttl multi write_in w)"
  unfolding page_ask_def Let_def
  by (auto dest!: tame_tg_send intro!: tame_then tame_emits [THEN [2] tame_trans] tame_emits
      simp: list_all_iff split: prod.splits option.splits)

lemma tame_page_notify [world_frame, simp]: "tame w (page_notify s rid link summary ttl w)"
  unfolding page_notify_def Let_def
  by (auto dest!: tame_tg_send intro!: tame_then split: prod.splits option.splits)

lemmas cards_then =
  tame_close_ask [THEN [2] tame_trans] tame_close_notify [THEN [2] tame_trans]
  tame_page_ask [THEN [2] tame_trans] tame_page_notify [THEN [2] tame_trans]
  tame_resume [THEN [2] tame_trans]

section \<open>Operations of the service\<close>

lemma tame_resume_stored [world_frame, simp]: "tame w (resume_stored s rid w)"
  by (simp add: resume_stored_def split: option.split)

lemma tame_file_ask: "file_ask s req uid w = (rid, exp, w') \<Longrightarrow> tame w w'"
proof -
  assume run: "file_ask s req uid w = (rid, exp, w')"
  obtain r w1 where r: "new_rid s w = (r, w1)" by fastforce
  have "tame w w1" using tame_world(3) [of w s] r by simp
  then show ?thesis using run unfolding file_ask_def r Let_def prod.case by (auto intro!: tame_then cards_then)
qed

lemma tame_ask_answered: "tame w (snd (ask_answered s rid q uid a w))"
  unfolding ask_answered_def by (auto intro!: tame_then cards_then split: option.split prod.split bool.split)

lemma tame_notify: "tame w (snd (service_notify s req uid w))"
proof -
  obtain r w1 where r: "new_rid s w = (r, w1)" by fastforce
  have "tame w w1" using tame_world(3) [of w s] r by simp
  then show ?thesis
    unfolding service_notify_def Let_def r prod.case by (auto intro!: tame_then cards_then split: option.split)
qed

lemma tame_acked [world_frame, simp]: "tame w (acked s rid by w)"
  unfolding acked_def by (intro cards_then tame_world)

lemma ack_tame: "store_ack st rid by w = (ok, w') \<Longrightarrow> tame w w'"
  using tame_once(1) [of w st rid "by"] by simp

lemma tame_ack: "tame w (snd (service_ack s sub caller w))"
  unfolding service_ack_def Let_def
  by (auto dest!: ack_tame intro: tame_trans [OF _ tame_acked] split: prod.split bool.split)

lemma tame_consume: "store_consume st rid dc by w = (ok, w') \<Longrightarrow> dc \<noteq> ''approve'' \<Longrightarrow> tame w w'"
  using tame_store(6) [of dc w st rid "by"] by simp

text \<open>A branch of an operation is as tame as its cases.\<close>

lemma tame_if: "tame w a \<Longrightarrow> tame w b \<Longrightarrow> tame w (if c then a else b)"
  by simp

lemma tame_option: "tame w a \<Longrightarrow> (\<And>x. tame w (f x)) \<Longrightarrow> tame w (case opt of None \<Rightarrow> a | Some x \<Rightarrow> f x)"
  by (simp split: option.split)

lemma tame_pair: "(\<And>a b. tame w (f a b)) \<Longrightarrow> tame w (case p of (a, b) \<Rightarrow> f a b)"
  by (simp split: prod.split)

lemmas tame_branches = tame_if tame_option tame_pair tame_refl
lemmas snd_branches = if_distrib [of snd] option.case_distrib [of snd] prod.case_distrib [of snd] snd_conv

lemma tame_submit: "vs_decision sub \<noteq> ''approve'' \<Longrightarrow> tame w (snd (service_submit s sub caller w))"
  unfolding service_submit_def using tame_consume by (simp split: prod.split)

lemma tame_cancel_run: "tame w (cancel_run undisturbed s rid rec step co by why w)"
  unfolding cancel_run_def cancel_rest_def Let_def
  by (intro tame_then once_then tame_resume_stored [THEN [2] tame_trans]) simp_all

lemma tame_cancel_ask: "tame w (snd (cancel_ask s rid rec by why w))"
  unfolding cancel_ask_def snd_branches by (intro tame_branches tame_then cards_then tame_once)

lemma tame_cancel_notify: "tame w (snd (cancel_notify s rid rec by why w))"
  unfolding cancel_notify_def snd_branches by (intro tame_branches tame_then cards_then tame_once)

lemma tame_cancel_confirm: "tame w (snd (cancel_confirm undisturbed s rid rec by why w))"
  unfolding cancel_confirm_def snd_branches Let_def
  by (intro tame_branches tame_cancel_run tame_trans [OF tame_cancel_run tame_cancel_run])

lemma tame_cancel_initial: "tame w (snd (cancel_initial undisturbed s rid rec by why w))"
  unfolding cancel_initial_def snd_branches Let_def
  by (intro tame_branches tame_cancel_run tame_trans [OF tame_cancel_run tame_cancel_run])

lemma tame_cancel: "tame w (snd (service_cancel s req caller w))"
  unfolding service_cancel_def service_cancel_during_def snd_branches Let_def
  by (intro tame_branches tame_world tame_cancel_ask tame_cancel_notify tame_cancel_confirm tame_cancel_initial)

lemma tame_submit_ask: "tame w (submit_ask s rid by w)"
  by (simp add: submit_ask_def store_select_many_def split: option.split)

lemma tame_pick_ask: "tame w (pick_ask s v w)"
  by (simp add: pick_ask_def Let_def store_select_def store_select_many_def split: option.split)

lemma tame_toggle_ask: "tame w (toggle_ask s rid idx w)"
proof -
  have "set_selected_idxs (sv_store s) rid xs w = (ok, w') \<Longrightarrow> tame w w'" for xs ok w'
    using tame_once(4) [of w "sv_store s" rid xs] by simp
  then show ?thesis
    unfolding toggle_ask_def Let_def by (auto intro!: tame_then split: option.split prod.split bool.split)
qed

lemma tame_some:
  "pred_option (tame w) a \<Longrightarrow> pred_option (tame w) b \<Longrightarrow> pred_option (tame w) (if c then a else b)"
  "pred_option (tame w) a \<Longrightarrow> (\<And>x xs. pred_option (tame w) (f x xs))
    \<Longrightarrow> pred_option (tame w) (case l of [] \<Rightarrow> a | x # xs \<Rightarrow> f x xs)"
  "pred_option (tame w) None" "tame w w1 \<Longrightarrow> pred_option (tame w) (Some w1)"
  by (auto split: list.split)

lemma tame_pump: "tv_decision v \<noteq> ''approve'' \<Longrightarrow> pred_option (tame w) (pump_one s v w)"
proof -
  assume "tv_decision v \<noteq> ''approve''"
  then have consume: "tame w (snd (store_consume (sv_store s) (tv_rid v) (tv_decision v) (tv_by v) w))" by simp
  have ack: "pred_option (tame w) (case store_ack (sv_store s) rid by w of
      (False, w') \<Rightarrow> Some w' | (True, w') \<Rightarrow> Some (acked s rid by w'))" for rid "by"
    by (auto dest!: ack_tame intro: tame_trans [OF _ tame_acked] split: prod.split bool.split)
  have toggle: "tame w (case tv_idxs v of [] \<Rightarrow> w | i # _ \<Rightarrow> toggle_ask s (tv_rid v) i w)"
    by (simp add: tame_toggle_ask split: list.split)
  show ?thesis
    unfolding pump_one_def Let_def
    by (intro tame_some ack toggle consume tame_repage tame_submit_ask tame_pick_ask tame_cancel)
qed

lemma tame_dyn [world_frame, simp]: "tame w (w\<lparr>w_dyn := d\<rparr>)"
  by (rule tame_files) (simp_all add: spawned_def)

lemmas dyn_then = tame_dyn [THEN [2] tame_trans]

lemma tame_info: "tame w (snd (telegram_info s w))"
  unfolding telegram_info_def Let_def by (auto intro!: dyn_then tame_then)

lemma tame_apply: "tame w (apply_config s u name w)"
  unfolding apply_config_def Let_def by (intro tame_branches tame_then dyn_then tame_dyn) simp

lemma tame_user_file: "tame w (w\<lparr>w_user_file := file\<rparr>)"
  by (rule tame_files) (simp_all add: spawned_def)

lemma tame_save_config: "tame w (snd (save_config s u name w))"
proof -
  have saved: "tame w ((bump w)\<lparr>w_user_file := f\<rparr>)" for f
    by (rule tame_trans [OF tame_world(2) tame_user_file])
  show ?thesis
    unfolding save_config_def Let_def using saved tame_trans [OF saved tame_apply]
    by (simp split: prod.split bool.split)
qed

lemma tame_config: "tame w (snd (telegram_set_config s req caller w))"
proof -
  have "tame w (snd (save_config s u name (bump w)))" for u name
    by (rule tame_trans [OF tame_world(2) tame_save_config])
  then show ?thesis
    unfolding telegram_set_config_def Let_def using tame_save_config
    by (auto split: option.split sum.split)
qed

section \<open>Running a command\<close>

text \<open>A run starts a command, but it gives no approval either.\<close>

definition adds_none :: "world \<Rightarrow> world \<Rightarrow> bool" where
  "adds_none w w' \<longleftrightarrow> (\<forall>A. approvals_in A w \<longrightarrow> approvals_in A w')"

lemma adds_none_approvals: "adds_none w w' \<longleftrightarrow> approvals w' \<subseteq> approvals w"
  by (auto simp: adds_none_def approvals_in_iff)

lemma adds_none_trans [trans]: "adds_none w w1 \<Longrightarrow> adds_none w1 w2 \<Longrightarrow> adds_none w w2"
  by (simp add: adds_none_def)

lemma adds_none_refl [simp]: "adds_none w w"
  by (simp add: adds_none_def)

lemma tame_adds_none: "tame w w' \<Longrightarrow> adds_none w w'"
  by (simp add: tame_def adds_none_def)

lemmas tame_add = tame_adds_none [THEN [2] adds_none_trans]

lemma adds_none_files: "d_files w' = d_files w \<Longrightarrow> adds_none w w'"
  using approvals_files [of w' w] by (simp add: adds_none_def)

lemma tg_send_files [simp]: "d_files (snd (tg_send s chat msg reply kb w)) = d_files w"
  by (simp add: tg_send_def Let_def)

lemma notify_auth_url_files [simp]: "d_files (notify_auth_url s rid url w) = d_files w"
  by (simp add: notify_auth_url_def Let_def split: option.split)

lemma auth_url_adds_none: "adds_none w (on_auth_url s rid url w)"
  unfolding on_auth_url_def
  by (rule adds_none_trans [OF tame_adds_none [OF tame_store(4)] adds_none_files]) simp

lemma run_cmd_adds_none:
  assumes "run_cmd s on_auth sp w = ((code, out), w')" and "\<And>f u w. on_auth = Some f \<Longrightarrow> adds_none w (f u w)"
  shows "adds_none w w'"
proof -
  have fold: "adds_none w (foldl (\<lambda>w u. case on_auth of Some f \<Rightarrow> f u w | None \<Rightarrow> w) w urls)" for urls w
  proof (induction urls arbitrary: w)
    case (Cons u urls)
    show ?case
    proof (cases on_auth)
      case None
      then show ?thesis using Cons.IH by simp
    next
      case (Some f)
      from adds_none_trans [OF assms(2) [OF this] Cons.IH] show ?thesis using Some by simp
    qed
  qed simp
  have step: "adds_none w (emit e (bump w))" for e by (rule adds_none_files) simp
  show ?thesis
    using assms(1) adds_none_trans [OF adds_none_trans [OF step fold] adds_none_files]
    by (auto simp: run_cmd_def Let_def split: prod.splits)
qed

lemma identity_adds_none: "exec_identity s argv cwd w = (x, w') \<Longrightarrow> adds_none w w'"
  by (rule adds_none_files) (auto simp: exec_identity_def Let_def split: sum.splits if_splits)

lemma run_pinned_adds_none:
  assumes "run_pinned s argv cwd env pin (Some (on_auth_url s rid)) w = ((code, out, as_uid), w')"
  shows "adds_none w w'"
proof -
  have run: "adds_none w1 w2" if "run_cmd s (Some (on_auth_url s rid)) sp w1 = (x, w2)" for sp w1 x w2
    using run_cmd_adds_none [of s "Some (on_auth_url s rid)" sp w1 "fst x" "snd x" w2] that auth_url_adds_none by auto
  obtain r w1 where id: "exec_identity s argv cwd w = (r, w1)" by fastforce
  have "w' = w \<or> w' = w1 \<or> (\<exists>sp x. run_cmd s (Some (on_auth_url s rid)) sp w1 = (x, w'))"
    using assms unfolding run_pinned_def id
    by (simp only: prod.case prod.inject split: if_split_asm prod.split_asm option.split_asm sum.split_asm) blast+
  then show ?thesis
    using run adds_none_trans [OF identity_adds_none [OF id]] identity_adds_none [OF id] by auto
qed

lemma run_and_record_adds_none: "adds_none w (snd (run_and_record s rid sargv argv cwd env pin warn w))"
proof -
  obtain code out as_uid w1 where run: "run_pinned s argv cwd env pin (Some (on_auth_url s rid)) w = ((code, out, as_uid), w1)"
    by (metis surj_pair)
  show ?thesis
    unfolding run_and_record_def run Let_def prod.case snd_conv
    by (rule tame_add [OF tame_add [OF run_pinned_adds_none [OF run] tame_world(1)] tame_store(5)])
qed

lemma block_run_adds_none: "adds_none w (snd (block_run s rid argv ev tag why w))"
  unfolding block_run_def snd_conv by (rule tame_adds_none [OF tame_trans [OF tame_world(1) tame_store(5)]])

lemma adds_none_branches:
  "adds_none w a \<Longrightarrow> adds_none w b \<Longrightarrow> adds_none w (if c then a else b)"
  "adds_none w a \<Longrightarrow> (\<And>x. adds_none w (f x)) \<Longrightarrow> adds_none w (case opt of None \<Rightarrow> a | Some x \<Rightarrow> f x)"
  by (simp_all split: option.split)

lemma run_approved_adds_none: "adds_none w (snd (run_approved s rid req clean w))"
proof -
  have plan: "adds_none w w1" if "sealed_plan s rid rec w = (plan, w1)" for rec plan w1
    using that by (auto simp: sealed_plan_def Let_def tame_adds_none dest!: tame_materialize
        split: option.splits if_splits prod.splits)
  note block = block_run_adds_none [THEN [2] adds_none_trans] and run = run_and_record_adds_none [THEN [2] adds_none_trans]
  have rest: "adds_none w (snd (case check_fd_drift s rid w1 of
            Some drift \<Rightarrow> block_run s rid argv ev tag (f drift) w1
          | None \<Rightarrow> (case check_git_drift s rid cwd w1 of
              None \<Rightarrow> run_and_record s rid argv eargv cwd clean pin [] w1
            | Some drift \<Rightarrow> if gd_block drift then block_run s rid argv ev2 tag2 (gd_reason drift) w1
                else run_and_record s rid argv eargv cwd clean pin (g drift) (audit s (h drift) w1))))"
    if "adds_none w w1" for argv ev tag f cwd eargv pin ev2 tag2 g h w1
    unfolding snd_branches by (intro adds_none_branches block run that tame_add [OF that tame_world(1)])
  have plans: "adds_none w (snd (case sealed_plan s rid rec w of
       (None, w1) \<Rightarrow> block_run s rid argv ev tag why w1 | (Some (a, p), w1) \<Rightarrow> F a p w1))"
    if "\<And>a p w1. adds_none w w1 \<Longrightarrow> adds_none w (snd (F a p w1))" for rec argv ev tag why F
    using that plan [of rec] block by (auto split: prod.split option.split)
  have lost: "adds_none w (snd (res, save_result (sv_store s) rid (-1) why (audit s ev w)))" for res why ev
    unfolding snd_conv by (rule tame_adds_none [OF tame_trans [OF tame_world(1) tame_store(5)]])
  show ?thesis
    unfolding run_approved_def snd_branches(1,2)
    by (intro adds_none_branches plans rest block_run_adds_none lost) assumption
qed

section \<open>The daemon between two looks at the store\<close>

text \<open>
  Everything the daemon may do on behalf of others, an approving verdict apart, and what goes
  on around it: the clock and the workspace.
\<close>

inductive daemon_step :: "service \<Rightarrow> world \<Rightarrow> world \<Rightarrow> bool" for s where
  step_filed: "file_petition s req uid clean w = (rid, expires, w') \<Longrightarrow> daemon_step s w w'"
| step_stopped: "snapshot_suspend s rid peer uid w = (pin, w') \<Longrightarrow> daemon_step s w w'"
| step_refused: "first_decided s rid req uid clean det c v ts w = Some (res, ts', w')
    \<Longrightarrow> fst (decide ''timeout'' [] v) \<noteq> ''approve'' \<Longrightarrow> daemon_step s w w'"
| step_confirm_filed: "confirm_file s rid1 rec1 req uid clean by w = (rid, expires, w') \<Longrightarrow> daemon_step s w w'"
| step_confirm_refused: "fst (decide ''confirmation_timeout'' [] v) \<noteq> ''approve''
    \<Longrightarrow> daemon_step s w (snd (confirm_decided s rid rid1 req clean v w))"
| step_continued: "daemon_step s w (resume_suspend s rid pin w)"
| step_asked: "file_ask s req uid w = (rid, expires, w') \<Longrightarrow> daemon_step s w w'"
| step_answered: "daemon_step s w (snd (ask_answered s rid question uid answer w))"
| step_notified: "daemon_step s w (snd (service_notify s req uid w))"
| step_acked: "daemon_step s w (snd (service_ack s sub caller w))"
| step_denied: "vs_decision sub \<noteq> ''approve'' \<Longrightarrow> daemon_step s w (snd (service_submit s sub caller w))"
| step_cancelled: "daemon_step s w (snd (service_cancel s req caller w))"
| step_pressed: "tv_decision v \<noteq> ''approve'' \<Longrightarrow> pump_one s v w = Some w' \<Longrightarrow> daemon_step s w w'"
| step_selected: "daemon_step s w (snd (store_select (sv_store s) rid x i who w))"
| step_info: "daemon_step s w (snd (telegram_info s w))"
| step_config: "daemon_step s w (snd (telegram_set_config s req caller w))"
| step_pruned: "daemon_step s w (snd (store_prune (sv_store s) older w))"
| step_polled: "daemon_step s w (set_offset (sv_store s) n w)"
| step_time: "0 \<le> n \<Longrightarrow> daemon_step s w (w\<lparr>d_now := d_now w + n\<rparr>)"
| step_workspace: "daemon_step s w (w\<lparr>w_live := live, w_fs := fs, w_git := git\<rparr>)"

lemma step_tame: "daemon_step s w w' \<Longrightarrow> tame w w'"
proof (induction rule: daemon_step.induct)
  case (step_refused rid req uid clean det c v ts w res ts' w')
  then show ?case using first_decided_tame by blast
next
  case (step_pressed v w w')
  then show ?case using tame_pump [of v w s] by simp
next
  case (step_time n w)
  then show ?case by (auto intro!: tame_files spawned_cong)
next
  case (step_workspace w live fs git)
  then show ?case by (auto intro!: tame_files spawned_cong)
qed (auto intro: tame_file_petition tame_suspend tame_confirm_file tame_resume tame_file_ask tame_ask_answered
    tame_notify tame_ack tame_submit tame_cancel tame_info tame_config tame_prune tame_once
    simp: confirm_decided_refused store_select_def)

lemmas step_calm = step_tame [THEN tame_calm]

lemma steps_calm: "(daemon_step s)\<^sup>*\<^sup>* w w' \<Longrightarrow> calm w w'"
proof (induction rule: rtranclp_induct)
  case (step y z)
  then show ?case using step_calm calm_trans by blast
qed simp

text \<open>
  C1. Only an approval leads to a command: whatever else the daemon does meanwhile, for this
  request or for others, in whatever order (petitions, questions, notices, cancellations,
  denials, button presses, settings, pruning), while the clock goes on and the workspace
  changes, a request the policy does not allow outright starts nothing.
\<close>

theorem only_an_approval_runs:
  assumes "run_with_peer_cancel s req uid peer c ticks w = Some (res, ts, w')"
    and "\<forall>t \<in> set ticks. \<forall>w. (daemon_step s)\<^sup>*\<^sup>* w (fst t w)" and "no_approval w"
    and "tier (y_look_path (sv_sys s)) (sv_policy s) (rr_argv req) \<noteq> ''allow''"
  shows "spawned w' = spawned w \<and> rs_status res \<noteq> ''allowed''"
proof -
  have "list_all bystander ticks"
    unfolding list_all_iff bystander_def using assms(2) steps_calm by blast
  from run_calm [OF assms(1) this assms(3,4)] show ?thesis by (simp add: calm_def)
qed

text \<open>Somebody denies an unrelated petition, and then a minute passes.\<close>

definition sample_bustle :: tick where
  "sample_bustle = (\<lambda>w. let w1 = snd (service_submit sample_service \<lparr>vs_id = ''b'', vs_decision = ''deny'', vs_by = []\<rparr> 0 w)
     in w1\<lparr>d_now := d_now w1 + 61000000000\<rparr>, False)"

lemma sample_bustle_steps: "(daemon_step sample_service)\<^sup>*\<^sup>* w (fst sample_bustle w)"
proof -
  let ?w1 = "snd (service_submit sample_service \<lparr>vs_id = ''b'', vs_decision = ''deny'', vs_by = []\<rparr> 0 w)"
  have "(daemon_step sample_service)\<^sup>*\<^sup>* w ?w1" by (rule r_into_rtranclp, rule step_denied) simp
  moreover have "daemon_step sample_service ?w1 (?w1\<lparr>d_now := d_now ?w1 + 61000000000\<rparr>)" by (rule step_time) simp
  ultimately show ?thesis by (simp add: sample_bustle_def Let_def rtranclp.rtrancl_into_rtrancl)
qed

lemma now_submit: "d_now (snd (service_submit s sub caller w)) = d_now w"
proof -
  have "d_now w' = d_now w" if "store_consume st rid dc by w = (ok, w')" for st rid dc "by" ok w'
    using now_store(5) [of st rid dc "by" w] that by simp
  then show ?thesis by (auto simp: service_submit_def split: prod.split)
qed

lemma sample_bustle_bystander: "bystander sample_bustle" "advancing 61000000000 sample_bustle"
  using steps_calm [OF sample_bustle_steps]
  by (simp_all add: bystander_def) (simp add: advancing_def sample_bustle_def Let_def now_submit)

theorem only_an_approval_runs_witness:
  "\<exists>res ts w'. run_with_peer_cancel sample_service sample_request 1000 60 True [sample_bustle] (sample_world [])
     = Some (res, ts, w') \<and> spawned w' = []"
proof -
  obtain res ts w' where run:
    "run_with_peer_cancel sample_service sample_request 1000 60 True [sample_bustle] (sample_world []) = Some (res, ts, w')"
    using run_returns [of "[sample_bustle]" 61000000000 sample_service "sample_world []" sample_request 1000 60 True]
      sample_bustle_bystander by (auto simp: sample_deadline sample_none sample_asks)
  have "spawned (sample_world []) = []" by (simp add: spawned_def sample_world_def List.map_filter_simps)
  then show ?thesis
    using only_an_approval_runs [OF run] sample_bustle_steps run by (auto simp: sample_none sample_asks)
qed

end
