(* ===== verification/OperatorFacts.thy ===== *)
theory OperatorFacts imports Bystanders begin

text \<open>
  What the operations for operators and the plugin guarantee: who may do what, where approvals
  come from, what a cancellation can and cannot undo, and which of its promises depend on its
  writes and on nobody coming in between them.
\<close>

section \<open>Authorisation\<close>

text \<open>Nothing changed but the audit trail, which grew.\<close>

definition only_audited :: "world \<Rightarrow> world \<Rightarrow> bool" where
  "only_audited w w' \<longleftrightarrow> w' = w\<lparr>d_audit := d_audit w'\<rparr>
     \<and> prefix (audit_trail (d_audit w)) (audit_trail (d_audit w'))"

lemma only_audited_audit: "only_audited w (audit s ev w)"
proof -
  have "append_line p ev w = w\<lparr>d_audit := d_audit (append_line p ev w)\<rparr>" for p ev
    by (simp add: append_line_def split: option.split io.split)
  then show ?thesis
    unfolding only_audited_def audit_def store_append_def using append_line_audit by blast
qed

text \<open>
  C6. What an operator decides, nobody else does. From a caller who is neither root nor the
  daemon's user, and did not file the petition, verdicts, acknowledgements, cancellations,
  changes of the settings and policy rules are refused, and nothing of the state changes but
  the audit trail, which grows by the attempt at most. (Filing petitions and notices and
  answering questions are open to every peer of the socket.)
\<close>

theorem strangers_decide_nothing:
  assumes "\<not> is_admin_uid s caller"
    and "\<forall>rec. store_load (sv_store s) (trim_space (cr_id cancel)) w = Some rec \<longrightarrow> pr_uid rec \<noteq> caller"
  shows "\<not> va_recorded (fst (service_submit s verdict caller w)) \<and> only_audited w (snd (service_submit s verdict caller w))
    \<and> \<not> ar_acked (fst (service_ack s ack caller w)) \<and> only_audited w (snd (service_ack s ack caller w))
    \<and> \<not> cx_cancelled (fst (service_cancel s cancel caller w))
    \<and> (snd (service_cancel s cancel caller w) = w \<or> only_audited w (snd (service_cancel s cancel caller w)))
    \<and> \<not> tx_success (fst (telegram_set_config s settings caller w))
    \<and> only_audited w (snd (telegram_set_config s settings caller w))
    \<and> (case policy_add_rule s fails rule caller pd w of
         (answer, s', pd', w') \<Rightarrow> answer = Rule_unauthorized \<and> s' = s \<and> pd' = pd \<and> only_audited w w')"
  using assms
  by (auto simp: service_submit_def service_ack_def service_cancel_def service_cancel_during_def telegram_set_config_def
      policy_add_rule_def cancel_refused_def set_config_failed_def only_audited_audit Let_def split: option.split)

theorem strangers_decide_nothing_witness:
  "only_audited (sample_world []) (snd (service_submit sample_service \<lparr>vs_id = ''a'', vs_decision = ''approve'', vs_by = []\<rparr>
     1001 (sample_world [])))"
proof -
  have "\<not> is_admin_uid sample_service 1001" by (simp add: is_admin_uid_def sample_service_def sample_sys_def)
  moreover have "store_load (sv_store sample_service) rid (sample_world []) = None" for rid
    by (simp add: store_load_def read_file_def node_at_def sample_world_def)
  ultimately show ?thesis using strangers_decide_nothing [where w = "sample_world []"] by simp
qed

lemma polled:
  assumes "v \<in> set (fst (poll_batch approvers offset us))"
  shows "approvers (tv_by v) \<and> (\<exists>data. split_verdict data = Some (tv_decision v, tv_rid v, tv_idxs v))"
proof -
  obtain u where u: "fst (poll_one approvers u) = Some v"
    using assms by (auto simp: poll_batch_def map_filter_set Bex_def)
  then show ?thesis
    by (cases "split_verdict (up_data u)") (auto simp: poll_one_def Let_def split: if_splits intro!: exI [of _ "up_data u"])
qed

text \<open>No approval is new but one for this petition.\<close>

definition approves_only :: "service \<Rightarrow> string \<Rightarrow> world \<Rightarrow> world \<Rightarrow> bool" where
  "approves_only s rid w w' \<longleftrightarrow> fst ` (approvals w' - approvals w) \<subseteq> {kpath (sv_store s) rid KVerdict}"

lemma approves_only_iff:
  "approves_only s rid w w' \<longleftrightarrow> (\<forall>p v. (p, v) \<in> approvals w' \<longrightarrow> p \<noteq> kpath (sv_store s) rid KVerdict \<longrightarrow> (p, v) \<in> approvals w)"
  unfolding approves_only_def image_subset_iff by (metis DiffD1 DiffD2 DiffI fst_conv singleton_iff surj_pair)

lemma consume_approves_only: "approves_only s rid w (snd (store_consume (sv_store s) rid dc by w))"
  unfolding approves_only_iff
proof (intro allI impI)
  fix p v
  assume new: "(p, v) \<in> approvals (snd (store_consume (sv_store s) rid dc by w))"
    and elsewhere: "p \<noteq> kpath (sv_store s) rid KVerdict"
  have "read_file (snd (store_consume (sv_store s) rid dc by w)) p = read_file w p"
    using write_excl_read [OF elsewhere] by (simp add: store_consume_def)
  then show "(p, v) \<in> approvals w" using new by (simp add: approvals_def)
qed

lemma submit_approves_only: "approves_only s (vs_id sub) w (snd (service_submit s sub caller w))"
proof -
  have "approves_only s (vs_id sub) w w'" if "d_files w' = d_files w" for w'
    using that by (simp add: approves_only_iff approvals_def read_file_def node_at_def)
  moreover have "approves_only s (vs_id sub) w w'" if "store_consume (sv_store s) (vs_id sub) dc by w = (ok, w')" for dc "by" ok w'
    using consume_approves_only [of s "vs_id sub" w dc "by"] that by simp
  ultimately show ?thesis
    unfolding service_submit_def by (simp split: prod.split)
qed

lemma press_approves_only:
  assumes "pump_one s v w = Some w'" and "tv_decision v = ''approve''"
  shows "approves_only s (tv_rid v) w w'"
  using assms consume_approves_only [of s "tv_rid v" w] by (auto simp: pump_one_def)

text \<open>
  C7. Approvals come from those who may give them. From any state, and whatever approvals it
  already holds, a submission, a button press, any other step of the daemon and the execution
  of an approved petition add no approving verdict, unless it is a submission of an approval by
  root or the daemon's user or an approver's press of the approve button; and those add one for
  the petition they name and no other.
\<close>

theorem approval_is_authorised:
  assumes "w' = snd (service_submit s sub caller w)
      \<or> (\<exists>v. v \<in> set (fst (poll_batch approvers offset us)) \<and> pump_one s v w = Some w')
      \<or> daemon_step s w w'
      \<or> (\<exists>rid req clean. w' = snd (run_approved s rid req clean w))"
  shows "approvals w' \<subseteq> approvals w
    \<or> (is_admin_uid s caller \<and> vs_decision sub = ''approve'' \<and> w' = snd (service_submit s sub caller w)
         \<and> approves_only s (vs_id sub) w w')
    \<or> (\<exists>v. v \<in> set (fst (poll_batch approvers offset us)) \<and> tv_decision v = ''approve'' \<and> approvers (tv_by v)
         \<and> pump_one s v w = Some w' \<and> approves_only s (tv_rid v) w w')"
proof (cases "approvals w' \<subseteq> approvals w")
  case False
  then consider (submit) "w' = snd (service_submit s sub caller w)"
    | (press) v where "v \<in> set (fst (poll_batch approvers offset us))" "pump_one s v w = Some w'"
    | (step) "daemon_step s w w'"
    | (run) rid req clean where "w' = snd (run_approved s rid req clean w)"
    using assms by blast
  then show ?thesis
  proof cases
    case submit
    have "is_admin_uid s caller"
    proof (rule ccontr)
      assume "\<not> is_admin_uid s caller"
      then have "adds_none w w'" using submit by (simp add: service_submit_def tame_adds_none)
      then show False using False by (simp add: adds_none_approvals)
    qed
    moreover have "vs_decision sub = ''approve''"
      using False tame_submit [of sub w s caller] submit tame_adds_none adds_none_approvals by blast
    ultimately show ?thesis using submit submit_approves_only by blast
  next
    case press
    have "tv_decision v = ''approve''"
      using False tame_pump [of v w s] press tame_adds_none adds_none_approvals by fastforce
    then show ?thesis using press polled press_approves_only by blast
  next
    case step
    then show ?thesis using False tame_adds_none [OF step_tame] adds_none_approvals by blast
  next
    case run
    then show ?thesis using False run_approved_adds_none adds_none_approvals by blast
  qed
qed simp

section \<open>Button presses\<close>

lemma split_ask_kind: "split_ask rest = Some (kind, rid, idxs) \<Longrightarrow> kind \<in> {''asktoggle'', ''asksubmit'', ''ask''}"
  unfolding split_ask_def Let_def
  by (simp only: option.distinct map_option_eq_Some split: option.split_asm if_split_asm) auto

lemma split_page_idxs: "split_page rest = Some (kind, rid, idxs) \<Longrightarrow> idxs \<noteq> []"
  by (auto simp: split_page_def split: option.splits if_splits)

lemma page_has_number:
  assumes "split_verdict data = Some (''page'', rid, idxs)"
  shows "idxs \<noteq> []"
  using assms unfolding split_verdict_def
  by (simp only: option.distinct option.inject prod.inject split: if_split_asm)
    (auto dest: split_ask_kind split_page_idxs)

lemma pump_panics: "pump_one s v w = None \<Longrightarrow> tv_decision v = ''page'' \<and> tv_idxs v = []"
  unfolding pump_one_def Let_def
  by (simp only: option.distinct simp_thms split: if_split_asm list.split_asm prod.split_asm bool.split_asm)

text \<open>
  Whatever approvers press, the pump does not panic: every page event that polling forwards
  carries a page number.
\<close>

theorem presses_never_panic: "telegram_pump s (fst (poll_batch approvers offset us)) w \<noteq> None"
proof -
  have "pump_one s v w \<noteq> None" if "v \<in> set (fst (poll_batch approvers offset us))" for v w
    using polled [OF that] pump_panics [of s v w] page_has_number by fastforce
  then have "set vs \<subseteq> set (fst (poll_batch approvers offset us)) \<Longrightarrow> telegram_pump s vs w \<noteq> None" for vs
    by (induction vs arbitrary: w) (fastforce split: option.split)+
  then show ?thesis by blast
qed

section \<open>Cancellation\<close>

lemma files_views:
  assumes "d_files w' = d_files w"
  shows "read_file w' p = read_file w p" "store_load st rid w' = store_load st rid w"
    "store_verdict st rid w' = store_verdict st rid w" "store_cancel_info st rid w' = store_cancel_info st rid w"
  using assms
  by (simp_all add: read_file_def node_at_def store_load_def store_verdict_def store_cancel_info_def)

lemma resume_files [simp]: "d_files (resume_stored s rid w) = d_files w"
  by (simp add: resume_stored_def resume_suspend_def cont_pgid_def send_signal_def Let_def split: option.split)

lemma close_card_files [simp]: "d_files (close_card s rid argv dc by w) = d_files w"
  by (simp add: close_card_def split: option.split)

lemma cancel_rest_views:
  assumes "k \<noteq> KResult"
  shows "read_file (cancel_rest s rid rec step co by why w) (kpath (sv_store s) r k)
     = read_file (snd (store_consume (sv_store s) rid ''cancelled'' by w)) (kpath (sv_store s) r k)"
proof -
  have "read_file (audit s ev (resume_stored s rid (close_card s rid argv dc by w1))) p = read_file w1 p"
    for ev argv dc w1 p
    by (rule files_views(1)) simp
  then show ?thesis using assms by (simp add: cancel_rest_def Let_def save_result_read)
qed

lemma cancel_run_views:
  "k \<noteq> KResult \<Longrightarrow> read_file (cancel_run act s rid rec step co by why w) (kpath (sv_store s) r k)
     = read_file (snd (store_consume (sv_store s) rid ''cancelled'' by
         (act rid (snd (store_cancel (sv_store s) rid by why w))))) (kpath (sv_store s) r k)"
  by (simp add: cancel_run_def cancel_rest_views)

text \<open>What is recorded once stays, if those who come in between leave it.\<close>

lemma cancel_run_keeps:
  assumes "once_kind k" and "read_file w (kpath (sv_store s) r k) = Some c"
    and "\<And>w. read_file w (kpath (sv_store s) r k) = Some c \<Longrightarrow> read_file (act rid w) (kpath (sv_store s) r k) = Some c"
  shows "read_file (cancel_run act s rid rec step co by why w) (kpath (sv_store s) r k) = Some c"
  using assms by (subst cancel_run_views) (auto simp: once_kind_def excl_keeps_kind)

lemma cancel_run_load:
  "store_load (sv_store s) r (cancel_run undisturbed s rid rec step co by why w) = store_load (sv_store s) r w"
  by (simp add: store_load_def cancel_run_views store_consume_read store_cancel_read)

text \<open>Nobody has decided the petition: it has no verdict.\<close>

definition undecided :: "service \<Rightarrow> string \<Rightarrow> world \<Rightarrow> bool" where
  "undecided s rid w \<longleftrightarrow> node_at w (kpath (sv_store s) rid KVerdict) = None"

text \<open>A write of this file goes through.\<close>

definition writable :: "service \<Rightarrow> string \<Rightarrow> kind \<Rightarrow> world \<Rightarrow> bool" where
  "writable s rid k w \<longleftrightarrow> d_io w (kpath (sv_store s) rid k) = IoOk"

lemma undecided_verdict: "undecided s rid w \<Longrightarrow> store_verdict (sv_store s) rid w = None"
  by (simp add: undecided_def store_verdict_def read_file_def)

lemma undecided_consume:
  assumes "undecided s rid w" and "writable s rid KVerdict w"
  shows "store_consume (sv_store s) rid dc by w = (True, put_file (kpath (sv_store s) rid KVerdict)
    (JVerdict \<lparr>vd_decision = dc, vd_by = by, vd_unix_nano = d_now w\<rparr>) w)"
  using assms by (simp add: undecided_def writable_def store_consume_def write_excl_def)

lemma cancel_leaves_undecided:
  "undecided s rid (snd (store_cancel (sv_store s) rid by why w)) \<longleftrightarrow> undecided s rid w"
  "writable s rid k (snd (store_cancel (sv_store s) rid by why w)) \<longleftrightarrow> writable s rid k w"
proof -
  have "kpath (sv_store s) rid KVerdict \<noteq> kpath (sv_store s) rid KCancel" by simp
  then show "undecided s rid (snd (store_cancel (sv_store s) rid by why w)) \<longleftrightarrow> undecided s rid w"
    by (simp add: undecided_def store_cancel_def write_excl_def node_at_put split: io.split)
  show "writable s rid k (snd (store_cancel (sv_store s) rid by why w)) \<longleftrightarrow> writable s rid k w"
    by (simp add: writable_def store_cancel_def)
qed

text \<open>The verdict that stops every later decision.\<close>

definition stopped :: "service \<Rightarrow> string \<Rightarrow> string \<Rightarrow> world \<Rightarrow> bool" where
  "stopped s rid by w \<longleftrightarrow>
     (\<exists>v. read_file w (kpath (sv_store s) rid KVerdict) = Some (JVerdict v) \<and> vd_decision v = ''cancelled'' \<and> vd_by v = by)"

lemma cancel_run_stops:
  assumes "undecided s rid w" and "writable s rid KVerdict w"
  shows "stopped s rid by (cancel_run undisturbed s rid rec step co by why w)"
  using undecided_consume [of s rid "snd (store_cancel (sv_store s) rid by why w)"] assms
  by (simp add: stopped_def cancel_run_views cancel_leaves_undecided read_file_put)

lemma stopped_stays:
  "stopped s rid by w \<Longrightarrow> stopped s rid by (cancel_run undisturbed s rid2 rec step co by2 why w)"
  using cancel_run_keeps [of KVerdict w s rid _ undisturbed] by (fastforce simp: stopped_def once_kind_def)

lemma stopped_final:
  assumes "stopped s rid by w"
  shows "await s rid expires c ticks w = Some (Some (''cancelled'', by), ticks, w)"
    and "vs_id sub = rid \<Longrightarrow> \<not> va_recorded (fst (service_submit s sub caller w))"
    and "store_load (sv_store s) rid w \<noteq> None \<Longrightarrow> is_admin_uid s caller \<Longrightarrow> trim_space (cr_id req) = rid \<Longrightarrow> rid \<noteq> []
      \<Longrightarrow> service_cancel s req caller w = (cancel_done, w)"
  using assms
  by (auto simp: stopped_def await.simps [of s rid] store_verdict_def service_submit_def store_consume_def
      excl_read_taken service_cancel_def service_cancel_during_def already_cancelled_def Let_def split: option.splits)

lemma refused_not_done [simp]: "cancel_refused why \<noteq> cancel_done"
  by (simp add: cancel_refused_def cancel_done_def)

lemma cancel_run_petition:
  assumes "service_cancel s req caller w = (cancel_done, w')" and "trim_space (cr_id req) = rid"
    and "store_load (sv_store s) rid w = Some rec" and "pr_kind rec \<noteq> ''ask''" and "pr_kind rec \<noteq> ''notify''"
    and "\<not> already_cancelled s rid rec w"
  shows "(if pr_step rec = ''confirm''
      then cancel_confirm undisturbed s rid rec (clean_by (cr_by req)) (trim_space (cr_reason req)) w
      else cancel_initial undisturbed s rid rec (clean_by (cr_by req)) (trim_space (cr_reason req)) w)
        = (cancel_done, w') \<and> rid \<noteq> []"
  using assms unfolding service_cancel_def service_cancel_during_def Let_def
  by (simp only: option.case if_False if_True simp_thms prod.inject refused_not_done split: if_split_asm)

lemma cancelled_by_run:
  assumes "(if pr_step rec = ''confirm'' then cancel_confirm act s rid rec by why w
      else cancel_initial act s rid rec by why w) = (cancel_done, w')" and "store_verdict (sv_store s) rid w = None"
  obtains step co rid2 where "w' = cancel_run act s rid rec step co by why w
    \<or> w' = cancel_run act s rid2 rec ''initial'' [] by why (cancel_run act s rid rec step co by why w)"
proof (cases "pr_step rec = ''confirm''")
  case True
  then show ?thesis using assms that by (auto simp: cancel_confirm_def Let_def split: if_split_asm)
next
  case False
  then show ?thesis using assms that by (auto simp: cancel_initial_def Let_def split: if_split_asm)
qed


text \<open>
  Without it: when neither file can be opened for writing, \<open>Cancel\<close> still answers that the
  petition was cancelled, although nothing is recorded and the next approval counts.
\<close>

lemma failed_run_cancels_nothing:
  assumes "d_io w (kpath (sv_store s) rid KVerdict) = IoOpen" and "d_io w (kpath (sv_store s) rid KCancel) = IoOpen"
    and "k = KVerdict \<or> k = KCancel"
  shows "read_file (cancel_run undisturbed s rid rec step co by why w) (kpath (sv_store s) rid k)
    = read_file w (kpath (sv_store s) rid k)"
proof -
  have "snd (store_cancel (sv_store s) rid by why w) = w" "snd (store_consume (sv_store s) rid dc by w) = w" for dc
    using assms(1,2) by (simp_all add: store_cancel_def store_consume_def write_excl_def split: option.split)
  then show ?thesis using assms(3) by (auto simp: cancel_run_views)
qed

lemma failed_cancellation_reports_success:
  assumes "store_load (sv_store s) rid w = Some rec" and "pr_kind rec = []" and "pr_step rec = ''initial''"
    and "now_s w < pr_expires rec" and "undecided s rid w" and "\<not> already_cancelled s rid rec w"
    and "d_io w (kpath (sv_store s) rid KVerdict) = IoOpen" and "d_io w (kpath (sv_store s) rid KCancel) = IoOpen"
    and "is_admin_uid s caller" and "trim_space (cr_id req) = rid" and "rid \<noteq> []"
  shows "fst (service_cancel s req caller w) = cancel_done
    \<and> store_verdict (sv_store s) rid (snd (service_cancel s req caller w)) = None
    \<and> store_cancel_info (sv_store s) rid (snd (service_cancel s req caller w)) = None"
proof -
  let ?w' = "cancel_run undisturbed s rid rec ''initial'' [] (clean_by (cr_by req)) (trim_space (cr_reason req)) w"
  have "service_cancel s req caller w = (cancel_done, ?w')"
    using assms undecided_verdict [OF assms(5)]
    by (simp add: service_cancel_def service_cancel_during_def cancel_initial_def Let_def)
  moreover have "store_cancel_info (sv_store s) rid w = None" using assms(6) by (simp add: already_cancelled_def)
  ultimately show ?thesis
    using failed_run_cancels_nothing [OF assms(7,8)] undecided_verdict [OF assms(5)]
    by (simp add: store_verdict_def store_cancel_info_def)
qed

text \<open>An open petition for \<open>tool\<close> by user 1000, on a daemon that sends no cards.\<close>

definition sample_open :: world where
  "sample_open = (sample_world [(''/s/pending/a.json'',
      Reg (JRecord (pending_record_zero\<lparr>pr_argv := [''tool''], pr_uid := 1000, pr_expires := 160\<rparr>)) 5)])
     \<lparr>w_dyn := sample_dyn\<lparr>dy_target := ''paseo''\<rparr>\<rparr>"

definition sample_cancel :: cancel_request where
  "sample_cancel = \<lparr>cr_id = ''a'', cr_reason = ''no'', cr_by = ''me''\<rparr>"

definition sample_tool_record :: pending_record where
  "sample_tool_record = pending_record_zero\<lparr>pr_argv := [''tool''], pr_uid := 1000, pr_expires := 160\<rparr>"

lemma sample_open_load: "store_load (sv_store sample_service) ''a'' sample_open = Some sample_tool_record"
  by code_simp

lemma sample_open_undecided: "undecided sample_service ''a'' sample_open"
  by code_simp

lemma sample_open_words: "trim_space (cr_id sample_cancel) = ''a''" "clean_by (cr_by sample_cancel) = ''me''"
    "is_admin_uid sample_service 1000"
  by code_simp+

lemma sample_open_fresh: "\<not> already_cancelled sample_service ''a'' sample_tool_record sample_open"
  by code_simp

lemma sample_open_clock: "now_s sample_open = 100"
  by code_simp

lemma sample_open_writable: "writable sample_service ''a'' KVerdict sample_open" "writable sample_service ''a'' KCancel sample_open"
    "node_at sample_open (kpath (sv_store sample_service) ''a'' KCancel) = None"
  by code_simp+

lemma sample_tool_step: "pr_kind sample_tool_record = []" "pr_step sample_tool_record = []"
    "pr_expires sample_tool_record = 160"
  by (simp_all add: sample_tool_record_def)

lemma sample_open_cancels: "fst (service_cancel sample_service sample_cancel 1000 sample_open) = cancel_done"
  using sample_open_fresh undecided_verdict [OF sample_open_undecided]
  by (simp add: service_cancel_def service_cancel_during_def Let_def sample_open_words sample_open_load cancel_initial_def
      sample_open_clock sample_tool_step)

lemmas sample_open_facts = sample_open_load sample_open_undecided sample_open_words sample_open_fresh sample_open_cancels
  sample_open_writable sample_tool_step sample_open_clock


text \<open>Somebody submits a verdict on \<open>rid\<close> while it is being cancelled.\<close>

definition racing :: "service \<Rightarrow> string \<Rightarrow> verdict_submit \<Rightarrow> uid \<Rightarrow> string \<Rightarrow> world \<Rightarrow> world" where
  "racing s rid sub admin r w = (if r = rid then snd (service_submit s sub admin w) else w)"

lemma racing_keeps:
  assumes "read_file w (kpath (sv_store s) rid KVerdict) = Some c"
  shows "read_file (racing s rid2 sub admin r w) (kpath (sv_store s) rid KVerdict) = Some c"
proof -
  have "read_file w1 (kpath (sv_store s) rid KVerdict) = Some c"
    if "store_consume (sv_store s) (vs_id sub) dc by w = (ok, w1)" for dc "by" ok w1
    using excl_keeps_kind(1) [OF assms, of "sv_store s" "vs_id sub" dc "by"] that by simp
  moreover have "read_file (audit s ev w) (kpath (sv_store s) rid KVerdict) = Some c" for ev
    using assms by (subst files_views(1)) simp_all
  ultimately show ?thesis
    using assms by (simp add: racing_def service_submit_def split: prod.split)
qed

lemma racing_wins:
  assumes "undecided s rid w" and "writable s rid KVerdict w" and "is_admin_uid s admin"
    and "sub = \<lparr>vs_id = rid, vs_decision = ''approve'', vs_by = op\<rparr>"
  shows "\<exists>v. read_file (cancel_run (racing s rid sub admin) s rid rec step co by why w) (kpath (sv_store s) rid KVerdict)
      = Some (JVerdict v) \<and> vd_decision v = ''approve'' \<and> vd_by v = clean_by op"
proof -
  let ?st = "sv_store s"
  let ?w1 = "snd (store_cancel ?st rid by why w)"
  let ?v = "\<lparr>vd_decision = ''approve'', vd_by = clean_by op, vd_unix_nano = d_now ?w1\<rparr>"
  have "snd (service_submit s sub admin ?w1) = put_file (kpath ?st rid KVerdict) (JVerdict ?v) ?w1"
    using undecided_consume [of s rid ?w1] assms by (simp add: service_submit_def cancel_leaves_undecided)
  then have "read_file (racing s rid sub admin rid ?w1) (kpath ?st rid KVerdict) = Some (JVerdict ?v)"
    by (simp add: racing_def read_file_put)
  then show ?thesis by (simp add: cancel_run_views excl_keeps_kind)
qed

text \<open>
  C37. But a cancellation can lose a race it reports as won. \<open>Cancel\<close> writes its own record
  first and the verdict next, and ignores that the verdict was refused: when an approval is
  recorded in between, the canceller is told that the petition was cancelled, and yet the wait
  on the petition ends with the approval and the request goes on to run.
\<close>

theorem cancelled_yet_approved:
  assumes "store_load (sv_store s) rid w = Some rec" and "pr_kind rec \<noteq> ''ask''" and "pr_kind rec \<noteq> ''notify''"
    and "undecided s rid w" and "writable s rid KVerdict w" and "now_s w < pr_expires rec"
    and "\<not> already_cancelled s rid rec w" and "trim_space (cr_id req) = rid" and "rid \<noteq> []"
    and "is_admin_uid s caller \<or> caller = pr_uid rec" and "is_admin_uid s admin"
  shows "case service_cancel_during (racing s rid \<lparr>vs_id = rid, vs_decision = ''approve'', vs_by = op\<rparr> admin) s req caller w of
     (answer, w') \<Rightarrow> answer = cancel_done
       \<and> await s rid expires c ticks w' = Some (Some (''approve'', clean_by op), ticks, w')"
proof -
  let ?act = "racing s rid \<lparr>vs_id = rid, vs_decision = ''approve'', vs_by = op\<rparr> admin"
  let ?by = "clean_by (cr_by req)" and ?why = "trim_space (cr_reason req)"
  have none: "store_verdict (sv_store s) rid w = None" using undecided_verdict [OF assms(4)] .
  have "\<exists>w'. (if pr_step rec = ''confirm'' then cancel_confirm ?act s rid rec ?by ?why w
      else cancel_initial ?act s rid rec ?by ?why w) = (cancel_done, w')"
    using assms(6) none by (simp add: cancel_confirm_def cancel_initial_def Let_def)
  then obtain w' where step: "(if pr_step rec = ''confirm'' then cancel_confirm ?act s rid rec ?by ?why w
      else cancel_initial ?act s rid rec ?by ?why w) = (cancel_done, w')" ..
  then have run: "service_cancel_during ?act s req caller w = (cancel_done, w')"
    using assms(1-3,7-10) by (auto simp: service_cancel_during_def Let_def)
  obtain stp co rid2 where w': "w' = cancel_run ?act s rid rec stp co ?by ?why w
      \<or> w' = cancel_run ?act s rid2 rec ''initial'' [] ?by ?why (cancel_run ?act s rid rec stp co ?by ?why w)"
    using cancelled_by_run [OF step none] by metis
  note won = racing_wins [OF assms(4,5,11) refl]
  obtain v where v: "read_file (cancel_run ?act s rid rec stp co ?by ?why w) (kpath (sv_store s) rid KVerdict)
      = Some (JVerdict v)" "vd_decision v = ''approve''" "vd_by v = clean_by op"
    using won by blast
  have "read_file w' (kpath (sv_store s) rid KVerdict) = Some (JVerdict v)"
    using w' v(1) cancel_run_keeps [of KVerdict _ s rid _ ?act] racing_keeps by (auto simp: once_kind_def)
  then show ?thesis using run v by (simp add: await.simps [of s rid] store_verdict_def)
qed

theorem cancelled_yet_approved_witness:
  "case service_cancel_during (racing sample_service ''a'' \<lparr>vs_id = ''a'', vs_decision = ''approve'', vs_by = ''op''\<rparr> 1000)
      sample_service sample_cancel 1000 sample_open of
     (answer, w') \<Rightarrow> answer = cancel_done
       \<and> await sample_service ''a'' 0 False [] w' = Some (Some (''approve'', clean_by ''op''), [], w')"
  by (rule cancelled_yet_approved [OF sample_open_load]) (simp_all add: sample_open_facts)

theorem approval_is_authorised_witness:
  "let sub = \<lparr>vs_id = ''a'', vs_decision = ''approve'', vs_by = ''op''\<rparr>; w' = snd (service_submit sample_service sub 1000 sample_open)
   in \<not> approvals w' \<subseteq> approvals sample_open \<and> is_admin_uid sample_service 1000 \<and> approves_only sample_service ''a'' sample_open w'"
proof -
  let ?sub = "\<lparr>vs_id = ''a'', vs_decision = ''approve'', vs_by = ''op''\<rparr>"
  let ?w' = "snd (service_submit sample_service ?sub 1000 sample_open)"
  have "map_option vd_decision (store_verdict (sv_store sample_service) ''a'' ?w') = Some ''approve''" by code_simp
  then have "\<not> no_approval ?w'" using no_approval_verdict [of ?w' "sv_store sample_service" "''a''"] by auto
  moreover have "no_approval sample_open"
    by (auto simp: no_approval_def sample_open_def sample_world_def read_file_def node_at_def split: if_splits)
  ultimately have "\<not> approvals ?w' \<subseteq> approvals sample_open"
    by (auto simp: no_approval_iff approvals_in_iff)
  then show ?thesis
    using approval_is_authorised [of ?w' sample_service ?sub 1000 sample_open "\<lambda>_. False" 0 "[]"]
    by (auto simp: Let_def poll_batch_def List.map_filter_simps)
qed

text \<open>A petition that is decided, or too old, with no way to stop it any more.\<close>

definition settled :: "service \<Rightarrow> string \<Rightarrow> pending_record \<Rightarrow> world \<Rightarrow> bool" where
  "settled s rid rec w \<longleftrightarrow>
     (if pr_kind rec = ''ask'' then store_selection_info (sv_store s) rid w \<noteq> None \<or> pr_expires rec \<le> now_s w
      else if pr_kind rec = ''notify'' then store_ack_info (sv_store s) rid w \<noteq> None \<or> pr_expires rec \<le> now_s w
      else case store_verdict (sv_store s) rid w of
             None \<Rightarrow> pr_expires rec \<le> now_s w
           | Some v \<Rightarrow> pr_step rec = ''confirm'' \<or> vd_decision v = ''deny''
               \<or> vd_decision v = ''approve'' \<and> find_confirmation (sv_store s) rid w = None)"

text \<open>
  A cancellation never overrules a decision. For an answered question, an acknowledged
  notice, a denied or executed command, a decided confirmation and anything that has expired,
  \<open>Cancel\<close> answers with an error and changes nothing but the audit trail.
\<close>

theorem decision_is_not_overruled:
  assumes "store_load (sv_store s) (trim_space (cr_id req)) w = Some rec"
    and "settled s (trim_space (cr_id req)) rec w" and "\<not> already_cancelled s (trim_space (cr_id req)) rec w"
  shows "\<not> cx_cancelled (fst (service_cancel s req caller w)) \<and> cx_error (fst (service_cancel s req caller w)) \<noteq> []
    \<and> (snd (service_cancel s req caller w) = w \<or> only_audited w (snd (service_cancel s req caller w)))"
proof -
  let ?rid = "trim_space (cr_id req)"
  let ?by = "clean_by (cr_by req)" and ?why = "trim_space (cr_reason req)"
  have unmarked: "vd_decision v \<noteq> ''cancelled''" if "store_verdict (sv_store s) ?rid w = Some v" for v
    using assms(3) that by (auto simp: already_cancelled_def)
  have refuse: "\<exists>e. e \<noteq> [] \<and> x = (cancel_refused e, w)
      \<Longrightarrow> \<not> cx_cancelled (fst x) \<and> cx_error (fst x) \<noteq> [] \<and> (snd x = w \<or> only_audited w (snd x))" for x
    by (auto simp: cancel_refused_def)
  have "\<exists>e. e \<noteq> [] \<and> cancel_ask s ?rid rec ?by ?why w = (cancel_refused e, w)" if "pr_kind rec = ''ask''"
    using assms(2) that by (auto simp: settled_def cancel_ask_def)
  moreover have "\<exists>e. e \<noteq> [] \<and> cancel_notify s ?rid rec ?by ?why w = (cancel_refused e, w)" if "pr_kind rec = ''notify''"
    using assms(2) that by (auto simp: settled_def cancel_notify_def)
  moreover have "\<exists>e. e \<noteq> [] \<and> cancel_confirm undisturbed s ?rid rec ?by ?why w = (cancel_refused e, w)"
    if "pr_kind rec \<noteq> ''ask''" "pr_kind rec \<noteq> ''notify''"
    using assms(2) that unmarked by (auto simp: settled_def cancel_confirm_def split: option.splits)
  moreover have "\<exists>e. e \<noteq> [] \<and> cancel_initial undisturbed s ?rid rec ?by ?why w = (cancel_refused e, w)"
    if "pr_kind rec \<noteq> ''ask''" "pr_kind rec \<noteq> ''notify''" "pr_step rec \<noteq> ''confirm''"
    using assms(2) that by (auto simp: settled_def cancel_initial_def Let_def split: option.splits)
  ultimately show ?thesis
    using assms(1,3) refuse
    by (simp add: service_cancel_def service_cancel_during_def Let_def) (auto simp: cancel_refused_def only_audited_audit)
qed

theorem decision_is_not_overruled_witness:
  "cx_cancelled (fst (service_cancel sample_service sample_cancel 1000 (sample_open\<lparr>d_now := 200 * 10 ^ 9\<rparr>))) = False"
proof -
  let ?w = "sample_open\<lparr>d_now := 200 * 10 ^ 9\<rparr>"
  have "store_load (sv_store sample_service) ''a'' ?w = Some sample_tool_record" by code_simp
  moreover have "settled sample_service ''a'' sample_tool_record ?w" by code_simp
  moreover have "\<not> already_cancelled sample_service ''a'' sample_tool_record ?w" by code_simp
  ultimately show ?thesis
    using decision_is_not_overruled [of sample_service sample_cancel ?w sample_tool_record 1000]
    by (simp add: sample_open_words)
qed

end
