(* ===== verification/AskFacts.thy ===== *)
theory AskFacts imports OperatorFacts begin

text \<open>
  What a question guarantees its caller: it is answered with what the store holds, it ends with
  its documented lifetime, and a choice of several options is exactly what was toggled.
\<close>

section \<open>Lifetimes\<close>

lemma clamp_ttl_bounds: "lo \<le> hi \<Longrightarrow> lo \<le> clamp_ttl dflt lo hi t \<and> clamp_ttl dflt lo hi t \<le> hi"
  by (simp add: clamp_ttl_def Let_def)

lemma clamp_ttl_exact:
  assumes "0 < t" and "t * second_ns < 2 ^ 63" and "lo \<le> t * second_ns" and "t * second_ns \<le> hi"
  shows "clamp_ttl dflt lo hi t = t * second_ns"
proof -
  have "i64 (t * second_ns) = t * second_ns"
    using assms(1,2) by (intro i64_id) (simp_all add: second_ns_def)
  then show ?thesis using assms by (simp add: clamp_ttl_def Let_def second_ns_def)
qed

text \<open>
  A petition without a command lives a bounded time whatever its caller asks for, even when
  the number of seconds overflows a \<open>time.Duration\<close>: a question between ten seconds and a week, a
  notice between five minutes and a week. A wish within the bounds is granted to the second.
\<close>

theorem lifetimes_are_bounded:
  "10 * second_ns \<le> ask_ttl req w \<and> ask_ttl req w \<le> 604800 * second_ns
   \<and> 300 * second_ns \<le> notify_ttl note \<and> notify_ttl note \<le> 604800 * second_ns
   \<and> (if is_placeholder w then ask_ttl req w = 10 * second_ns
      else if aq_ttl_seconds req \<in> {10..604800} then ask_ttl req w = aq_ttl_seconds req * second_ns else True)
   \<and> (if nr_ttl_seconds note \<in> {300..604800} then notify_ttl note = nr_ttl_seconds note * second_ns else True)"
proof -
  have "ask_ttl req w = aq_ttl_seconds req * second_ns"
    if "\<not> is_placeholder w" "aq_ttl_seconds req \<in> {10..604800}"
    using that unfolding ask_ttl_def
    by (simp, intro clamp_ttl_exact) (simp_all add: second_ns_def min_ask_ttl_def max_ask_ttl_def)
  moreover have "notify_ttl note = nr_ttl_seconds note * second_ns" if "nr_ttl_seconds note \<in> {300..604800}"
    using that unfolding notify_ttl_def
    by (intro clamp_ttl_exact) (simp_all add: second_ns_def min_notify_ttl_def max_notify_ttl_def)
  moreover have "10 * second_ns \<le> ask_ttl req w \<and> ask_ttl req w \<le> 604800 * second_ns"
    using clamp_ttl_bounds [of min_ask_ttl max_ask_ttl default_ask_ttl "aq_ttl_seconds req"]
    by (simp add: ask_ttl_def min_ask_ttl_def max_ask_ttl_def second_ns_def)
  moreover have "300 * second_ns \<le> notify_ttl note \<and> notify_ttl note \<le> 604800 * second_ns"
    using clamp_ttl_bounds [of min_notify_ttl max_notify_ttl default_notify_ttl "nr_ttl_seconds note"]
    by (simp add: notify_ttl_def min_notify_ttl_def max_notify_ttl_def second_ns_def)
  moreover have "is_placeholder w \<Longrightarrow> ask_ttl req w = 10 * second_ns" by (simp add: ask_ttl_def min_ask_ttl_def)
  ultimately show ?thesis by auto
qed

section \<open>The answer\<close>

lemma selection_files:
  "d_files w' = d_files w \<Longrightarrow> store_selection_info st rid w' = store_selection_info st rid w" for w w' :: world
  by (simp add: store_selection_info_def read_file_def node_at_def)

lemma selection_after:
  "store_selection_info st rid (audit s ev w) = store_selection_info st rid w"
  "store_selection_info st rid (close_ask_card s rid2 x by w) = store_selection_info st rid w"
  by (rule selection_files, simp add: close_ask_card_def split: option.split)+

lemma cancel_after:
  "store_cancel_info st rid (audit s ev w) = store_cancel_info st rid w"
  "store_cancel_info st rid (close_ask_card s rid2 x by w) = store_cancel_info st rid w"
  by (rule files_views(4), simp add: close_ask_card_def split: option.split)+

text \<open>
  What a caller may conclude from the answer to a question; \<open>hung_up\<close> says that the caller was
  gone at one of the looks, which matters only where hanging up is noticed.
\<close>

definition answer_holds :: "service \<Rightarrow> int \<Rightarrow> bool \<Rightarrow> ask_result \<Rightarrow> world \<Rightarrow> bool" where
  "answer_holds s expires hung_up res w \<longleftrightarrow>
     (let sel = store_selection_info (sv_store s) (ax_id res) w; cancelled = store_cancel_info (sv_store s) (ax_id res) w in
      if ax_status res = ''selected''
      then \<exists>r. sel = Some r \<and> ax_selection res = sl_selection r
             \<and> ax_selection_idx res = sl_selection_idx r \<and> ax_selection_idxs res = sl_selection_idxs r
             \<and> ax_by res = sl_by r
      else if ax_status res = ''timeout'' then sel = None \<and> cancelled = None \<and> expires < d_now w
      else if ax_reason res = ''cancelled''
      then ax_status res = ''denied'' \<and> cancelled \<noteq> None \<and> (sel = None \<or> hung_up)
      else ax_status res = ''denied'' \<and> ax_reason res = ''client_aborted'' \<and> hung_up \<and> cancelled = None)"

lemma await_selection_answer:
  "await_selection s rid expires c ticks w = Some (a, ts, w') \<Longrightarrow>
    selection_look s rid expires w' = Some a \<or> (c \<and> list_ex snd ticks \<and> a = (None, True))"
proof (induction ticks arbitrary: w)
  case Nil
  then show ?case by (simp add: selection_wait.loop_Nil)
next
  case (Cons t ticks)
  from Cons.prems show ?case
  proof (rule selection_wait.loop_Cons)
    assume "await_selection s rid expires c ticks (fst t w) = Some (a, ts, w')"
    then show ?thesis using Cons.IH by auto
  qed (auto split: if_splits)
qed

lemma ask_answered_holds:
  assumes "selection_look s rid expires w = Some a \<or> (h \<and> a = (None, True))"
  shows "answer_holds s expires h (fst (ask_answered s rid q uid a w)) (snd (ask_answered s rid q uid a w))"
proof -
  have now: "d_now (close_ask_card s rid x y w) = d_now w" for x y
    by (simp add: close_ask_card_def split: option.split)
  obtain sel b where a: "a = (sel, b)" by fastforce
  show ?thesis
  proof (cases b)
    case True
    then show ?thesis
      using assms unfolding a
      by (cases "store_cancel_info (sv_store s) rid w")
        (auto simp: ask_answered_def answer_holds_def ask_denied_def selection_look_def cancel_after selection_after
          split: option.splits if_splits)
  next
    case False
    then show ?thesis
      using assms unfolding a
      by (cases sel) (auto simp: ask_answered_def answer_holds_def selection_look_def selection_after cancel_after now
          split: option.splits if_splits)
  qed
qed

lemma ask_answer_holds:
  assumes "ask_with_cancel s req uid c ticks w = Some (res, ts, w')" and "ask_refusal req = None"
  shows "\<exists>rid expires w1. file_ask s req uid w = (rid, expires, w1) \<and> ax_id res = rid
    \<and> ax_question res = trim_space (aq_question req) \<and> answer_holds s expires (c \<and> list_ex snd ticks) res w'"
proof -
  obtain rid expires w1 where filed: "file_ask s req uid w = (rid, expires, w1)" using prod_cases3 by blast
  obtain a ts2 w2 where wait: "await_selection s rid expires c ticks w1 = Some (a, ts2, w2)"
    and res: "ask_answered s rid (trim_space (aq_question req)) uid a w2 = (res, w')"
    using assms filed by (auto simp: ask_with_cancel_def split: option.splits prod.splits)
  have "selection_look s rid expires w2 = Some a \<or> ((c \<and> list_ex snd ticks) \<and> a = (None, True))"
    using await_selection_answer [OF wait] by blast
  from ask_answered_holds [OF this, of "trim_space (aq_question req)" uid]
  have "answer_holds s expires (c \<and> list_ex snd ticks) res w'" by (simp add: res)
  moreover have "ax_id res = rid \<and> ax_question res = trim_space (aq_question req)"
    using res by (auto simp: ask_answered_def ask_denied_def split: option.splits prod.splits bool.splits)
  ultimately show ?thesis using filed by blast
qed

text \<open>
  C18. The answer to an accepted question is what the store says. A selection is the recorded
  one, word for word and with its author. A time-out comes after the deadline, with neither a
  selection nor a cancellation on record. A cancellation is on record when it is reported, and
  then no selection is, unless the caller had hung up. Nothing else is answered but
  the caller's own hanging up, and that only where it is noticed and nothing was cancelled.
\<close>

theorem answer_reports_the_store:
  assumes "ask_with_cancel s req uid c ticks w = Some (res, ts, w')" and "ask_refusal req = None"
  shows "\<exists>rid expires w1. file_ask s req uid w = (rid, expires, w1) \<and> ax_id res = rid
    \<and> ax_question res = trim_space (aq_question req) \<and> answer_holds s expires (c \<and> list_ex snd ticks) res w'"
  by (rule ask_answer_holds [OF assms])

definition sample_question :: ask_request where
  "sample_question = \<lparr>aq_question = ''q'', aq_options = [''x'', ''y''], aq_link = [], aq_ttl_seconds = 60,
     aq_multi_select = False, aq_allow_write_in = False, aq_recommended_index = 0\<rparr>"

text \<open>While the question waits, the second option is picked.\<close>

definition sample_pick :: tick where
  "sample_pick = (\<lambda>w. snd (store_select (sv_store sample_service) ''3132333435363738'' ''y'' 1 ''op'' w), False)"

lemma sample_question_selected:
  "map_option (\<lambda>(res, ts, w'). ax_status res)
     (ask_with_cancel sample_service sample_question 1000 True [sample_pick] sample_open) = Some ''selected''"
  by code_simp

theorem answer_reports_the_store_witness:
  "\<exists>res ts w' sel. ask_with_cancel sample_service sample_question 1000 True [sample_pick] sample_open = Some (res, ts, w')
    \<and> store_selection_info (sv_store sample_service) (ax_id res) w' = Some sel \<and> ax_selection res = sl_selection sel"
proof -
  obtain res ts w' where run: "ask_with_cancel sample_service sample_question 1000 True [sample_pick] sample_open
      = Some (res, ts, w')" and "ax_status res = ''selected''"
    using sample_question_selected by auto
  moreover have "ask_refusal sample_question = None" by code_simp
  ultimately show ?thesis using answer_reports_the_store [OF run] by (auto simp: answer_holds_def Let_def)
qed

lemma now_file_ask: "file_ask s req uid w = (rid, expires, w') \<Longrightarrow> d_now w' = d_now w \<and> expires = d_now w + ask_ttl req w"
proof -
  assume run: "file_ask s req uid w = (rid, expires, w')"
  obtain r w1 where r: "new_rid s w = (r, w1)" by fastforce
  have 1: "d_now w1 = d_now w" using new_rid_fields(3) [of s w] r by simp
  have "d_now (emits es w2) = d_now w2" for es w2 by (induction es arbitrary: w2) (simp_all add: emits_def)
  moreover have "tg_send s chat msg n kb w2 = (m, w3) \<Longrightarrow> d_now w3 = d_now w2" for chat msg n kb w2 m w3
    by (auto simp: tg_send_def Let_def)
  ultimately have "d_now (page_ask s rid0 q l opts rc ttl multi wi w2) = d_now w2" for rid0 q l opts rc ttl multi wi w2
    by (auto simp: page_ask_def Let_def split: prod.split option.split)
  then show ?thesis using run 1 by (auto simp: file_ask_def r Let_def)
qed

text \<open>
  The seconds a question lives, from the documentation: ten when no bot is configured, an hour
  when none are asked for, and otherwise those asked for, but at least ten and at most a week.
\<close>

definition documented_lifetime :: "ask_request \<Rightarrow> world \<Rightarrow> int" where
  "documented_lifetime req w =
     (if is_placeholder w then 10 else if aq_ttl_seconds req = 0 then 3600
      else max 10 (min 604800 (aq_ttl_seconds req)))"

lemma ask_ttl_documented:
  assumes "\<bar>aq_ttl_seconds req\<bar> \<le> 9223372036"
  shows "ask_ttl req w = documented_lifetime req w * second_ns"
proof -
  have "i64 (aq_ttl_seconds req * second_ns) = aq_ttl_seconds req * second_ns"
    using assms by (intro i64_id) (simp_all add: second_ns_def abs_le_iff)
  then show ?thesis
    by (simp add: ask_ttl_def documented_lifetime_def clamp_ttl_def Let_def second_ns_def min_ask_ttl_def
        max_ask_ttl_def default_ask_ttl_def max_def min_def)
qed

text \<open>
  C31. A question ends with its lifetime: if the clock goes on by \<open>\<delta>\<close> at least between two looks
  at the store, it is answered within as many looks as pass the lifetime it was given, and it is
  not answered as timed out before. (The seconds asked for are taken to fit a
  \<open>time.Duration\<close>; whatever they are, \<open>lifetimes_are_bounded\<close> gives a week at most.)
\<close>

theorem question_ends:
  assumes "list_all (advancing \<delta>) ticks" and "\<bar>aq_ttl_seconds req\<bar> \<le> 9223372036"
    and "documented_lifetime req w * second_ns < \<delta> * int (length ticks)"
  shows "\<exists>res ts w'. ask_with_cancel s req uid c ticks w = Some (res, ts, w')
    \<and> (if ax_status res = ''timeout'' then d_now w + documented_lifetime req w * second_ns < d_now w' else True)"
proof (cases "ask_refusal req")
  case None
  obtain rid expires w1 where filed: "file_ask s req uid w = (rid, expires, w1)" using prod_cases3 by blast
  have lives: "expires = d_now w + documented_lifetime req w * second_ns" "d_now w1 = d_now w"
    using now_file_ask [OF filed] ask_ttl_documented [OF assms(2)] by simp_all
  have "expires < d_now w1 + \<delta> * int (length ticks)" using assms(3) lives by linarith
  then have "await_selection s rid expires c ticks w1 \<noteq> None"
    by (intro selection_wait.returns [OF selection_look_late])
      (use assms(1) in \<open>simp_all add: advancing_def [abs_def]\<close>)
  then obtain res ts w' where run: "ask_with_cancel s req uid c ticks w = Some (res, ts, w')"
    using None filed by (force simp: ask_with_cancel_def split: prod.splits)
  from ask_answer_holds [OF this None] filed have "answer_holds s expires (c \<and> list_ex snd ticks) res w'" by auto
  then show ?thesis using run lives by (auto simp: answer_holds_def Let_def)
next
  case (Some why)
  then show ?thesis by (simp add: ask_with_cancel_def ask_denied_def)
qed

lemma sample_lifetime: "documented_lifetime sample_question (sample_world []) \<le> 60"
  by (simp add: documented_lifetime_def sample_question_def)

theorem question_ends_witness:
  "\<exists>res ts w'. ask_with_cancel sample_service sample_question 1000 True [sample_silence, sample_silence] (sample_world [])
      = Some (res, ts, w')
    \<and> (if ax_status res = ''timeout''
       then d_now (sample_world []) + documented_lifetime sample_question (sample_world []) * second_ns < d_now w' else True)"
  by (rule question_ends [where \<delta> = 61000000000])
    (use sample_lifetime in \<open>simp_all add: sample_silence_facts second_ns_def sample_question_def\<close>)

section \<open>Choices\<close>

lemma toggle_set: "set (toggle_idx xs i) = (if i \<in> set xs then set xs - {i} else insert i (set xs))"
  by (auto simp: toggle_idx_def Let_def)

lemma toggle_sorted: "sorted (toggle_idx xs i)"
  by (simp add: toggle_idx_def Let_def)

lemma toggle_distinct: "distinct xs \<Longrightarrow> distinct (toggle_idx xs i)"
  by (simp add: toggle_idx_def Let_def)

text \<open>
  What is chosen is what was pressed an odd number of times: after any sequence of presses on
  the option buttons of a card, the stored choice is the sorted list of exactly those options.
\<close>

theorem toggles_are_parity:
  "foldl toggle_idx [] presses = sorted_list_of_set {i \<in> set presses. odd (count_list presses i)}"
proof -
  let ?chosen = "\<lambda>ps. {i \<in> set ps. odd (count_list ps i)}"
  have "set (foldl toggle_idx [] presses) = ?chosen presses \<and> sorted (foldl toggle_idx [] presses)
      \<and> distinct (foldl toggle_idx [] presses)"
  proof (induction presses rule: rev_induct)
    case (snoc p ps)
    have "p \<notin> set ps \<Longrightarrow> count_list ps p = 0" by simp
    then have "set (toggle_idx (foldl toggle_idx [] ps) p) = ?chosen (ps @ [p])"
      using snoc.IH unfolding toggle_set by (auto simp: count_list_append)
    then show ?case using snoc.IH by (simp add: toggle_sorted toggle_distinct)
  qed simp
  then show ?thesis by (metis sorted_list_of_set.idem_if_sorted_distinct)
qed

text \<open>
  A submitted choice of several options is recorded as it stands on the card: the recorded
  numbers are the valid ones of the stored choice, in order, and the text is those options joined.
\<close>

theorem submitted_choice_is_recorded:
  assumes "store_load (sv_store s) rid w = Some rec" and "pr_kind rec = ''ask''" and "pr_multi_select rec"
    and "valid_idxs (pr_options rec) (pr_selected_idxs rec) \<noteq> []"
    and "node_at w (kpath (sv_store s) rid KSelection) = None" and "d_io w (kpath (sv_store s) rid KSelection) = IoOk"
  shows "\<exists>sel. store_selection_info (sv_store s) rid (submit_ask s rid by w) = Some sel \<and> sl_by sel = by
    \<and> sl_selection_idxs sel = filter (\<lambda>i. 0 \<le> i \<and> i < int (length (pr_options rec))) (pr_selected_idxs rec)
    \<and> sl_selection sel = str_join '', '' (map (\<lambda>i. pr_options rec ! nat i) (sl_selection_idxs sel))"
  using assms
  by (auto simp: submit_ask_def labels_of_def store_select_many_def select_record_def write_excl_def
      store_selection_info_def read_file_put valid_idxs_def)

definition sample_choice :: world where
  "sample_choice = (sample_world [(''/s/pending/a.json'',
      Reg (JRecord (pending_record_zero\<lparr>pr_kind := ''ask'', pr_multi_select := True, pr_options := [''x'', ''y'', ''z''],
        pr_selected_idxs := [0, 2], pr_expires := 160\<rparr>)) 5)])"

theorem submitted_choice_is_recorded_witness:
  "\<exists>sel. store_selection_info (sv_store sample_service) ''a'' (submit_ask sample_service ''a'' ''op'' sample_choice) = Some sel
    \<and> sl_selection sel = ''x, z''"
proof -
  let ?rec = "pending_record_zero\<lparr>pr_kind := ''ask'', pr_multi_select := True, pr_options := [''x'', ''y'', ''z''],
        pr_selected_idxs := [0, 2], pr_expires := 160\<rparr>"
  have "store_load (sv_store sample_service) ''a'' sample_choice = Some ?rec" by code_simp
  moreover have "node_at sample_choice (kpath (sv_store sample_service) ''a'' KSelection) = None" by code_simp
  moreover have "d_io sample_choice (kpath (sv_store sample_service) ''a'' KSelection) = IoOk" by code_simp
  ultimately show ?thesis
    using submitted_choice_is_recorded [of sample_service "''a''" sample_choice ?rec "''op''"]
    by (auto simp: valid_idxs_def str_join_Cons)
qed

end
