(* ===== verification/ViewFacts.thy ===== *)
theory ViewFacts imports OperatorFacts begin

text \<open>
  The views an operator decides by agree with the gates an approval meets: \<open>List\<close> and \<open>Status\<close>
  show the drifts that a run approved at that moment would find, and the run is refused, or
  warned, accordingly.
\<close>

section \<open>The drift in a view\<close>

lemma store_status_no_drift:
  "st_git_drift (store_status st rid now w) = None" "st_fd_drift (store_status st rid now w) = None"
  "st_seal_drift (store_status st rid now w) = None"
proof -
  have decided: "st_git_drift (decided_status st rid rec v now w) = None"
      "st_fd_drift (decided_status st rid rec v now w) = None"
      "st_seal_drift (decided_status st rid rec v now w) = None" for rec v
    by (simp_all add: decided_status_def exec_base_def Let_def split: option.split)
  have "st_git_drift (exec_status st rid rec now w) = None \<and> st_fd_drift (exec_status st rid rec now w) = None
      \<and> st_seal_drift (exec_status st rid rec now w) = None" for rec
    by (simp add: exec_status_def exec_base_def decided split: option.split prod.split)
  then show "st_git_drift (store_status st rid now w) = None" "st_fd_drift (store_status st rid now w) = None"
      "st_seal_drift (store_status st rid now w) = None"
    by (simp_all add: store_status_def ask_status_def notify_status_def Let_def split: option.split)
qed

lemma drift_decision_fields [simp]:
  "st_git_drift (drift_decision kind st) = st_git_drift st" "st_fd_drift (drift_decision kind st) = st_fd_drift st"
  "st_seal_drift (drift_decision kind st) = st_seal_drift st"
  by (simp_all add: drift_decision_def)

lemma check_git_empty:
  assumes "store_load (sv_store s) rid w = Some rec" and "pr_cwd rec = []"
  shows "check_git_drift s rid [] w = None"
proof -
  have "trim_space [] = []" using trim_space_length [of "[]"] by simp
  then have "snapshot_git [] w = None" by (simp add: snapshot_git_def)
  then show ?thesis using assms by (simp add: check_git_drift_def split: option.split)
qed

lemma status_git_fields:
  "st_fd_drift (status_git s rid rec w st) = st_fd_drift st"
  "st_seal_drift (status_git s rid rec w st) = st_seal_drift st"
  by (simp_all add: status_git_def Let_def split: option.split)

lemma status_git_drift:
  assumes "store_load (sv_store s) rid w = Some rec" and "st_git_drift st = None"
  shows "st_git_drift (status_git s rid rec w st) = check_git_drift s rid (pr_cwd rec) w"
proof (cases "pr_cwd rec = []")
  case True
  then show ?thesis
    using assms check_git_empty [OF assms(1)] by (simp add: status_git_def Let_def split: option.split)
next
  case False
  then show ?thesis
    using assms by (auto simp: status_git_def check_git_drift_def compare_git_def git_blocked_def git_gone_def Let_def
        split: option.split)
qed

lemma check_nothing:
  assumes "store_load (sv_store s) rid w = Some rec"
  shows "pr_fd rec = None \<Longrightarrow> check_fd_drift s rid w = None"
    "pr_fd rec = Some f \<Longrightarrow> fp_path f = [] \<Longrightarrow> check_fd_drift s rid w = None"
    "pr_seal rec = None \<Longrightarrow> check_seal_drift s rid w = None"
    "pr_seal rec = Some x \<Longrightarrow> sp_files x = [] \<Longrightarrow> check_seal_drift s rid w = None"
    "pr_git rec = None \<Longrightarrow> check_git_drift s rid cwd w = None"
    "pr_git rec = Some g \<Longrightarrow> \<not> gp_present g \<Longrightarrow> check_git_drift s rid cwd w = None"
  using assms by (simp_all add: check_fd_drift_def check_seal_drift_def check_git_drift_def)

lemma status_fd_fields:
  "st_git_drift (status_fd s rid rec w st) = st_git_drift st"
  "st_seal_drift (status_fd s rid rec w st) = st_seal_drift st"
  "store_load (sv_store s) rid w = Some rec \<Longrightarrow> st_fd_drift st = None \<Longrightarrow>
    st_fd_drift (status_fd s rid rec w st) = check_fd_drift s rid w"
  using check_nothing(1,2) [of s rid w rec] by (auto simp: status_fd_def split: option.split)

lemma status_seal_fields:
  "st_git_drift (status_seal s rid rec w st) = st_git_drift st"
  "st_fd_drift (status_seal s rid rec w st) = st_fd_drift st"
  "store_load (sv_store s) rid w = Some rec \<Longrightarrow> st_seal_drift st = None \<Longrightarrow>
    st_seal_drift (status_seal s rid rec w st) = check_seal_drift s rid w"
  using check_nothing(3,4) [of s rid w rec] by (auto simp: status_seal_def split: option.split)

lemma status_drifts:
  assumes rec: "store_load (sv_store s) rid w = Some rec"
  shows "st_git_drift (service_status s rid w) = check_git_drift s rid (pr_cwd rec) w"
    and "st_fd_drift (service_status s rid w) = check_fd_drift s rid w"
    and "st_seal_drift (service_status s rid w) = check_seal_drift s rid w"
proof -
  let ?st = "drift_decision ''seal-drift'' (drift_decision ''fd-drift'' (drift_decision ''git-drift''
    (store_status (sv_store s) rid (now_s w) w)))"
  let ?st1 = "case pr_suspend rec of Some p \<Rightarrow> ?st\<lparr>st_suspend := Some p\<rparr> | None \<Rightarrow> ?st"
  have "st_git_drift ?st1 = None \<and> st_fd_drift ?st1 = None \<and> st_seal_drift ?st1 = None"
    by (simp add: store_status_no_drift split: option.split)
  moreover have "service_status s rid w = status_git s rid rec w (status_seal s rid rec w (status_fd s rid rec w ?st1))"
    by (simp add: service_status_def Let_def rec)
  ultimately show "st_git_drift (service_status s rid w) = check_git_drift s rid (pr_cwd rec) w"
      "st_fd_drift (service_status s rid w) = check_fd_drift s rid w"
      "st_seal_drift (service_status s rid w) = check_seal_drift s rid w"
    using status_git_drift [OF rec] by (simp_all add: status_git_fields status_seal_fields status_fd_fields rec)
qed

lemma item_drifts:
  assumes rec: "store_load (sv_store s) (pi_id it) w = Some rec"
    and "pi_git_drift it = None" and "pi_fd_drift it = None" and "pi_seal_drift it = None"
  shows "pi_git_drift (with_pins s w it) = check_git_drift s (pi_id it) (pr_cwd rec) w"
    and "pi_fd_drift (with_pins s w it) = check_fd_drift s (pi_id it) w"
    and "pi_seal_drift (with_pins s w it) = check_seal_drift s (pi_id it) w"
  using assms check_nothing [OF rec] by (auto simp: with_pins_def Let_def split: option.split)

section \<open>Properties\<close>

text \<open>A run that was refused for a drift, with the reason given to the caller.\<close>

definition refused_for :: "string \<Rightarrow> string \<Rightarrow> run_result \<Rightarrow> world \<Rightarrow> world \<Rightarrow> bool" where
  "refused_for tag reason res w w' \<longleftrightarrow>
     rs_status res = ''denied'' \<and> rs_reason res = tag @ reason \<and> spawned w' = spawned w"

text \<open>
  Unpacking the sealed inputs touches neither the stored petition nor the pinned entry point.
  (It writes below the extraction directory only, unless a sealed file's name leads out of it;
  without sealed inputs nothing is unpacked.)
\<close>

definition unpacks_apart :: "service \<Rightarrow> string \<Rightarrow> pending_record \<Rightarrow> world \<Rightarrow> bool" where
  "unpacks_apart s rid rec w \<longleftrightarrow>
     (let w1 = snd (sealed_plan s rid rec w) in
      store_load (sv_store s) rid w1 = Some rec
      \<and> (case pr_fd rec of None \<Rightarrow> True | Some p \<Rightarrow> live_at w1 (fp_path p) = live_at w (fp_path p)))"

lemma write_file_git: "write_file p c w = (ok, w') \<Longrightarrow> w_git w' = w_git w"
proof -
  have "w_git (put_file q k w) = w_git w" for q k
    by (rule more_views(4)) simp
  moreover assume "write_file p c w = (ok, w')"
  ultimately show ?thesis
    by (auto simp: write_file_def Let_def split: io.splits option.splits node.splits)
qed

lemma remove_all_git: "w_git (remove_all p w) = w_git w"
  by (rule more_views(4)) simp

lemma extract_git: "extract_entries y files dir es seen w = (res, w') \<Longrightarrow> w_git w' = w_git w"
proof (induction es arbitrary: seen w)
  case (Cons e es)
  then show ?case
    by (auto simp: extract_entries_step remove_all_git dest!: write_file_git split: if_splits prod.splits bool.splits)
qed simp

lemma sealed_plan_git:
  assumes "sealed_plan s rid rec w = (plan, w1)"
  shows "w_git w1 = w_git w"
proof -
  have "w_git w2 = w_git w" if "materialize_seal s rid w = (res, w2)" for res w2
    using that by (auto simp: materialize_seal_def Let_def remove_all_git dest!: extract_git
        split: option.splits if_splits content.splits prod.splits)
  then show ?thesis
    using assms by (auto simp: sealed_plan_def Let_def split: option.splits if_splits prod.splits)
qed

text \<open>That it stays apart holds whenever the names of the sealed files stay below the directory.\<close>

lemma write_file_elsewhere: "write_file p c w = (ok, w') \<Longrightarrow> q \<noteq> p \<Longrightarrow> node_at w' q = node_at w q"
  by (auto simp: write_file_def Let_def put_file_def node_at_def update_conv' split: io.splits option.splits node.splits if_splits)

lemma write_file_live: "write_file p c w = (ok, w') \<Longrightarrow> w_live w' = w_live w"
proof -
  have "w_live (put_file q k w) = w_live w" for q k by (rule more_views(2)) simp
  moreover assume "write_file p c w = (ok, w')"
  ultimately show ?thesis by (auto simp: write_file_def Let_def split: io.splits option.splits node.splits)
qed

definition same_outside :: "path \<Rightarrow> world \<Rightarrow> world \<Rightarrow> bool" where
  "same_outside dir w w' \<longleftrightarrow> w_live w' = w_live w \<and> (\<forall>q. \<not> below dir q \<longrightarrow> node_at w' q = node_at w q)"

lemma same_outside_trans: "same_outside dir w w1 \<Longrightarrow> same_outside dir w1 w2 \<Longrightarrow> same_outside dir w w2"
  by (simp add: same_outside_def)

lemma remove_all_outside: "same_outside dir w (remove_all dir w)"
  using more_views(2) [of "remove_all dir w" w] by (simp add: same_outside_def node_at_remove_all)

lemma write_file_outside: "write_file p c w = (ok, w') \<Longrightarrow> below dir p \<Longrightarrow> same_outside dir w w'"
  using write_file_elsewhere write_file_live unfolding same_outside_def by metis

lemma extract_outside:
  assumes "\<And>n. n \<in> set (map sf_rel files) \<Longrightarrow> below dir (copy_path dir n)"
  shows "extract_entries y files dir es seen w = (res, w') \<Longrightarrow> same_outside dir w w'"
proof (induction es arbitrary: seen w)
  case (Cons e es)
  have inside: "entry_ok y files e \<Longrightarrow> below dir (copy_path dir (ae_name e))" using assms entry_ok_name by blast
  show ?case
    using Cons remove_all_outside same_outside_trans [OF write_file_outside remove_all_outside] inside
      same_outside_trans [OF write_file_outside]
    by (auto simp: extract_entries_step split: if_splits prod.splits bool.splits)
qed (simp add: same_outside_def)

lemma materialize_outside:
  assumes "materialize_seal s rid w = (res, w')" and "store_load (sv_store s) rid w = Some rec"
    and "pr_seal rec = Some seal" and "dir = seal_extract_dir (seal_state_dir s) rid"
    and "\<And>n. n \<in> set (map sf_rel (sp_files seal)) \<Longrightarrow> below dir (copy_path dir n)"
  shows "same_outside dir w w'"
proof -
  have extracted: "same_outside dir w w2" if "extract_entries y (sp_files seal) dir es [] (remove_all dir w) = (r, w2)" for y es r w2
    using same_outside_trans [OF remove_all_outside extract_outside [OF assms(5) that]] by blast
  have "same_outside dir w w" by (simp add: same_outside_def)
  then show ?thesis
    using assms(1-3) remove_all_outside unfolding assms(4)
    by (auto simp: materialize_seal_def Let_def dest!: extracted [unfolded assms(4)]
        intro: same_outside_trans [OF _ remove_all_outside] split: option.splits if_splits content.splits prod.splits)
qed

lemma unpacks_apart_below:
  assumes "store_load (sv_store s) rid w = Some rec" and "pr_seal rec = Some seal"
    and "dir = seal_extract_dir (seal_state_dir s) rid"
    and "\<And>n. n \<in> set (map sf_rel (sp_files seal)) \<Longrightarrow> below dir (copy_path dir n)"
    and "\<not> below dir (kpath (sv_store s) rid KJson)"
    and "\<And>p. pr_fd rec = Some p \<Longrightarrow> \<not> below dir (fp_path p)"
  shows "unpacks_apart s rid rec w"
proof -
  have "same_outside dir w (snd (sealed_plan s rid rec w))"
    using materialize_outside [OF _ assms(1-4)]
    by (auto simp: sealed_plan_def Let_def assms(2) same_outside_def split: prod.split option.split)
  then have same: "\<not> below dir q \<Longrightarrow> node_at (snd (sealed_plan s rid rec w)) q = node_at w q"
      "w_live (snd (sealed_plan s rid rec w)) = w_live w" for q
    by (simp_all add: same_outside_def)
  have "store_load (sv_store s) rid (snd (sealed_plan s rid rec w)) = Some rec"
    using assms(1) same(1) [OF assms(5)] by (simp add: store_load_def read_file_def)
  moreover have "live_at (snd (sealed_plan s rid rec w)) (fp_path p) = live_at w (fp_path p)" if "pr_fd rec = Some p" for p
    unfolding live_at_def same(1) [OF assms(6) [OF that]] same(2) ..
  ultimately show ?thesis by (simp add: unpacks_apart_def Let_def split: option.split)
qed

lemma apart_checks:
  assumes "store_load (sv_store s) rid w = Some rec" and "unpacks_apart s rid rec w"
    and "sealed_plan s rid rec w = (plan, w1)"
  shows "check_fd_drift s rid w1 = check_fd_drift s rid w"
    "check_git_drift s rid (pr_cwd rec) w1 = check_git_drift s rid (pr_cwd rec) w"
proof -
  have rec: "store_load (sv_store s) rid w1 = Some rec" using assms(2,3) by (simp add: unpacks_apart_def Let_def)
  have "fd_check s p w1 = fd_check s p w" if "pr_fd rec = Some p" for p
    using assms(2,3) that by (intro fd_gate.looks_only) (simp add: unpacks_apart_def Let_def)
  then show "check_fd_drift s rid w1 = check_fd_drift s rid w"
    by (simp add: check_fd_drift_gate rec assms(1) split: option.split)
  have "git_check s dir p w1 = git_check s dir p w" for dir p
    using sealed_plan_git [OF assms(3)] by (intro git_gate.looks_only) simp
  then show "check_git_drift s rid (pr_cwd rec) w1 = check_git_drift s rid (pr_cwd rec) w"
    by (simp add: check_git_drift_gate rec assms(1) split: option.split)
qed

lemma block_run_refuses: "block_run s rid argv ev tag reason w = (res, w') \<Longrightarrow> refused_for tag reason res w w'"
  using block_run_quiet [of s rid argv ev tag reason w] by (auto simp: refused_for_def block_run_def denied_def)

lemma run_and_record_allowed: "run_and_record s rid sargv argv cwd env pin warn w = (res, w') \<Longrightarrow> rs_status res = ''allowed''"
  by (auto simp: run_and_record_def Let_def split: prod.splits)

lemma refused_later: "refused_for tag reason res w1 w' \<Longrightarrow> spawned w1 = spawned w \<Longrightarrow> refused_for tag reason res w w'"
  by (simp add: refused_for_def)

text \<open>The first two gates, and the two that follow once the inputs are unpacked.\<close>

lemma seal_gates:
  assumes "store_load (sv_store s) rid w = Some rec" and "pr_argv rec \<noteq> []"
    and run: "run_approved s rid req clean w = (res, w')"
  shows "check_seal_drift s rid w = Some d \<Longrightarrow> refused_for ''seal-drift: '' (sd_reason d) res w w'"
    and "check_seal_drift s rid w = None \<Longrightarrow> sealed_plan s rid rec w = (None, w1)
      \<Longrightarrow> refused_for ''seal-drift: '' ''sealed artifact for approval is unusable'' res w w'"
  using assms sealed_plan_quiet [of s rid rec w None w1]
  by (auto simp: run_approved_def dest!: block_run_refuses intro: refused_later)

lemma later_gates:
  assumes "store_load (sv_store s) rid w = Some rec" and "pr_argv rec \<noteq> []" and "unpacks_apart s rid rec w"
    and "run_approved s rid req clean w = (res, w')"
    and "check_seal_drift s rid w = None" and "sealed_plan s rid rec w = (Some (argv, pin), w1)"
  shows "check_fd_drift s rid w = Some d \<Longrightarrow> refused_for ''fd-drift: '' (fd_reason d) res w w'"
    and "check_fd_drift s rid w = None \<Longrightarrow> check_git_drift s rid (pr_cwd rec) w = Some g \<Longrightarrow> gd_block g
      \<Longrightarrow> refused_for ''git-drift: '' (gd_reason g) res w w'"
    and "check_fd_drift s rid w = None \<Longrightarrow> \<not> pred_option gd_block (check_git_drift s rid (pr_cwd rec) w) \<or>
        check_git_drift s rid (pr_cwd rec) w = None \<Longrightarrow> rs_status res = ''allowed''"
  using assms(1,2,4-6) sealed_plan_quiet [OF assms(6)] apart_checks [OF assms(1,3,6)]
  by (auto simp: run_approved_def dest!: block_run_refuses run_and_record_allowed intro: refused_later
      split: option.splits if_splits)

lemma gates_passed:
  assumes "store_load (sv_store s) rid w = Some rec" and "pr_argv rec \<noteq> []" and "unpacks_apart s rid rec w"
    and "run_approved s rid req clean w = (res, w')"
    and "check_seal_drift s rid w = None" and "sealed_plan s rid rec w = (Some (argv, pin), w1)"
    and "check_fd_drift s rid w = None"
    and "\<not> pred_option gd_block (check_git_drift s rid (pr_cwd rec) w) \<or> check_git_drift s rid (pr_cwd rec) w = None"
  shows "spawned w' = spawned w @ (case spawn_of s argv (pr_cwd rec) clean pin w1 of None \<Rightarrow> [] | Some sp \<Rightarrow> [sp])"
  using run_approved_spawned [OF assms(4)] assms(1,2,5-8) apart_checks [OF assms(1,3,6)]
  by (auto simp: may_run_def split: option.splits)

text \<open>
  C16. \<open>Status\<close> predicts the run. When a stored command is approved now, a drift of the sealed
  inputs that its status shows refuses it, with the reason shown; then an archive that cannot be
  unpacked does; then a drift of the entry point that is shown; then a drift of the repository
  that is shown as blocking. In all these cases nothing is started. Otherwise, and so with a
  drift of the repository that is shown as a mere warning too, the run is allowed and starts
  exactly the pinned command, the identity gate permitting. (Unpacking is taken to leave the
  stored petition and the entry point alone.)
\<close>

theorem status_predicts_the_run:
  assumes "store_load (sv_store s) rid w = Some rec" and "pr_argv rec \<noteq> []" and "unpacks_apart s rid rec w"
  shows "case (service_status s rid w, run_approved s rid req clean w, sealed_plan s rid rec w) of
     (st, (res, w'), (plan, w1)) \<Rightarrow>
       case st_seal_drift st of
         Some d \<Rightarrow> refused_for ''seal-drift: '' (sd_reason d) res w w'
       | None \<Rightarrow>
          (case plan of
             None \<Rightarrow> refused_for ''seal-drift: '' ''sealed artifact for approval is unusable'' res w w'
           | Some (argv, pin) \<Rightarrow>
              (case st_fd_drift st of
                 Some d \<Rightarrow> refused_for ''fd-drift: '' (fd_reason d) res w w'
               | None \<Rightarrow>
                   if st_git_drift st \<noteq> None \<and> gd_block (the (st_git_drift st))
                   then refused_for ''git-drift: '' (gd_reason (the (st_git_drift st))) res w w'
                   else rs_status res = ''allowed''
                     \<and> spawned w' = spawned w @
                         (case spawn_of s argv (pr_cwd rec) clean pin w1 of None \<Rightarrow> [] | Some sp \<Rightarrow> [sp])))"
proof -
  obtain res w' where run: "run_approved s rid req clean w = (res, w')" by fastforce
  obtain plan w1 where plan: "sealed_plan s rid rec w = (plan, w1)" by fastforce
  note seal = seal_gates [OF assms(1,2) run] and later = later_gates [OF assms run] and passed = gates_passed [OF assms run]
  show ?thesis
  proof (cases "check_seal_drift s rid w \<noteq> None \<or> plan = None")
    case True
    then show ?thesis using run plan seal by (auto simp: status_drifts [OF assms(1)] split: option.split)
  next
    case False
    then obtain argv pin where ap: "plan = Some (argv, pin)" "check_seal_drift s rid w = None" by auto
    show ?thesis
      using run later [OF ap(2) plan [unfolded ap(1)]] passed [OF ap(2) plan [unfolded ap(1)]] ap plan
      by (cases "check_git_drift s rid (pr_cwd rec) w"; cases "check_fd_drift s rid w")
        (simp_all add: status_drifts [OF assms(1)])
  qed
qed

theorem status_predicts_the_run_witness:
  "spawned (snd (run_approved sample_service ''a'' sample_tool [] sample_open)) =
    [\<lparr>ex_path = ''tool'', ex_args = [], ex_cwd = [], ex_env = [], ex_fd = None\<rparr>]"
proof -
  have views: "st_fd_drift (service_status sample_service ''a'' sample_open) = None"
      "st_git_drift (service_status sample_service ''a'' sample_open) = None"
      "st_seal_drift (service_status sample_service ''a'' sample_open) = None"
    using status_drifts [OF sample_open_load] check_nothing [OF sample_open_load]
    by (simp_all add: sample_tool_record_def)
  have plan: "sealed_plan sample_service ''a'' sample_tool_record sample_open = (Some ([''tool''], None), sample_open)"
    by (simp add: sealed_plan_def sample_tool_record_def)
  then have "unpacks_apart sample_service ''a'' sample_tool_record sample_open"
    by (simp add: unpacks_apart_def sample_open_load) (simp add: sample_tool_record_def)
  moreover have "spawn_of sample_service [''tool''] [] [] None sample_open =
      Some \<lparr>ex_path = ''tool'', ex_args = [], ex_cwd = [], ex_env = [], ex_fd = None\<rparr>" by code_simp
  moreover have "spawned sample_open = []"
    by (simp add: spawned_def sample_open_def sample_world_def List.map_filter_simps)
  moreover have "pr_argv sample_tool_record = [''tool'']" "pr_cwd sample_tool_record = []"
    by (simp_all add: sample_tool_record_def)
  ultimately show ?thesis
    using status_predicts_the_run [OF sample_open_load, of "[]" sample_tool] views plan
    by (simp split: prod.splits)
qed

text \<open>
  \<open>List\<close> and \<open>Status\<close> show the same drift: for a listed petition both show the drift of the
  repository, of the entry point and of the sealed inputs that the gates of a run would find.
\<close>

theorem views_show_the_same_drift:
  assumes "it \<in> set (service_list s w)"
  shows "pi_git_drift it = st_git_drift (service_status s (pi_id it) w)
    \<and> pi_fd_drift it = st_fd_drift (service_status s (pi_id it) w)
    \<and> pi_seal_drift it = st_seal_drift (service_status s (pi_id it) w)"
proof -
  obtain it0 where it: "it = with_pins s w it0" and it0: "it0 \<in> set (store_list (sv_store s) (now_s w) w)"
    using assms by (auto simp: service_list_def split: if_splits)
  define rid where "rid = pi_id it0"
  have live: "is_live (sv_store s) rid (now_s w) w"
    and rid: "it0 = pending_item_of rid (the (store_load (sv_store s) rid w)) (now_s w)"
    using list_members [OF it0] by (simp_all add: rid_def)
  obtain rec where rec: "store_load (sv_store s) rid w = Some rec"
    using live by (auto simp: is_live_def split: option.splits)
  have fresh: "pi_id it0 = rid" "pi_git_drift it0 = None" "pi_fd_drift it0 = None" "pi_seal_drift it0 = None"
    unfolding rid by (simp_all add: pending_item_of_def)
  have "pi_id it = rid"
    unfolding it by (simp add: with_pins_def Let_def fresh rec split: option.split)
  then show ?thesis using item_drifts [of s it0 w rec] status_drifts [OF rec] fresh rec by (simp add: it)
qed

theorem views_show_the_same_drift_witness:
  "case service_list sample_service sample_open of
     [it] \<Rightarrow> pi_id it = ''a'' \<and> pi_git_drift it = None \<and> pi_fd_drift it = None | _ \<Rightarrow> False"
proof -
  have "map pi_id (service_list sample_service sample_open) = [''a'']" by code_simp
  then obtain it where it: "service_list sample_service sample_open = [it]" "pi_id it = ''a''"
    by (cases "service_list sample_service sample_open") auto
  then show ?thesis
    using views_show_the_same_drift [of it sample_service sample_open] status_drifts [OF sample_open_load] check_nothing [OF sample_open_load]
    by (simp add: sample_tool_record_def)
qed

end
