(* ===== verification/Daemon.thy ===== *)
theory Daemon imports Operators begin

text \<open>
  \<open>internal/daemon\<close>: the framing of a request on the socket, the peer's identity, the dispatch
  of a message to the service, the accept loop and the start-up, and the description of the
  socket API in \<open>protocol.Describe\<close>. A connection is what its peer sends before it closes or
  stalls; JSON decoding is the parameter \<open>de_parse\<close> and an answer is the value that is
  marshalled. Go reflects over its structs for \<open>Describe\<close>; the fields of a struct are the
  parameter \<open>de_fields\<close>.
\<close>

section \<open>Framing\<close>

definition max_request_bytes :: int where "max_request_bytes = 2 ^ 20"
definition max_response_output_bytes :: int where "max_response_output_bytes = 262144"

definition bound_run_output :: "string \<Rightarrow> string" where
  "bound_run_output out =
     (if int (length out) \<le> max_response_output_bytes then out
      else take (nat max_response_output_bytes) out
        @ truncation_marker (int (length out) - max_response_output_bytes) max_response_output_bytes)"

text \<open>What a peer sends before the deadline, and whether the deadline then cut it off.\<close>

record conn =
  co_bytes :: string
  co_timed_out :: bool
  co_unix :: bool
  co_file_ok :: bool
  co_cred :: "(int \<times> uid) option"

datatype request_error = Request_too_large | Request_timeout | Request_malformed

definition newline :: char where
  "newline = CHR 0x0A"

definition read_request_line :: "conn \<Rightarrow> request_error + string" where
  "read_request_line c =
     (let avail = take (nat (max_request_bytes + 2)) (co_bytes c) in
      case index_of [newline] avail of
        None \<Rightarrow>
          if co_timed_out c \<and> int (length avail) < max_request_bytes + 2 then Inl Request_timeout
          else if int (length avail) > max_request_bytes then Inl Request_too_large
          else Inl Request_malformed
      | Some i \<Rightarrow>
          let ln = take (Suc i) avail in
          if int (length ln) > max_request_bytes + 1 then Inl Request_too_large
          else if length ln = 0 \<or> (length ln = 1 \<and> hd ln = newline) then Inl Request_malformed
          else Inr ln)"

section \<open>Who is asking\<close>

text \<open>\<open>peerCred\<close>: the process and user of the peer, (0, 0) where they cannot be told.\<close>

definition peer_cred :: "conn \<Rightarrow> int \<times> uid" where
  "peer_cred c =
     (if \<not> co_unix c then (0, 0)
      else if \<not> co_file_ok c then (0, 0)
      else case co_cred c of None \<Rightarrow> (0, 0) | Some (pid, uid) \<Rightarrow> (pid, uid))"

definition peer_uid :: "conn \<Rightarrow> uid" where
  "peer_uid c = snd (peer_cred c)"

text \<open>
  \<open>soPeercred\<close> on each platform: what the kernel answers for the socket, if it answers; the
  daemon's own user where only a process id can be had; and (0, 0) where there is no call.
\<close>

record ucred =
  uc_pid :: int
  uc_uid :: uid
  uc_gid :: uid

definition so_peercred_linux :: "ucred option \<Rightarrow> (int \<times> uid) option" where
  "so_peercred_linux sockopt = (case sockopt of None \<Rightarrow> None | Some cred \<Rightarrow> Some (uc_pid cred, uc_uid cred))"

definition so_peercred_darwin :: "uid \<Rightarrow> int option \<Rightarrow> (int \<times> uid) option" where
  "so_peercred_darwin euid peerpid = (case peerpid of None \<Rightarrow> None | Some pid \<Rightarrow> Some (pid, euid))"

definition so_peercred_other :: "(int \<times> uid) option" where
  "so_peercred_other = Some (0, 0)"

section \<open>Describing the API\<close>

record go_field =
  gf_name :: string
  gf_type :: string
  gf_tag :: string
  gf_exported :: bool

record field_shape =
  fs_name :: string
  fs_json :: string
  fs_type :: string
  fs_optional :: bool

record op_info =
  oi_op :: string
  oi_request :: string
  oi_response :: string
  oi_request_fields :: "field_shape list"
  oi_response_fields :: "field_shape list"

definition tag_name :: "string \<Rightarrow> string" where
  "tag_name tag = hd (split_on CHR '','' tag)"

definition shape_of_field :: "go_field \<Rightarrow> field_shape option" where
  "shape_of_field f =
     (if \<not> gf_exported f then None
      else let name = (if tag_name (gf_tag f) = [] then to_lower (gf_name f) else tag_name (gf_tag f)) in
        if name = ''-'' then None
        else Some \<lparr>fs_name = gf_name f, fs_json = name, fs_type = gf_type f,
               fs_optional = str_contains (gf_tag f) ''omitempty''\<rparr>)"

definition shape_of :: "go_field list \<Rightarrow> field_shape list" where
  "shape_of fs = List.map_filter shape_of_field fs"

text \<open>The fields of \<open>ClientMessage\<close>: the envelope key and the type it points to, in order.\<close>

definition envelope :: "(string \<times> string) list" where
  "envelope =
     [(''run'', ''RunRequest''), (''verdict'', ''VerdictSubmit''), (''notify'', ''NotifyRequest''),
      (''ask'', ''AskRequest''), (''select'', ''SelectRequest''), (''ack'', ''AckSubmit''),
      (''cancel'', ''CancelRequest''), (''list'', ''ListRequest''), (''recent'', ''RecentRequest''),
      (''audit'', ''AuditQueryRequest''), (''status'', ''StatusRequest''), (''telegram_info'', ''TelegramInfoRequest''),
      (''telegram_set_config'', ''TelegramSetConfigRequest''), (''policy_add_rule'', ''PolicyAddRuleRequest''),
      (''version'', ''VersionRequest''), (''help'', ''HelpRequest'')]"

definition response_types :: "(string \<times> string) list" where
  "response_types =
     [(''run'', ''RunResult''), (''verdict'', ''VerdictAck''), (''notify'', ''RunResult''), (''ask'', ''AskResult''),
      (''select'', ''SelectResponse''), (''ack'', ''AckResponse''), (''list'', ''PendingList''),
      (''recent'', ''RecentList''), (''audit'', ''AuditQueryResponse''), (''cancel'', ''CancelResponse''),
      (''status'', ''StatusResponse''), (''telegram_info'', ''TelegramInfoResponse''),
      (''telegram_set_config'', ''TelegramSetConfigResponse''), (''policy_add_rule'', ''PolicyAddRuleResponse''),
      (''version'', ''VersionResponse''), (''help'', ''HelpResponse'')]"

definition op_keys :: "string list" where
  "op_keys = filter (\<lambda>k. k \<noteq> [] \<and> k \<noteq> ''-'') (map fst envelope)"

definition op_info_of :: "(string \<Rightarrow> go_field list) \<Rightarrow> string \<times> string \<Rightarrow> op_info" where
  "op_info_of struct_of e =
     (case e of (key, req) \<Rightarrow>
        (case map_of response_types key of
           Some resp \<Rightarrow> \<lparr>oi_op = key, oi_request = req, oi_response = resp,
             oi_request_fields = shape_of (struct_of req), oi_response_fields = shape_of (struct_of resp)\<rparr>
         | None \<Rightarrow> \<lparr>oi_op = key, oi_request = req, oi_response = [],
             oi_request_fields = shape_of (struct_of req), oi_response_fields = []\<rparr>))"

definition describe :: "(string \<Rightarrow> go_field list) \<Rightarrow> string \<Rightarrow> op_info list option" where
  "describe struct_of op =
     (if op = [] then Some (map (op_info_of struct_of) envelope)
      else case find (\<lambda>e. fst e = op) envelope of
             Some e \<Rightarrow> Some [op_info_of struct_of e]
           | None \<Rightarrow> None)"

section \<open>Dispatch\<close>

record version_response =
  vr_version :: string
  vr_git_commit :: string
  vr_build_time :: string
  vr_binary_sha256 :: string
  vr_pid :: int

text \<open>The envelope; a request without fields is the unit value.\<close>

record client_message =
  cm_run :: "run_request option"
  cm_verdict :: "verdict_submit option"
  cm_notify :: "notify_request option"
  cm_ask :: "ask_request option"
  cm_select :: "select_request option"
  cm_ack :: "ack_submit option"
  cm_cancel :: "cancel_request option"
  cm_list :: "unit option"
  cm_recent :: "int option"
  cm_audit :: "audit_query_request option"
  cm_status :: "string option"
  cm_telegram_info :: "unit option"
  cm_telegram_set_config :: "telegram_set_config_request option"
  cm_policy_add_rule :: "policy_add_rule_request option"
  cm_version :: "unit option"
  cm_help :: "string option"

datatype reply =
    Verdict_reply verdict_ack
  | Notify_reply run_result
  | Ask_reply ask_result
  | Select_reply select_response
  | Ack_reply ack_response
  | Cancel_reply cancel_response
  | Run_reply run_result
  | List_reply "pending_item list"
  | Recent_reply "recent_item list"
  | Audit_reply audit_query_response
  | Status_reply status_response
  | Info_reply telegram_info_response
  | Config_reply telegram_set_config_response
  | Policy_reply rule_answer
  | Help_reply "op_info list"
  | Version_reply version_response
  | Error_reply string

record daemon_env =
  de_parse :: "string \<Rightarrow> client_message option"
  de_fields :: "string \<Rightarrow> go_field list"
  de_version :: version_response
  de_save_fails :: "save_step \<Rightarrow> bool"

record daemon_state =
  ds_service :: service
  ds_policy :: policy_disk
  ds_world :: world

text \<open>A selection made over the socket goes to the store directly.\<close>

definition socket_select :: "service \<Rightarrow> select_request \<Rightarrow> uid \<Rightarrow> world \<Rightarrow> select_response \<times> world" where
  "socket_select s req uid w =
     (let rid = trim_space (sr_id req); write_in = trim_space (sr_write_in req);
          selection = (if write_in \<noteq> [] then write_in else trim_space (sr_selection req));
          by = (if trim_space (sr_by req) = [] then ''socket:'' @ dec (unat uid) else trim_space (sr_by req))
      in if rid = [] \<or> selection = [] then
           (\<lparr>sx_selected = False, sx_error = ''missing id or selection''\<rparr>, w)
         else case store_select (sv_store s) rid selection (sr_selection_idx req) by w of
                (False, w') \<Rightarrow> (\<lparr>sx_selected = False, sx_error = ''selection rejected''\<rparr>, w')
              | (True, w') \<Rightarrow> (\<lparr>sx_selected = True, sx_error = []\<rparr>, w'))"

definition unknown_request :: string where
  "unknown_request = ''unknown-request: valid ops: '' @ str_join '','' op_keys"

text \<open>
  The message's first field that is set decides, in the order of the switch. The answer is
  \<open>None\<close> while a run or a question still waits at the end of the schedule.
\<close>

definition dispatch ::
  "daemon_env \<Rightarrow> client_message \<Rightarrow> int \<Rightarrow> uid \<Rightarrow> tick list \<Rightarrow> daemon_state
    \<Rightarrow> (reply \<times> tick list \<times> daemon_state) option" where
  "dispatch e m pid uid ts d =
     (let s = ds_service d; w = ds_world d;
          now = (\<lambda>r w'. Some (r, ts, d\<lparr>ds_world := w'\<rparr>));
          view = (\<lambda>r. Some (r, ts, d)) in
      case cm_verdict m of Some sub \<Rightarrow> (case service_submit s sub uid w of (r, w') \<Rightarrow> now (Verdict_reply r) w') | None \<Rightarrow>
      (case cm_notify m of Some req \<Rightarrow> (case service_notify s req uid w of (r, w') \<Rightarrow> now (Notify_reply r) w') | None \<Rightarrow>
      (case cm_ask m of Some req \<Rightarrow> (case ask_with_cancel s req uid True ts w of
            None \<Rightarrow> None | Some (r, ts', w') \<Rightarrow> Some (Ask_reply r, ts', d\<lparr>ds_world := w'\<rparr>)) | None \<Rightarrow>
      (case cm_select m of Some req \<Rightarrow> (case socket_select s req uid w of (r, w') \<Rightarrow> now (Select_reply r) w') | None \<Rightarrow>
      (case cm_ack m of Some sub \<Rightarrow> (case service_ack s sub uid w of (r, w') \<Rightarrow> now (Ack_reply r) w') | None \<Rightarrow>
      (case cm_cancel m of Some req \<Rightarrow> (case service_cancel s req uid w of (r, w') \<Rightarrow> now (Cancel_reply r) w') | None \<Rightarrow>
      (case cm_run m of Some req \<Rightarrow> (case run_with_peer_cancel s req uid pid True ts w of
            None \<Rightarrow> None
          | Some (r, ts', w') \<Rightarrow> Some (Run_reply (r\<lparr>rs_output := bound_run_output (rs_output r)\<rparr>), ts', d\<lparr>ds_world := w'\<rparr>)) | None \<Rightarrow>
      (case cm_list m of Some _ \<Rightarrow> view (List_reply (service_list s w)) | None \<Rightarrow>
      (case cm_recent m of Some limit \<Rightarrow> view (Recent_reply (service_recent s limit w)) | None \<Rightarrow>
      (case cm_audit m of Some req \<Rightarrow> view (Audit_reply (service_audit s req w)) | None \<Rightarrow>
      (case cm_status m of Some rid \<Rightarrow> view (Status_reply (service_status s rid w)) | None \<Rightarrow>
      (case cm_telegram_info m of Some _ \<Rightarrow> (case telegram_info s w of (r, w') \<Rightarrow> now (Info_reply r) w') | None \<Rightarrow>
      (case cm_telegram_set_config m of Some req \<Rightarrow> (case telegram_set_config s req uid w of (r, w') \<Rightarrow> now (Config_reply r) w') | None \<Rightarrow>
      (case cm_policy_add_rule m of Some req \<Rightarrow> (case policy_add_rule s (de_save_fails e) req uid (ds_policy d) w of
            (r, s', pd', w') \<Rightarrow> Some (Policy_reply r, ts, \<lparr>ds_service = s', ds_policy = pd', ds_world = w'\<rparr>)) | None \<Rightarrow>
      (case cm_help m of Some op \<Rightarrow> (case describe (de_fields e) op of
            None \<Rightarrow> view (Error_reply (''unknown-help-op:'' @ op)) | Some ops \<Rightarrow> view (Help_reply ops)) | None \<Rightarrow>
      (case cm_version m of Some _ \<Rightarrow> view (Version_reply (de_version e)) | None \<Rightarrow>
       view (Error_reply unknown_request)))))))))))))))))"

definition error_text :: "request_error \<Rightarrow> string" where
  "error_text err =
     (case err of Request_too_large \<Rightarrow> ''request-too-large'' | Request_timeout \<Rightarrow> ''request-timeout''
      | Request_malformed \<Rightarrow> ''malformed-request'')"

definition handle ::
  "daemon_env \<Rightarrow> conn \<Rightarrow> tick list \<Rightarrow> daemon_state \<Rightarrow> (reply \<times> tick list \<times> daemon_state) option" where
  "handle e c ts d =
     (case read_request_line c of
        Inl err \<Rightarrow> Some (Error_reply (error_text err), ts, d)
      | Inr ln \<Rightarrow>
          (case de_parse e ln of
             None \<Rightarrow> Some (Error_reply ''malformed-request'', ts, d)
           | Some m \<Rightarrow> (case peer_cred c of (pid, uid) \<Rightarrow> dispatch e m pid uid ts d)))"

section \<open>Accepting connections\<close>

datatype accepted = Accepted conn | Accept_failed | Listener_closed

datatype loop_action = Slept int | Serving conn

definition min_backoff :: int where "min_backoff = 10 * 10 ^ 6"
definition max_backoff :: int where "max_backoff = second_ns"

text \<open>\<open>serveLoop\<close> over what \<open>Accept\<close> returns; \<open>True\<close> tells that the loop returned.\<close>

fun serve_loop :: "accepted list \<Rightarrow> int \<Rightarrow> loop_action list \<times> bool" where
  "serve_loop [] backoff = ([], False)"
| "serve_loop (Listener_closed # as) backoff = ([], True)"
| "serve_loop (Accept_failed # as) backoff =
     (case serve_loop as (min (backoff * 2) max_backoff) of (acts, fin) \<Rightarrow> (Slept backoff # acts, fin))"
| "serve_loop (Accepted c # as) backoff =
     (case serve_loop as min_backoff of (acts, fin) \<Rightarrow> (Serving c # acts, fin))"

section \<open>Start-up\<close>

text \<open>
  \<open>writePidFile\<close>: the step that failed, and what the file holds then, of a write that stopped after
  \<open>part\<close> bytes what had come through. A link is not followed.
\<close>

datatype pid_step = Pid_mkdir | Pid_open | Pid_write | Pid_sync

definition pid_file_path :: "env \<Rightarrow> path \<Rightarrow> path" where
  "pid_file_path env state_dir = default_pid_file env state_dir"

definition write_pid_file ::
  "path \<Rightarrow> int \<Rightarrow> bool \<Rightarrow> (pid_step \<Rightarrow> bool) \<Rightarrow> nat \<Rightarrow> pid_step option \<times> string option" where
  "write_pid_file path pid link fails part =
     (if filepath_dir path \<noteq> [] \<and> fails Pid_mkdir then (Some Pid_mkdir, None)
      else if link \<or> fails Pid_open then (Some Pid_open, None)
      else if fails Pid_write then (Some Pid_write, Some (take part (itoa pid)))
      else if fails Pid_sync then (Some Pid_sync, Some (itoa pid))
      else (None, Some (itoa pid)))"

text \<open>What the system answers while the daemon starts.\<close>

record boot =
  bo_state_anchor :: "anchor_error option"
  bo_mkdir_socket_ok :: bool
  bo_anchors :: "anchor_error option"
  bo_store :: "anchor_error option"
  bo_pid :: int
  bo_pid_link :: bool
  bo_pid_fails :: "pid_step \<Rightarrow> bool"
  bo_pid_part :: nat
  bo_socket :: "bool option"
  bo_listen_ok :: bool
  bo_chmod_ok :: bool
  bo_mode :: "int option"

datatype boot_error =
    Boot_anchor anchor_error
  | Boot_system
  | Boot_symlink path
  | Boot_mode path int

datatype boot_action =
    Made_socket_dir path
  | Wrote_pid path
  | Left_pid path string
  | Removed_pid path
  | Removed_socket path
  | Listening path
  | Stopped_listening
  | Telegram_started
  | Telegram_stopped
  | Pump_started
  | Adoption_started
  | Pruning

definition socket_perms :: int where "socket_perms = 448"

definition enforce_socket_perms :: "path \<Rightarrow> boot \<Rightarrow> boot_error option" where
  "enforce_socket_perms path b =
     (if \<not> bo_chmod_ok b then Some Boot_system
      else case bo_mode b of
             None \<Rightarrow> Some Boot_system
           | Some mode \<Rightarrow> if mode \<noteq> socket_perms then Some (Boot_mode path mode) else None)"

text \<open>\<open>Serve\<close> up to the accept loop: the error, or success, and what was done and undone.\<close>

definition serve :: "path \<Rightarrow> path \<Rightarrow> boot \<Rightarrow> boot_error option \<times> boot_action list" where
  "serve socket pid_file b =
     (case bo_state_anchor b of
        Some err \<Rightarrow> (Some (Boot_anchor err), [])
      | None \<Rightarrow>
          let dir = filepath_dir socket; made = (dir \<noteq> [] \<and> dir \<noteq> ''.'') in
          if made \<and> \<not> bo_mkdir_socket_ok b then (Some Boot_system, [])
          else let acts = (if made then [Made_socket_dir dir] else []) in
            case (if made then bo_anchors b else None) of
              Some err \<Rightarrow> (Some (Boot_anchor err), acts)
            | None \<Rightarrow>
                (case bo_store b of
                   Some err \<Rightarrow> (Some (Boot_anchor err), acts)
                 | None \<Rightarrow>
                     case write_pid_file pid_file (bo_pid b) (bo_pid_link b) (bo_pid_fails b) (bo_pid_part b) of
                       (Some step, left) \<Rightarrow>
                         (Some Boot_system, acts @ (case left of None \<Rightarrow> [] | Some t \<Rightarrow> [Left_pid pid_file t]))
                     | (None, _) \<Rightarrow> let acts = acts @ [Wrote_pid pid_file] in
                       if bo_socket b = Some True then (Some (Boot_symlink socket), acts @ [Removed_pid pid_file])
                       else let acts = acts @ [Removed_socket socket] in
                         if \<not> bo_listen_ok b then (Some Boot_system, acts @ [Removed_pid pid_file])
                         else let acts = acts @ [Listening socket] in
                           case enforce_socket_perms socket b of
                             Some err \<Rightarrow> (Some err, acts @ [Stopped_listening, Removed_pid pid_file])
                           | None \<Rightarrow> (None, acts @ [Telegram_started, Pump_started, Adoption_started, Pruning])))"

text \<open>\<open>Serve\<close> as a whole, over what \<open>Accept\<close> returns: when the loop ends, the deferred calls run.\<close>

definition serve_all ::
  "path \<Rightarrow> path \<Rightarrow> boot \<Rightarrow> accepted list \<Rightarrow> boot_error option \<times> boot_action list \<times> loop_action list \<times> bool" where
  "serve_all socket pid_file b as =
     (case serve socket pid_file b of
        (Some err, acts) \<Rightarrow> (Some err, acts, [], True)
      | (None, acts) \<Rightarrow>
          (case serve_loop as min_backoff of
             (loop_acts, fin) \<Rightarrow>
               (None, acts @ (if fin then [Telegram_stopped, Stopped_listening, Removed_pid pid_file] else []),
                loop_acts, fin)))"

end
