(* ===== verification/DaemonFacts.thy ===== *)
theory DaemonFacts imports Daemon OperatorFacts begin

text \<open>
  What the transport guarantees: a request is one line within the limit, the accept loop
  serves every connection and backs off within bounds, start-up never listens behind a
  symbolic link, every operation is described, queries change nothing, and an answer's output
  is bounded. The last property is about peers whose credentials cannot be read.
\<close>

section \<open>Framing\<close>

lemma index_of_char:
  "index_of [x] s = (if x \<in> set s then Some (length (takeWhile (\<lambda>c. c \<noteq> x) s)) else None)"
  by (induction s) auto

lemma first_line:
  assumes "x \<in> set s"
  shows "take (Suc (length (takeWhile (\<lambda>c. c \<noteq> x) s))) s = takeWhile (\<lambda>c. c \<noteq> x) s @ [x]"
  using assms by (induction s) auto

lemma takeWhile_take:
  assumes "x \<in> set (take n s)"
  shows "takeWhile (\<lambda>c. c \<noteq> x) (take n s) = takeWhile (\<lambda>c. c \<noteq> x) s"
  using assms by (induction s arbitrary: n) (auto simp: take_Cons split: nat.splits)

lemma line_unique:
  assumes "s = body @ x # rest" and "x \<notin> set body"
  shows "takeWhile (\<lambda>c. c \<noteq> x) s = body"
  using assms by (simp add: takeWhile_tail) (induction body arbitrary: s, auto)

definition request_limit :: nat where "request_limit = nat max_request_bytes"

lemma max_request_nat: "max_request_bytes = int request_limit"
  by (simp add: request_limit_def max_request_bytes_def)

lemma read_line_cases:
  "read_request_line c = Inr ln \<longleftrightarrow>
     newline \<in> set (take (request_limit + 2) (co_bytes c))
     \<and> ln = takeWhile (\<lambda>b. b \<noteq> newline) (co_bytes c) @ [newline]
     \<and> 2 \<le> length ln \<and> length ln \<le> request_limit + 1"
proof (cases "newline \<in> set (take (request_limit + 2) (co_bytes c))")
  case True
  define body where "body = takeWhile (\<lambda>b. b \<noteq> newline) (co_bytes c)"
  have n: "nat (max_request_bytes + 2) = request_limit + 2" by (simp add: max_request_nat)
  have "take (Suc (length (takeWhile (\<lambda>b. b \<noteq> newline) (take (request_limit + 2) (co_bytes c)))))
      (take (request_limit + 2) (co_bytes c)) = body @ [newline]"
    using first_line [OF True] takeWhile_take [OF True] by (simp add: body_def)
  moreover have "body = [] \<or> hd (body @ [newline]) = hd body" by (cases body) auto
  ultimately show ?thesis using True
    by (simp only: read_request_line_def n index_of_char Let_def if_True option.case body_def [symmetric])
      (auto simp: max_request_nat body_def [symmetric] numeral_2_eq_2 Suc_le_eq)
next
  case False
  have n: "nat (max_request_bytes + 2) = request_limit + 2" by (simp add: max_request_nat)
  show ?thesis using False by (simp add: read_request_line_def n index_of_char Let_def)
qed

text \<open>
  C19. The daemon accepts a request exactly when the peer sends a non-empty line of at most 1 MiB
  before it closes or stalls, and takes that first line, newline included, and nothing after it;
  whatever else a peer sends is answered with an error.
\<close>

theorem framing_is_exact:
  "read_request_line c = Inr ln \<longleftrightarrow>
     (\<exists>body rest. co_bytes c = body @ newline # rest \<and> newline \<notin> set body
        \<and> 0 < length body \<and> int (length body) \<le> max_request_bytes \<and> ln = body @ [newline])"
proof
  assume "read_request_line c = Inr ln"
  then have r: "newline \<in> set (take (request_limit + 2) (co_bytes c))"
    "ln = takeWhile (\<lambda>b. b \<noteq> newline) (co_bytes c) @ [newline]" "2 \<le> length ln" "length ln \<le> request_limit + 1"
    unfolding read_line_cases by blast+
  have "newline \<in> set (co_bytes c)" using r(1) by (rule in_set_takeD)
  then obtain body rest where b: "co_bytes c = body @ newline # rest" "newline \<notin> set body"
    by (meson split_list_first)
  then show "\<exists>body rest. co_bytes c = body @ newline # rest \<and> newline \<notin> set body
      \<and> 0 < length body \<and> int (length body) \<le> max_request_bytes \<and> ln = body @ [newline]"
    using r line_unique [OF b] by (intro exI [of _ body] exI [of _ rest]) (auto simp: max_request_nat)
next
  assume "\<exists>body rest. co_bytes c = body @ newline # rest \<and> newline \<notin> set body
      \<and> 0 < length body \<and> int (length body) \<le> max_request_bytes \<and> ln = body @ [newline]"
  then obtain body rest where b: "co_bytes c = body @ newline # rest" "newline \<notin> set body"
      "0 < length body" "int (length body) \<le> max_request_bytes" "ln = body @ [newline]" by blast
  have "length body \<le> request_limit" using b(4) by (simp add: max_request_nat)
  then have "newline \<in> set (take (request_limit + 2) (co_bytes c))"
    using b(1) by (simp add: Suc_diff_le)
  then show "read_request_line c = Inr ln"
    using b line_unique [OF b(1,2)] by (simp add: read_line_cases max_request_nat Suc_le_eq)
qed

section \<open>The accept loop\<close>

fun accepted_conns :: "accepted list \<Rightarrow> conn list" where
  "accepted_conns [] = []"
| "accepted_conns (Accepted c # as) = c # accepted_conns as"
| "accepted_conns (Listener_closed # as) = []"
| "accepted_conns (Accept_failed # as) = accepted_conns as"

fun served :: "loop_action \<Rightarrow> conn option" where
  "served (Serving c) = Some c"
| "served (Slept d) = None"

lemma loop_serves: "List.map_filter served (fst (serve_loop as b)) = accepted_conns as"
  by (induction as b rule: serve_loop.induct) (simp_all add: List.map_filter_simps case_prod_unfold)

lemma loop_returns: "snd (serve_loop as b) \<longleftrightarrow> Listener_closed \<in> set as"
  by (induction as b rule: serve_loop.induct) (simp_all add: case_prod_unfold)

lemma loop_sleeps:
  "min_backoff \<le> b \<Longrightarrow> b \<le> max_backoff \<Longrightarrow> Slept d \<in> set (fst (serve_loop as b))
    \<Longrightarrow> min_backoff \<le> d \<and> d \<le> max_backoff"
proof (induction as b rule: serve_loop.induct)
  case (3 as b)
  have "min_backoff \<le> min (b * 2) max_backoff" using 3(2) by (auto simp: min_backoff_def max_backoff_def second_ns_def)
  then show ?case using 3 by (auto split: prod.splits)
qed (auto simp: min_backoff_def max_backoff_def second_ns_def split: prod.splits)

lemma backoff_step: "min (min (min_backoff * 2 ^ k) max_backoff * 2) max_backoff = min (min_backoff * 2 ^ Suc k) max_backoff"
  by (auto simp: min_def max_backoff_def second_ns_def)

lemma loop_doubles:
  "fst (serve_loop (replicate n Accept_failed) (min (min_backoff * 2 ^ k) max_backoff))
     = map (\<lambda>i. Slept (min (min_backoff * 2 ^ i) max_backoff)) [k ..< k + n]"
proof (induction n arbitrary: k)
  case (Suc n)
  show ?case using Suc.IH [of "Suc k"]
    by (simp only: replicate_Suc serve_loop.simps backoff_step)
      (simp add: upt_rec [of k] case_prod_unfold del: upt_Suc power_Suc)
qed simp

text \<open>
  The accept loop serves exactly the connections accepted before the listener closes, in
  order, returns exactly when it is closed, and between failures sleeps 10 ms doubling up to one
  second, starting over after a success; it never spins.
\<close>

theorem accept_loop_backs_off:
  "List.map_filter served (fst (serve_loop as min_backoff)) = accepted_conns as
   \<and> (snd (serve_loop as min_backoff) \<longleftrightarrow> Listener_closed \<in> set as)
   \<and> {d. Slept d \<in> set (fst (serve_loop as min_backoff))} \<subseteq> {min_backoff .. max_backoff}
   \<and> fst (serve_loop (Accepted c # replicate n Accept_failed) b)
       = Serving c # map (\<lambda>i. Slept (min (min_backoff * 2 ^ i) max_backoff)) [0 ..< n]"
proof (intro conjI)
  show "{d. Slept d \<in> set (fst (serve_loop as min_backoff))} \<subseteq> {min_backoff .. max_backoff}"
    using loop_sleeps [of min_backoff _ as] by (auto simp: min_backoff_def max_backoff_def second_ns_def)
  have "min_backoff = min (min_backoff * 2 ^ 0) max_backoff"
    by (simp add: min_backoff_def max_backoff_def second_ns_def)
  then show "fst (serve_loop (Accepted c # replicate n Accept_failed) b)
       = Serving c # map (\<lambda>i. Slept (min (min_backoff * 2 ^ i) max_backoff)) [0 ..< n]"
    using loop_doubles [of n 0] by (simp add: case_prod_unfold)
qed (rule loop_serves loop_returns)+

section \<open>Start-up\<close>

lemma pid_left:
  "write_pid_file path pid link fails part = (Some step, Some t) \<Longrightarrow>
    fails Pid_write \<and> t = take part (itoa pid) \<or> fails Pid_sync \<and> t = itoa pid"
  by (auto simp: write_pid_file_def split: if_splits)

lemma serve_started:
  assumes "serve socket pid_file b = (None, acts)"
  shows "bo_state_anchor b = None \<and> bo_store b = None \<and> bo_socket b \<noteq> Some True \<and> bo_mode b = Some socket_perms"
    and "set acts - {Made_socket_dir (filepath_dir socket), Removed_socket socket}
      = {Wrote_pid pid_file, Listening socket, Telegram_started, Pump_started, Adoption_started, Pruning}"
  using assms by (auto simp: serve_def enforce_socket_perms_def Let_def split: option.splits prod.splits if_splits)

lemma serve_failed:
  assumes "serve socket pid_file b = (Some err, acts)"
  shows "set acts \<inter> {Telegram_started, Telegram_stopped, Pump_started, Adoption_started, Pruning} = {}"
    and "Listening socket \<in> set acts \<longleftrightarrow> Stopped_listening \<in> set acts"
    and "Wrote_pid pid_file \<in> set acts \<longleftrightarrow> Removed_pid pid_file \<in> set acts"
    and "Left_pid pid_file t \<in> set acts \<Longrightarrow> err = Boot_system \<and> Wrote_pid pid_file \<notin> set acts
      \<and> (bo_pid_fails b Pid_write \<and> t = take (bo_pid_part b) (itoa (bo_pid b))
        \<or> bo_pid_fails b Pid_sync \<and> t = itoa (bo_pid b))"
  using assms
  by (auto simp: serve_def enforce_socket_perms_def Let_def dest: pid_left split: option.splits prod.splits if_splits)

text \<open>
  C29. Start-up reaches its background workers and the accept loop only on a socket that is not a
  symbolic link and has mode 0700, behind a state directory that passed its checks; when it fails
  instead, no worker runs. Once the daemon has returned, its listener is closed and a pid file it
  has written is removed; one is left behind only by a write that failed half way.
\<close>

theorem start_up_is_guarded:
  "case serve_all socket pid_file b as of (err, acts, loop_acts, fin) \<Rightarrow>
     (case err of
        None \<Rightarrow> bo_state_anchor b = None \<and> bo_store b = None \<and> bo_socket b \<noteq> Some True
          \<and> bo_mode b = Some socket_perms \<and> Listening socket \<in> set acts
      | Some _ \<Rightarrow> set acts \<inter> {Telegram_started, Pump_started, Adoption_started, Pruning} = {} \<and> loop_acts = [] \<and> fin)
     \<and> (if fin then (Listening socket \<in> set acts \<longleftrightarrow> Stopped_listening \<in> set acts)
          \<and> (Wrote_pid pid_file \<in> set acts \<longleftrightarrow> Removed_pid pid_file \<in> set acts)
          \<and> (Telegram_started \<in> set acts \<longleftrightarrow> Telegram_stopped \<in> set acts)
        else Listening socket \<in> set acts \<and> Stopped_listening \<notin> set acts \<and> Removed_pid pid_file \<notin> set acts)
     \<and> {t. Left_pid pid_file t \<in> set acts} \<subseteq>
         {t. err = Some Boot_system \<and> Wrote_pid pid_file \<notin> set acts
           \<and> (bo_pid_fails b Pid_write \<and> t = take (bo_pid_part b) (itoa (bo_pid b))
             \<or> bo_pid_fails b Pid_sync \<and> t = itoa (bo_pid b))}"
proof (cases "serve socket pid_file b")
  case (Pair err acts)
  show ?thesis
  proof (cases err)
    case None
    have s: "serve socket pid_file b = (None, acts)" using Pair None by simp
    show ?thesis using serve_started [OF s]
      by (cases "snd (serve_loop as min_backoff)") (simp_all add: serve_all_def s case_prod_unfold, blast+)
  next
    case (Some e)
    have s: "serve socket pid_file b = (Some e, acts)" using Pair Some by simp
    show ?thesis using serve_failed [OF s] by (simp add: serve_all_def s) blast
  qed
qed

section \<open>Describing the API\<close>

text \<open>
  Every operation of the envelope is described, once, with a response type; asking for one
  operation gives that description, and an unknown name is refused.
\<close>

theorem api_is_described:
  "distinct op_keys \<and> describe struct_of [] = Some (map (op_info_of struct_of) envelope)
   \<and> map oi_op (map (op_info_of struct_of) envelope) = op_keys
   \<and> [] \<notin> set (map oi_response (map (op_info_of struct_of) envelope))
   \<and> (case describe struct_of (c # op) of
        None \<Rightarrow> c # op \<notin> set op_keys
      | Some infos \<Rightarrow> c # op \<in> set op_keys
          \<and> infos = filter (\<lambda>i. oi_op i = c # op) (map (op_info_of struct_of) envelope))"
proof -
  have keys: "op_keys = map fst envelope" by (simp add: op_keys_def envelope_def)
  have op: "oi_op (op_info_of struct_of e) = fst e" for e
    by (cases e) (simp add: op_info_of_def split: option.split)
  have d: "distinct (map fst envelope)" by (simp add: envelope_def)
  have one: "find (\<lambda>e. fst e = k) es = Some e \<Longrightarrow> distinct (map fst es) \<Longrightarrow> filter (\<lambda>e. fst e = k) es = [e]"
    for k and es :: "(string \<times> string) list" and e
    by (induction es) (force simp: filter_empty_conv split: if_splits)+
  have none: "find (\<lambda>e. fst e = k) es = None \<longleftrightarrow> k \<notin> set (map fst es)"
    for k and es :: "(string \<times> string) list"
    by (induction es) auto
  have resp: "[] \<notin> set (map (\<lambda>e. oi_response (op_info_of struct_of e)) envelope)"
    by (simp add: envelope_def op_info_of_def response_types_def)
  show ?thesis
  proof (cases "find (\<lambda>e. fst e = c # op) envelope")
    case None
    moreover have "c # op \<notin> set op_keys" using None none [of "c # op" envelope] by (simp add: keys)
    ultimately show ?thesis using d resp op by (simp add: describe_def keys [symmetric] comp_def)
  next
    case (Some e)
    then have "c # op \<in> set (map fst envelope)" using none [of "c # op" envelope] by auto
    then show ?thesis using d resp op one [OF Some d] Some by (simp add: describe_def keys comp_def filter_map)
  qed
qed

section \<open>Queries and answers\<close>

definition mutates :: "client_message \<Rightarrow> bool" where
  "mutates m \<longleftrightarrow> cm_verdict m \<noteq> None \<or> cm_notify m \<noteq> None \<or> cm_ask m \<noteq> None \<or> cm_select m \<noteq> None
     \<or> cm_ack m \<noteq> None \<or> cm_cancel m \<noteq> None \<or> cm_run m \<noteq> None \<or> cm_telegram_info m \<noteq> None
     \<or> cm_telegram_set_config m \<noteq> None \<or> cm_policy_add_rule m \<noteq> None"

definition quiet_reply :: "(reply \<times> tick list \<times> daemon_state) option \<Rightarrow> tick list \<Rightarrow> daemon_state \<Rightarrow> bool" where
  "quiet_reply r ts d \<longleftrightarrow> (\<exists>answer. r = Some (answer, ts, d))"

lemma query_is_quiet: "\<not> mutates m \<Longrightarrow> quiet_reply (dispatch e m pid uid ts d) ts d"
  by (simp add: mutates_def dispatch_def quiet_reply_def Let_def split: option.split)

text \<open>
  A message that is no run, verdict, question, notice, choice, acknowledgement, cancellation
  or settings call is answered at once, and so are a broken frame and a text that is not a
  message: files, policy, settings and cards stay as they are and no time passes.
\<close>

theorem queries_change_nothing:
  assumes "case read_request_line c of Inl err \<Rightarrow> True
    | Inr ln \<Rightarrow> (case de_parse e ln of None \<Rightarrow> True | Some m \<Rightarrow> \<not> mutates m)"
  shows "\<exists>answer. handle e c ts d = Some (answer, ts, d)"
  using assms query_is_quiet [of _ e "fst (peer_cred c)" "snd (peer_cred c)" ts d]
  by (auto simp: handle_def quiet_reply_def case_prod_unfold split: sum.splits option.splits)

definition no_message :: client_message where
  "no_message = \<lparr>cm_run = None, cm_verdict = None, cm_notify = None, cm_ask = None, cm_select = None,
     cm_ack = None, cm_cancel = None, cm_list = None, cm_recent = None, cm_audit = None, cm_status = None,
     cm_telegram_info = None, cm_telegram_set_config = None, cm_policy_add_rule = None, cm_version = None,
     cm_help = None\<rparr>"

definition sample_frame :: string where
  "sample_frame = [CHR ''m'', newline]"

definition sample_conn :: "string \<Rightarrow> conn" where
  "sample_conn bytes = \<lparr>co_bytes = bytes, co_timed_out = False, co_unix = True, co_file_ok = True,
     co_cred = so_peercred_other\<rparr>"

definition sample_daemon :: "client_message \<Rightarrow> daemon_env" where
  "sample_daemon m = \<lparr>de_parse = (\<lambda>ln. if ln = sample_frame then Some m else None), de_fields = (\<lambda>_. []),
     de_version = \<lparr>vr_version = [], vr_git_commit = [], vr_build_time = [], vr_binary_sha256 = [], vr_pid = 1\<rparr>,
     de_save_fails = (\<lambda>_. False)\<rparr>"

lemma sample_line: "read_request_line (sample_conn sample_frame) = Inr sample_frame"
  by (simp add: read_line_cases sample_conn_def sample_frame_def newline_def request_limit_def max_request_bytes_def)

lemma sample_peer: "co_cred (sample_conn bytes) = so_peercred_other"
  by (simp add: sample_conn_def)

theorem queries_change_nothing_witness:
  "\<exists>answer. handle (sample_daemon (no_message\<lparr>cm_status := Some ''a''\<rparr>)) (sample_conn sample_frame) []
     \<lparr>ds_service = sample_service, ds_policy = None, ds_world = sample_open\<rparr>
     = Some (answer, [], \<lparr>ds_service = sample_service, ds_policy = None, ds_world = sample_open\<rparr>)"
  by (rule queries_change_nothing) (simp add: sample_line sample_daemon_def mutates_def no_message_def)

text \<open>
  C28. A peer whose credentials cannot be read, and every peer on a platform without a call for
  them, counts as root: its verdict on any petition goes straight into the store.
\<close>

theorem unidentified_peer_is_root:
  assumes "\<not> co_unix c \<or> \<not> co_file_ok c \<or> co_cred c = None \<or> co_cred c = so_peercred_other"
    and "read_request_line c = Inr ln" and "de_parse e ln = Some m" and "cm_verdict m = Some sub"
    and "vs_decision sub = ''approve'' \<or> vs_decision sub = ''deny''"
  shows "handle e c ts d =
    (case store_consume (sv_store (ds_service d)) (vs_id sub) (vs_decision sub) (clean_by (vs_by sub)) (ds_world d) of
       (ok, w') \<Rightarrow> Some (Verdict_reply \<lparr>va_recorded = ok, va_error = []\<rparr>, ts, d\<lparr>ds_world := w'\<rparr>))"
proof -
  have "peer_cred c = (0, 0)" using assms(1) by (auto simp: peer_cred_def so_peercred_other_def)
  moreover have "is_admin_uid (ds_service d) 0" by (simp add: is_admin_uid_def)
  moreover have "(vs_decision sub \<noteq> ''approve'' \<and> vs_decision sub \<noteq> ''deny'') = False" using assms(5) by blast
  ultimately show ?thesis using assms(2-4)
    by (simp add: handle_def dispatch_def Let_def service_submit_def case_prod_unfold del: de_Morgan_conj)
qed

theorem unidentified_peer_is_root_witness:
  "case handle (sample_daemon (no_message\<lparr>cm_verdict := Some \<lparr>vs_id = ''a'', vs_decision = ''approve'', vs_by = []\<rparr>\<rparr>))
     (sample_conn sample_frame) []
     \<lparr>ds_service = sample_service, ds_policy = None, ds_world = sample_open\<rparr> of
     None \<Rightarrow> False
   | Some (answer, _, _) \<Rightarrow> answer = Verdict_reply \<lparr>va_recorded = True, va_error = []\<rparr>"
proof -
  have ok: "fst (store_consume (sv_store sample_service) ''a'' ''approve'' (clean_by []) sample_open)" by code_simp
  define sub where "sub = \<lparr>vs_id = ''a'', vs_decision = ''approve'', vs_by = []\<rparr>"
  have sub: "vs_id sub = ''a''" "vs_decision sub = ''approve''" "vs_by sub = []" by (simp_all add: sub_def)
  have m: "cm_verdict (no_message\<lparr>cm_verdict := Some sub\<rparr>) = Some sub" by simp
  have p: "de_parse (sample_daemon (no_message\<lparr>cm_verdict := Some sub\<rparr>)) sample_frame
      = Some (no_message\<lparr>cm_verdict := Some sub\<rparr>)" by (simp add: sample_daemon_def)
  show ?thesis using ok unidentified_peer_is_root [OF _ sample_line p m] sample_peer
    by (simp add: sub_def [symmetric] sub case_prod_unfold)
qed

text \<open>
  C27. A choice sent over the socket is taken from any peer and in any wording: whoever connects,
  whether or not the question offers that text or allows a free answer, and even after the
  question was cancelled or ran out, the first such text is recorded with the index and the name
  the peer gives.
\<close>

theorem any_peer_answers_a_question:
  assumes "read_request_line c = Inr ln" and "de_parse e ln = Some m"
    and "cm_verdict m = None" and "cm_notify m = None" and "cm_ask m = None" and "cm_select m = Some req"
    and "sr_write_in req = []" and "trim_space (sr_id req) \<noteq> []" and "trim_space (sr_selection req) \<noteq> []"
    and "trim_space (sr_by req) \<noteq> []"
    and "store_load (sv_store (ds_service d)) (trim_space (sr_id req)) (ds_world d) = Some rec" and "pr_kind rec = ''ask''"
  shows "handle e c ts d =
    (case write_excl (kpath (sv_store (ds_service d)) (trim_space (sr_id req)) KSelection)
       (JSelection \<lparr>sl_selection = trim_space (sr_selection req), sl_selection_idx = sr_selection_idx req,
          sl_selection_idxs = [], sl_by = trim_space (sr_by req), sl_unix_nano = d_now (ds_world d)\<rparr>) (ds_world d) of
       (ok, w') \<Rightarrow> Some (Select_reply \<lparr>sx_selected = ok, sx_error = (if ok then [] else ''selection rejected'')\<rparr>,
                     ts, d\<lparr>ds_world := w'\<rparr>))"
proof -
  have t: "trim_space [] = []" by code_simp
  obtain pid uid where p: "peer_cred c = (pid, uid)" by (cases "peer_cred c")
  show ?thesis
    using assms(3-)
    by (simp add: handle_def assms(1,2) p dispatch_def Let_def)
      (simp add: socket_select_def Let_def t store_select_def select_record_def case_prod_unfold split: prod.splits bool.splits)
qed

definition sample_asked :: world where
  "sample_asked = sample_world [(''/s/pending/a.json'', Reg (JRecord (pending_record_zero\<lparr>pr_kind := ''ask'',
     pr_options := [''x'', ''y''], pr_uid := 1000\<rparr>)) 5)]"

definition sample_answer :: select_request where
  "sample_answer = \<lparr>sr_id = ''a'', sr_selection = ''z'', sr_selection_idx = 0, sr_write_in = [], sr_by = ''me''\<rparr>"

lemma sample_answer_fields:
  "sr_write_in sample_answer = []" "trim_space (sr_id sample_answer) = ''a''"
  "trim_space (sr_selection sample_answer) = ''z''" "trim_space (sr_by sample_answer) = ''me''"
  by code_simp+

theorem any_peer_answers_a_question_witness:
  "\<not> is_admin_uid sample_service 1001
   \<and> (case handle (sample_daemon (no_message\<lparr>cm_select := Some sample_answer\<rparr>))
        ((sample_conn sample_frame)\<lparr>co_cred := Some (9, 1001)\<rparr>) []
        \<lparr>ds_service = sample_service, ds_policy = None, ds_world = sample_asked\<rparr> of
        None \<Rightarrow> False
      | Some (answer, _, _) \<Rightarrow> answer = Select_reply \<lparr>sx_selected = True, sx_error = []\<rparr>)"
proof
  show "\<not> is_admin_uid sample_service 1001" by (simp add: is_admin_uid_def sample_service_def sample_sys_def)
  have ok: "fst (write_excl (kpath (sv_store sample_service) ''a'' KSelection) x sample_asked)" for x
    by (simp add: write_excl_def node_at_def sample_asked_def sample_world_def sample_service_def store_eval)
  obtain rec where rec: "store_load (sv_store sample_service) ''a'' sample_asked = Some rec" "pr_kind rec = ''ask''"
    by (simp add: sample_asked_def sample_world_def sample_service_def store_eval)
  have line: "read_request_line ((sample_conn sample_frame)\<lparr>co_cred := Some (9, 1001)\<rparr>) = Inr sample_frame"
    using sample_line by (simp add: read_line_cases)
  have p: "de_parse (sample_daemon m) sample_frame = Some m" for m by (simp add: sample_daemon_def)
  show "case handle (sample_daemon (no_message\<lparr>cm_select := Some sample_answer\<rparr>))
        ((sample_conn sample_frame)\<lparr>co_cred := Some (9, 1001)\<rparr>) []
        \<lparr>ds_service = sample_service, ds_policy = None, ds_world = sample_asked\<rparr> of
        None \<Rightarrow> False
      | Some (answer, _, _) \<Rightarrow> answer = Select_reply \<lparr>sx_selected = True, sx_error = []\<rparr>"
    by (subst any_peer_answers_a_question [OF line p, where req = sample_answer and rec = rec])
      (use rec ok in \<open>simp_all add: sample_answer_fields no_message_def case_prod_unfold\<close>)
qed

section \<open>Truncation\<close>

lemma marker_short: "int (length (truncation_marker n mx)) = 38 + int (length (itoa n)) + int (length (itoa mx))"
  by (simp add: truncation_marker_def)

lemma marker_pos: "0 < length (truncation_marker n mx)"
  by (simp add: truncation_marker_def)

text \<open>
  The reply is cut at the same ceiling as the capture, so for a long output the count in the
  marker the caller reads is the length of the first marker and never the number of bytes lost.
\<close>

theorem truncation_count_is_lost:
  assumes "default_max_output_bytes < int (length out)"
  shows "bound_run_output (bound_output out (cap_bytes 0))
    = take (nat default_max_output_bytes) out
      @ truncation_marker (int (length (truncation_marker (int (length out) - default_max_output_bytes) default_max_output_bytes)))
          max_response_output_bytes"
  using assms marker_pos [of "int (length out) - default_max_output_bytes" default_max_output_bytes]
  by (simp add: bound_run_output_def bound_output_def cap_bytes_def default_max_output_bytes_def
      max_response_output_bytes_def)

theorem truncation_count_is_lost_witness:
  "\<exists>out. length out = 300000
     \<and> bound_run_output (bound_output out (cap_bytes 0)) = take (nat 262144) out @ truncation_marker 49 262144"
proof -
  have digits: "length (itoa 37856) = 5" "length (itoa 262144) = 6" by (simp_all add: itoa_def dec.simps)
  have marker: "int (length (truncation_marker 37856 262144)) = 49" by (simp only: marker_short digits)
  obtain out :: string where "length out = 300000" using Ex_list_of_length by blast
  with marker show ?thesis using truncation_count_is_lost [of out]
    by (intro exI [of _ out]) (simp add: default_max_output_bytes_def max_response_output_bytes_def)
qed

end
