(* ===== verification/SettingFacts.thy ===== *)
theory SettingFacts imports OperatorFacts begin

text \<open>
  The live settings change as one, and only after the settings file has been written; what a
  failed write leaves of that file is stated with it. The pager setting of the configuration file
  plays no part in where a request is shown.
\<close>

section \<open>Changing the settings\<close>

definition settings_of :: "user_config \<Rightarrow> string \<Rightarrow> dyn_state" where
  "settings_of u username =
     (let polls = (\<not> placeholder_token (uc_bot_token u)) in
      \<lparr>dy_polling = polls, dy_username = username, dy_status = (if polls then ''connected'' else ''unconfigured''),
       dy_error = [], dy_token = uc_bot_token u, dy_chat = uc_chat_id u, dy_approvers = uc_approvers u,
       dy_approver_set = filter (\<lambda>a. a \<noteq> []) (map trim_space (uc_approvers u)), dy_target = uc_notify_target u\<rparr>)"

definition poll_effect :: "service \<Rightarrow> user_config \<Rightarrow> world \<Rightarrow> effect list" where
  "poll_effect s u w =
     (if placeholder_token (uc_bot_token u) then []
      else [Polling (uc_bot_token u) (get_offset (sv_store s) w)
              (filter (\<lambda>a. a \<noteq> []) (map trim_space (uc_approvers u)))])"

lemma settings_kept: "w_dyn (append_line p ev w) = w_dyn w" "w_trace (append_line p ev w) = w_trace w"
  by (rule append_line_fields(4) [THEN more_views(6)] append_line_fields(4) [THEN more_views(1)])+

lemma offset_files: "d_files w' = d_files w \<Longrightarrow> get_offset st w' = get_offset st w"
  by (simp add: get_offset_def read_file_def node_at_def)

lemma apply_config_effects:
  "w_dyn (apply_config s u username w) = settings_of u username"
  "w_trace (apply_config s u username w) = w_trace w @ poll_effect s u w"
  "d_files (apply_config s u username w) = d_files w"
  by (simp_all add: apply_config_def settings_of_def poll_effect_def Let_def emit_def
      offset_files [of "w\<lparr>w_dyn := x\<rparr>" w for x])

lemma bump_keeps [simp]:
  "w_dyn (bump w) = w_dyn w" "w_trace (bump w) = w_trace w" "d_files (bump w) = d_files w"
  "poll_effect s u (bump w) = poll_effect s u w" "w_user_file (bump w) = w_user_file w"
  by (simp_all add: bump_def poll_effect_def offset_files [of "w\<lparr>w_n := n\<rparr>" w for n])

lemma user_file_keeps [simp]:
  "w_dyn (w\<lparr>w_user_file := f\<rparr>) = w_dyn w" "w_trace (w\<lparr>w_user_file := f\<rparr>) = w_trace w"
  "d_files (w\<lparr>w_user_file := f\<rparr>) = d_files w" "poll_effect s u (w\<lparr>w_user_file := f\<rparr>) = poll_effect s u w"
  by (simp_all add: poll_effect_def offset_files [of "w\<lparr>w_user_file := f\<rparr>" w for f])

lemma apply_user_file: "w_user_file (apply_config s u username w) = w_user_file w"
  by (simp add: apply_config_def Let_def emit_def)

text \<open>
  What a save that fails can leave of the settings file: the old text, or as much of the new one
  as was written, under the old mode. All of it, when only the last step, the mode, failed.
\<close>

definition left_by_failed_save :: "string \<Rightarrow> config_file \<Rightarrow> config_file \<Rightarrow> bool" where
  "left_by_failed_save data old new \<longleftrightarrow> new = old \<or>
     (case new of None \<Rightarrow> False
      | Some (text, mode) \<Rightarrow> prefix text data \<and> mode = (case old of None \<Rightarrow> 384 | Some (_, m) \<Rightarrow> m))"

lemma save_user_outcome:
  "save_user_config encode fault u file = (ok, file') \<Longrightarrow>
    if ok then file' = Some (encode u, 384) else left_by_failed_save (encode u) file file'"
  by (cases fault) (auto simp: save_user_config_def left_by_failed_save_def Let_def take_is_prefix split: option.splits)

lemma save_config_effects:
  assumes "save_config s u username w = (r, w')"
  shows "d_files w' = d_files w \<and>
   (if tx_success r
    then tx_bot_username r = username \<and> w_dyn w' = settings_of u username \<and> w_trace w' = w_trace w @ poll_effect s u w
      \<and> w_user_file w' = Some (y_encode_user (sv_sys s) u, 384)
    else w_dyn w' = w_dyn w \<and> w_trace w' = w_trace w
      \<and> left_by_failed_save (y_encode_user (sv_sys s) u) (w_user_file w) (w_user_file w'))"
proof -
  obtain ok f where save: "save_user_config (y_encode_user (sv_sys s)) (y_save_user (sv_sys s) (w_n w)) u (w_user_file w) = (ok, f)"
    by fastforce
  show ?thesis
  proof (cases ok)
    case True
    then have "r = \<lparr>tx_success = True, tx_bot_username = username, tx_error = []\<rparr>"
        "w' = apply_config s u username ((bump w)\<lparr>w_user_file := f\<rparr>)"
      using assms save by (simp_all add: save_config_def)
    then show ?thesis using save_user_outcome [OF save] True by (simp add: apply_config_effects apply_user_file)
  next
    case False
    then have "r = set_config_failed (''failed to save config: '' @ y_save_error (sv_sys s) (y_save_user (sv_sys s) (w_n w)))"
        "w' = (bump w)\<lparr>w_user_file := f\<rparr>"
      using assms save unfolding save_config_def Let_def by simp_all
    then show ?thesis using save_user_outcome [OF save] False by (simp add: set_config_failed_def)
  qed
qed

text \<open>The settings a request asks for; \<open>None\<close> when its target is no target.\<close>

definition requested :: "service \<Rightarrow> telegram_set_config_request \<Rightarrow> world \<Rightarrow> user_config option" where
  "requested s req w =
     map_option (requested_config req (case ts_bot_token req of Some t \<Rightarrow> trim_space t | None \<Rightarrow> dy_token (w_dyn w)))
       (requested_target s req w)"

text \<open>A change that reaches the save is the save of what was asked for, with only a Telegram answer before it.\<close>

lemma set_config_cases:
  assumes run: "telegram_set_config s req caller w = (r, w')"
  obtains (refused) "w' = w \<or> w' = bump w \<or> (\<exists>ev. w' = audit s ev w)" "\<not> tx_success r"
  | (saving) u n w1 where "is_admin_uid s caller" "requested s req w = Some u" "save_config s u n w1 = (r, w')" "w1 = w \<or> w1 = bump w"
proof (cases "is_admin_uid s caller \<and> requested_target s req w \<noteq> None")
  case False
  then have "(w' = w \<or> (\<exists>ev. w' = audit s ev w)) \<and> \<not> tx_success r"
    using run by (auto simp: telegram_set_config_def set_config_failed_def split: option.splits if_splits)
  then show ?thesis using that(1) by blast
next
  case True
  then obtain target where t: "is_admin_uid s caller" "requested_target s req w = Some target" by blast
  define token where "token = (case ts_bot_token req of Some t \<Rightarrow> trim_space t | None \<Rightarrow> dy_token (w_dyn w))"
  define u where "u = requested_config req token target"
  have asked: "requested s req w = Some u" using t by (simp add: requested_def u_def token_def)
  have "telegram_set_config s req caller w =
      (if placeholder_token token then save_config s u [] w
       else case y_get_me (sv_sys s) (w_n w) token of
              Inl msg \<Rightarrow> (set_config_failed (''invalid bot token: '' @ msg), bump w)
            | Inr username \<Rightarrow> save_config s u username (bump w))"
    using t unfolding telegram_set_config_def Let_def token_def [symmetric]
    by (simp add: u_def split: sum.split)
  then show ?thesis using that(2) [OF t(1) asked] that(1) run
    by (auto simp: set_config_failed_def split: if_splits sum.splits)
qed

lemma audit_user_file: "w_user_file (audit s ev w) = w_user_file w"
  unfolding audit_def store_append_def by (rule append_line_fields(4) [THEN more_views(7)])

text \<open>
  C21. The live settings change as one, and only once they are saved. Only root or the daemon's
  user can change them. When the change succeeds, the settings file, the live settings and the
  restarted poll carry the same token, chat, approvers and target, and no approver is the empty
  name. When it fails, the live settings and the running poll are as before; the settings file is
  untouched, or, if the save itself failed, it holds the new text as far as it was written.
\<close>

theorem settings_change_as_one:
  "case telegram_set_config s req caller w of
     (r, w') \<Rightarrow> d_files w' = d_files w \<and>
      (if tx_success r
       then is_admin_uid s caller
         \<and> (\<exists>u. requested s req w = Some u
              \<and> w_user_file w' = Some (y_encode_user (sv_sys s) u, 384)
              \<and> w_dyn w' = settings_of u (tx_bot_username r)
              \<and> w_trace w' = w_trace w @ poll_effect s u w)
         \<and> [] \<notin> set (dy_approver_set (w_dyn w'))
       else w_dyn w' = w_dyn w \<and> w_trace w' = w_trace w
         \<and> (w_user_file w' = w_user_file w
            \<or> is_admin_uid s caller
              \<and> (\<exists>u. requested s req w = Some u
                   \<and> left_by_failed_save (y_encode_user (sv_sys s) u) (w_user_file w) (w_user_file w'))))"
proof -
  obtain r w' where run: "telegram_set_config s req caller w = (r, w')" by fastforce
  then show ?thesis
  proof (cases rule: set_config_cases)
    case refused
    then show ?thesis
      using run by (auto simp: audit_user_file)
  next
    case (saving u n w1)
    have "[] \<notin> set (dy_approver_set (settings_of u n))" by (simp add: settings_of_def Let_def)
    then show ?thesis using run save_config_effects [OF saving(3)] saving(1,2,4)
      by (cases "tx_success r") auto
  qed
qed

section \<open>The pager setting\<close>

lemma pager_blind:
  assumes "s' = s\<lparr>sv_conf := (sv_conf s)\<lparr>cf_pager := p\<rparr>\<rparr>"
  shows "sv_store s' = sv_store s" "sv_host s' = sv_host s" "display_uid s' = display_uid s"
    "tg_send s' = tg_send s" "service_card s' = service_card s" "active_chat_id s' = active_chat_id s"
    "notify_telegram s' = notify_telegram s" "cf_timeout (sv_conf s') = cf_timeout (sv_conf s)"
  using assms
  by (simp_all add: fun_eq_iff tg_send_def service_card_def active_chat_id_def static_chat_id_def
      notify_telegram_def notify_target_def display_uid_def Let_def split: list.split)

text \<open>
  The setting PAGER has no effect on where anything is shown: whatever its value, requests,
  questions and notices are paged the same way and polling starts the same way.
\<close>

theorem pager_setting_is_ignored:
  "let s' = s\<lparr>sv_conf := (sv_conf s)\<lparr>cf_pager := p\<rparr>\<rparr> in
     page_request s' rid run caller w = page_request s rid run caller w
     \<and> page_ask s' rid question link opts idx ttl multi write_in w
         = page_ask s rid question link opts idx ttl multi write_in w
     \<and> page_notify s' rid link summary ttl w = page_notify s rid link summary ttl w
     \<and> start_telegram s' w = start_telegram s w"
proof -
  define s' where "s' = s\<lparr>sv_conf := (sv_conf s)\<lparr>cf_pager := p\<rparr>\<rparr>"
  note blind = pager_blind [OF s'_def]
  show ?thesis unfolding Let_def s'_def [symmetric]
    by (simp only: page_request_def page_ask_def page_notify_def start_telegram_def blind simp_thms)
qed

end
