(* ===== verification/Commands.thy ===== *)
theory Commands imports Daemon begin

text \<open>
  The command line: \<open>cmd/2fado/main.go\<close>, which reads the words of an invocation, and
  \<open>internal/client\<close>, which sends one message to the daemon and turns the answer into output and
  an exit code. Reading the words gives a \<open>command\<close> or a reason to stop before anything is sent.
  What a socket answers to a message, and JSON, are parameters, gathered in \<open>link\<close>; so is
  \<open>time.ParseDuration\<close>, whose fractions are floating-point numbers.
\<close>

section \<open>Reading the words\<close>

text \<open>The ways an invocation ends early, both with exit code 2: the usage text, or a message.\<close>

datatype stop = Usage | Bad string

datatype command =
    Cmd_daemon
  | Cmd_run "string list" bool
  | Cmd_verdict string string
  | Cmd_select string string int
  | Cmd_cancel string string
  | Cmd_notify string string int
  | Cmd_ask string "string list" string int bool bool
  | Cmd_ack string
  | Cmd_status string
  | Cmd_list
  | Cmd_recent int
  | Cmd_audit audit_query_request
  | Cmd_version
  | Cmd_socket_version

definition parse_uint32 :: "string \<Rightarrow> uid option" where
  "parse_uint32 s =
     (case atoi_digits s of None \<Rightarrow> None | Some n \<Rightarrow> if n < 2 ^ 32 then Some (of_nat n) else None)"

text \<open>An optional life time: seconds of a duration, 0 when the flag is absent.\<close>

definition ttl_seconds :: "(string \<Rightarrow> int option) \<Rightarrow> string \<Rightarrow> string \<Rightarrow> stop + int" where
  "ttl_seconds parse_duration hint ttl =
     (if ttl = [] then Inr 0
      else case parse_duration ttl of
             None \<Rightarrow> Inl (Bad hint)
           | Some d \<Rightarrow> if d \<le> 0 then Inl (Bad hint) else Inr (d div second_ns))"

fun notify_words :: "string list \<Rightarrow> string \<Rightarrow> string \<Rightarrow> string \<Rightarrow> stop + string \<times> string \<times> string" where
  "notify_words [] link summary ttl = Inr (link, summary, ttl)"
| "notify_words (a # as) link summary ttl =
     (if a \<notin> {''--link'', ''--summary'', ''--ttl''} then Inl Usage
      else case as of
             [] \<Rightarrow> Inl Usage
           | v # rest \<Rightarrow>
               if a = ''--link'' then notify_words rest v summary ttl
               else if a = ''--summary'' then notify_words rest link v ttl
               else notify_words rest link summary v)"

definition notify_cmd :: "(string \<Rightarrow> int option) \<Rightarrow> string list \<Rightarrow> stop + command" where
  "notify_cmd parse_duration args =
     (case notify_words args [] [] [] of
        Inl e \<Rightarrow> Inl e
      | Inr (link, summary, ttl) \<Rightarrow>
          if link = [] \<or> summary = [] then Inl Usage
          else case ttl_seconds parse_duration ''2fado: bad --ttl (try 30m, 2h, 24h)'' ttl of
                 Inl e \<Rightarrow> Inl e | Inr n \<Rightarrow> Inr (Cmd_notify link summary n))"

record ask_flags =
  af_question :: string
  af_link :: string
  af_ttl :: string
  af_options :: "string list"
  af_multi :: bool
  af_write_in :: bool

fun ask_words :: "string list \<Rightarrow> ask_flags \<Rightarrow> stop + ask_flags" where
  "ask_words [] f = Inr f"
| "ask_words (a # as) f =
     (if a = ''--multi-select'' then ask_words as (f\<lparr>af_multi := True\<rparr>)
      else if a = ''--allow-write-in'' then ask_words as (f\<lparr>af_write_in := True\<rparr>)
      else if a \<notin> {''--question'', ''--option'', ''--link'', ''--ttl''} then Inl Usage
      else case as of
             [] \<Rightarrow> Inl Usage
           | v # rest \<Rightarrow>
               if a = ''--question'' then ask_words rest (f\<lparr>af_question := v\<rparr>)
               else if a = ''--option'' then ask_words rest (f\<lparr>af_options := af_options f @ [v]\<rparr>)
               else if a = ''--link'' then ask_words rest (f\<lparr>af_link := v\<rparr>)
               else ask_words rest (f\<lparr>af_ttl := v\<rparr>))"

definition ask_cmd :: "(string \<Rightarrow> int option) \<Rightarrow> string list \<Rightarrow> stop + command" where
  "ask_cmd parse_duration args =
     (case ask_words args \<lparr>af_question = [], af_link = [], af_ttl = [], af_options = [], af_multi = False, af_write_in = False\<rparr> of
        Inl e \<Rightarrow> Inl e
      | Inr f \<Rightarrow>
          if af_question f = [] \<or> length (af_options f) < 2 then Inl Usage
          else case ttl_seconds parse_duration ''2fado: bad --ttl (try 30s, 5m, 1h)'' (af_ttl f) of
                 Inl e \<Rightarrow> Inl e
               | Inr n \<Rightarrow> Inr (Cmd_ask (af_question f) (af_options f) (af_link f) n (af_multi f) (af_write_in f)))"

text \<open>The id, the choice and the index of \<open>select\<close>; the index is -1 when it is not given.\<close>

fun select_words :: "string list \<Rightarrow> string \<Rightarrow> string \<Rightarrow> int \<Rightarrow> stop + string \<times> string \<times> int" where
  "select_words [] rid choice idx = Inr (rid, choice, idx)"
| "select_words (a # as) rid choice idx =
     (if a = ''--index'' \<or> a = ''-i'' then
        (case as of
           [] \<Rightarrow> Inl Usage
         | v # rest \<Rightarrow>
             (case atoi v of
                None \<Rightarrow> Inl (Bad ''2fado: bad --index (want non-negative int)'')
              | Some n \<Rightarrow> if n < 0 then Inl (Bad ''2fado: bad --index (want non-negative int)'')
                          else select_words rest rid choice n))
      else if a = ''--choice'' \<or> a = ''-c'' then
        (case as of [] \<Rightarrow> Inl Usage | v # rest \<Rightarrow> select_words rest rid v idx)
      else if has_prefix a ''-'' then Inl Usage
      else if rid = [] then select_words as a choice idx
      else if choice = [] then select_words as rid a idx
      else Inl Usage)"

definition select_cmd :: "string list \<Rightarrow> stop + command" where
  "select_cmd args =
     (if args = [] then Inl Usage
      else case select_words args [] [] (-1) of
             Inl e \<Rightarrow> Inl e
           | Inr (rid, choice, idx) \<Rightarrow> if rid = [] then Inl Usage else Inr (Cmd_select rid choice idx))"

fun cancel_words :: "string list \<Rightarrow> string \<Rightarrow> string \<Rightarrow> stop + string \<times> string" where
  "cancel_words [] rid reason = Inr (rid, reason)"
| "cancel_words (a # as) rid reason =
     (if a = ''--reason'' then (case as of [] \<Rightarrow> Inl Usage | v # rest \<Rightarrow> cancel_words rest rid v)
      else if has_prefix a ''-'' then Inl Usage
      else if rid \<noteq> [] then Inl Usage
      else cancel_words as a reason)"

definition cancel_cmd :: "string list \<Rightarrow> stop + command" where
  "cancel_cmd args =
     (if args = [] then Inl Usage
      else case cancel_words args [] [] of
             Inl e \<Rightarrow> Inl e
           | Inr (rid, reason) \<Rightarrow> if rid = [] then Inl Usage else Inr (Cmd_cancel rid reason))"

text \<open>One flag of \<open>audit\<close> with its value.\<close>

definition audit_flag :: "string \<Rightarrow> string \<Rightarrow> audit_query_request \<Rightarrow> stop + audit_query_request" where
  "audit_flag a v q =
     (if a = ''--limit'' then
        (case atoi v of
           Some n \<Rightarrow> if n < 0 then Inl (Bad ''2fado: bad --limit (want non-negative int)'') else Inr (q\<lparr>au_limit := n\<rparr>)
         | None \<Rightarrow> Inl (Bad ''2fado: bad --limit (want non-negative int)''))
      else if a = ''--cursor'' then Inr (q\<lparr>au_cursor := v\<rparr>)
      else if a = ''--ev'' then Inr (q\<lparr>au_ev := v\<rparr>)
      else if a = ''--id'' then Inr (q\<lparr>au_id := v\<rparr>)
      else if a = ''--uid'' then
        (case parse_uint32 v of Some n \<Rightarrow> Inr (q\<lparr>au_uid := n\<rparr>) | None \<Rightarrow> Inl (Bad ''2fado: bad --uid (want uint32)''))
      else if a = ''--since'' then
        (case atoi v of
           Some n \<Rightarrow> if n < 0 then Inl (Bad ''2fado: bad --since (want unix seconds)'') else Inr (q\<lparr>au_since := n\<rparr>)
         | None \<Rightarrow> Inl (Bad ''2fado: bad --since (want unix seconds)''))
      else
        (case atoi v of
           Some n \<Rightarrow> if n < 0 then Inl (Bad ''2fado: bad --until (want unix seconds)'') else Inr (q\<lparr>au_until := n\<rparr>)
         | None \<Rightarrow> Inl (Bad ''2fado: bad --until (want unix seconds)'')))"

definition audit_flags :: "string list" where
  "audit_flags = [''--limit'', ''--cursor'', ''--ev'', ''--id'', ''--uid'', ''--since'', ''--until'']"

fun audit_words :: "string list \<Rightarrow> audit_query_request \<Rightarrow> stop + audit_query_request" where
  "audit_words [] q = Inr q"
| "audit_words (a # as) q =
     (if a \<notin> set audit_flags then Inl Usage
      else case as of
             [] \<Rightarrow> Inl Usage
           | v # rest \<Rightarrow> (case audit_flag a v q of Inl e \<Rightarrow> Inl e | Inr q' \<Rightarrow> audit_words rest q'))"

definition audit_query_zero :: audit_query_request where
  "audit_query_zero = \<lparr>au_cursor = [], au_limit = 0, au_ev = [], au_id = [], au_uid = 0, au_since = 0, au_until = 0\<rparr>"

definition audit_cmd :: "string list \<Rightarrow> stop + command" where
  "audit_cmd args = (case audit_words args audit_query_zero of Inl e \<Rightarrow> Inl e | Inr q \<Rightarrow> Inr (Cmd_audit q))"

definition detach_flags :: "string list" where
  "detach_flags = [''--detach'', ''-d'', ''--async'']"

definition run_cmd_line :: "string list \<Rightarrow> stop + command" where
  "run_cmd_line args =
     (let detach = list_ex (\<lambda>a. a \<in> set detach_flags) args;
          filtered = filter (\<lambda>a. a \<notin> set detach_flags) args;
          argv = (case filtered of a # rest \<Rightarrow> if a = ''--'' then rest else filtered | [] \<Rightarrow> filtered)
      in if argv = [] then Inl Usage else Inr (Cmd_run argv detach))"

fun recent_words :: "string list \<Rightarrow> int \<Rightarrow> stop + int" where
  "recent_words [] limit = Inr limit"
| "recent_words (a # as) limit =
     (if a \<noteq> ''--limit'' then Inl Usage
      else case as of
             [] \<Rightarrow> Inl Usage
           | v # rest \<Rightarrow>
               (case atoi v of
                  None \<Rightarrow> Inl (Bad ''2fado: bad --limit (want non-negative int)'')
                | Some n \<Rightarrow> if n < 0 then Inl (Bad ''2fado: bad --limit (want non-negative int)'')
                            else recent_words rest n))"

text \<open>The words after the program's name.\<close>

definition parse_command :: "(string \<Rightarrow> int option) \<Rightarrow> string list \<Rightarrow> stop + command" where
  "parse_command parse_duration words =
     (case words of
        [] \<Rightarrow> Inl Usage
      | c # args \<Rightarrow>
          if c = ''daemon'' then Inr Cmd_daemon
          else if c = ''run'' then run_cmd_line args
          else if c = ''approve'' \<or> c = ''deny'' then
            (case args of [rid] \<Rightarrow> Inr (Cmd_verdict c rid) | _ \<Rightarrow> Inl Usage)
          else if c = ''select'' then select_cmd args
          else if c = ''cancel'' then cancel_cmd args
          else if c = ''notify'' then notify_cmd parse_duration args
          else if c = ''ask'' then ask_cmd parse_duration args
          else if c = ''ack'' then (case args of [rid] \<Rightarrow> Inr (Cmd_ack rid) | _ \<Rightarrow> Inl Usage)
          else if c = ''status'' then (case args of [rid] \<Rightarrow> Inr (Cmd_status rid) | _ \<Rightarrow> Inl Usage)
          else if c = ''list'' then (if args = [] then Inr Cmd_list else Inl Usage)
          else if c = ''recent'' then (case recent_words args 0 of Inl e \<Rightarrow> Inl e | Inr n \<Rightarrow> Inr (Cmd_recent n))
          else if c = ''audit'' then audit_cmd args
          else if c = ''version'' \<or> c = ''-v'' \<or> c = ''--version'' then Inr Cmd_version
          else if c = ''socket-version'' then Inr Cmd_socket_version
          else Inl Usage)"

section \<open>Talking to the daemon\<close>

text \<open>
  What the program meets outside: which sockets are alive, what a socket answers to a message
  (or why it cannot be asked), and the text of an answer read as each kind of result.
\<close>

record link =
  lk_live :: "path \<Rightarrow> bool"
  lk_candidates :: "path list"
  lk_explicit :: path
  lk_rpc :: "path \<Rightarrow> client_message \<Rightarrow> string result"
  lk_run_result :: "string \<Rightarrow> run_result option"
  lk_verdict_ack :: "string \<Rightarrow> verdict_ack option"
  lk_ask_result :: "string \<Rightarrow> ask_result option"
  lk_select_response :: "string \<Rightarrow> select_response option"
  lk_ack_response :: "string \<Rightarrow> ack_response option"
  lk_cancel_response :: "string \<Rightarrow> cancel_response option"
  lk_status_response :: "string \<Rightarrow> status_response option"
  lk_pending :: "string \<Rightarrow> pending_item list option"
  lk_recent :: "string \<Rightarrow> recent_item list option"
  lk_audit :: "string \<Rightarrow> audit_query_response option"
  lk_version :: "string \<Rightarrow> version_response option"

text \<open>What is printed, in order, and the exit code; the documents are printed as indented JSON.\<close>

datatype printed =
    Out string
  | Err string
  | Status_doc path status_response
  | Audit_doc audit_query_response
  | Version_doc version_response

type_synonym ending = "printed list \<times> int"

text \<open>\<open>discoverFrom\<close> warns about a dead explicit socket it passes over.\<close>

fun probe_warnings :: "(path \<Rightarrow> bool) \<Rightarrow> path \<Rightarrow> path list \<Rightarrow> printed list" where
  "probe_warnings live explicit [] = []"
| "probe_warnings live explicit (p # ps) =
     (if live p then []
      else (if explicit \<noteq> [] \<and> p = explicit
            then [Err (''2fado: warning: '' @ p @ '' is not live, probing further candidates'')] else [])
        @ probe_warnings live explicit ps)"

definition resolve_socket :: "link \<Rightarrow> path \<Rightarrow> printed list \<times> path result" where
  "resolve_socket l sock =
     (if sock \<noteq> [] then ([], Inr sock)
      else (probe_warnings (lk_live l) (lk_explicit l) (lk_candidates l), discover_from (lk_live l) (lk_candidates l)))"

definition call_resolved :: "link \<Rightarrow> path \<Rightarrow> client_message \<Rightarrow> printed list \<times> (string \<times> path) result" where
  "call_resolved l sock msg =
     (case resolve_socket l sock of
        (warn, Inl e) \<Rightarrow> (warn, Inl e)
      | (warn, Inr p) \<Rightarrow> (warn, case lk_rpc l p msg of Inl e \<Rightarrow> Inl e | Inr raw \<Rightarrow> Inr (raw, p)))"

definition complain :: "string \<Rightarrow> ending" where
  "complain e = ([Err (''2fado: '' @ e)], 1)"

text \<open>The pattern of every subcommand: ask, read the answer, say what it says.\<close>

definition exchange ::
  "link \<Rightarrow> (string \<Rightarrow> 'a option) \<Rightarrow> path \<Rightarrow> client_message \<Rightarrow> (path \<Rightarrow> 'a \<Rightarrow> ending) \<Rightarrow> ending" where
  "exchange l read sock msg tell =
     (case call_resolved l sock msg of
        (warn, answer) \<Rightarrow>
          (case (case answer of
                   Inl e \<Rightarrow> complain e
                 | Inr (raw, p) \<Rightarrow> (case read raw of None \<Rightarrow> complain ''bad reply'' | Some res \<Rightarrow> tell p res)) of
             (out, code) \<Rightarrow> (warn @ out, code)))"

definition message_zero :: client_message where
  "message_zero = \<lparr>cm_run = None, cm_verdict = None, cm_notify = None, cm_ask = None, cm_select = None,
     cm_ack = None, cm_cancel = None, cm_list = None, cm_recent = None, cm_audit = None, cm_status = None,
     cm_telegram_info = None, cm_telegram_set_config = None, cm_policy_add_rule = None, cm_version = None,
     cm_help = None\<rparr>"

text \<open>The caller's environment as a map: the first equals sign divides, a later entry wins.\<close>

definition env_of :: "string list \<Rightarrow> (string \<times> string) list" where
  "env_of kvs =
     fold (\<lambda>kv e. case index_where (\<lambda>c. c = CHR ''='') kv of
                    None \<Rightarrow> e | Some i \<Rightarrow> AList.update (take i kv) (drop (Suc i) kv) e) kvs []"

definition tell_run :: "bool \<Rightarrow> run_result \<Rightarrow> ending" where
  "tell_run detach res =
     (if rs_status res = ''pending'' then
        (if detach then
           ([Out (''2fado: request submitted (id: '' @ rs_id res @ ''). Detached. Use '' @ [CHR 0x27] @ ''2fado status ''
              @ rs_id res @ [CHR 0x27] @ '' to check outcome.'' @ [newline])], 0)
         else ([Err (''2fado: request submitted, waiting for approval (id: '' @ rs_id res @ '')...'')], 1))
      else if rs_status res = ''allowed'' then ([Out (rs_output res)], rs_exit res)
      else ([Err (''2fado: denied ('' @ rs_reason res @ '')'')], 1))"

definition run_with_detach :: "link \<Rightarrow> path \<Rightarrow> string list \<Rightarrow> string list \<Rightarrow> path \<Rightarrow> bool \<Rightarrow> ending" where
  "run_with_detach l sock argv env cwd detach =
     exchange l (lk_run_result l) sock
       (message_zero\<lparr>cm_run := Some \<lparr>rr_argv = argv, rr_cwd = cwd, rr_env = env_of env, rr_detach = detach\<rparr>\<rparr>)
       (\<lambda>_. tell_run detach)"

definition bool_text :: "bool \<Rightarrow> string" where
  "bool_text b = (if b then ''true'' else ''false'')"

text \<open>An answer with an error field: a refusal, or the flag that was set.\<close>

definition tell_flag :: "string \<Rightarrow> string \<Rightarrow> string \<Rightarrow> bool \<Rightarrow> ending" where
  "tell_flag what field e set_flag =
     (if e \<noteq> [] then ([Err (''2fado: '' @ what @ '' rejected ('' @ e @ '')'')], 1)
      else ([Out (''{'' @ field @ '': '' @ bool_text set_flag @ ''}'' @ [newline])], 0))"

definition client_verdict :: "link \<Rightarrow> path \<Rightarrow> string \<Rightarrow> string \<Rightarrow> ending" where
  "client_verdict l sock decision rid =
     exchange l (lk_verdict_ack l) sock
       (message_zero\<lparr>cm_verdict := Some \<lparr>vs_id = rid, vs_decision = decision, vs_by = []\<rparr>\<rparr>)
       (\<lambda>_ ack. tell_flag ''verdict'' ''recorded'' (va_error ack) (va_recorded ack))"

definition tell_notify :: "run_result \<Rightarrow> ending" where
  "tell_notify res =
     (if rs_status res = ''pending'' then
        ([Out (''2fado: notify submitted (id: '' @ rs_id res @ ''). Use '' @ [CHR 0x27] @ ''2fado status '' @ rs_id res
           @ [CHR 0x27] @ '' to check ack.'' @ [newline])], 0)
      else ([Err (''2fado: notify rejected ('' @ rs_reason res @ '')'')], 1))"

definition client_notify :: "link \<Rightarrow> path \<Rightarrow> string \<Rightarrow> string \<Rightarrow> int \<Rightarrow> ending" where
  "client_notify l sock url summary ttl =
     exchange l (lk_run_result l) sock
       (message_zero\<lparr>cm_notify := Some \<lparr>nr_link = url, nr_summary = summary, nr_ttl_seconds = ttl\<rparr>\<rparr>)
       (\<lambda>_. tell_notify)"

definition tell_ask :: "ask_result \<Rightarrow> ending" where
  "tell_ask res =
     (if ax_status res = ''selected'' then ([Out (ax_selection res @ [newline])], 0)
      else if ax_status res = ''timeout'' then ([Err (''2fado: ask timed out (id: '' @ ax_id res @ '')'')], 2)
      else ([Err (''2fado: ask rejected ('' @ ax_reason res @ '')'')], 1))"

definition client_ask :: "link \<Rightarrow> path \<Rightarrow> string \<Rightarrow> string list \<Rightarrow> string \<Rightarrow> int \<Rightarrow> bool \<Rightarrow> bool \<Rightarrow> ending" where
  "client_ask l sock question opts url ttl multi write_in =
     exchange l (lk_ask_result l) sock
       (message_zero\<lparr>cm_ask := Some \<lparr>aq_question = question, aq_options = opts, aq_link = url, aq_ttl_seconds = ttl,
          aq_multi_select = multi, aq_allow_write_in = write_in, aq_recommended_index = 0\<rparr>\<rparr>)
       (\<lambda>_. tell_ask)"

definition client_select :: "link \<Rightarrow> path \<Rightarrow> string \<Rightarrow> string \<Rightarrow> int \<Rightarrow> ending" where
  "client_select l sock rid selection idx =
     exchange l (lk_select_response l) sock
       (message_zero\<lparr>cm_select := Some \<lparr>sr_id = rid, sr_selection = selection, sr_selection_idx = idx,
          sr_write_in = [], sr_by = []\<rparr>\<rparr>)
       (\<lambda>_ res. tell_flag ''select'' ''selected'' (sx_error res) (sx_selected res))"

definition query_status :: "link \<Rightarrow> path \<Rightarrow> string \<Rightarrow> printed list \<times> status_response option" where
  "query_status l sock rid =
     (case call_resolved l sock (message_zero\<lparr>cm_status := Some rid\<rparr>) of
        (warn, Inl e) \<Rightarrow> (warn, None)
      | (warn, Inr (raw, p)) \<Rightarrow> (warn, lk_status_response l raw))"

definition client_ack :: "link \<Rightarrow> path \<Rightarrow> string \<Rightarrow> ending" where
  "client_ack l sock rid =
     exchange l (lk_ack_response l) sock (message_zero\<lparr>cm_ack := Some \<lparr>as_id = rid, as_by = []\<rparr>\<rparr>)
       (\<lambda>_ res. tell_flag ''ack'' ''acked'' (ar_error res) (ar_acked res))"

definition client_cancel :: "link \<Rightarrow> path \<Rightarrow> string \<Rightarrow> string \<Rightarrow> ending" where
  "client_cancel l sock rid reason =
     exchange l (lk_cancel_response l) sock
       (message_zero\<lparr>cm_cancel := Some \<lparr>cr_id = rid, cr_reason = reason, cr_by = ''cli''\<rparr>\<rparr>)
       (\<lambda>_ res. tell_flag ''cancel'' ''cancelled'' (cx_error res) (cx_cancelled res))"

definition tell_status :: "path \<Rightarrow> status_response \<Rightarrow> ending" where
  "tell_status p st =
     ([Status_doc p st],
      if st_status st = ''completed'' then st_exit st
      else if st_status st \<in> {''not_found'', ''denied'', ''timeout'', ''cancelled''} then 1 else 0)"

definition client_status :: "link \<Rightarrow> path \<Rightarrow> string \<Rightarrow> ending" where
  "client_status l sock rid =
     exchange l (lk_status_response l) sock (message_zero\<lparr>cm_status := Some rid\<rparr>) tell_status"

definition slice_text :: "string list \<Rightarrow> string" where
  "slice_text xs = ''['' @ str_join '' '' xs @ '']''"

definition lines_of :: "(string \<times> string) list \<Rightarrow> string" where
  "lines_of kvs = concat (map (\<lambda>(k, v). k @ '': '' @ v @ [newline]) kvs)"

definition tell_list :: "pending_item list \<Rightarrow> ending" where
  "tell_list items =
     (if items = [] then ([Out (''2fado: no pending requests'' @ [newline])], 0)
      else (map (\<lambda>it. Out (lines_of [(''id'', pi_id it), (''  argv'', slice_text (pi_argv it)), (''  cwd'', pi_cwd it),
                 (''  step'', pi_step it), (''  confirm_of'', pi_confirm_of it), (''  kind'', pi_kind it),
                 (''  expires_in'', itoa (pi_expires_in it) @ ''s'')])) items, 0))"

definition client_list :: "link \<Rightarrow> path \<Rightarrow> ending" where
  "client_list l sock = exchange l (lk_pending l) sock (message_zero\<lparr>cm_list := Some ()\<rparr>) (\<lambda>_. tell_list)"

definition tell_recent :: "recent_item list \<Rightarrow> ending" where
  "tell_recent items =
     (if items = [] then ([Out (''2fado: no recent records'' @ [newline])], 0)
      else (map (\<lambda>it. Out (lines_of [(''id'', ri_id it), (''  argv'', slice_text (ri_argv it)),
                 (''  decision'', ri_decision it), (''  by'', ri_by it), (''  exit'', itoa (ri_exit it)),
                 (''  step'', ri_step it), (''  confirm_of'', ri_confirm_of it)])) items, 0))"

definition client_recent :: "link \<Rightarrow> path \<Rightarrow> int \<Rightarrow> ending" where
  "client_recent l sock limit =
     exchange l (lk_recent l) sock (message_zero\<lparr>cm_recent := Some limit\<rparr>) (\<lambda>_. tell_recent)"

definition client_audit :: "link \<Rightarrow> path \<Rightarrow> audit_query_request \<Rightarrow> ending" where
  "client_audit l sock q =
     exchange l (lk_audit l) sock (message_zero\<lparr>cm_audit := Some q\<rparr>) (\<lambda>_ res. ([Audit_doc res], 0))"

definition socket_version :: "link \<Rightarrow> path \<Rightarrow> ending" where
  "socket_version l sock =
     exchange l (lk_version l) sock (message_zero\<lparr>cm_version := Some ()\<rparr>) (\<lambda>_ res. ([Version_doc res], 0))"

section \<open>Running an invocation\<close>

fun index_in :: "string \<Rightarrow> string list \<Rightarrow> nat option" where
  "index_in x [] = None"
| "index_in x (y # ys) = (if y = x then Some 0 else map_option Suc (index_in x ys))"

datatype select_error = Out_of_range nat | No_choice

text \<open>The choice and index that \<open>select\<close> sends, given the daemon's view of the question if it was asked.\<close>

definition resolve_choice ::
  "status_response option \<Rightarrow> string \<Rightarrow> int \<Rightarrow> select_error + string \<times> int" where
  "resolve_choice st choice idx =
     (let opts = (case st of None \<Rightarrow> [] | Some r \<Rightarrow> st_options r);
          picked =
            (if choice = [] \<and> idx \<ge> 0 then
               (if opts = [] then Inr (choice, idx)
                else if nat idx < length opts then Inr (opts ! nat idx, idx)
                else Inl (Out_of_range (length opts)))
             else if choice \<noteq> [] \<and> idx < 0 then
               Inr (choice, case index_in choice opts of Some i \<Rightarrow> int i | None \<Rightarrow> 0)
             else Inr (choice, idx))
      in case picked of
           Inl e \<Rightarrow> Inl e
         | Inr (c, i) \<Rightarrow> if c = [] then Inl No_choice else Inr (c, if i < 0 then 0 else i))"

definition usage_text :: string where
  "usage_text = ''usage: 2fado daemon | 2fado run -- <argv...> | 2fado approve|deny <id> | 2fado select <id> [--index N | --choice text] | 2fado cancel <id> [--reason <text>] | 2fado notify --link <url> --summary <text> [--ttl <dur>] | 2fado ask --question <q> --option <o> --option <o> [--link <url>] [--ttl <dur>] | 2fado ack <id> | 2fado status <id> | 2fado list | 2fado recent [--limit N] | 2fado audit [--limit N] [--cursor C] [--ev E] [--id RID] [--uid U] [--since UNIX] [--until UNIX] | 2fado version''"

definition usage :: ending where
  "usage = ([Out (usage_text @ [newline])], 2)"

definition run_select :: "link \<Rightarrow> path \<Rightarrow> string \<Rightarrow> string \<Rightarrow> int \<Rightarrow> ending" where
  "run_select l sock rid choice idx =
     (let (warn, st) = (if (choice = [] \<and> idx \<ge> 0) \<or> (choice \<noteq> [] \<and> idx < 0) then query_status l sock rid else ([], None)) in
      case (case resolve_choice st choice idx of
              Inl (Out_of_range n) \<Rightarrow>
                ([Err (''2fado: index '' @ itoa idx @ '' out of range (options: '' @ itoa (int n) @ '')'')], 1)
            | Inl No_choice \<Rightarrow> (Err ''2fado: must specify --choice <text> or --index <N>'' # fst usage, snd usage)
            | Inr (c, i) \<Rightarrow> client_select l sock rid c i) of
        (out, code) \<Rightarrow> (warn @ out, code))"

text \<open>
  The client subcommands with the empty socket path, which asks for discovery. \<open>daemon\<close> and
  \<open>version\<close> send nothing; what they do is the parameter \<open>local\<close>.
\<close>

definition run_command :: "link \<Rightarrow> (command \<Rightarrow> ending) \<Rightarrow> string list \<Rightarrow> path \<Rightarrow> command \<Rightarrow> ending" where
  "run_command l local env cwd c =
     (case c of
        Cmd_run argv detach \<Rightarrow> run_with_detach l [] argv env cwd detach
      | Cmd_verdict decision rid \<Rightarrow> client_verdict l [] decision rid
      | Cmd_select rid choice idx \<Rightarrow> run_select l [] rid choice idx
      | Cmd_cancel rid reason \<Rightarrow> client_cancel l [] rid reason
      | Cmd_notify url summary ttl \<Rightarrow> client_notify l [] url summary ttl
      | Cmd_ask question opts url ttl multi write_in \<Rightarrow> client_ask l [] question opts url ttl multi write_in
      | Cmd_ack rid \<Rightarrow> client_ack l [] rid
      | Cmd_status rid \<Rightarrow> client_status l [] rid
      | Cmd_list \<Rightarrow> client_list l []
      | Cmd_recent limit \<Rightarrow> client_recent l [] limit
      | Cmd_audit q \<Rightarrow> client_audit l [] q
      | Cmd_socket_version \<Rightarrow> socket_version l []
      | _ \<Rightarrow> local c)"

definition main ::
  "(string \<Rightarrow> int option) \<Rightarrow> link \<Rightarrow> (command \<Rightarrow> ending) \<Rightarrow> string list \<Rightarrow> path \<Rightarrow> string list \<Rightarrow> ending" where
  "main parse_duration l local env cwd words =
     (case parse_command parse_duration words of
        Inl Usage \<Rightarrow> usage
      | Inl (Bad msg) \<Rightarrow> ([Err msg], 2)
      | Inr c \<Rightarrow> run_command l local env cwd c)"

end
