(* ===== verification/CommandFacts.thy ===== *)
theory CommandFacts imports Commands begin

text \<open>
  What the command line guarantees: exit code 0 of \<open>run\<close> means what a script takes it to mean, the
  flags of \<open>audit\<close> carry a query faithfully, and a choice is completed from the daemon's answer;
  and what \<open>run\<close> does with flags that belong to the command.
\<close>

section \<open>Words of a command\<close>

lemma run_words:
  "parse_command pd (''run'' # args) = run_cmd_line args"
  by (simp add: parse_command_def)

text \<open>
  A flag of the command itself is taken for a flag of \<open>run\<close>, even behind the two dashes: the
  invocation means the same as one without the word that asks to detach.
\<close>

theorem own_flags_are_lost:
  assumes "f \<in> set detach_flags"
  shows "parse_command pd (''run'' # ''--'' # pre @ f # post)
    = parse_command pd (''run'' # ''--detach'' # ''--'' # pre @ post)"
proof -
  have dash: "''--'' \<notin> set detach_flags" and flag: "''--detach'' \<in> set detach_flags" by (simp_all add: detach_flags_def)
  show ?thesis using assms dash flag
    by (simp add: run_words run_cmd_line_def list_ex_iff)
qed

theorem own_flags_are_lost_witness:
  "parse_command (\<lambda>_. None) [''run'', ''--'', ''docker'', ''run'', ''-d'', ''nginx'']
     = Inr (Cmd_run [''docker'', ''run'', ''nginx''] True)"
proof -
  have "''-d'' \<in> set detach_flags" by (simp add: detach_flags_def)
  from own_flags_are_lost [OF this, of "\<lambda>_. None" "[''docker'', ''run'']" "[''nginx'']"] show ?thesis
    by (simp add: run_words run_cmd_line_def detach_flags_def)
qed

section \<open>Exit codes\<close>

lemma exchange_code:
  "snd (exchange l rd sock msg tell) =
     (case snd (call_resolved l sock msg) of
        Inl e \<Rightarrow> 1 | Inr (raw, p) \<Rightarrow> (case rd raw of None \<Rightarrow> 1 | Some res \<Rightarrow> snd (tell p res)))"
  by (simp add: exchange_def complain_def case_prod_unfold split: sum.split option.split)

lemma exchange_zero:
  assumes "snd (exchange l rd sock msg tell) = 0"
  shows "\<exists>raw p res. snd (call_resolved l sock msg) = Inr (raw, p) \<and> rd raw = Some res \<and> snd (tell p res) = 0"
  using assms unfolding exchange_code by (auto split: sum.splits option.splits)

lemma tell_run_zero:
  "snd (tell_run detach res) = 0 \<longleftrightarrow>
     (rs_status res = ''allowed'' \<and> rs_exit res = 0) \<or> (rs_status res = ''pending'' \<and> detach)"
  by (auto simp: tell_run_def)

lemma run_command_run: "run_command l local env cwd (Cmd_run argv detach) = run_with_detach l [] argv env cwd detach"
  by (simp add: run_command_def)

lemma run_zero:
  assumes "snd (main pd l local env cwd (''run'' # args)) = 0"
  shows "\<exists>argv detach p raw res.
    parse_command pd (''run'' # args) = Inr (Cmd_run argv detach) \<and> argv \<noteq> []
    \<and> p \<in> set (lk_candidates l) \<and> lk_live l p
    \<and> lk_rpc l p (message_zero\<lparr>cm_run := Some \<lparr>rr_argv = argv, rr_cwd = cwd, rr_env = env_of env, rr_detach = detach\<rparr>\<rparr>) = Inr raw
    \<and> lk_run_result l raw = Some res
    \<and> (rs_status res = ''allowed'' \<and> rs_exit res = 0 \<or> rs_status res = ''pending'' \<and> detach)"
proof -
  have "\<exists>argv detach. run_cmd_line args = Inr (Cmd_run argv detach) \<and> argv \<noteq> []"
    using assms by (auto simp: main_def run_words run_cmd_line_def Let_def usage_def split: if_splits)
  then obtain argv detach where p: "parse_command pd (''run'' # args) = Inr (Cmd_run argv detach)" "argv \<noteq> []"
    unfolding run_words by blast
  define msg where "msg = message_zero\<lparr>cm_run := Some \<lparr>rr_argv = argv, rr_cwd = cwd, rr_env = env_of env, rr_detach = detach\<rparr>\<rparr>"
  have "snd (exchange l (lk_run_result l) [] msg (\<lambda>_. tell_run detach)) = 0"
    using assms p(1) by (simp only: main_def sum.case run_command_run run_with_detach_def msg_def)
  from exchange_zero [OF this] obtain raw path res where e:
      "snd (call_resolved l [] msg) = Inr (raw, path)" "lk_run_result l raw = Some res" "snd (tell_run detach res) = 0" by blast
  from e(1) have "find (lk_live l) (lk_candidates l) = Some path \<and> lk_rpc l path msg = Inr raw"
    by (auto simp: call_resolved_def resolve_socket_def discover_from_def split: sum.splits option.splits)
  then have "path \<in> set (lk_candidates l) \<and> lk_live l path \<and> lk_rpc l path msg = Inr raw"
    by (auto simp: find_Some_iff)
  then show ?thesis using p e(2,3) unfolding tell_run_zero msg_def by blast
qed

text \<open>
  C22. When \<open>2fado run\<close> ends with exit code 0, the words named a command, a live daemon was sent
  exactly that command with the caller's directory and environment, and it answered that the
  command was allowed and ended with 0, or, if it was to be detached, that it is pending.
\<close>

theorem run_succeeds_only_when_allowed:
  assumes "snd (main pd l local env cwd (''run'' # args)) = 0"
  shows "\<exists>argv detach p raw res.
    parse_command pd (''run'' # args) = Inr (Cmd_run argv detach) \<and> argv \<noteq> []
    \<and> p \<in> set (lk_candidates l) \<and> lk_live l p
    \<and> lk_rpc l p (message_zero\<lparr>cm_run := Some \<lparr>rr_argv = argv, rr_cwd = cwd, rr_env = env_of env, rr_detach = detach\<rparr>\<rparr>) = Inr raw
    \<and> lk_run_result l raw = Some res
    \<and> (rs_status res = ''allowed'' \<and> rs_exit res = 0 \<or> rs_status res = ''pending'' \<and> detach)"
  using assms by (rule run_zero)

definition sample_link :: "run_result \<Rightarrow> link" where
  "sample_link res = \<lparr>lk_live = (\<lambda>p. p = ''/run/s''), lk_candidates = [''/x'', ''/run/s''], lk_explicit = [],
     lk_rpc = (\<lambda>p m. Inr ''r''), lk_run_result = (\<lambda>raw. Some res), lk_verdict_ack = (\<lambda>raw. None),
     lk_ask_result = (\<lambda>raw. None), lk_select_response = (\<lambda>raw. None), lk_ack_response = (\<lambda>raw. None),
     lk_cancel_response = (\<lambda>raw. None), lk_status_response = (\<lambda>raw. None), lk_pending = (\<lambda>raw. None),
     lk_recent = (\<lambda>raw. None), lk_audit = (\<lambda>raw. None), lk_version = (\<lambda>raw. None)\<rparr>"

theorem run_succeeds_only_when_allowed_witness:
  "\<exists>raw. lk_rpc (sample_link (run_result_zero\<lparr>rs_status := ''allowed''\<rparr>)) ''/run/s''
     (message_zero\<lparr>cm_run := Some \<lparr>rr_argv = [''ls''], rr_cwd = ''/w'', rr_env = [], rr_detach = False\<rparr>\<rparr>) = Inr raw
   \<and> parse_command (\<lambda>_. None) [''run'', ''ls''] = Inr (Cmd_run [''ls''] False)"
proof -
  let ?l = "sample_link (run_result_zero\<lparr>rs_status := ''allowed''\<rparr>)"
  have "snd (main (\<lambda>_. None) ?l (\<lambda>_. ([], 1)) [] ''/w'' [''run'', ''ls'']) = 0" by code_simp
  from run_succeeds_only_when_allowed [OF this] show ?thesis
    by (auto simp: run_words run_cmd_line_def detach_flags_def env_of_def sample_link_def)
qed

section \<open>Flags of audit\<close>

definition audit_line_of :: "audit_query_request \<Rightarrow> string list" where
  "audit_line_of q = [''--limit'', itoa (au_limit q), ''--cursor'', au_cursor q, ''--ev'', au_ev q, ''--id'', au_id q,
     ''--uid'', dec (unat (au_uid q)), ''--since'', itoa (au_since q), ''--until'', itoa (au_until q)]"

lemma parse_uint32_dec: "parse_uint32 (dec (unat u)) = Some u"
proof -
  have "atoi_digits (dec (unat u)) = Some (unat u)" using dec_digits [of "unat u"] by (simp add: atoi_digits_def)
  moreover have "unat u < 2 ^ 32" using unsigned_less [where ?'a = nat, of u] by simp
  ultimately show ?thesis by (simp add: parse_uint32_def)
qed

definition representable :: "audit_query_request \<Rightarrow> bool" where
  "representable q \<longleftrightarrow> list_all (\<lambda>n. 0 \<le> n \<and> n < 2 ^ 63) [au_limit q, au_since q, au_until q]"

text \<open>
  C39. Every query the daemon can be sent can be typed: written as flags with decimal numbers and
  parsed again it is the same query, whatever texts its cursor, event and id are.
\<close>

theorem audit_flags_round_trip:
  assumes "representable q"
  shows "parse_command pd (''audit'' # audit_line_of q) = Inr (Cmd_audit q)"
proof -
  have n: "atoi (itoa (au_limit q)) = Some (au_limit q)" "atoi (itoa (au_since q)) = Some (au_since q)"
      "atoi (itoa (au_until q)) = Some (au_until q)" "\<not> au_limit q < 0" "\<not> au_since q < 0" "\<not> au_until q < 0"
    using assms by (simp_all add: representable_def atoi_itoa)
  have "audit_words (audit_line_of q) audit_query_zero = Inr q"
    by (simp add: audit_line_of_def audit_flags_def audit_flag_def n parse_uint32_dec audit_query_zero_def)
  then show ?thesis by (simp add: parse_command_def audit_cmd_def)
qed

theorem audit_flags_round_trip_witness:
  "parse_command (\<lambda>_. None) [''audit'', ''--limit'', ''5'', ''--cursor'', ''--ev'', ''--ev'', ''cancelled'', ''--id'', [],
      ''--uid'', ''7'', ''--since'', ''0'', ''--until'', ''9'']
    = Inr (Cmd_audit \<lparr>au_cursor = ''--ev'', au_limit = 5, au_ev = ''cancelled'', au_id = [], au_uid = 7, au_since = 0, au_until = 9\<rparr>)"
proof -
  let ?q = "\<lparr>au_cursor = ''--ev'', au_limit = 5, au_ev = ''cancelled'', au_id = [], au_uid = 7, au_since = 0, au_until = 9\<rparr>"
  have "representable ?q" by (simp add: representable_def)
  from audit_flags_round_trip [OF this, of "\<lambda>_. None"] show ?thesis
    by (simp add: audit_line_of_def itoa_def dec.simps digit_char_def)
qed

section \<open>Choices\<close>

lemma index_in_Some: "index_in x xs = Some i \<Longrightarrow> i < length xs \<and> xs ! i = x"
  by (induction xs arbitrary: i) (auto split: if_splits)

lemma index_in_None: "index_in x xs = None \<longleftrightarrow> x \<notin> set xs"
  by (induction xs) auto

text \<open>
  A choice given by its index alone is sent with the text of that option, and not at all when
  there is no such option; one given by its text alone is sent with an index of that text, or with
  index 0, that of another option, when the question does not offer it.
\<close>

theorem choice_is_completed:
  "(case resolve_choice (Some st) [] (int i) of
      Inr (c, n) \<Rightarrow> n = int i \<and> c \<noteq> [] \<and> i < length (st_options st) \<and> st_options st ! i = c
    | Inl (Out_of_range k) \<Rightarrow> k = length (st_options st) \<and> k \<le> i
    | Inl No_choice \<Rightarrow> st_options st = [] \<or> st_options st ! i = [])
   \<and> (case resolve_choice (Some st) (ch # c) (-1) of
      Inr (d, n) \<Rightarrow> d = ch # c
        \<and> (if ch # c \<in> set (st_options st) then 0 \<le> n \<and> nat n < length (st_options st) \<and> st_options st ! nat n = d
           else n = 0)
    | Inl e \<Rightarrow> False)"
  using index_in_Some [of "ch # c" "st_options st"] index_in_None [of "ch # c" "st_options st"]
  by (auto simp: resolve_choice_def Let_def split: option.split)

end
