(* ===== verification/Transport.thy ===== *)
theory Transport imports DaemonFacts CommandFacts begin

text \<open>
  The two ends of the socket: \<open>callOnSocket\<close> of the client, which writes one line and reads one, and
  what \<open>handle\<close> of the daemon puts on the wire. JSON is a pair of parameters, of which
  only the shape of the texts is assumed; the bytes that arrive before the other side closes are a
  function of the bytes that were sent.
\<close>

section \<open>The client's end\<close>

record wire =
  wi_dial :: "path \<Rightarrow> string option"
  wi_marshal :: "client_message \<Rightarrow> string result"
  wi_write :: "path \<Rightarrow> string \<Rightarrow> string option"
  wi_received :: "path \<Rightarrow> string \<Rightarrow> string"

text \<open>\<open>bufio.Reader.ReadBytes\<close>: up to and with the delimiter, or an error at the end of the input.\<close>

definition read_bytes :: "char \<Rightarrow> string \<Rightarrow> string result" where
  "read_bytes delim s = (case index_of [delim] s of None \<Rightarrow> Inl ''EOF'' | Some i \<Rightarrow> Inr (take (Suc i) s))"

definition call_on_socket :: "wire \<Rightarrow> path \<Rightarrow> client_message \<Rightarrow> string result" where
  "call_on_socket W sock msg =
     (case wi_dial W sock of
        Some err \<Rightarrow> Inl err
      | None \<Rightarrow>
          (case wi_marshal W msg of
             Inl err \<Rightarrow> Inl err
           | Inr out \<Rightarrow>
               (case wi_write W sock (out @ [newline]) of
                  Some err \<Rightarrow> Inl err
                | None \<Rightarrow> read_bytes newline (wi_received W sock (out @ [newline])))))"

section \<open>The daemon's end\<close>

text \<open>A reply that cannot be marshalled is replaced by the error envelope.\<close>

definition marshalled :: "(reply \<Rightarrow> string option) \<Rightarrow> reply \<Rightarrow> string" where
  "marshalled enc v =
     (case enc v of Some out \<Rightarrow> out | None \<Rightarrow> some_or (enc (Error_reply ''internal-error'')) [])"

definition write_json :: "(reply \<Rightarrow> string option) \<Rightarrow> reply \<Rightarrow> string" where
  "write_json enc v = marshalled enc v @ [newline]"

definition serve_conn ::
  "daemon_env \<Rightarrow> (reply \<Rightarrow> string option) \<Rightarrow> conn \<Rightarrow> tick list \<Rightarrow> daemon_state \<Rightarrow> string" where
  "serve_conn e enc c ts d = (case handle e c ts d of None \<Rightarrow> [] | Some (r, _, _) \<Rightarrow> write_json enc r)"

section \<open>One call\<close>

lemma read_bytes_line: "x \<notin> set body \<Longrightarrow> read_bytes x (body @ x # rest) = Inr (body @ [x])"
  using line_unique [of "body @ x # rest" body x rest] first_line [of x "body @ x # rest"]
  by (simp add: read_bytes_def index_of_char)

lemma frame_accepted:
  assumes "newline \<notin> set txt" and "txt \<noteq> []" and "int (length txt) \<le> max_request_bytes"
  shows "read_request_line (c\<lparr>co_bytes := txt @ [newline]\<rparr>) = Inr (txt @ [newline])"
proof -
  have "length txt \<le> request_limit" using assms(3) by (simp add: max_request_nat)
  then have "newline \<in> set (take (request_limit + 2) (txt @ [newline]))" by simp
  moreover have "takeWhile (\<lambda>b. b \<noteq> newline) (txt @ [newline]) = txt"
    using line_unique [OF refl assms(1), of "[]"] by simp
  ultimately show ?thesis using assms(2) \<open>length txt \<le> request_limit\<close>
    by (cases "txt") (simp_all add: read_line_cases)
qed

lemma frame_too_long:
  assumes "newline \<notin> set txt" and "max_request_bytes < int (length txt)"
  shows "read_request_line (c\<lparr>co_bytes := txt @ [newline]\<rparr>) = Inl Request_too_large"
proof -
  define n where "n = request_limit"
  have len: "n < length txt" using assms(2) by (simp add: max_request_nat n_def)
  have m: "nat (int n + 2) = n + 2" and i: "max_request_bytes = int n"
    by (simp_all add: max_request_nat n_def)
  have all: "length (take (n + 2) (txt @ [newline])) = n + 2" using len by simp
  show ?thesis
  proof (cases "length txt = n + 1")
    case True
    then have t: "take (n + 2) (txt @ [newline]) = txt @ [newline]" by simp
    have "takeWhile (\<lambda>b. b \<noteq> newline) (txt @ [newline]) = txt"
      using line_unique [OF refl assms(1), of "[]"] by simp
    then show ?thesis using True
      by (simp add: read_request_line_def m i t index_of_char Let_def del: take_append)
  next
    case False
    then have "newline \<notin> set (take (n + 2) (txt @ [newline]))" using len assms(1) by (auto dest: in_set_takeD)
    then show ?thesis using all
      by (simp add: read_request_line_def m i index_of_char Let_def del: take_append)
  qed
qed

lemma handle_frame:
  assumes "newline \<notin> set txt" and "txt \<noteq> []"
  shows "handle e (c\<lparr>co_bytes := txt @ [newline]\<rparr>) ticks d =
     (if int (length txt) \<le> max_request_bytes
      then case de_parse e (txt @ [newline]) of
             None \<Rightarrow> Some (Error_reply ''malformed-request'', ticks, d)
           | Some m \<Rightarrow> dispatch e m (fst (peer_cred c)) (snd (peer_cred c)) ticks d
      else Some (Error_reply ''request-too-large'', ticks, d))"
proof -
  have "peer_cred (c\<lparr>co_bytes := txt @ [newline]\<rparr>) = peer_cred c" by (simp add: peer_cred_def)
  then show ?thesis using frame_accepted [OF assms] frame_too_long [OF assms(1)]
    by (simp add: handle_def error_text_def case_prod_unfold not_le cong: option.case_cong)
qed

lemma answer_arrives:
  "newline \<notin> set (marshalled enc r) \<Longrightarrow> read_bytes newline (write_json enc r) = Inr (marshalled enc r @ [newline])"
  by (simp add: write_json_def read_bytes_line)

lemma no_answer: "read_bytes newline [] = Inl ''EOF''"
  by (simp add: read_bytes_def)

text \<open>
  The contract of the JSON texts on the wire: a text that \<open>json.Marshal\<close> makes of a message or a
  reply has no raw newline, and that of a message is not empty. Nothing is asked of reading them
  back: the daemon's parser is what it is.
\<close>

definition json_texts :: "wire \<Rightarrow> (reply \<Rightarrow> string option) \<Rightarrow> bool" where
  "json_texts W enc \<longleftrightarrow>
     (\<forall>m txt. wi_marshal W m = Inr txt \<longrightarrow> newline \<notin> set txt \<and> txt \<noteq> [])
     \<and> (\<forall>r. newline \<notin> set (marshalled enc r))"

text \<open>
  What \<open>encoding/json\<close> documents of a run request that is written and read back: the words and
  the flag survive, but the strings of a JSON text are valid UTF-8, so bytes of a word that are
  not are replaced by U+FFFD.
\<close>

definition reads_runs :: "wire \<Rightarrow> daemon_env \<Rightarrow> bool" where
  "reads_runs W e \<longleftrightarrow>
     (\<forall>req txt. wi_marshal W (message_zero\<lparr>cm_run := Some req\<rparr>) = Inr txt \<longrightarrow>
       (\<exists>req'. de_parse e (txt @ [newline]) = Some (message_zero\<lparr>cm_run := Some req'\<rparr>)
          \<and> rr_argv req' = map json_text (rr_argv req) \<and> rr_detach req' = rr_detach req))"

text \<open>The other side of the client's connection is the daemon.\<close>

definition served_by ::
  "wire \<Rightarrow> daemon_env \<Rightarrow> (reply \<Rightarrow> string option) \<Rightarrow> conn \<Rightarrow> tick list \<Rightarrow> daemon_state \<Rightarrow> bool" where
  "served_by W e enc c ticks d \<longleftrightarrow>
     (\<forall>sock bytes. wi_received W sock bytes = serve_conn e enc (c\<lparr>co_bytes := bytes\<rparr>) ticks d)"

lemma call_dispatches:
  assumes "json_texts W enc" and "served_by W e enc c ticks d"
  shows "call_on_socket W sock m =
     (case wi_dial W sock of Some err \<Rightarrow> Inl err | None \<Rightarrow>
      (case wi_marshal W m of Inl err \<Rightarrow> Inl err | Inr txt \<Rightarrow>
       (case wi_write W sock (txt @ [newline]) of Some err \<Rightarrow> Inl err | None \<Rightarrow>
         if int (length txt) \<le> max_request_bytes
         then (case de_parse e (txt @ [newline]) of
                 None \<Rightarrow> Inr (marshalled enc (Error_reply ''malformed-request'') @ [newline])
               | Some m' \<Rightarrow>
                   (case dispatch e m' (fst (peer_cred c)) (snd (peer_cred c)) ticks d of
                      None \<Rightarrow> Inl ''EOF''
                    | Some (r, _, _) \<Rightarrow> Inr (marshalled enc r @ [newline])))
         else Inr (marshalled enc (Error_reply ''request-too-large'') @ [newline]))))"
proof (cases "wi_marshal W m")
  case (Inr sent)
  then have t: "newline \<notin> set sent" "sent \<noteq> []" and q: "\<And>r. newline \<notin> set (marshalled enc r)"
    using assms(1) by (auto simp: json_texts_def)
  have "wi_received W sock (sent @ [newline]) = serve_conn e enc (c\<lparr>co_bytes := sent @ [newline]\<rparr>) ticks d"
    using assms(2) by (simp add: served_by_def)
  then show ?thesis using Inr
    by (simp add: call_on_socket_def serve_conn_def handle_frame [OF t] answer_arrives [OF q] no_answer
        split: option.split)
qed (simp add: call_on_socket_def split: option.split)

text \<open>
  C20. Client and daemon agree on the wire. When the client could write a message to a socket of the
  daemon, the daemon reads exactly that line: what its parser makes of it is dispatched, for the
  peer's own process and user, and the client reads back exactly the text of that one reply, or the
  end of the connection when there is none. A line that does not parse and a message of more than
  1 MiB are not dispatched and are answered with their errors.
\<close>

theorem call_reaches_dispatch:
  assumes "json_texts W enc" and "served_by W e enc c ticks d"
  shows "call_on_socket W sock m =
     (case wi_dial W sock of Some err \<Rightarrow> Inl err | None \<Rightarrow>
      (case wi_marshal W m of Inl err \<Rightarrow> Inl err | Inr txt \<Rightarrow>
       (case wi_write W sock (txt @ [newline]) of Some err \<Rightarrow> Inl err | None \<Rightarrow>
         if int (length txt) \<le> max_request_bytes
         then (case de_parse e (txt @ [newline]) of
                 None \<Rightarrow> Inr (marshalled enc (Error_reply ''malformed-request'') @ [newline])
               | Some m' \<Rightarrow>
                   (case dispatch e m' (fst (peer_cred c)) (snd (peer_cred c)) ticks d of
                      None \<Rightarrow> Inl ''EOF''
                    | Some (r, _, _) \<Rightarrow> Inr (marshalled enc r @ [newline])))
         else Inr (marshalled enc (Error_reply ''request-too-large'') @ [newline]))))"
  using assms by (rule call_dispatches)

section \<open>A small wire\<close>

text \<open>One message, and answers that carry a status without raw newlines.\<close>

fun escaped :: "string \<Rightarrow> string" where
  "escaped [] = []"
| "escaped (b # s) = (if b = newline then ''nn'' else [CHR ''c'', b]) @ escaped s"

fun unescaped :: "string \<Rightarrow> string" where
  "unescaped (t # b # s) = (if t = CHR ''n'' then newline else b) # unescaped s"
| "unescaped s = []"

lemma escaped_line: "newline \<notin> set (escaped s)"
  by (induction s) (auto simp: newline_def)

lemma unescaped_escaped: "unescaped (escaped s @ [newline]) = s"
  by (induction s) (auto simp: newline_def)

definition reply_status :: "reply \<Rightarrow> string" where
  "reply_status r = (case r of Run_reply x \<Rightarrow> rs_status x | _ \<Rightarrow> [])"

definition sample_run :: run_request where
  "sample_run = \<lparr>rr_argv = [''tool''], rr_cwd = ''/w'', rr_env = [], rr_detach = True\<rparr>"

definition sample_message :: client_message where
  "sample_message = message_zero\<lparr>cm_run := Some sample_run\<rparr>"

definition sample_env :: daemon_env where
  "sample_env = \<lparr>de_parse = (\<lambda>s. if s = ''run'' @ [newline] then Some sample_message else None),
     de_fields = (\<lambda>_. []), de_version = \<lparr>vr_version = [], vr_git_commit = [], vr_build_time = [],
       vr_binary_sha256 = [], vr_pid = 50\<rparr>, de_save_fails = (\<lambda>_. False)\<rparr>"

definition sample_enc :: "reply \<Rightarrow> string option" where
  "sample_enc r = Some (escaped (reply_status r))"

definition wire_conn :: conn where
  "wire_conn = \<lparr>co_bytes = [], co_timed_out = False, co_unix = True, co_file_ok = True, co_cred = Some (60, 1000)\<rparr>"

definition sample_state :: daemon_state where
  "sample_state = \<lparr>ds_service = sample_service, ds_policy = None, ds_world = sample_world []\<rparr>"

definition sample_wire :: wire where
  "sample_wire = \<lparr>wi_dial = (\<lambda>_. None),
     wi_marshal = (\<lambda>m. if m = sample_message then Inr ''run'' else Inl ''no text''), wi_write = (\<lambda>_ _. None),
     wi_received = (\<lambda>_ bytes. serve_conn sample_env sample_enc (wire_conn\<lparr>co_bytes := bytes\<rparr>) [] sample_state)\<rparr>"

lemma sample_texts: "json_texts sample_wire sample_enc"
  by (auto simp: json_texts_def sample_wire_def sample_enc_def marshalled_def escaped_line
      split: if_splits) (simp_all add: newline_def)

lemma sample_parses: "de_parse sample_env [CHR ''r'', CHR ''u'', CHR ''n'', newline] = Some sample_message"
  by (simp add: sample_env_def)

lemma sample_reads_runs: "reads_runs sample_wire sample_env"
  by (auto simp: reads_runs_def sample_wire_def sample_env_def sample_message_def message_zero_def sample_run_def
      json_text_ascii ascii_def)

lemma sample_served: "served_by sample_wire sample_env sample_enc wire_conn [] sample_state"
  by (simp add: served_by_def sample_wire_def)

theorem call_reaches_dispatch_witness:
  "call_on_socket sample_wire ''/run/s'' (message_zero\<lparr>cm_version := Some ()\<rparr>) = Inl ''no text''
   \<and> call_on_socket sample_wire ''/run/s'' sample_message =
       (case dispatch sample_env sample_message 60 1000 [] sample_state of
          None \<Rightarrow> Inl ''EOF'' | Some (r, _, _) \<Rightarrow> Inr (escaped (reply_status r) @ [newline]))"
proof -
  have "message_zero\<lparr>cm_version := Some ()\<rparr> \<noteq> sample_message"
    by (simp add: sample_message_def message_zero_def)
  then show ?thesis unfolding call_reaches_dispatch [OF sample_texts sample_served]
    by (simp add: sample_wire_def wire_conn_def peer_cred_def max_request_bytes_def marshalled_def sample_enc_def
        sample_parses split: option.split)
qed

end
