(* ===== verification/Escalation.thy ===== *)
theory Escalation imports Identity begin

text \<open>
  \<open>escalation_on.go\<close>, the build with the tag \<open>escalation\<close>, beside the default build of
  \<open>escalation_off.go\<close> in World. The switch is a constant of the source; here it is an argument, so
  that the theorems can tell what the released value changes. What \<open>os/user\<close> knows of a user is a
  parameter.
\<close>

section \<open>The tagged build\<close>

definition escalation_enabled :: bool where
  "escalation_enabled = False"

definition root_exec_allowed_on :: "uid \<Rightarrow> bool \<Rightarrow> uid \<Rightarrow> bool" where
  "root_exec_allowed_on target allow_root euid = (if target \<noteq> 0 then True else allow_root)"

record os_user =
  ou_gid :: string
  ou_groups :: "string list option"

record credential =
  cd_uid :: uid
  cd_gid :: uid
  cd_groups :: "uid list"

datatype credential_error = Unknown_user string | Bad_gid string

definition resolve_credential :: "(uid \<Rightarrow> string + os_user) \<Rightarrow> uid \<Rightarrow> credential_error + credential" where
  "resolve_credential lookup uid =
     (case lookup uid of
        Inl e \<Rightarrow> Inl (Unknown_user e)
      | Inr u \<Rightarrow>
          (case atoi (ou_gid u) of
             None \<Rightarrow> Inl (Bad_gid (ou_gid u))
           | Some gid \<Rightarrow>
               Inr \<lparr>cd_uid = uid, cd_gid = word_of_int gid,
                 cd_groups = (case ou_groups u of None \<Rightarrow> []
                              | Some gs \<Rightarrow> map word_of_int (List.map_filter atoi gs))\<rparr>))"

text \<open>\<open>spawnAttrs\<close>: nothing, or a credential and a session of its own.\<close>

definition spawn_attrs_on ::
  "bool \<Rightarrow> (uid \<Rightarrow> string + os_user) \<Rightarrow> service \<Rightarrow> uid \<Rightarrow> credential_error + credential option" where
  "spawn_attrs_on enabled lookup s uid =
     (if \<not> enabled then Inr None
      else if uid = y_euid (sv_sys s) \<and> y_euid (sv_sys s) \<noteq> 0 then Inr None
      else case resolve_credential lookup uid of Inl e \<Rightarrow> Inl e | Inr cred \<Rightarrow> Inr (Some cred))"

text \<open>In the default build there is nothing to attach.\<close>

definition spawn_attrs :: "service \<Rightarrow> uid \<Rightarrow> credential_error + credential option" where
  "spawn_attrs s uid = Inr None"

definition root_refusal_text :: string where
  "root_refusal_text = ''2fadod: refusing uid-0 execution (daemon started without --allow-root / ALLOW_ROOT=1)''"

definition exec_identity_on ::
  "bool \<Rightarrow> service \<Rightarrow> string list \<Rightarrow> path \<Rightarrow> world \<Rightarrow> (uid \<times> string option) \<times> world" where
  "exec_identity_on enabled s argv cwd w =
     (let self = y_euid (sv_sys s);
          note = (\<lambda>ev uid. audit s (audit_event_zero\<lparr>ev_ev := ev, ev_uid := self, ev_argv := argv, ev_cwd := cwd,
                    ev_as_uid := uid\<rparr>) w) in
      case target_uid s of
        Inl e \<Rightarrow> ((self, Some (''2fadod: bad target_user: '' @ e)), w)
      | Inr uid \<Rightarrow>
          if \<not> enabled then
            (if uid = 0 \<or> uid \<noteq> self then ((self, Some refusal_text), note ''escalation_disabled'' uid)
             else ((self, None), w))
          else if \<not> root_exec_allowed_on uid (cf_allow_root (sv_conf s)) self then
            ((self, Some root_refusal_text), note ''root_exec_blocked'' uid)
          else ((uid, None), w))"

definition display_uid_on :: "bool \<Rightarrow> service \<Rightarrow> uid" where
  "display_uid_on enabled s =
     (if \<not> enabled then y_euid (sv_sys s)
      else case target_uid s of Inl e \<Rightarrow> y_euid (sv_sys s) | Inr uid \<Rightarrow> uid)"

definition confirm_as_uid_on :: "bool \<Rightarrow> service \<Rightarrow> uid \<Rightarrow> uid" where
  "confirm_as_uid_on enabled s stored =
     (if \<not> enabled then
        (let self = y_euid (sv_sys s) in if stored \<noteq> self then self else self)
      else display_uid_on enabled s)"

section \<open>The two builds\<close>

lemma exec_identity_off: "exec_identity_on False s = exec_identity s"
  by (simp add: fun_eq_iff exec_identity_on_def exec_identity_def Let_def split: sum.split)

text \<open>
  C38. With the released value of the switch the tagged build behaves like the default one: the
  same identity, the same refusals and audit events, and no credential is ever attached. With the
  switch on, a configuration without the root opt-in would still start nothing as root.
\<close>

theorem builds_agree:
  "exec_identity_on escalation_enabled s = exec_identity s
   \<and> display_uid_on escalation_enabled s = display_uid s
   \<and> confirm_as_uid_on escalation_enabled s = confirm_as_uid s
   \<and> root_exec_allowed_on = root_exec_allowed
   \<and> spawn_attrs_on escalation_enabled lookup s = spawn_attrs s
   \<and> (case exec_identity_on True (s\<lparr>sv_conf := (sv_conf s)\<lparr>cf_allow_root := False\<rparr>\<rparr>) argv cwd w of
        ((who, None), w') \<Rightarrow> who \<noteq> 0 \<and> w' = w
      | ((who, Some why), w') \<Rightarrow> who = y_euid (sv_sys s))"
  by (auto simp: fun_eq_iff escalation_enabled_def exec_identity_off display_uid_on_def display_uid_def confirm_as_uid_on_def
      confirm_as_uid_def root_exec_allowed_on_def root_exec_allowed_def spawn_attrs_on_def spawn_attrs_def exec_identity_on_def
      Let_def split: sum.split)

end
