(* ===== verification/BotApi.thy ===== *)
theory BotApi imports Telegram Configuration ExecBounds begin

text \<open>
  The Bot API client of \<open>internal/telegram\<close>: the requests it posts, how it reads the answers, and
  the loop of \<open>Poll\<close>. What the server answers to a form at a URL is the parameter \<open>net\<close>, the JSON
  decoders are parameters too. A loop runs over a schedule of what each round meets. The facts
  relate the loop, with its pauses and retries, to one batch of all updates.
\<close>

section \<open>Requests\<close>

record bot =
  bt_token :: string
  bt_base :: string

type_synonym form = "(string \<times> string) list"

text \<open>What comes back: an error of the transport, or a body.\<close>

datatype http = Failed string | Body string

definition max_body_bytes :: int where "max_body_bytes = 2 ^ 20"

definition base_url :: "bot \<Rightarrow> string" where
  "base_url b = (if bt_base b \<noteq> [] then trim_right_set (bt_base b) ''/'' else ''https://api.telegram.org'')"

definition api_url :: "bot \<Rightarrow> string \<Rightarrow> string" where
  "api_url b method = base_url b @ ''/bot'' @ bt_token b @ ''/'' @ method"

definition api_call :: "(string \<Rightarrow> form \<Rightarrow> http) \<Rightarrow> bot \<Rightarrow> string \<Rightarrow> form \<Rightarrow> string result" where
  "api_call net b method v =
     (case net (api_url b method) v of Failed e \<Rightarrow> Inl e | Body s \<Rightarrow> Inr (take (nat max_body_bytes) s))"

record user_result =
  ur_ok :: bool
  ur_description :: string
  ur_id :: int
  ur_is_bot :: bool
  ur_first_name :: string
  ur_username :: string

definition get_me ::
  "(string \<Rightarrow> form \<Rightarrow> http) \<Rightarrow> (string \<Rightarrow> user_result result) \<Rightarrow> bot \<Rightarrow> string result" where
  "get_me net decode b =
     (if placeholder_token (bt_token b) then Inl ''token is unconfigured''
      else case api_call net b ''getMe'' [] of
             Inl e \<Rightarrow> Inl e
           | Inr body \<Rightarrow>
               (case decode body of
                  Inl e \<Rightarrow> Inl (''invalid response: '' @ e)
                | Inr r \<Rightarrow>
                    if \<not> ur_ok r then
                      (if ur_description r \<noteq> [] then Inl (''telegram api error: '' @ ur_description r)
                       else Inl ''telegram api: !ok'')
                    else Inr (ur_username r)))"

definition send_form :: "string \<Rightarrow> string \<Rightarrow> int \<Rightarrow> string \<Rightarrow> form" where
  "send_form chat text_html reply_to markup =
     [(''chat_id'', chat), (''text'', text_html), (''parse_mode'', ''HTML''), (''reply_markup'', markup)]
       @ (if reply_to \<noteq> 0 then [(''reply_to_message_id'', itoa reply_to)] else [])"

text \<open>The ok flag and the message id of an answer; \<open>None\<close> for any error, whose text no caller reads.\<close>

definition parse_msg_id :: "(string \<Rightarrow> (bool \<times> int) option) \<Rightarrow> string \<Rightarrow> int option" where
  "parse_msg_id decode body = (case decode body of None \<Rightarrow> None | Some (ok, mid) \<Rightarrow> if \<not> ok then None else Some mid)"

definition send_with_markup ::
  "(string \<Rightarrow> form \<Rightarrow> http) \<Rightarrow> (string \<Rightarrow> (bool \<times> int) option) \<Rightarrow> bot \<Rightarrow> string \<Rightarrow> string \<Rightarrow> int \<Rightarrow> string \<Rightarrow> int option" where
  "send_with_markup net decode b chat text_html reply_to markup =
     (case api_call net b ''sendMessage'' (send_form chat text_html reply_to markup) of
        Inl e \<Rightarrow> None | Inr body \<Rightarrow> parse_msg_id decode body)"

definition edit_form :: "string \<Rightarrow> int \<Rightarrow> string \<Rightarrow> string \<Rightarrow> form" where
  "edit_form chat mid text_html markup =
     [(''chat_id'', chat), (''message_id'', itoa mid), (''text'', text_html), (''parse_mode'', ''HTML''),
      (''reply_markup'', markup)]"

definition edit_markup_form :: "string \<Rightarrow> int \<Rightarrow> string \<Rightarrow> form" where
  "edit_markup_form chat mid markup = [(''chat_id'', chat), (''message_id'', itoa mid), (''reply_markup'', markup)]"

definition answer_form :: "string \<Rightarrow> string \<Rightarrow> form" where
  "answer_form cb_id note = [(''callback_query_id'', cb_id), (''text'', note)]"

definition updates_form :: "int \<Rightarrow> form" where
  "updates_form offset = [(''offset'', itoa offset), (''timeout'', ''30'')]"

section \<open>The loop\<close>

text \<open>
  What a round meets: the context already cancelled; a failed or unreadable answer, and whether
  the context is cancelled while the loop pauses; or updates, and how many verdicts the channel
  takes before the context is cancelled, if it is.
\<close>

datatype poll_event =
    Context_done
  | Fetch_failed bool
  | Garbled bool
  | Updates "update list" "nat option"

datatype poll_action =
    Requested int
  | Paused
  | Forwarded tg_verdict
  | Answered string string
  | Saved_offset int

definition answers_of :: "(string \<times> string) option \<Rightarrow> poll_action list" where
  "answers_of ans = (case ans of None \<Rightarrow> [] | Some (cb, note) \<Rightarrow> [Answered cb note])"

fun poll_updates :: "(string \<Rightarrow> bool) \<Rightarrow> nat option \<Rightarrow> update list \<Rightarrow> poll_action list \<times> bool" where
  "poll_updates approvers room [] = ([], True)"
| "poll_updates approvers room (u # us) =
     (case poll_one approvers u of
        (None, ans) \<Rightarrow> (case poll_updates approvers room us of (acts, fin) \<Rightarrow> (answers_of ans @ acts, fin))
      | (Some v, ans) \<Rightarrow>
          if room = Some 0 then ([], False)
          else case poll_updates approvers (map_option (\<lambda>n. n - 1) room) us of
                 (acts, fin) \<Rightarrow> (Forwarded v # answers_of ans @ acts, fin))"

definition next_offset :: "int \<Rightarrow> update list \<Rightarrow> int" where
  "next_offset offset us = (if us = [] then offset else up_id (last us) + 1)"

text \<open>The actions of the loop, and whether it returned.\<close>

fun poll_loop :: "(string \<Rightarrow> bool) \<Rightarrow> int \<Rightarrow> poll_event list \<Rightarrow> poll_action list \<times> bool" where
  "poll_loop approvers offset [] = ([], False)"
| "poll_loop approvers offset (Context_done # es) = ([], True)"
| "poll_loop approvers offset (Fetch_failed quit # es) =
     (if quit then ([Requested offset], True)
      else case poll_loop approvers offset es of (acts, fin) \<Rightarrow> (Requested offset # Paused # acts, fin))"
| "poll_loop approvers offset (Garbled quit # es) =
     (if quit then ([Requested offset], True)
      else case poll_loop approvers offset es of (acts, fin) \<Rightarrow> (Requested offset # Paused # acts, fin))"
| "poll_loop approvers offset (Updates us room # es) =
     (case poll_updates approvers room us of
        (acts, False) \<Rightarrow> (Requested offset # acts, True)
      | (acts, True) \<Rightarrow>
          (case poll_loop approvers (next_offset offset us) es of
             (acts', fin) \<Rightarrow> (Requested offset # acts @ Saved_offset (next_offset offset us) # acts', fin)))"

section \<open>The loop as one batch\<close>

definition forwarded :: "poll_action list \<Rightarrow> tg_verdict list" where
  "forwarded acts = List.map_filter (\<lambda>a. case a of Forwarded v \<Rightarrow> Some v | _ \<Rightarrow> None) acts"

definition saved :: "poll_action list \<Rightarrow> int list" where
  "saved acts = List.map_filter (\<lambda>a. case a of Saved_offset n \<Rightarrow> Some n | _ \<Rightarrow> None) acts"

fun all_updates :: "poll_event list \<Rightarrow> update list" where
  "all_updates [] = []"
| "all_updates (Updates us room # es) = us @ all_updates es"
| "all_updates (e # es) = all_updates es"

lemma action_views [simp]:
  "forwarded [] = []" "forwarded (a @ b) = forwarded a @ forwarded b"
  "forwarded (Requested n # a) = forwarded a" "forwarded (Paused # a) = forwarded a"
  "forwarded (Forwarded v # a) = v # forwarded a" "forwarded (Saved_offset n # a) = forwarded a"
  "forwarded (answers_of ans) = []"
  "saved [] = []" "saved (a @ b) = saved a @ saved b" "saved (Requested n # a) = saved a" "saved (Paused # a) = saved a"
  "saved (Forwarded v # a) = saved a" "saved (Saved_offset n # a) = n # saved a" "saved (answers_of ans) = []"
  by (simp_all add: forwarded_def saved_def map_filter_append List.map_filter_simps answers_of_def
      split: option.split prod.split)

lemma poll_updates_forward:
  "prefix (forwarded (fst (poll_updates approvers room us))) (fst (poll_batch approvers n us))
   \<and> (snd (poll_updates approvers room us) \<longrightarrow>
       forwarded (fst (poll_updates approvers room us)) = fst (poll_batch approvers n us))
   \<and> saved (fst (poll_updates approvers room us)) = []"
proof (induction us arbitrary: room)
  case (Cons u us)
  show ?case using Cons.IH
    by (cases "poll_one approvers u"; cases "fst (poll_one approvers u)")
      (auto simp: poll_batch_def List.map_filter_simps case_prod_unfold)
qed (simp add: poll_batch_def List.map_filter_simps)

lemma batch_append:
  "fst (poll_batch approvers n (us @ vs)) = fst (poll_batch approvers n us) @ fst (poll_batch approvers m vs)"
  by (simp add: poll_batch_def map_filter_append)

lemma next_offset_append: "next_offset n (us @ vs) = next_offset (next_offset n us) vs"
  by (simp add: next_offset_def)

text \<open>
  C26. The polling loop forwards the verdicts of all updates it is given in their order, whatever
  rounds fail in between: a prefix of them if it is stopped, all of them otherwise, and then the
  offset saved last is one past the last update, so that none is fetched again.
\<close>

theorem polling_loses_nothing:
  "case poll_loop approvers offset es of
     (acts, stopped) \<Rightarrow>
       prefix (forwarded acts) (fst (poll_batch approvers offset (all_updates es)))
       \<and> (if stopped then True
          else forwarded acts = fst (poll_batch approvers offset (all_updates es))
            \<and> last (offset # saved acts) = next_offset offset (all_updates es))"
proof (induction es arbitrary: offset)
  case (Cons e es)
  show ?case
  proof (cases e)
    case (Updates us room)
    have next_id: "last (n # saved a) = next_offset n vs \<Longrightarrow> last (offset # n # saved a) = next_offset n vs" for n a vs
      by simp
    show ?thesis
      using poll_updates_forward [of approvers room us offset] Cons.IH [of "next_offset offset us"]
        batch_append [of approvers offset us "all_updates es" "next_offset offset us"]
      by (auto simp: Updates next_offset_append case_prod_unfold split: bool.split
          intro: prefix_order.trans [OF _ prefixI])
  qed (use Cons.IH [of offset] in \<open>auto simp: case_prod_unfold split: if_split_asm\<close>)
qed (simp add: poll_batch_def List.map_filter_simps next_offset_def forwarded_def saved_def)

end
