(* ===== verification/Spec2Isabelle.thy ===== *)
theory Spec2Isabelle imports
  Policy StoreViews AuditLog Telegram ExecBounds Preview Configuration Identity RunFacts AskFacts ViewFacts
  DaemonFacts SettingFacts OperatorFacts Bystanders Transport Escalation BotApi UserConfig
begin

text \<open>
  2fado puts a person between an agent and the commands it wants to run. A client sends a command
  to a daemon over a unix socket; the daemon looks the command up in its policy, files a petition
  for one that is not allowed outright, pages an approver (a Telegram chat, a plugin, or the
  command line), waits, and on approval checks that nothing the approver saw has changed before
  it starts the command. This development models the Go module below \<open>src/go\<close>.

  The parts of the program, from the bottom up, and the theories that model them:

    \<^item> \<open>Prelude\<close>, \<open>GoStrings\<close>, \<open>GoPath\<close>: 64-bit integers, and what the program uses of Go's
      \<open>strings\<close>, \<open>strconv\<close>, \<open>utf8\<close> and \<open>path/filepath\<close>.
    \<^item> \<open>Protocol\<close>, \<open>ProtocolViews\<close> (\<open>internal/protocol\<close>): one record per struct.
    \<^item> \<open>Policy\<close> (\<open>internal/policy\<close>): the tier of a command vector, and \<open>AddRule\<close>.
    \<^item> \<open>Disk\<close>, \<open>Store\<close>, \<open>StoreLife\<close>, \<open>StoreViews\<close>, \<open>AuditLog\<close> (\<open>internal/store\<close>, with
      \<open>secure_unix.go\<close>): the state directory, the files of a petition, their operations as a step
      relation, the views computed from them, and the audit trail.
    \<^item> \<open>Configuration\<close>, \<open>UserConfig\<close> (\<open>internal/config\<close>): settings, anchors, the user's file.
    \<^item> \<open>Telegram\<close>, \<open>BotApi\<close> (\<open>internal/telegram\<close>): cards, keyboards, callback data, one batch of
      updates; the Bot API calls and the polling loop.
    \<^item> \<open>ExecBounds\<close> (\<open>execbounds.go\<close>, \<open>authchallenge.go\<close>), \<open>Preview\<close> (\<open>preview.go\<close>),
      \<open>Pins\<close>, \<open>PinFacts\<close> (\<open>gitpin.go\<close>, \<open>fdpin.go\<close>, \<open>seal.go\<close>, \<open>suspend.go\<close>), \<open>Identity\<close> and
      \<open>Escalation\<close> (\<open>escalation_off.go\<close>, \<open>escalation_on.go\<close>): the pieces of \<open>internal/service\<close>
      that do not wait.
    \<^item> \<open>World\<close>, \<open>Frames\<close>, \<open>ServiceRun\<close>, \<open>Waiting\<close>, \<open>RunFacts\<close> (\<open>service.go\<close>): the state of the
      service, and the life of a run request from \<open>RunWithPeerCancel\<close> to its result.
    \<^item> \<open>Asking\<close>, \<open>AskFacts\<close> (\<open>ask.go\<close>, \<open>notify.go\<close>, \<open>paging.go\<close>): questions, notices, lists.
    \<^item> \<open>Operators\<close>, \<open>OperatorFacts\<close>, \<open>ViewFacts\<close>, \<open>SettingFacts\<close>, \<open>Bystanders\<close>: the rest of
      \<open>service.go\<close>, and all operations of the daemon as the steps of one relation.
    \<^item> \<open>Daemon\<close>, \<open>DaemonFacts\<close> (\<open>internal/daemon\<close>, and \<open>Describe\<close> of \<open>internal/protocol\<close>): framing,
      peer credentials, dispatch, the accept loop and the start-up.
    \<^item> \<open>Commands\<close>, \<open>CommandFacts\<close> (\<open>cmd/2fado/main.go\<close>, \<open>internal/client\<close>): the command line.
    \<^item> \<open>Transport\<close> (\<open>callOnSocket\<close>, \<open>writeJSON\<close>): the two ends of one call on the socket.
    \<^item> \<open>Samples\<close> holds the small daemon on which the theorems are evaluated.

  How state and effects correspond to the code. The files of the daemon and the clock are a \<open>disk\<close>,
  polymorphic in its extension; \<open>world\<close> extends it by the workspace that others change, the state
  of Git, the live settings (\<open>dyn_state\<close>, the fields under the mutex of \<open>Service\<close>), the user's settings
  file (\<open>w_user_file\<close>, its text and mode), and a trace of
  outward effects in order: messages sent and edited, signals, commands started, polling restarted. \<open>service\<close> is the Go
  value of that name, and a method takes it as its first argument. A daemon's state is a \<open>daemon_state\<close>:
  the service, the policy of a reload, the world. Errors are values of a sum or option type, one
  constructor or text per \<open>return\<close> of the source.

  Parameters. \<open>sys\<close> holds the identity of the process, its environment, and the answers of the
  system: random bytes, \<open>getpgid\<close> and \<open>kill\<close>, the user database, \<open>LookPath\<close>, \<open>EvalSymlinks\<close>, what a
  process writes and when it ends, what Telegram answers, where a save of the user's settings breaks
  off (\<open>y_save_user\<close>), their JSON text (\<open>y_encode_user\<close>), and SHA-256. Further parameters are the file
  system a preview looks at (\<open>fs\<close>), JSON decoding and encoding (\<open>de_parse\<close>, the fields of
  \<open>wire\<close> and \<open>link\<close>), the net of a Bot API call, and \<open>time.ParseDuration\<close>. No theorem assumes a law of them that is not named in its
  statement.

  JSON. Strings of a JSON text are valid UTF-8: \<open>json.Marshal\<close> replaces other bytes by U+FFFD, which is
  \<open>json_text\<close> of \<open>GoStrings\<close>. The stored output of a command, which is cut at a byte and may hold anything,
  is stored through it. The other strings the daemon stores reached it in a JSON message, from Telegram or from its own
  source, and are unchanged by it; entries of the file system (paths, Git output) are taken to be UTF-8. Nothing is
  assumed of how a message of a client is read back, but that the words of a run go through \<open>json_text\<close>,
  where a theorem says so (\<open>reads_runs\<close>).

  Waiting and concurrency. A goroutine that waits polls the store. Its loop runs over a list of
  \<open>tick\<close>s: what everybody else did to the world since the last look (any function), and whether the
  caller has gone. A theorem about a wait holds for every schedule, with what it needs of the others
  as a hypothesis; \<open>daemon_step\<close> names everything the daemon itself may do between two looks. The result \<open>None\<close>
  means that the schedule is used up while the request still waits. The length of the schedule is the only
  fuel of the development, and the liveness theorems say how much is enough: ticks whose clock advances
  pass the deadline (the configured time limit for a run, its documented lifetime for a question).
  \<open>Cancel\<close> writes its two files without a lock, so its model takes what others do between the two writes
  (\<open>service_cancel_during\<close>); \<open>service_cancel\<close> is the case that nobody does anything.
  All other recursion is structural or has a measure.

  What the groups of lemmas show.
    \<^item> Safety of running: \<open>RunFacts\<close>, \<open>Bystanders\<close> and the theorem at the end of this theory. No
      operation starts a command unless the policy allows it outright or an approval is in the store;
      none adds an approval to those in the store (\<open>tame\<close>, \<open>adds_none\<close>) but a submission of an
      administrator or an approver's press, and those only for the petition they name; an approved run starts the
      pinned command and only after every gate; and the client reports success only then.
    \<^item> The gates: \<open>PinFacts\<close> (the contract \<open>pin_gate\<close> with Git, entry point and sealed inputs as
      its instances), \<open>Identity\<close> (the contract \<open>cleaner\<close>), \<open>Escalation\<close>, \<open>ViewFacts\<close> (what an
      operator is shown is what a run would meet).
    \<^item> The store: \<open>StoreLife\<close> and \<open>StoreViews\<close>, decisions are made once and stay, pruning removes
      exactly what is over, views report what is recorded; \<open>AuditLog\<close>, pages are complete.
    \<^item> Waiting: the contract \<open>poll_loop\<close> in \<open>Waiting\<close>, with the waits for a verdict and for a
      selection as its instances.
    \<^item> Transport: \<open>DaemonFacts\<close>, \<open>Transport\<close> (what a client writes is what the daemon reads and parses, and
      the text of the reply is what the client reads), \<open>BotApi\<close>, \<open>CommandFacts\<close>.
    \<^item> What the code does and was not meant to do: theorems named \<open>cancelled_yet_approved\<close>,
      \<open>own_flags_are_lost\<close>, \<open>any_peer_answers_a_question\<close>, \<open>unidentified_peer_is_root\<close>,
      \<open>pager_setting_is_ignored\<close> and lemmas beside them.

  Not modelled: the bytes of JSON, HTTP and tar; sockets beyond the bytes that arrive before a deadline or the
  end of a connection; the
  mutexes, since an operation of the model is one step (a cancellation excepted); signal handling and process supervision
  of \<open>os/exec\<close> beyond a schedule of writes and an end; the flags of \<open>open\<close> and \<open>fsync\<close> beyond whether a
  write is exclusive, follows links and can fail half way; \<open>binarySHA256\<close> and the bodies of the
  commands \<open>daemon\<close> and \<open>version\<close>, which send nothing; the error texts of \<open>SendList\<close>; platforms
  other than Linux and Darwin, but for their peer credentials.
\<close>

section \<open>From the command line to the daemon\<close>

text \<open>
  What the client reads from an answer to \<open>run\<close>: the status of the result, and none from the error
  envelope, which has no such field.
\<close>

definition reads_results :: "link \<Rightarrow> (reply \<Rightarrow> string option) \<Rightarrow> bool" where
  "reads_results l enc \<longleftrightarrow>
     (\<forall>x. map_option rs_status (lk_run_result l (marshalled enc (Run_reply x) @ [newline])) = Some (rs_status x))
     \<and> (\<forall>msg. map_option rs_status (lk_run_result l (marshalled enc (Error_reply msg) @ [newline])) = Some [])"

lemma read_status:
  assumes "reads_results l enc"
  shows "lk_run_result l (marshalled enc (Run_reply x) @ [newline]) = Some res \<Longrightarrow> rs_status res = rs_status x"
    and "lk_run_result l (marshalled enc (Error_reply msg) @ [newline]) = Some res \<Longrightarrow> rs_status res = []"
  using assms unfolding reads_results_def by (metis option.simps(9) option.inject)+

lemma dispatch_run:
  "dispatch e (message_zero\<lparr>cm_run := Some req\<rparr>) pid uid ticks d =
     (case run_with_peer_cancel (ds_service d) req uid pid True ticks (ds_world d) of
        None \<Rightarrow> None
      | Some (r, ts', w') \<Rightarrow>
          Some (Run_reply (r\<lparr>rs_output := bound_run_output (rs_output r)\<rparr>), ts', d\<lparr>ds_world := w'\<rparr>))"
  by (simp add: dispatch_def message_zero_def)

text \<open>
  A result the client has read is the one of the request it sent, as the daemon read it, or the
  refusal of a frame.
\<close>

lemma served_run:
  assumes "json_texts W enc" and "reads_runs W e" and "served_by W e enc c ticks d" and "reads_results l enc"
    and "call_on_socket W p (message_zero\<lparr>cm_run := Some req\<rparr>) = Inr raw" and "lk_run_result l raw = Some res"
  shows "rs_status res = [] \<or>
    (\<exists>req' r ts w'. rr_argv req' = map json_text (rr_argv req)
       \<and> run_with_peer_cancel (ds_service d) req' (snd (peer_cred c)) (fst (peer_cred c)) True ticks (ds_world d)
         = Some (r, ts, w') \<and> rs_status res = rs_status r)"
proof -
  obtain sent where sent: "wi_marshal W (message_zero\<lparr>cm_run := Some req\<rparr>) = Inr sent"
    using assms(5) by (auto simp: call_on_socket_def split: option.splits sum.splits)
  then obtain req' where req': "de_parse e (sent @ [newline]) = Some (message_zero\<lparr>cm_run := Some req'\<rparr>)"
      "rr_argv req' = map json_text (rr_argv req)"
    using assms(2) by (auto simp: reads_runs_def)
  show ?thesis
    using assms(5,6) read_status [OF assms(4)] sent req'
    unfolding call_dispatches [OF assms(1,3)]
    by (fastforce simp: dispatch_run split: option.splits if_splits)
qed

text \<open>
  C2. End to end, without an approval no script goes on. On a wire whose other end is the daemon, when
  nobody approves, \<open>2fado run\<close> ends with exit code 0 only when it was told to detach or the policy
  allows the command outright, whatever the daemon does for others in the meantime. The
  command the policy is asked about is the one the daemon reads: its words are the caller's, with
  bytes that are not UTF-8 replaced, as \<open>encoding/json\<close> documents.
\<close>

theorem no_approval_no_success:
  assumes "json_texts W enc" and "reads_runs W e" and "served_by W e enc c ticks d" and "reads_results l enc"
    and "lk_rpc l = call_on_socket W"
    and "\<forall>t \<in> set ticks. \<forall>w. (daemon_step (ds_service d))\<^sup>*\<^sup>* w (fst t w)" and "no_approval (ds_world d)"
    and "snd (main pd l local env cwd (''run'' # args)) = 0"
  shows "\<exists>argv detach. parse_command pd (''run'' # args) = Inr (Cmd_run argv detach)
    \<and> (detach \<or> tier (y_look_path (sv_sys (ds_service d))) (sv_policy (ds_service d)) (map json_text argv) = ''allow'')"
proof -
  obtain argv detach p raw res where run:
      "parse_command pd (''run'' # args) = Inr (Cmd_run argv detach)"
      "lk_rpc l p (message_zero\<lparr>cm_run := Some \<lparr>rr_argv = argv, rr_cwd = cwd, rr_env = env_of env, rr_detach = detach\<rparr>\<rparr>) = Inr raw"
      "lk_run_result l raw = Some res"
      "rs_status res = ''allowed'' \<and> rs_exit res = 0 \<or> rs_status res = ''pending'' \<and> detach"
    using run_zero [OF assms(8)] by blast
  have others: "list_all bystander ticks"
    unfolding list_all_iff bystander_def using assms(6) steps_calm by blast
  have "tier (y_look_path (sv_sys (ds_service d))) (sv_policy (ds_service d)) (map json_text argv) = ''allow''"
    if allowed: "rs_status res = ''allowed''"
  proof (rule ccontr)
    assume not_allowed: "\<not> ?thesis"
    obtain req' r ts w' where "rr_argv req' = map json_text argv" "rs_status r = ''allowed''"
        "run_with_peer_cancel (ds_service d) req' (snd (peer_cred c)) (fst (peer_cred c)) True ticks (ds_world d) = Some (r, ts, w')"
      using served_run [OF assms(1-4) run(2) [unfolded assms(5)] run(3)] allowed by auto
    then show False using run_calm others assms(7) not_allowed by fastforce
  qed
  then show ?thesis using run(1,4) by blast
qed

text \<open>A client that detaches, on the small wire.\<close>

definition run_link :: link where
  "run_link = \<lparr>lk_live = (\<lambda>p. True), lk_candidates = [''/run/s''], lk_explicit = [],
     lk_rpc = call_on_socket sample_wire,
     lk_run_result = (\<lambda>raw. Some (run_result_zero\<lparr>rs_status := unescaped raw\<rparr>)), lk_verdict_ack = (\<lambda>raw. None),
     lk_ask_result = (\<lambda>raw. None), lk_select_response = (\<lambda>raw. None), lk_ack_response = (\<lambda>raw. None),
     lk_cancel_response = (\<lambda>raw. None), lk_status_response = (\<lambda>raw. None), lk_pending = (\<lambda>raw. None),
     lk_recent = (\<lambda>raw. None), lk_audit = (\<lambda>raw. None), lk_version = (\<lambda>raw. None)\<rparr>"

lemma sample_reads: "reads_results run_link sample_enc"
  by (simp add: reads_results_def run_link_def marshalled_def sample_enc_def unescaped_escaped
      reply_status_def run_result_zero_def)

lemma detached_pends:
  assumes "rr_detach req" and "tier (y_look_path (sv_sys s)) (sv_policy s) (rr_argv req) = ''ask''"
  shows "\<exists>rid w'. run_with_peer_cancel s req uid pid True ts w = Some (run_result_zero\<lparr>rs_status := ''pending'', rs_id := rid\<rparr>, ts, w')"
  using assms by (auto simp: run_with_peer_cancel_def Let_def split: prod.split)

lemma sample_tier: "tier lp sample_policy argv = ''ask''"
  by (simp add: tier_def sample_policy_def)

lemma sample_pends:
  "call_on_socket sample_wire p sample_message = Inr (escaped ''pending'' @ [newline])"
proof -
  have "tier (y_look_path (sv_sys sample_service)) (sv_policy sample_service) (rr_argv sample_run) = ''ask''"
    by (simp add: sample_service_def sample_tier)
  then obtain rid w' where "run_with_peer_cancel sample_service sample_run 1000 60 True [] (sample_world [])
      = Some (run_result_zero\<lparr>rs_status := ''pending'', rs_id := rid\<rparr>, [], w')"
    using detached_pends [of sample_run sample_service 1000 60 "[]" "sample_world []"] by (auto simp: sample_run_def)
  then show ?thesis unfolding call_dispatches [OF sample_texts sample_served]
    by (simp add: sample_wire_def max_request_bytes_def wire_conn_def peer_cred_def sample_parses del: escaped.simps)
      (simp add: sample_message_def dispatch_run sample_state_def marshalled_def sample_enc_def reply_status_def
        run_result_zero_def del: escaped.simps)
qed

theorem no_approval_no_success_witness:
  "snd (main (\<lambda>_. None) run_link (\<lambda>_. ([], 1)) [] ''/w'' [''run'', ''-d'', ''tool'']) = 0
   \<and> (\<exists>argv detach. parse_command (\<lambda>_. None) [''run'', ''-d'', ''tool''] = Inr (Cmd_run argv detach)
        \<and> (detach \<or> tier (y_look_path (sv_sys sample_service)) (sv_policy sample_service) (map json_text argv) = ''allow''))"
proof -
  have msg: "message_zero\<lparr>cm_run := Some \<lparr>rr_argv = [''tool''], rr_cwd = ''/w'', rr_env = env_of [], rr_detach = True\<rparr>\<rparr> = sample_message"
    by (simp add: sample_message_def sample_run_def env_of_def)
  have "snd (run_with_detach run_link [] [''tool''] [] ''/w'' True) = 0"
    unfolding run_with_detach_def exchange_code msg
    by (simp add: call_resolved_def resolve_socket_def discover_from_def)
      (simp add: run_link_def sample_pends unescaped_escaped tell_run_def del: escaped.simps)
  moreover have "parse_command (\<lambda>_. None) [''run'', ''-d'', ''tool''] = Inr (Cmd_run [''tool''] True)"
    by (simp add: run_words run_cmd_line_def detach_flags_def)
  ultimately have "snd (main (\<lambda>_. None) run_link (\<lambda>_. ([], 1)) [] ''/w'' [''run'', ''-d'', ''tool'']) = 0"
    by (simp add: main_def run_command_run)
  then show ?thesis using no_approval_no_success [OF sample_texts sample_reads_runs sample_served sample_reads]
    by (auto simp: sample_none sample_state_def sample_service_def sample_tier run_link_def)
qed

end
